(* ===== verification/Neko_Prelude.thy ===== *)
theory Neko_Prelude
  imports Main "HOL-Library.AList" "HOL-Library.Word"
begin

text \<open>
  Shared vocabulary of the development: the named theorem collections the component
  theories fill, the Qt string operations the sources use (\<open>QString::number\<close>,
  \<open>QString::split\<close> with \<open>Qt::SkipEmptyParts\<close>, \<open>QString::trimmed\<close>) as executable
  functions on \<open>string\<close>, and the generic list lemmas these need.
  Strings are byte strings; the sources only manipulate ASCII text (paths, JSON keys,
  log lines), on which \<open>QChar\<close> and \<open>char\<close> agree.
\<close>

named_theorems neko_defs "unfolding rules of the modelled operations"
named_theorems neko_simps "characteristic equations of the modelled operations"

type_synonym path = string

section \<open>Decimal rendering of integers (\<open>QString::number\<close>, \<open>QString::arg\<close>)\<close>

definition digit_char :: "nat \<Rightarrow> char" where
  "digit_char d = char_of (48 + d)"

fun nat_str :: "nat \<Rightarrow> string" where
  "nat_str n = (if n < 10 then [digit_char n] else nat_str (n div 10) @ [digit_char (n mod 10)])"

declare nat_str.simps [simp del]

definition int_str :: "int \<Rightarrow> string" where
  "int_str i = (if i < 0 then CHR ''-'' # nat_str (nat (- i)) else nat_str (nat i))"

text \<open>Parsing a decimal string back (\<open>QString::toInt\<close> on digits only): \<open>None\<close> when a
  character is not a digit or the string is empty, as \<open>ok = false\<close> in Qt.\<close>

definition digit_val :: "char \<Rightarrow> nat option" where
  "digit_val c = (let n = of_char c in if 48 \<le> n \<and> n < 58 then Some (n - 48) else None)"

fun parse_digits :: "nat \<Rightarrow> string \<Rightarrow> nat option" where
  "parse_digits acc [] = Some acc"
| "parse_digits acc (c # cs) =
     (case digit_val c of None \<Rightarrow> None | Some d \<Rightarrow> parse_digits (10 * acc + d) cs)"

definition parse_nat :: "string \<Rightarrow> nat option" where
  "parse_nat s = (if s = [] then None else parse_digits 0 s)"

lemma digit_val_digit_char [simp]: "d < 10 \<Longrightarrow> digit_val (digit_char d) = Some d"
  by (simp add: digit_val_def digit_char_def)

lemma nat_str_nonempty [simp]: "nat_str n \<noteq> []"
  by (subst nat_str.simps) simp

lemma parse_digits_append:
  "parse_digits acc (xs @ ys) = (case parse_digits acc xs of None \<Rightarrow> None | Some a \<Rightarrow> parse_digits a ys)"
  by (induction acc xs rule: parse_digits.induct) (auto split: option.splits)

lemma parse_digits_nat_str: "parse_digits acc (nat_str n) = Some (acc * 10 ^ length (nat_str n) + n)"
proof (induction n arbitrary: acc rule: nat_str.induct)
  case (1 n)
  show ?case
  proof (cases "n < 10")
    case True
    then show ?thesis by (subst (1 2) nat_str.simps) simp
  next
    case False
    then have "nat_str n = nat_str (n div 10) @ [digit_char (n mod 10)]"
      by (subst nat_str.simps) simp
    moreover have "n div 10 * 10 + n mod 10 = n" by simp
    ultimately show ?thesis
      using "1" False by (simp add: parse_digits_append algebra_simps)
  qed
qed

lemma parse_nat_nat_str [simp]: "parse_nat (nat_str n) = Some n"
  by (simp add: parse_nat_def parse_digits_nat_str)

lemma parse_nat_minus [simp]: "parse_nat (CHR ''-'' # s) = None"
  by (simp add: parse_nat_def digit_val_def)

lemma nat_str_inj: "nat_str m = nat_str n \<Longrightarrow> m = n"
  by (metis option.inject parse_nat_nat_str)

lemma int_str_inj: "inj int_str"
proof (rule injI)
  fix i j :: int
  assume eq: "int_str i = int_str j"
  show "i = j"
  proof (cases "i < 0"; cases "j < 0")
    assume "i < 0" "j < 0"
    with eq have "nat (- i) = nat (- j)" by (auto simp: int_str_def intro: nat_str_inj)
    with \<open>i < 0\<close> \<open>j < 0\<close> show ?thesis by simp
  next
    assume "\<not> i < 0" "\<not> j < 0"
    with eq have "nat i = nat j" by (auto simp: int_str_def intro: nat_str_inj)
    with \<open>\<not> i < 0\<close> \<open>\<not> j < 0\<close> show ?thesis by simp
  next
    assume "i < 0" "\<not> j < 0"
    with eq have "parse_nat (CHR ''-'' # nat_str (nat (- i))) = parse_nat (nat_str (nat j))"
      by (simp add: int_str_def)
    then show ?thesis by simp
  next
    assume "\<not> i < 0" "j < 0"
    with eq have "parse_nat (nat_str (nat i)) = parse_nat (CHR ''-'' # nat_str (nat (- j)))"
      by (simp add: int_str_def)
    then show ?thesis by simp
  qed
qed

section \<open>Splitting and trimming (\<open>QString::split\<close>, \<open>QString::trimmed\<close>)\<close>

text \<open>\<open>QString::split(c)\<close> with empty parts kept: \<open>n\<close> separators give \<open>n + 1\<close> parts, the
  empty string gives one empty part.\<close>

fun split_on :: "char \<Rightarrow> string \<Rightarrow> string list" where
  "split_on c [] = [[]]"
| "split_on c (x # xs) =
     (if x = c then [] # split_on c xs
      else (case split_on c xs of p # ps \<Rightarrow> (x # p) # ps | [] \<Rightarrow> [[x]]))"

text \<open>\<open>Qt::SkipEmptyParts\<close> drops the empty parts.\<close>

definition split_skip_empty :: "char \<Rightarrow> string \<Rightarrow> string list" where
  "split_skip_empty c s = filter (\<lambda>p. p \<noteq> []) (split_on c s)"

text \<open>\<open>QChar::isSpace\<close> on ASCII: tab, line feed, vertical tab, form feed, carriage return
  and space.\<close>

definition is_space :: "char \<Rightarrow> bool" where
  "is_space c \<longleftrightarrow> of_char c \<in> {9, 10, 11, 12, 13, 32 :: nat}"

definition trimmed :: "string \<Rightarrow> string" where
  "trimmed s = rev (dropWhile is_space (rev (dropWhile is_space s)))"

lemma split_on_nonempty [simp]: "split_on c s \<noteq> []"
  by (induction s) (auto split: list.splits)

lemma split_on_no_sep: "p \<in> set (split_on c s) \<Longrightarrow> c \<notin> set p"
  by (induction s arbitrary: p) (auto split: if_splits list.splits)

lemma split_on_free: "c \<notin> set s \<Longrightarrow> split_on c s = [s]"
  by (induction s) auto

lemma split_on_append_sep:
  "c \<notin> set s \<Longrightarrow> split_on c (s @ c # t) = s # split_on c t"
  by (induction s) auto

text \<open>\<open>QStringList::join(c)\<close>.\<close>

fun join_sep :: "char \<Rightarrow> string list \<Rightarrow> string" where
  "join_sep c [] = []"
| "join_sep c [p] = p"
| "join_sep c (p # q # ps) = p @ c # join_sep c (q # ps)"

lemma join_sep_Cons_Cons [simp]: "join_sep c ((x # p) # ps) = x # join_sep c (p # ps)"
  by (cases ps) auto

lemma split_on_join: "join_sep c (split_on c s) = s"
proof (induction s)
  case Nil
  then show ?case by simp
next
  case (Cons x xs)
  obtain q qs where q: "split_on c xs = q # qs"
    using split_on_nonempty by (cases "split_on c xs") auto
  with Cons show ?case by auto
qed

lemma join_sep_split_on:
  "ps \<noteq> [] \<Longrightarrow> (\<forall>p \<in> set ps. c \<notin> set p) \<Longrightarrow> split_on c (join_sep c ps) = ps"
  by (induction c ps rule: join_sep.induct) (auto simp: split_on_free split_on_append_sep)

lemma trimmed_no_space:
  "s = [] \<or> (\<not> is_space (hd s) \<and> \<not> is_space (last s)) \<Longrightarrow> trimmed s = s"
proof (cases s rule: rev_cases)
  case (snoc ys y)
  assume "s = [] \<or> (\<not> is_space (hd s) \<and> \<not> is_space (last s))"
  with snoc have "\<not> is_space (hd (ys @ [y]))" and "\<not> is_space y" by auto
  then have "dropWhile is_space (ys @ [y]) = ys @ [y]"
    by (cases ys) auto
  with snoc \<open>\<not> is_space y\<close> show ?thesis by (simp add: trimmed_def)
qed (simp add: trimmed_def)

section \<open>Qt string primitives\<close>

text \<open>\<open>QString::indexOf(QString)\<close>.\<close>

fun str_index :: "string \<Rightarrow> string \<Rightarrow> nat option" where
  "str_index p [] = (if p = [] then Some 0 else None)"
| "str_index p (c # cs) = (if take (length p) (c # cs) = p then Some 0 else map_option Suc (str_index p cs))"

lemma str_index_bound: "str_index p s = Some i \<Longrightarrow> i + length p \<le> length s"
proof (induction p s arbitrary: i rule: str_index.induct)
  case (2 p c cs)
  then show ?case
  proof (cases "take (length p) (c # cs) = p")
    case True
    have "min (length p) (length (c # cs)) = length p"
      using arg_cong [OF True, of length] by (simp only: length_take)
    then have "length p \<le> length (c # cs)" by (simp add: min_def split: if_splits)
    with True "2.prems" show ?thesis by simp
  next
    case False
    with "2.prems" obtain j where "str_index p cs = Some j" "i = Suc j" by auto
    with "2.IH" False show ?thesis by simp
  qed
qed (simp split: if_splits)

text \<open>\<open>QString::contains(QString)\<close>, case sensitive.\<close>

definition str_contains :: "string \<Rightarrow> string \<Rightarrow> bool" where
  "str_contains s p \<longleftrightarrow> str_index p s \<noteq> None"

text \<open>\<open>QString::toLower\<close> and \<open>toUpper\<close> on ASCII letters.\<close>

definition lower_char :: "char \<Rightarrow> char" where
  "lower_char c = (let n = (of_char c :: nat) in if 65 \<le> n \<and> n \<le> 90 then char_of (n + 32) else c)"

definition upper_char :: "char \<Rightarrow> char" where
  "upper_char c = (let n = (of_char c :: nat) in if 97 \<le> n \<and> n \<le> 122 then char_of (n - 32) else c)"


section \<open>Small 64-bit words (\<open>qint64\<close> counters)\<close>
lemma sint_small: "unat (x :: 64 word) < 2 ^ 63 \<Longrightarrow> sint x = int (unat x)"
proof -
  assume a: "unat x < 2 ^ 63"
  have u: "uint x = int (unat x)" by (rule uint_nat)
  have "int (unat x) < 2 ^ 63" using a by (metis of_nat_less_iff of_nat_numeral of_nat_power)
  then have "uint x < 2 ^ 63" by (simp only: u)
  moreover have "0 \<le> uint x" by (rule uint_ge_0)
  ultimately have "signed_take_bit 63 (uint x) = uint x"
    by (intro signed_take_bit_int_eq_self) linarith+
  then have "sint x = uint x" by (simp add: sint_uint)
  with u show ?thesis by (simp only:)
qed
lemma word_add_nat_small:
  "unat (x :: 64 word) + k < 2 ^ 63 \<Longrightarrow> unat (x + of_nat k) = unat x + k"
proof -
  assume a: "unat x + k < 2 ^ 63"
  then have "k < 2 ^ 64" by simp
  then have uk: "unat (of_nat k :: 64 word) = k" by (simp add: unat_of_nat)
  have "unat x + unat (of_nat k :: 64 word) < 2 ^ 64" using a uk by simp
  then show ?thesis using uk by (simp add: unat_add_lem [THEN iffD1])
qed
end
