(* ===== verification/Neko_Json.thy ===== *)
theory Neko_Json
  imports Neko_Prelude
begin

text \<open>
  The Qt JSON values the sources build and read (\<open>QJsonValue\<close>, \<open>QJsonObject\<close>,
  \<open>QJsonArray\<close>). An object is an association list with unique keys: \<open>obj[k] = v\<close>
  replaces the entry for \<open>k\<close> or adds one (\<open>AList.update\<close>), \<open>obj.value(k)\<close> is
  \<open>map_of\<close>. Numbers are the integers the sources store (ports, MTU, ids).
  The conversions \<open>toBool()\<close>, \<open>toInt()\<close>, \<open>toString()\<close> return their default
  (\<open>false\<close>, \<open>0\<close>, the empty string) on a value of another type, as Qt does.
  \<open>merge_defaults\<close> is the loop of \<open>NekoService::getCurrentConfig\<close> and
  \<open>NekoService::loadDataStore\<close> that adds every default key the document lacks; its
  refinement lemma says the result, read as a map, is the defaults overlaid with the
  document.
\<close>

datatype json = JNull | JBool bool | JNum int | JStr string | JArr "json list" | JObj "(string \<times> json) list"

type_synonym jobject = "(string \<times> json) list"

definition jset :: "string \<Rightarrow> json \<Rightarrow> jobject \<Rightarrow> jobject" where
  "jset k v obj = AList.update k v obj"

definition jcontains :: "jobject \<Rightarrow> string \<Rightarrow> bool" where
  "jcontains obj k \<longleftrightarrow> map_of obj k \<noteq> None"

text \<open>\<open>value(k, d)\<close>: the stored value, or \<open>d\<close> when the key is absent.\<close>

definition jvalue_or :: "jobject \<Rightarrow> string \<Rightarrow> json \<Rightarrow> json" where
  "jvalue_or obj k d = (case map_of obj k of Some v \<Rightarrow> v | None \<Rightarrow> d)"

fun to_bool :: "json \<Rightarrow> bool" where
  "to_bool (JBool b) = b"
| "to_bool _ = False"

fun to_int :: "json \<Rightarrow> int" where
  "to_int (JNum n) = n"
| "to_int _ = 0"

fun to_str :: "json \<Rightarrow> string" where
  "to_str (JStr s) = s"
| "to_str _ = []"

text \<open>The C++ \<open>int\<close> range, and \<open>QJsonValue::toInt()\<close>: a number that does not fit an
  \<open>int\<close> (or a value that is no number) gives the default 0.\<close>

definition int32 :: "int \<Rightarrow> bool" where
  "int32 i \<longleftrightarrow> - (2 ^ 31) \<le> i \<and> i < 2 ^ 31"

definition qjson_toInt :: "json \<Rightarrow> int" where
  "qjson_toInt v = (if int32 (to_int v) then to_int v else 0)"

text \<open>An object built by a sequence of assignments \<open>obj[k1] = v1; obj[k2] = v2; ...\<close>
  on an empty \<open>QJsonObject\<close>, and reading a member or the items of an array of a value.\<close>

definition obj_of :: "(string \<times> json) list \<Rightarrow> json" where
  "obj_of kvs = JObj (fold (\<lambda>(k, v) obj. jset k v obj) kvs [])"

fun jget :: "json \<Rightarrow> string \<Rightarrow> json" where
  "jget (JObj obj) k = jvalue_or obj k JNull"
| "jget _ k = JNull"

fun jitems :: "json \<Rightarrow> json list" where
  "jitems (JArr xs) = xs"
| "jitems _ = []"

text \<open>The merge loop: for every default entry, in order, add it if the key is missing.\<close>

definition merge_defaults :: "jobject \<Rightarrow> jobject \<Rightarrow> jobject" where
  "merge_defaults cur defs =
     fold (\<lambda>(k, v) c. if jcontains c k then c else jset k v c) defs cur"

lemma map_of_jset [simp]: "map_of (jset k v obj) = (map_of obj)(k \<mapsto> v)"
  by (simp add: jset_def update_conv')

lemma jcontains_jset [simp]: "jcontains (jset k v obj) k' \<longleftrightarrow> k' = k \<or> jcontains obj k'"
  by (simp add: jcontains_def)

lemma jvalue_or_jset [simp]: "jvalue_or (jset k v obj) k' d = (if k' = k then v else jvalue_or obj k' d)"
  by (simp add: jvalue_or_def)

lemma jcontains_map_of: "jcontains obj k \<longleftrightarrow> k \<in> dom (map_of obj)"
  by (auto simp: jcontains_def)

lemma distinct_jset: "distinct (map fst obj) \<Longrightarrow> distinct (map fst (jset k v obj))"
  by (simp add: jset_def distinct_update)

lemma merge_defaults_Cons [simp]:
  "merge_defaults cur ((k, v) # defs) =
     merge_defaults (if jcontains cur k then cur else jset k v cur) defs"
  by (simp add: merge_defaults_def)

lemma merge_defaults_Nil [simp]: "merge_defaults cur [] = cur"
  by (simp add: merge_defaults_def)

text \<open>Refinement: the merged document is the defaults overlaid by the document.\<close>

lemma map_of_merge_defaults [neko_simps]:
  "map_of (merge_defaults cur defs) = map_of defs ++ map_of cur"
proof (induction defs arbitrary: cur)
  case Nil
  then show ?case by simp
next
  case (Cons d defs)
  obtain k v where d: "d = (k, v)" by fastforce
  show ?case
  proof (cases "jcontains cur k")
    case True
    then have "map_of defs ++ map_of cur = ((map_of defs)(k \<mapsto> v)) ++ map_of cur"
      by (auto simp: jcontains_def map_add_def fun_eq_iff split: option.splits)
    with True Cons.IH d show ?thesis by (simp add: fun_upd_def)
  next
    case False
    then have "map_of defs ++ (map_of cur)(k \<mapsto> v) = ((map_of defs)(k \<mapsto> v)) ++ map_of cur"
      by (auto simp: jcontains_def map_add_def fun_eq_iff split: option.splits)
    with False Cons.IH d show ?thesis by (simp add: fun_upd_def)
  qed
qed

text \<open>The merge never duplicates a key: merging the defaults into a document with
  distinct keys gives a document with distinct keys.\<close>

theorem distinct_merge_defaults:
  "distinct (map fst cur) \<Longrightarrow> distinct (map fst (merge_defaults cur defs))"
  by (induction defs arbitrary: cur) (auto simp: distinct_jset)

theorem distinct_merge_defaults_witness:
  "distinct (map fst [(''inbound_socks_port'', JNum 1080)])
   \<and> distinct (map fst (merge_defaults [(''inbound_socks_port'', JNum 1080)]
        [(''inbound_address'', JStr ''127.0.0.1''), (''inbound_socks_port'', JNum 2080)]))"
proof -
  have h: "distinct (map fst [(''inbound_socks_port'', JNum 1080)])" by simp
  have "distinct (map fst (merge_defaults [(''inbound_socks_port'', JNum 1080)]
        [(''inbound_address'', JStr ''127.0.0.1''), (''inbound_socks_port'', JNum 2080)]))"
    using h by (rule distinct_merge_defaults)
  with h show ?thesis by (rule conjI)
qed

end
