(* ===== verification/Neko_Os.thy ===== *)
theory Neko_Os
  imports Neko_Json
begin

text \<open>
  The operating-system and Qt primitives the supervisors call, as an explicit state
  \<open>os\<close> passed through every operation. It is the environment of the model, not code
  of the repository: which files exist (\<open>QFile::exists\<close>), which paths refuse a write
  (\<open>QFile::open(WriteOnly)\<close> failing), which programs start within the 5000 ms of
  \<open>QProcess::waitForStarted\<close>, what \<open>which\<close> prints for a program name, the
  platform, the application, temporary and per-user configuration directories
  (\<open>QStandardPaths::ConfigLocation\<close>), the next process id, and the
  program names a supervisor signalled system-wide with \<open>killall\<close>.
  File contents are either a JSON document (written by \<open>QJsonDocument::toJson\<close>,
  read back by \<open>QJsonDocument::fromJson\<close> without error) or raw text, which does not
  parse as JSON. A child process (\<open>QProcess\<close>) is a record of its state, id, program
  and arguments.
  A supervisor's operation returns the signals it emitted, as \<open>sig\<close> values; the
  orchestrator dispatches them the way the \<open>connect\<close> calls of the constructors
  route them.
\<close>

datatype platform = Windows | MacOS | Linux

datatype file_data = JsonDoc json | RawText string

record os =
  os_files :: "path \<rightharpoonup> file_data"
  os_dirs :: "path set"
  os_unwritable :: "path set"
  os_startable :: "string set"
  os_which :: "string \<rightharpoonup> string"
  os_platform :: platform
  os_app_dir :: path
  os_temp :: path
  os_next_pid :: nat
  os_killall :: "string list"
  os_config_location :: path

text \<open>\<open>QProcess::ProcessState\<close>.\<close>

datatype qproc_state = QNotRunning | QStarting | QRunning

record qprocess =
  qp_state :: qproc_state
  qp_pid :: nat
  qp_program :: string
  qp_args :: "string list"

text \<open>Signals a supervisor emits: \<open>logOutput(line)\<close> and \<open>processFinished\<close>.\<close>

datatype sig = LogOutput string | ProcessFinished

definition file_exists :: "os \<Rightarrow> path \<Rightarrow> bool" where
  "file_exists o' p \<longleftrightarrow> p \<in> dom (os_files o')"

definition temp_path :: "os \<Rightarrow> string \<Rightarrow> path" where
  "temp_path o' name = os_temp o' @ ''/'' @ name"

text \<open>\<open>QFile::open(WriteOnly)\<close> followed by a write: fails on an unwritable path.\<close>

definition write_file :: "path \<Rightarrow> file_data \<Rightarrow> os \<Rightarrow> bool \<times> os" where
  "write_file p d o' =
     (if p \<in> os_unwritable o' then (False, o')
      else (True, o'\<lparr>os_files := (os_files o')(p \<mapsto> d)\<rparr>))"

definition remove_file :: "path \<Rightarrow> os \<Rightarrow> os" where
  "remove_file p o' = o'\<lparr>os_files := (os_files o')(p := None)\<rparr>"

text \<open>\<open>QDir::mkpath\<close> / \<open>QDir::mkdir\<close>: fails on an unwritable path.\<close>

definition make_dir :: "path \<Rightarrow> os \<Rightarrow> bool \<times> os" where
  "make_dir p o' =
     (if p \<in> os_unwritable o' then (False, o') else (True, o'\<lparr>os_dirs := insert p (os_dirs o')\<rparr>))"

text \<open>\<open>QProcess::start\<close> then \<open>waitForStarted(5000)\<close>: a running child with the next
  process id, or \<open>None\<close> when the program does not start in time.\<close>

definition spawn :: "string \<Rightarrow> string list \<Rightarrow> os \<Rightarrow> (qprocess \<times> os) option" where
  "spawn prog args o' =
     (if prog \<in> os_startable o'
      then Some (\<lparr>qp_state = QRunning, qp_pid = os_next_pid o', qp_program = prog, qp_args = args\<rparr>,
                 o'\<lparr>os_next_pid := Suc (os_next_pid o')\<rparr>)
      else None)"

text \<open>\<open>QJsonDocument::fromJson\<close> then \<open>object()\<close>: \<open>None\<close> is a parse error; a
  document that is not an object gives the empty object.\<close>

fun doc_object :: "file_data \<Rightarrow> jobject option" where
  "doc_object (JsonDoc (JObj obj)) = Some obj"
| "doc_object (JsonDoc _) = Some []"
| "doc_object (RawText _) = None"

definition proc_running :: "qprocess option \<Rightarrow> bool" where
  "proc_running p \<longleftrightarrow> (case p of Some q \<Rightarrow> qp_state q = QRunning | None \<Rightarrow> False)"

definition proc_active :: "qprocess option \<Rightarrow> bool" where
  "proc_active p \<longleftrightarrow> (case p of Some q \<Rightarrow> qp_state q \<noteq> QNotRunning | None \<Rightarrow> False)"

lemma write_file_files [simp]:
  "os_files (snd (write_file p d o')) = (if p \<in> os_unwritable o' then os_files o' else (os_files o')(p \<mapsto> d))"
  by (simp add: write_file_def)

lemma write_file_fst [simp]: "fst (write_file p d o') \<longleftrightarrow> p \<notin> os_unwritable o'"
  by (simp add: write_file_def)

lemma write_file_frame [simp]:
  "os_unwritable (snd (write_file p d o')) = os_unwritable o'"
  "os_startable (snd (write_file p d o')) = os_startable o'"
  "os_platform (snd (write_file p d o')) = os_platform o'"
  "os_temp (snd (write_file p d o')) = os_temp o'"
  "os_next_pid (snd (write_file p d o')) = os_next_pid o'"
  "os_killall (snd (write_file p d o')) = os_killall o'"
  "os_which (snd (write_file p d o')) = os_which o'"
  "os_app_dir (snd (write_file p d o')) = os_app_dir o'"
  by (simp_all add: write_file_def)

lemma remove_file_files [simp]: "os_files (remove_file p o') = (os_files o')(p := None)"
  by (simp add: remove_file_def)

lemma make_dir_frame [simp]:
  "os_files (snd (make_dir p o')) = os_files o'"
  "os_unwritable (snd (make_dir p o')) = os_unwritable o'"
  "os_dirs (snd (make_dir p o')) = (if p \<in> os_unwritable o' then os_dirs o' else insert p (os_dirs o'))"
  "fst (make_dir p o') \<longleftrightarrow> p \<notin> os_unwritable o'"
  by (simp_all add: make_dir_def)

lemma make_dir_frame_proc [simp]:
  "os_startable (snd (make_dir p o')) = os_startable o'" "os_next_pid (snd (make_dir p o')) = os_next_pid o'"
  by (simp_all add: make_dir_def)

lemma proc_running_active: "proc_running p \<Longrightarrow> proc_active p"
  by (auto simp: proc_running_def proc_active_def split: option.splits)

lemma proc_running_simps [simp]:
  "\<not> proc_running None"
  "proc_running (Some q) \<longleftrightarrow> qp_state q = QRunning"
  by (simp_all add: proc_running_def)

lemma proc_active_simps [simp]:
  "\<not> proc_active None"
  "proc_active (Some q) \<longleftrightarrow> qp_state q \<noteq> QNotRunning"
  by (simp_all add: proc_active_def)

lemma spawn_SomeD:
  "spawn prog args o' = Some (q, o'') \<Longrightarrow>
     qp_state q = QRunning \<and> qp_program q = prog \<and> qp_args q = args \<and> os_files o'' = os_files o'"
  by (auto simp: spawn_def split: if_splits)

section \<open>Example installations\<close>

text \<open>Concrete environments the witnesses run on: a Linux machine with the core binary
  beside the application in \<open>/opt/nekoray\<close> and a settings file under the default
  configuration location \<open>/home/nekoray\<close>; the same machine before the first run (no
  settings file); and one without any core binary (simulation mode).\<close>

definition demo_os :: os where
  "demo_os = \<lparr>os_files = [''/home/nekoray/groups/nekobox.json'' \<mapsto> JsonDoc (JObj []),
                          ''/opt/nekoray/nekobox_core'' \<mapsto> RawText []],
     os_dirs = {}, os_unwritable = {}, os_startable = {''/opt/nekoray/nekobox_core''},
     os_which = Map.empty, os_platform = Linux, os_app_dir = ''/opt/nekoray'', os_temp = ''/tmp'',
     os_next_pid = 100, os_killall = [], os_config_location = ''/home''\<rparr>"

definition fresh_os :: os where
  "fresh_os = demo_os\<lparr>os_files := [''/opt/nekoray/nekobox_core'' \<mapsto> RawText []]\<rparr>"

definition sim_os :: os where
  "sim_os = demo_os\<lparr>os_files := [''/home/nekoray/groups/nekobox.json'' \<mapsto> JsonDoc (JObj [])]\<rparr>"

lemma demo_os_simps:
  "os_unwritable demo_os = {}" "os_startable demo_os = {''/opt/nekoray/nekobox_core''}"
  "os_platform demo_os = Linux" "os_temp demo_os = ''/tmp''" "os_killall demo_os = []"
  "os_app_dir demo_os = ''/opt/nekoray''"
  by (simp_all add: demo_os_def)

end
