(* ===== verification/Neko_Relay.thy ===== *)
theory Neko_Relay
  imports Neko_Prelude
begin

text \<open>
  The output relay of both supervisors (\<open>CoreManager::onReadyReadStandardOutput\<close>,
  \<open>onReadyReadStandardError\<close> and their \<open>TunManager\<close> twins): the bytes of one
  \<open>readyRead\<close> delivery are split at line feeds with empty parts skipped, each part is
  trimmed and emitted with a prefix (empty for core output, \<open>[ERROR] \<close> for core
  errors, \<open>[TUN] \<close> and \<open>[TUN ERROR] \<close> for the tunnel).
  The lemmas give the round trip for well-formed lines, a bound on the number of
  events, and two behaviours the specification does not describe: a whitespace-only
  line becomes an empty event, and a line delivered in two chunks becomes two events.
\<close>

abbreviation LF :: char where "LF \<equiv> CHR 0x0A"

definition relay_lines :: "string \<Rightarrow> string \<Rightarrow> string list" where
  "relay_lines prefix data = map (\<lambda>l. prefix @ trimmed l) (split_skip_empty LF data)"

text \<open>A log line that survives the relay unchanged: non-empty, no line feed, no
  surrounding whitespace.\<close>

definition clean_line :: "string \<Rightarrow> bool" where
  "clean_line l \<longleftrightarrow> l \<noteq> [] \<and> LF \<notin> set l \<and> \<not> is_space (hd l) \<and> \<not> is_space (last l)"

lemma length_split_on: "length (split_on c s) = Suc (count_list s c)"
  by (induction s) (auto split: list.splits)

text \<open>One \<open>readyRead\<close> chunk produces at most one event more than it has line
  feeds.\<close>

theorem relay_lines_length_le: "length (relay_lines p d) \<le> Suc (count_list d LF)"
proof -
  have "length (filter (\<lambda>x. x \<noteq> []) (split_on LF d)) \<le> length (split_on LF d)"
    by (rule length_filter_le)
  then show ?thesis by (simp add: relay_lines_def split_skip_empty_def length_split_on)
qed

text \<open>Lines without surrounding whitespace, joined with line feeds, come out of the
  relay as one event each, prefixed, in order (round trip).\<close>

theorem relay_lines_clean:
  assumes "\<forall>l \<in> set ls. clean_line l"
  shows "relay_lines p (join_sep LF ls) = map (\<lambda>l. p @ l) ls"
proof (cases "ls = []")
  case True
  then show ?thesis by (simp add: relay_lines_def split_skip_empty_def)
next
  case False
  from assms have sep: "\<forall>l \<in> set ls. LF \<notin> set l" and ne: "\<forall>l \<in> set ls. l \<noteq> []"
    by (auto simp: clean_line_def)
  have split: "split_on LF (join_sep LF ls) = ls"
    using False sep by (rule join_sep_split_on)
  have "filter (\<lambda>x. x \<noteq> []) ls = ls"
    using ne by (simp add: filter_id_conv)
  moreover have "\<forall>l \<in> set ls. trimmed l = l"
    using assms by (auto simp: clean_line_def intro: trimmed_no_space)
  ultimately show ?thesis
    by (simp add: relay_lines_def split_skip_empty_def split cong: map_cong)
qed

text \<open>The relay works per chunk, not per line: a line delivered in two chunks
  becomes two events, and a whitespace-only line becomes an event holding only the
  prefix.\<close>

theorem relay_chunk_split:
  "relay_lines [] ''conn'' @ relay_lines [] (''ected'' @ [LF]) = [''conn'', ''ected'']
   \<and> relay_lines [] (''connected'' @ [LF]) = [''connected'']
   \<and> relay_lines ''[ERROR] '' ('' '' @ [LF]) = [''[ERROR] '']"
  by code_simp

theorem relay_lines_clean_witness:
  "clean_line ''started'' \<and> clean_line ''ok''
   \<and> relay_lines ''[TUN] '' (join_sep LF [''started'', ''ok'']) = [''[TUN] started'', ''[TUN] ok'']"
proof -
  have c: "clean_line ''started''" "clean_line ''ok''" by code_simp+
  then have h: "\<forall>l \<in> set [''started'', ''ok'']. clean_line l" by simp
  from relay_lines_clean [OF h, of "''[TUN] ''"] c show ?thesis by simp
qed

end
