(* ===== verification/Neko_CoreManager.thy ===== *)
theory Neko_CoreManager
  imports Neko_Os Neko_Relay
begin

text \<open>
  The core-process supervisor, \<open>NekoCore::CoreManager\<close> of
  \<open>src/nekoray/core/CoreManager_Fixed.cpp\<close>. Its state is the record
  \<open>core_manager\<close> (\<open>m_process\<close>, \<open>m_configPath\<close>, \<open>m_corePath\<close>,
  \<open>m_currentProfileId\<close>, \<open>m_simulationMode\<close>). The constructor searches the
  executable (\<open>find_core\<close>); \<open>cm_start\<close>, \<open>cm_stop\<close>, \<open>cm_isRunning\<close> are
  \<open>start\<close>, \<open>stop\<close>, \<open>isRunning\<close>; \<open>cm_generateConfig\<close> writes the minimal
  sing-box configuration \<open>core_config\<close> (the CoreConfigGenerator of the
  specification). Every operation returns the signals it emitted; the orchestrator
  only listens to \<open>ProcessFinished\<close>.
\<close>

section \<open>The configuration generator\<close>

definition core_socks_inbound :: json where
  "core_socks_inbound = obj_of [(''type'', JStr ''socks''), (''tag'', JStr ''socks-in''),
     (''listen'', JStr ''127.0.0.1''), (''listen_port'', JNum 2080)]"

definition core_http_inbound :: json where
  "core_http_inbound = obj_of [(''type'', JStr ''http''), (''tag'', JStr ''http-in''),
     (''listen'', JStr ''127.0.0.1''), (''listen_port'', JNum 2081)]"

definition core_config :: json where
  "core_config = obj_of
     [(''log'', obj_of [(''level'', JStr ''info'')]),
      (''inbounds'', JArr [core_socks_inbound, core_http_inbound]),
      (''outbounds'', JArr [obj_of [(''type'', JStr ''direct''), (''tag'', JStr ''direct'')],
                            obj_of [(''type'', JStr ''block''), (''tag'', JStr ''block'')]]),
      (''route'', obj_of [(''final'', JStr ''direct'')])]"

text \<open>What sing-box checks of a configuration and the specification asks of it: the
  outbound tags, the tags the route (its \<open>final\<close> outbound and each rule's
  \<open>outbound\<close>) and the DNS servers' detours refer to, and the inbound listeners.\<close>

definition outbound_tags :: "json \<Rightarrow> string list" where
  "outbound_tags cfg = map (\<lambda>ob. to_str (jget ob ''tag'')) (jitems (jget cfg ''outbounds''))"

definition route_refs :: "json \<Rightarrow> string list" where
  "route_refs cfg =
     to_str (jget (jget cfg ''route'') ''final'') #
     map (\<lambda>r. to_str (jget r ''outbound'')) (jitems (jget (jget cfg ''route'') ''rules''))"

definition dns_detours :: "json \<Rightarrow> string list" where
  "dns_detours cfg =
     map (\<lambda>sv. to_str (jget sv ''detour''))
       (filter (\<lambda>sv. jget sv ''detour'' \<noteq> JNull) (jitems (jget (jget cfg ''dns'') ''servers'')))"

definition refs_resolve :: "json \<Rightarrow> bool" where
  "refs_resolve cfg \<longleftrightarrow> set (route_refs cfg @ dns_detours cfg) \<subseteq> set (outbound_tags cfg)"

definition inbound_listeners :: "json \<Rightarrow> (string \<times> string \<times> int) list" where
  "inbound_listeners cfg =
     map (\<lambda>ib. (to_str (jget ib ''type''), to_str (jget ib ''listen''), to_int (jget ib ''listen_port'')))
       (jitems (jget cfg ''inbounds''))"

definition core_config_name :: "int \<Rightarrow> string" where
  "core_config_name pid = ''nekoray_core_'' @ int_str pid @ ''.json''"

section \<open>State and construction\<close>

record core_manager =
  cm_process :: "qprocess option"
  cm_configPath :: path
  cm_corePath :: path
  cm_currentProfileId :: int
  cm_simulationMode :: bool

definition core_candidates :: "string list" where
  "core_candidates = [''nekobox_core'', ''nekoray_core'', ''sing-box'']"

definition exe_path :: "os \<Rightarrow> string \<Rightarrow> path" where
  "exe_path o' name = os_app_dir o' @ ''/'' @ name @ (if os_platform o' = Windows then ''.exe'' else [])"

text \<open>First loop of the constructor: the first candidate present beside the application.\<close>

fun find_in_app_dir :: "os \<Rightarrow> string list \<Rightarrow> path option" where
  "find_in_app_dir o' [] = None"
| "find_in_app_dir o' (n # ns) =
     (if file_exists o' (exe_path o' n) then Some (exe_path o' n) else find_in_app_dir o' ns)"

text \<open>Second loop: the first candidate for which \<open>which\<close> exits with 0; its trimmed output.\<close>

fun find_in_path :: "os \<Rightarrow> string list \<Rightarrow> path option" where
  "find_in_path o' [] = None"
| "find_in_path o' (n # ns) =
     (case os_which o' n of Some out \<Rightarrow> Some (trimmed out) | None \<Rightarrow> find_in_path o' ns)"

definition find_core :: "os \<Rightarrow> path" where
  "find_core o' =
     (case find_in_app_dir o' core_candidates of Some p \<Rightarrow> p
      | None \<Rightarrow> (case find_in_path o' core_candidates of Some p \<Rightarrow> p | None \<Rightarrow> []))"

definition cm_new :: "os \<Rightarrow> core_manager" where
  "cm_new o' = \<lparr>cm_process = None, cm_configPath = [], cm_corePath = find_core o',
     cm_currentProfileId = -1, cm_simulationMode = (find_core o' = [])\<rparr>"

section \<open>Operations\<close>

definition cm_generateConfig :: "int \<Rightarrow> core_manager \<Rightarrow> os \<Rightarrow> bool \<times> core_manager \<times> os" where
  "cm_generateConfig pid cm o' =
     (let p = temp_path o' (core_config_name pid);
          (ok, o1) = write_file p (JsonDoc core_config) o'
      in (ok, cm\<lparr>cm_configPath := p\<rparr>, o1))"

definition core_args :: "path \<Rightarrow> string list" where
  "core_args cfg = [''--disable-color'', ''run'', ''-c'', cfg]"

definition cm_start :: "int \<Rightarrow> core_manager \<Rightarrow> os \<Rightarrow> bool \<times> core_manager \<times> os \<times> sig list" where
  "cm_start pid cm o' =
     (if proc_active (cm_process cm) then (True, cm, o', [])
      else if cm_corePath cm = [] then
        (if cm_simulationMode cm then (True, cm\<lparr>cm_currentProfileId := pid\<rparr>, o', [])
         else (False, cm, o', []))
      else
        (let (ok, cm1, o1) = cm_generateConfig pid cm o'
         in if \<not> ok then (False, cm1, o1, [])
            else (case spawn (cm_corePath cm1) (core_args (cm_configPath cm1)) o1 of
                    None \<Rightarrow> (False, cm1\<lparr>cm_process := None\<rparr>, o1, [])
                  | Some (q, o2) \<Rightarrow>
                      (True, cm1\<lparr>cm_process := Some q, cm_currentProfileId := pid\<rparr>, o2,
                       [LogOutput (''Core started with PID '' @ nat_str (qp_pid q))]))))"

text \<open>\<open>stop\<close>: terminate, wait, kill if needed; the \<open>finished\<close> signal of the child is
  emitted while waiting, before the log line. The configuration file is left on disk.\<close>

definition cm_stop :: "core_manager \<Rightarrow> os \<Rightarrow> bool \<times> core_manager \<times> os \<times> sig list" where
  "cm_stop cm o' =
     (if \<not> proc_active (cm_process cm) then (True, cm, o', [])
      else (True, cm\<lparr>cm_process := None, cm_currentProfileId := -1\<rparr>, o',
            [ProcessFinished, LogOutput ''Core process stopped'']))"

definition cm_isRunning :: "core_manager \<Rightarrow> bool" where
  "cm_isRunning cm \<longleftrightarrow> (cm_simulationMode cm \<and> 0 < cm_currentProfileId cm) \<or> proc_running (cm_process cm)"

definition cm_getProcessId :: "core_manager \<Rightarrow> int" where
  "cm_getProcessId cm =
     (case cm_process cm of Some q \<Rightarrow> if qp_state q = QRunning then int (qp_pid q) else -1 | None \<Rightarrow> -1)"

text \<open>The child exits on its own: \<open>QProcess::finished\<close>, forwarded by
  \<open>onProcessFinished\<close> as \<open>processFinished\<close>.\<close>

definition cm_process_exit :: "core_manager \<Rightarrow> core_manager \<times> sig list" where
  "cm_process_exit cm =
     (case cm_process cm of
        Some q \<Rightarrow> if qp_state q \<noteq> QNotRunning
                  then (cm\<lparr>cm_process := Some (q\<lparr>qp_state := QNotRunning\<rparr>)\<rparr>, [ProcessFinished])
                  else (cm, [])
      | None \<Rightarrow> (cm, []))"

definition cm_on_stdout :: "string \<Rightarrow> core_manager \<Rightarrow> sig list" where
  "cm_on_stdout data cm = (if cm_process cm = None then [] else map LogOutput (relay_lines [] data))"

definition cm_on_stderr :: "string \<Rightarrow> core_manager \<Rightarrow> sig list" where
  "cm_on_stderr data cm =
     (if cm_process cm = None then [] else map LogOutput (relay_lines ''[ERROR] '' data))"

lemmas cm_ops [neko_defs] = cm_start_def cm_stop_def cm_isRunning_def cm_generateConfig_def
  cm_process_exit_def cm_getProcessId_def

section \<open>Well-formedness\<close>

text \<open>The constructor decides simulation mode once: it is on exactly when no executable
  was found, and then no child process is ever created.\<close>

definition cm_wf :: "core_manager \<Rightarrow> bool" where
  "cm_wf cm \<longleftrightarrow> (cm_simulationMode cm \<longleftrightarrow> cm_corePath cm = []) \<and>
                 (cm_simulationMode cm \<longrightarrow> cm_process cm = None)"

lemma cm_new_wf: "cm_wf (cm_new o')"
  by (simp add: cm_wf_def cm_new_def)

lemma cm_generateConfig_frame [simp]:
  "cm_process (fst (snd (cm_generateConfig pid cm o'))) = cm_process cm"
  "cm_corePath (fst (snd (cm_generateConfig pid cm o'))) = cm_corePath cm"
  "cm_simulationMode (fst (snd (cm_generateConfig pid cm o'))) = cm_simulationMode cm"
  "cm_currentProfileId (fst (snd (cm_generateConfig pid cm o'))) = cm_currentProfileId cm"
  by (simp_all add: cm_generateConfig_def split_def Let_def)

lemma cm_start_wf: "cm_wf cm \<Longrightarrow> cm_wf (fst (snd (cm_start pid cm o')))"
  by (auto simp: cm_wf_def cm_start_def cm_generateConfig_def Let_def split_def
           split: option.splits)

lemma cm_stop_wf: "cm_wf cm \<Longrightarrow> cm_wf (fst (snd (cm_stop cm o')))"
  by (auto simp: cm_wf_def cm_stop_def)

lemma cm_process_exit_wf: "cm_wf cm \<Longrightarrow> cm_wf (fst (cm_process_exit cm))"
  by (auto simp: cm_wf_def cm_process_exit_def split: option.splits)

lemmas cm_wf_preserved = cm_new_wf cm_start_wf cm_stop_wf cm_process_exit_wf

section \<open>Behaviour of start and stop\<close>


text \<open>C12. \<open>start\<close> on a core manager whose child is still active does nothing: no
  second process, no file written, no signal.\<close>

theorem cm_start_active:
  "proc_active (cm_process cm) \<Longrightarrow> cm_start pid cm o' = (True, cm, o', [])"
  by (simp add: cm_start_def)


text \<open>The successful path of \<open>start\<close>: the configuration is written to the
  per-profile temporary file and the executable is spawned with that file as its \<open>-c\<close>
  argument; the profile is recorded and the start is logged with the child's id.\<close>

lemma cm_start_spawns:
  assumes "\<not> proc_active (cm_process cm)" and "cm_corePath cm \<noteq> []"
    and "temp_path o' (core_config_name pid) \<notin> os_unwritable o'"
    and "cm_corePath cm \<in> os_startable o'"
  shows "\<exists>q o''. cm_start pid cm o' =
           (True, cm\<lparr>cm_configPath := temp_path o' (core_config_name pid), cm_process := Some q,
                    cm_currentProfileId := pid\<rparr>, o'',
            [LogOutput (''Core started with PID '' @ nat_str (qp_pid q))])
         \<and> qp_state q = QRunning \<and> qp_program q = cm_corePath cm
         \<and> qp_args q = core_args (temp_path o' (core_config_name pid))
         \<and> os_files o'' (temp_path o' (core_config_name pid)) = Some (JsonDoc core_config)"
  using assms
  by (auto simp: cm_start_def cm_generateConfig_def write_file_def spawn_def Let_def)

text \<open>C13. \<open>start\<close> fails when the configuration cannot be written or the executable
  does not start within the timeout: it returns false, leaves no child behind and emits
  no signal.\<close>

theorem cm_start_fails:
  assumes "\<not> proc_active (cm_process cm)" and "cm_corePath cm \<noteq> []"
    and "temp_path o' (core_config_name pid) \<in> os_unwritable o' \<or> cm_corePath cm \<notin> os_startable o'"
  shows "fst (cm_start pid cm o') = False \<and> \<not> proc_active (cm_process (fst (snd (cm_start pid cm o'))))
         \<and> snd (snd (snd (cm_start pid cm o'))) = []"
  using assms
  by (auto simp: cm_start_def cm_generateConfig_def write_file_def spawn_def Let_def)

lemma cm_start_False:
  "\<not> fst (cm_start pid cm o') \<Longrightarrow> \<not> proc_active (cm_process (fst (snd (cm_start pid cm o'))))"
  by (auto simp: cm_start_def cm_generateConfig_def Let_def split_def split: option.splits if_splits)

lemma cm_stop_result [simp]: "fst (cm_stop cm o') = True"
  by (simp add: cm_stop_def)

lemma cm_stop_no_process: "cm_process (fst (snd (cm_stop cm o'))) = None \<or>
    (cm_stop cm o' = (True, cm, o', []) \<and> \<not> proc_active (cm_process cm))"
  by (simp add: cm_stop_def)

lemma cm_stop_not_running:
  "\<not> proc_running (cm_process (fst (snd (cm_stop cm o'))))"
  by (auto simp: cm_stop_def proc_active_def split: option.splits)

text \<open>The signals of a stop: \<open>processFinished\<close> exactly when a child was active.\<close>

lemma cm_stop_signals:
  "(ProcessFinished \<in> set (snd (snd (snd (cm_stop cm o'))))) \<longleftrightarrow> proc_active (cm_process cm)"
  by (simp add: cm_stop_def)

lemma cm_stop_os [simp]: "fst (snd (snd (cm_stop cm o'))) = o'"
  by (simp add: cm_stop_def)

lemma cm_start_signals:
  "ProcessFinished \<notin> set (snd (snd (snd (cm_start pid cm o'))))"
  by (auto simp: cm_start_def cm_generateConfig_def Let_def split_def split: option.splits)

lemma cm_process_exit_not_running:
  "\<not> proc_running (cm_process (fst (cm_process_exit cm)))"
  by (auto simp: cm_process_exit_def split: option.splits)

lemma cm_process_exit_signals:
  "snd (cm_process_exit cm) = (if proc_active (cm_process cm) then [ProcessFinished] else [])"
  by (auto simp: cm_process_exit_def proc_active_def split: option.splits)

lemma cm_process_exit_frame [simp]:
  "cm_corePath (fst (cm_process_exit cm)) = cm_corePath cm"
  "cm_simulationMode (fst (cm_process_exit cm)) = cm_simulationMode cm"
  "cm_currentProfileId (fst (cm_process_exit cm)) = cm_currentProfileId cm"
  by (auto simp: cm_process_exit_def split: option.splits)

lemma cm_stop_frame [simp]:
  "cm_simulationMode (fst (snd (cm_stop cm o'))) = cm_simulationMode cm"
  "cm_corePath (fst (snd (cm_stop cm o'))) = cm_corePath cm"
  by (simp_all add: cm_stop_def)

lemma core_config_name_inj: "core_config_name p = core_config_name p' \<Longrightarrow> p = p'"
  using int_str_inj by (auto simp: core_config_name_def dest: injD)

section \<open>Properties of the configuration and of stop\<close>

text \<open>Different profiles get different configuration file names.\<close>

theorem core_config_name_injective: "inj core_config_name"
  by (rule injI) (rule core_config_name_inj)

text \<open>\<open>stop\<close> releases the child but never removes the configuration file it
  wrote for it: the file is still on disk afterwards.\<close>

theorem cm_stop_keeps_config:
  assumes "proc_active (cm_process cm)" and "file_exists o' (cm_configPath cm)"
  shows "cm_process (fst (snd (cm_stop cm o'))) = None
    \<and> file_exists (fst (snd (snd (cm_stop cm o')))) (cm_configPath cm)"
  using assms by (simp add: cm_stop_def)

section \<open>Witnesses\<close>

definition demo_core_proc :: qprocess where
  "demo_core_proc = \<lparr>qp_state = QRunning, qp_pid = 100, qp_program = ''/opt/nekoray/nekobox_core'',
     qp_args = core_args ''/tmp/nekoray_core_1.json''\<rparr>"

lemma demo_core_found: "cm_corePath (cm_new demo_os) = ''/opt/nekoray/nekobox_core''"
  by code_simp

lemma demo_core_config_path: "temp_path demo_os (core_config_name 1) = ''/tmp/nekoray_core_1.json''"
  by code_simp

theorem cm_start_active_witness:
  "proc_active (cm_process ((cm_new demo_os)\<lparr>cm_process := Some demo_core_proc\<rparr>))
   \<and> cm_start 2 ((cm_new demo_os)\<lparr>cm_process := Some demo_core_proc\<rparr>) demo_os
       = (True, (cm_new demo_os)\<lparr>cm_process := Some demo_core_proc\<rparr>, demo_os, [])"
proof -
  have h: "proc_active (cm_process ((cm_new demo_os)\<lparr>cm_process := Some demo_core_proc\<rparr>))"
    by (simp add: demo_core_proc_def)
  from cm_start_active [OF h, of 2 demo_os] h show ?thesis by simp
qed

theorem cm_start_fails_witness:
  "\<not> proc_active (cm_process (cm_new demo_os)) \<and> cm_corePath (cm_new demo_os) \<noteq> []
   \<and> (temp_path (demo_os\<lparr>os_startable := {}\<rparr>) (core_config_name 1) \<in> os_unwritable (demo_os\<lparr>os_startable := {}\<rparr>)
      \<or> cm_corePath (cm_new demo_os) \<notin> os_startable (demo_os\<lparr>os_startable := {}\<rparr>))
   \<and> fst (cm_start 1 (cm_new demo_os) (demo_os\<lparr>os_startable := {}\<rparr>)) = False"
proof -
  have h: "\<not> proc_active (cm_process (cm_new demo_os))" "cm_corePath (cm_new demo_os) \<noteq> []"
    "temp_path (demo_os\<lparr>os_startable := {}\<rparr>) (core_config_name 1) \<in> os_unwritable (demo_os\<lparr>os_startable := {}\<rparr>)
      \<or> cm_corePath (cm_new demo_os) \<notin> os_startable (demo_os\<lparr>os_startable := {}\<rparr>)"
  proof -
    have "cm_process (cm_new demo_os) = None" by (simp add: cm_new_def)
    then show "\<not> proc_active (cm_process (cm_new demo_os))" by simp
  qed (simp_all add: demo_core_found)
  from cm_start_fails [OF h] h show ?thesis by simp
qed

theorem cm_stop_keeps_config_witness:
  "proc_active (cm_process ((cm_new demo_os)\<lparr>cm_process := Some demo_core_proc,
      cm_configPath := ''/tmp/nekoray_core_1.json''\<rparr>))
   \<and> file_exists (demo_os\<lparr>os_files := [''/tmp/nekoray_core_1.json'' \<mapsto> JsonDoc core_config]\<rparr>) ''/tmp/nekoray_core_1.json''
   \<and> file_exists (fst (snd (snd (cm_stop ((cm_new demo_os)\<lparr>cm_process := Some demo_core_proc,
        cm_configPath := ''/tmp/nekoray_core_1.json''\<rparr>)
        (demo_os\<lparr>os_files := [''/tmp/nekoray_core_1.json'' \<mapsto> JsonDoc core_config]\<rparr>))))) ''/tmp/nekoray_core_1.json''"
proof -
  let ?cm = "(cm_new demo_os)\<lparr>cm_process := Some demo_core_proc, cm_configPath := ''/tmp/nekoray_core_1.json''\<rparr>"
  let ?o = "demo_os\<lparr>os_files := [''/tmp/nekoray_core_1.json'' \<mapsto> JsonDoc core_config]\<rparr>"
  have h: "proc_active (cm_process ?cm)" "file_exists ?o (cm_configPath ?cm)"
    by (simp_all add: demo_core_proc_def file_exists_def)
  from cm_stop_keeps_config [OF h] h show ?thesis by simp
qed

end
