(* ===== verification/Neko_TunManager.thy ===== *)
theory Neko_TunManager
  imports Neko_CoreManager
begin

text \<open>
  The tunnel supervisor, \<open>NekoCore::TunManager\<close> of
  \<open>src/nekoray/core/TunManager_Fixed.cpp\<close>, with its two collaborators: the
  TunConfigGenerator (\<open>generateTunConfig\<close>, the JSON \<open>tun_config\<close> and the launch
  script \<open>tun_script\<close>) and the PrivilegeLauncher (\<open>startTunProcess\<close>, the
  platform's program and arguments \<open>tun_launch\<close>). The state \<open>tun_manager\<close> holds
  \<open>m_tunProcess\<close>, \<open>m_tunConfigPath\<close>, \<open>m_tunScriptPath\<close> and \<open>m_corePath\<close>.
\<close>

section \<open>The configuration generator\<close>

definition tun_dns :: json where
  "tun_dns = obj_of
     [(''fakeip'', obj_of [(''enabled'', JBool True), (''inet4_range'', JStr ''198.18.0.0/15''),
                           (''inet6_range'', JStr ''fc00::/18'')]),
      (''servers'', JArr
         [obj_of [(''tag'', JStr ''dns-remote''), (''address'', JStr ''8.8.8.8''), (''detour'', JStr ''direct'')],
          obj_of [(''tag'', JStr ''dns-direct''), (''address'', JStr ''223.5.5.5''), (''detour'', JStr ''direct'')],
          obj_of [(''address'', JStr ''fakeip''), (''tag'', JStr ''dns-fake'')]])]"

definition tun_inbound :: json where
  "tun_inbound = obj_of
     [(''type'', JStr ''tun''), (''tag'', JStr ''tun-in''), (''interface_name'', JStr ''nekoray-tun''),
      (''inet4_address'', JStr ''172.19.0.1/28''), (''mtu'', JNum 9000), (''auto_route'', JBool True),
      (''strict_route'', JBool True), (''stack'', JStr ''system''),
      (''endpoint_independent_nat'', JBool True), (''sniff'', JBool True)]"

definition tun_outbounds :: json where
  "tun_outbounds = JArr
     [obj_of [(''type'', JStr ''socks''), (''tag'', JStr ''proxy''), (''server'', JStr ''127.0.0.1''),
              (''server_port'', JNum 2080), (''udp_fragment'', JBool True)],
      obj_of [(''type'', JStr ''direct''), (''tag'', JStr ''direct'')],
      obj_of [(''type'', JStr ''block''), (''tag'', JStr ''block'')]]"

definition tun_route :: json where
  "tun_route = obj_of
     [(''final'', JStr ''proxy''), (''auto_detect_interface'', JBool True),
      (''rules'', JArr
         [obj_of [(''ip_cidr'', JArr [JStr ''224.0.0.0/3'', JStr ''ff00::/8'']), (''outbound'', JStr ''block'')],
          obj_of [(''port'', JNum 53), (''outbound'', JStr ''dns-out'')]])]"

definition tun_config :: json where
  "tun_config = obj_of
     [(''log'', obj_of [(''level'', JStr ''info'')]), (''dns'', tun_dns),
      (''inbounds'', JArr [tun_inbound]), (''outbounds'', tun_outbounds), (''route'', tun_route)]"

text \<open>The wrapper script written on Linux and macOS.\<close>

definition tun_script :: "path \<Rightarrow> path \<Rightarrow> string" where
  "tun_script core cfg =
     ''#!/bin/bash'' @ [LF] @ ''echo \"Starting NekoRay TUN mode...\"'' @ [LF] @
     ''exec \"'' @ core @ ''\" --disable-color run -c \"'' @ cfg @ ''\"'' @ [LF]"

section \<open>The privilege launcher\<close>

definition tun_launch :: "platform \<Rightarrow> path \<Rightarrow> path \<Rightarrow> path \<Rightarrow> string \<times> string list" where
  "tun_launch pf core cfg script =
     (case pf of
        Windows \<Rightarrow> (core, core_args cfg)
      | MacOS \<Rightarrow> (''osascript'', [''-e'', ''do shell script \"bash '' @ script @ ''\" with administrator privileges''])
      | Linux \<Rightarrow> (''pkexec'', [''bash'', script]))"

section \<open>State and operations\<close>

record tun_manager =
  tm_process :: "qprocess option"
  tm_configPath :: path
  tm_scriptPath :: path
  tm_corePath :: path

text \<open>The constructor looks beside the application only (no \<open>PATH\<close> lookup).\<close>

definition tm_new :: "os \<Rightarrow> tun_manager" where
  "tm_new o' = \<lparr>tm_process = None, tm_configPath = [], tm_scriptPath = [],
     tm_corePath = (case find_in_app_dir o' core_candidates of Some p \<Rightarrow> p | None \<Rightarrow> [])\<rparr>"

text \<open>The script is written on Linux and macOS; a failure to write it is ignored.\<close>

definition tm_generateTunConfig :: "tun_manager \<Rightarrow> os \<Rightarrow> bool \<times> tun_manager \<times> os" where
  "tm_generateTunConfig tm o' =
     (let p = temp_path o' ''nekoray_tun.json'';
          (ok, o1) = write_file p (JsonDoc tun_config) o';
          tm1 = tm\<lparr>tm_configPath := p\<rparr>
      in if \<not> ok then (False, tm1, o1)
         else if os_platform o1 = Windows then (True, tm1, o1)
         else (let sp = temp_path o1 ''nekoray_tun.sh'';
                   (_, o2) = write_file sp (RawText (tun_script (tm_corePath tm) p)) o1
               in (True, tm1\<lparr>tm_scriptPath := sp\<rparr>, o2)))"

definition tm_startTunProcess :: "tun_manager \<Rightarrow> os \<Rightarrow> bool \<times> tun_manager \<times> os \<times> sig list" where
  "tm_startTunProcess tm o' =
     (let (prog, args) = tun_launch (os_platform o') (tm_corePath tm) (tm_configPath tm) (tm_scriptPath tm)
      in case spawn prog args o' of
           None \<Rightarrow> (False, tm\<lparr>tm_process := None\<rparr>, o', [])
         | Some (q, o1) \<Rightarrow> (True, tm\<lparr>tm_process := Some q\<rparr>, o1,
                             [LogOutput (''TUN process started with PID '' @ nat_str (qp_pid q))]))"

definition tm_start :: "tun_manager \<Rightarrow> os \<Rightarrow> bool \<times> tun_manager \<times> os \<times> sig list" where
  "tm_start tm o' =
     (if proc_active (tm_process tm) then (True, tm, o', [])
      else if tm_corePath tm = [] then (False, tm, o', [])
      else (let (ok, tm1, o1) = tm_generateTunConfig tm o'
            in if \<not> ok then (False, tm1, o1, []) else tm_startTunProcess tm1 o1))"

text \<open>\<open>stop\<close>: outside Windows first \<open>pkexec killall -2 nekobox_core\<close>, then terminate
  or kill the child, release it and remove the configuration file and the script.\<close>

definition tm_stop :: "tun_manager \<Rightarrow> os \<Rightarrow> bool \<times> tun_manager \<times> os \<times> sig list" where
  "tm_stop tm o' =
     (if \<not> proc_active (tm_process tm) then (True, tm, o', [])
      else
        (let o1 = (if os_platform o' = Windows then o'
                   else o'\<lparr>os_killall := os_killall o' @ [''nekobox_core'']\<rparr>);
             o2 = (if tm_configPath tm \<noteq> [] then remove_file (tm_configPath tm) o1 else o1);
             o3 = (if tm_scriptPath tm \<noteq> [] then remove_file (tm_scriptPath tm) o2 else o2)
         in (True, tm\<lparr>tm_process := None\<rparr>, o3, [ProcessFinished, LogOutput ''TUN process stopped''])))"

definition tm_isRunning :: "tun_manager \<Rightarrow> bool" where
  "tm_isRunning tm \<longleftrightarrow> proc_running (tm_process tm)"

definition tm_process_exit :: "tun_manager \<Rightarrow> tun_manager \<times> sig list" where
  "tm_process_exit tm =
     (case tm_process tm of
        Some q \<Rightarrow> if qp_state q \<noteq> QNotRunning
                  then (tm\<lparr>tm_process := Some (q\<lparr>qp_state := QNotRunning\<rparr>)\<rparr>, [ProcessFinished])
                  else (tm, [])
      | None \<Rightarrow> (tm, []))"

definition tm_on_stdout :: "string \<Rightarrow> tun_manager \<Rightarrow> sig list" where
  "tm_on_stdout data tm = (if tm_process tm = None then [] else map LogOutput (relay_lines ''[TUN] '' data))"

definition tm_on_stderr :: "string \<Rightarrow> tun_manager \<Rightarrow> sig list" where
  "tm_on_stderr data tm =
     (if tm_process tm = None then [] else map LogOutput (relay_lines ''[TUN ERROR] '' data))"

lemmas tm_ops [neko_defs] = tm_start_def tm_stop_def tm_isRunning_def tm_generateTunConfig_def
  tm_startTunProcess_def tm_process_exit_def

section \<open>Properties\<close>

lemma tm_start_active:
  "proc_active (tm_process tm) \<Longrightarrow> tm_start tm o' = (True, tm, o', [])"
  by (simp add: tm_start_def)

lemma tm_stop_result [simp]: "fst (tm_stop tm o') = True"
  by (simp add: tm_stop_def Let_def)

lemma tm_stop_not_running: "\<not> proc_running (tm_process (fst (snd (tm_stop tm o'))))"
  by (auto simp: tm_stop_def Let_def proc_active_def split: option.splits)

lemma tm_stop_signals:
  "(ProcessFinished \<in> set (snd (snd (snd (tm_stop tm o'))))) \<longleftrightarrow> proc_active (tm_process tm)"
  by (simp add: tm_stop_def Let_def)


text \<open>C14. Stopping an active tunnel releases the child and removes both generated
  files, the configuration and the script.\<close>

theorem tm_stop_removes_files:
  assumes "proc_active (tm_process tm)"
  shows "(os_files (fst (snd (snd (tm_stop tm o')))) (tm_configPath tm) = None \<or> tm_configPath tm = [])
    \<and> (os_files (fst (snd (snd (tm_stop tm o')))) (tm_scriptPath tm) = None \<or> tm_scriptPath tm = [])
    \<and> tm_process (fst (snd (tm_stop tm o'))) = None"
  using assms by (auto simp: tm_stop_def Let_def remove_file_def)

text \<open>\<open>TunManager::stop\<close> on a tunnel whose child has already exited returns at
  once and changes nothing: the generated configuration file and script stay on disk,
  although the specification says stop removes them.\<close>

theorem tm_stop_inactive: "\<not> proc_active (tm_process tm) \<Longrightarrow> tm_stop tm o' = (True, tm, o', [])"
  by (simp add: tm_stop_def)

lemma tm_start_signals:
  "ProcessFinished \<notin> set (snd (snd (snd (tm_start tm o'))))"
  by (auto simp: tm_start_def tm_startTunProcess_def tm_generateTunConfig_def Let_def split_def
           split: option.splits)

lemma tm_process_exit_not_running:
  "\<not> proc_running (tm_process (fst (tm_process_exit tm)))"
  by (auto simp: tm_process_exit_def split: option.splits)

lemma tm_process_exit_signals:
  "snd (tm_process_exit tm) = (if proc_active (tm_process tm) then [ProcessFinished] else [])"
  by (auto simp: tm_process_exit_def proc_active_def split: option.splits)

section \<open>Properties of the generator and the launcher\<close>

text \<open>C15. On Linux \<open>start\<close> writes the TUN configuration and the wrapper script to the
  temporary directory and runs \<open>pkexec bash <script>\<close>; it returns true even when the
  script could not be written, in which case pkexec runs a missing script.\<close>

theorem tm_start_linux:
  assumes "\<not> proc_active (tm_process tm)" and "tm_corePath tm \<noteq> []" and "os_platform o' = Linux"
    and "temp_path o' ''nekoray_tun.json'' \<notin> os_unwritable o'" and "''pkexec'' \<in> os_startable o'"
  defines "cfg \<equiv> temp_path o' ''nekoray_tun.json''" and "sh \<equiv> temp_path o' ''nekoray_tun.sh''"
  shows "\<exists>q o''. tm_start tm o' =
      (True, tm\<lparr>tm_configPath := cfg, tm_scriptPath := sh, tm_process := Some q\<rparr>, o'',
       [LogOutput (''TUN process started with PID '' @ nat_str (qp_pid q))])
    \<and> qp_program q = ''pkexec'' \<and> qp_args q = [''bash'', sh]
    \<and> os_files o'' cfg = Some (JsonDoc tun_config)
    \<and> os_files o'' sh = (if sh \<in> os_unwritable o' then os_files o' sh else Some (RawText (tun_script (tm_corePath tm) cfg)))"
  using assms
  by (auto simp: tm_start_def tm_generateTunConfig_def tm_startTunProcess_def tun_launch_def spawn_def
      Let_def split_def temp_path_def)

section \<open>Witnesses\<close>

definition demo_tun :: tun_manager where
  "demo_tun = (tm_new demo_os)\<lparr>tm_process := Some (demo_core_proc\<lparr>qp_program := ''pkexec''\<rparr>),
     tm_configPath := ''/tmp/nekoray_tun.json'', tm_scriptPath := ''/tmp/nekoray_tun.sh''\<rparr>"

lemma demo_tun_core: "tm_corePath (tm_new demo_os) = ''/opt/nekoray/nekobox_core''"
  by code_simp

theorem tm_stop_inactive_witness:
  "\<not> proc_active (tm_process (demo_tun\<lparr>tm_process := Some (demo_core_proc\<lparr>qp_state := QNotRunning\<rparr>)\<rparr>))
   \<and> tm_stop (demo_tun\<lparr>tm_process := Some (demo_core_proc\<lparr>qp_state := QNotRunning\<rparr>)\<rparr>)
        (demo_os\<lparr>os_files := [''/tmp/nekoray_tun.json'' \<mapsto> JsonDoc tun_config]\<rparr>)
     = (True, demo_tun\<lparr>tm_process := Some (demo_core_proc\<lparr>qp_state := QNotRunning\<rparr>)\<rparr>,
        demo_os\<lparr>os_files := [''/tmp/nekoray_tun.json'' \<mapsto> JsonDoc tun_config]\<rparr>, [])"
proof -
  have h: "\<not> proc_active (tm_process (demo_tun\<lparr>tm_process := Some (demo_core_proc\<lparr>qp_state := QNotRunning\<rparr>)\<rparr>))"
    by simp
  from tm_stop_inactive [OF h] h show ?thesis by simp
qed

theorem tm_stop_removes_files_witness:
  "proc_active (tm_process demo_tun)
   \<and> os_files (fst (snd (snd (tm_stop demo_tun (demo_os\<lparr>os_files := [''/tmp/nekoray_tun.json'' \<mapsto> JsonDoc tun_config]\<rparr>)))))
       ''/tmp/nekoray_tun.json'' = None"
proof -
  have h: "proc_active (tm_process demo_tun)" by (simp add: demo_tun_def demo_core_proc_def)
  have "tm_configPath demo_tun = ''/tmp/nekoray_tun.json''" by (simp add: demo_tun_def)
  with tm_stop_removes_files [OF h, of "demo_os\<lparr>os_files := [''/tmp/nekoray_tun.json'' \<mapsto> JsonDoc tun_config]\<rparr>"] h
  show ?thesis by simp
qed

theorem tm_start_linux_witness:
  "\<not> proc_active (tm_process (tm_new demo_os)) \<and> tm_corePath (tm_new demo_os) \<noteq> []
   \<and> os_platform (demo_os\<lparr>os_startable := {''pkexec''}\<rparr>) = Linux
   \<and> (\<exists>q o''. fst (tm_start (tm_new demo_os) (demo_os\<lparr>os_startable := {''pkexec''}\<rparr>))
        \<and> tm_process (fst (snd (tm_start (tm_new demo_os) (demo_os\<lparr>os_startable := {''pkexec''}\<rparr>)))) = Some q
        \<and> qp_program q = ''pkexec'' \<and> qp_args q = [''bash'', ''/tmp/nekoray_tun.sh''])"
proof -
  let ?o = "demo_os\<lparr>os_startable := {''pkexec''}\<rparr>"
  have h: "\<not> proc_active (tm_process (tm_new demo_os))" "tm_corePath (tm_new demo_os) \<noteq> []"
    "os_platform ?o = Linux" "temp_path ?o ''nekoray_tun.json'' \<notin> os_unwritable ?o" "''pkexec'' \<in> os_startable ?o"
  proof -
    have "tm_process (tm_new demo_os) = None" by (simp add: tm_new_def)
    then show "\<not> proc_active (tm_process (tm_new demo_os))" by simp
  qed (simp_all add: demo_tun_core demo_os_simps temp_path_def)
  have sh: "temp_path ?o ''nekoray_tun.sh'' = ''/tmp/nekoray_tun.sh''" by (simp add: temp_path_def demo_os_simps)
  from tm_start_linux [OF h] h show ?thesis by (auto simp: sh)
qed

end
