(* ===== verification/Neko_ConfigStore.thy ===== *)
theory Neko_ConfigStore
  imports Neko_Os
begin

text \<open>
  The persisted settings store, \<open>NekoCore::ConfigManager\<close> of
  \<open>src/nekoray/core/ConfigManager.cpp\<close>: a document \<open>m_dataStore\<close> and the file
  \<open>configDir/groups/nekobox.json\<close> backing it. \<open>cfm_initialize\<close> creates the
  directory and its \<open>groups\<close> subdirectory, \<open>cfm_load\<close> reads the file (creating an
  empty one when absent), \<open>cfm_save\<close> writes the document. Reading an existing file
  is assumed to succeed (\<open>QFile::open(ReadOnly)\<close> failing is not modelled). The file
  holds the document itself: \<open>QJsonDocument\<close>'s text encoding and parsing are not
  modelled, so no property rests on a save/load round trip through text.
\<close>

record config_manager =
  cfm_dataStore :: jobject
  cfm_configDir :: path
  cfm_configFile :: path

definition cfm_new :: config_manager where
  "cfm_new = \<lparr>cfm_dataStore = [], cfm_configDir = [], cfm_configFile = []\<rparr>"

definition settings_file :: "path \<Rightarrow> path" where
  "settings_file dir = dir @ ''/groups/nekobox.json''"

definition cfm_initialize :: "path \<Rightarrow> config_manager \<Rightarrow> os \<Rightarrow> bool \<times> config_manager \<times> os" where
  "cfm_initialize dir cfm o' =
     (let cfm1 = cfm\<lparr>cfm_configDir := dir, cfm_configFile := settings_file dir\<rparr>;
          (ok1, o1) = (if dir \<in> os_dirs o' then (True, o') else make_dir dir o')
      in if \<not> ok1 then (False, cfm1, o1)
         else if dir @ ''/groups'' \<in> os_dirs o1 then (True, cfm1, o1)
         else (let (ok2, o2) = make_dir (dir @ ''/groups'') o1 in (ok2, cfm1, o2)))"

definition cfm_save :: "config_manager \<Rightarrow> os \<Rightarrow> bool \<times> os" where
  "cfm_save cfm o' = write_file (cfm_configFile cfm) (JsonDoc (JObj (cfm_dataStore cfm))) o'"

definition cfm_load :: "config_manager \<Rightarrow> os \<Rightarrow> bool \<times> config_manager \<times> os" where
  "cfm_load cfm o' =
     (case os_files o' (cfm_configFile cfm) of
        None \<Rightarrow> (let cfm1 = cfm\<lparr>cfm_dataStore := []\<rparr>; (ok, o1) = cfm_save cfm1 o' in (ok, cfm1, o1))
      | Some d \<Rightarrow> (case doc_object d of
                    None \<Rightarrow> (False, cfm, o')
                  | Some obj \<Rightarrow> (True, cfm\<lparr>cfm_dataStore := obj\<rparr>, o')))"

lemmas cfm_ops [neko_defs] = cfm_initialize_def cfm_save_def cfm_load_def

section \<open>Properties\<close>


text \<open>A settings file that does not parse makes \<open>load\<close> return false and changes
  neither the document nor the disk.\<close>

theorem cfm_load_parse_error:
  "os_files o' (cfm_configFile cfm) = Some (RawText t) \<Longrightarrow> cfm_load cfm o' = (False, cfm, o')"
  by (simp add: cfm_load_def)


text \<open>\<open>load\<close> without a settings file starts from the empty document and writes
  it to disk.\<close>

theorem cfm_load_absent:
  assumes "os_files o' (cfm_configFile cfm) = None" and "cfm_configFile cfm \<notin> os_unwritable o'"
  shows "\<exists>o1. cfm_load cfm o' = (True, cfm\<lparr>cfm_dataStore := []\<rparr>, o1)
              \<and> os_files o1 (cfm_configFile cfm) = Some (JsonDoc (JObj []))"
  using assms by (simp add: cfm_load_def cfm_save_def write_file_def)

lemma cfm_initialize_file: "cfm_configFile (fst (snd (cfm_initialize dir cfm o'))) = settings_file dir"
  by (simp add: cfm_initialize_def Let_def split_def)

lemma cfm_initialize_dirs:
  assumes "fst (cfm_initialize dir cfm o')"
  shows "{dir, dir @ ''/groups''} \<subseteq> os_dirs (snd (snd (cfm_initialize dir cfm o')))"
  using assms by (auto simp: cfm_initialize_def make_dir_def Let_def split: if_splits)

lemma cfm_initialize_existing:
  "{dir, dir @ ''/groups''} \<subseteq> os_dirs o' \<Longrightarrow>
     cfm_initialize dir cfm o' = (True, cfm\<lparr>cfm_configDir := dir, cfm_configFile := settings_file dir\<rparr>, o')"
  by (simp add: cfm_initialize_def Let_def)

section \<open>Witnesses\<close>

theorem cfm_load_parse_error_witness:
  "os_files (demo_os\<lparr>os_files := [''/c/groups/nekobox.json'' \<mapsto> RawText ''{broken'']\<rparr>)
      (cfm_configFile (cfm_new\<lparr>cfm_configFile := ''/c/groups/nekobox.json''\<rparr>)) = Some (RawText ''{broken'')
   \<and> cfm_load (cfm_new\<lparr>cfm_configFile := ''/c/groups/nekobox.json''\<rparr>)
       (demo_os\<lparr>os_files := [''/c/groups/nekobox.json'' \<mapsto> RawText ''{broken'']\<rparr>)
     = (False, cfm_new\<lparr>cfm_configFile := ''/c/groups/nekobox.json''\<rparr>,
        demo_os\<lparr>os_files := [''/c/groups/nekobox.json'' \<mapsto> RawText ''{broken'']\<rparr>)"
proof -
  have h: "os_files (demo_os\<lparr>os_files := [''/c/groups/nekobox.json'' \<mapsto> RawText ''{broken'']\<rparr>)
      (cfm_configFile (cfm_new\<lparr>cfm_configFile := ''/c/groups/nekobox.json''\<rparr>)) = Some (RawText ''{broken'')"
    by simp
  from cfm_load_parse_error [OF h] h show ?thesis by simp
qed

theorem cfm_load_absent_witness:
  "os_files demo_os (cfm_configFile (cfm_new\<lparr>cfm_configFile := ''/c/groups/nekobox.json''\<rparr>)) = None
   \<and> cfm_configFile (cfm_new\<lparr>cfm_configFile := ''/c/groups/nekobox.json''\<rparr>) \<notin> os_unwritable demo_os
   \<and> fst (cfm_load (cfm_new\<lparr>cfm_configFile := ''/c/groups/nekobox.json''\<rparr>) demo_os)"
proof -
  have h: "os_files demo_os (cfm_configFile (cfm_new\<lparr>cfm_configFile := ''/c/groups/nekobox.json''\<rparr>)) = None"
    "cfm_configFile (cfm_new\<lparr>cfm_configFile := ''/c/groups/nekobox.json''\<rparr>) \<notin> os_unwritable demo_os"
    by (simp_all add: demo_os_def)
  from cfm_load_absent [OF h] h show ?thesis by auto
qed

end
