(* ===== verification/Neko_Service.thy ===== *)
theory Neko_Service
  imports Neko_TunManager Neko_ConfigStore
begin

text \<open>
  The orchestrator, \<open>NekoCore::NekoService\<close> of \<open>src/core/NekoService_Fixed.cpp\<close>.
  Its state \<open>svc\<close> holds the fields of the class: the status, the configuration
  directory, the active profile, the three managers, whether the traffic timer is
  active, the four \<open>qint64\<close> traffic counters (as \<open>64 word\<close>), the current
  configuration document, whether \<open>m_mutex\<close> is held, and the list of signals emitted so
  far (\<open>statusChanged\<close>, \<open>profileChanged\<close>, \<open>trafficUpdated\<close>, \<open>errorOccurred\<close>,
  \<open>logMessage\<close>).
  Every public operation that takes \<open>QMutexLocker\<close> is wrapped in \<open>with_lock\<close>:
  \<open>m_mutex\<close> is a non-recursive \<open>QMutex\<close>, so locking it again on the same thread never
  returns, which the model writes as \<open>None\<close>. A supervisor's signals are dispatched as
  the constructor connects them: \<open>processFinished\<close> of the core to
  \<open>onCoreProcessFinished\<close>, of the tunnel to \<open>onTunProcessFinished\<close>; their
  \<open>logOutput\<close> is not connected.
\<close>

datatype service_status = Stopped | Starting | Running | Stopping | Error

datatype event =
    StatusChanged service_status
  | ProfileChanged int
  | TrafficUpdated int int
  | ErrorOccurred string
  | LogMessage string string

type_synonym qint64 = "64 word"

record svc =
  status :: service_status
  configDir :: path
  currentProfileId :: int
  core :: core_manager
  tun :: tun_manager
  cfgm :: config_manager
  timerActive :: bool
  uploadBytes :: qint64
  downloadBytes :: qint64
  lastUploadBytes :: qint64
  lastDownloadBytes :: qint64
  currentConfig :: jobject
  locked :: bool
  events :: "event list"

type_synonym 'r svc_result = "('r \<times> svc \<times> os) option"

section \<open>Construction and helpers\<close>

definition default_config :: jobject where
  "default_config =
     [(''inbound_address'', JStr ''127.0.0.1''), (''inbound_socks_port'', JNum 2080),
      (''inbound_http_port'', JNum 2081), (''spmode_vpn'', JBool False), (''vpn_internal_tun'', JBool True)]"

definition svc_new :: "os \<Rightarrow> svc" where
  "svc_new o' = \<lparr>status = Stopped, configDir = [], currentProfileId = -1, core = cm_new o',
     tun = tm_new o', cfgm = cfm_new, timerActive = False, uploadBytes = 0, downloadBytes = 0,
     lastUploadBytes = 0, lastDownloadBytes = 0, currentConfig = [], locked = False, events = []\<rparr>"

definition emit :: "event \<Rightarrow> svc \<Rightarrow> svc" where
  "emit e s = s\<lparr>events := events s @ [e]\<rparr>"

fun status_string :: "service_status \<Rightarrow> string" where
  "status_string Stopped = ''Stopped''"
| "status_string Starting = ''Starting''"
| "status_string Running = ''Running''"
| "status_string Stopping = ''Stopping''"
| "status_string Error = ''Error''"

definition setStatus :: "service_status \<Rightarrow> svc \<Rightarrow> svc" where
  "setStatus st s =
     (if status s \<noteq> st
      then s\<lparr>status := st, events := events s @
             [StatusChanged st, LogMessage ''debug'' (''Service status changed to: '' @ status_string st)]\<rparr>
      else s)"

text \<open>\<open>QMutexLocker\<close> for the whole call.\<close>

definition with_lock :: "(svc \<Rightarrow> os \<Rightarrow> 'r svc_result) \<Rightarrow> svc \<Rightarrow> os \<Rightarrow> 'r svc_result" where
  "with_lock f s o' =
     (if locked s then None
      else (case f (s\<lparr>locked := True\<rparr>) o' of
              None \<Rightarrow> None
            | Some (r, s1, o1) \<Rightarrow> Some (r, s1\<lparr>locked := False\<rparr>, o1)))"

section \<open>The slots\<close>

definition onCoreProcessFinished :: "svc \<Rightarrow> svc" where
  "onCoreProcessFinished s =
     (if status s = Running
      then emit (ErrorOccurred ''Core process crashed unexpectedly'') (setStatus Error s)
      else s)"

definition onTunProcessFinished :: "svc \<Rightarrow> svc" where
  "onTunProcessFinished s = emit (LogMessage ''warn'' ''TUN process finished'') s"

definition core_signals :: "sig list \<Rightarrow> svc \<Rightarrow> svc" where
  "core_signals gs s = fold (\<lambda>g s. if g = ProcessFinished then onCoreProcessFinished s else s) gs s"

definition tun_signals :: "sig list \<Rightarrow> svc \<Rightarrow> svc" where
  "tun_signals gs s = fold (\<lambda>g s. if g = ProcessFinished then onTunProcessFinished s else s) gs s"

text \<open>A call into a supervisor, its signals delivered to the orchestrator on return.\<close>

definition core_call :: "(core_manager \<Rightarrow> os \<Rightarrow> bool \<times> core_manager \<times> os \<times> sig list) \<Rightarrow> svc \<Rightarrow> os \<Rightarrow> bool \<times> svc \<times> os" where
  "core_call f s o' = (let (r, cm, o1, gs) = f (core s) o' in (r, core_signals gs (s\<lparr>core := cm\<rparr>), o1))"

definition tun_call :: "(tun_manager \<Rightarrow> os \<Rightarrow> bool \<times> tun_manager \<times> os \<times> sig list) \<Rightarrow> svc \<Rightarrow> os \<Rightarrow> bool \<times> svc \<times> os" where
  "tun_call f s o' = (let (r, tm, o1, gs) = f (tun s) o' in (r, tun_signals gs (s\<lparr>tun := tm\<rparr>), o1))"

text \<open>\<open>updateTraffic\<close>, the timer's slot; \<open>r1\<close> and \<open>r2\<close> are the two \<open>qrand()\<close> draws.\<close>

definition updateTraffic :: "nat \<Rightarrow> nat \<Rightarrow> svc \<Rightarrow> svc" where
  "updateTraffic r1 r2 s =
     (if cm_isRunning (core s)
      then (let s1 = s\<lparr>uploadBytes := uploadBytes s + of_nat (r1 mod 1000),
                      downloadBytes := downloadBytes s + of_nat (r2 mod 5000)\<rparr>
            in emit (TrafficUpdated (sint (uploadBytes s1)) (sint (downloadBytes s1))) s1)
      else s)"

section \<open>Reads\<close>

definition getCurrentConfig :: "svc \<Rightarrow> jobject" where
  "getCurrentConfig s = merge_defaults (currentConfig s) default_config"

definition config_value :: "svc \<Rightarrow> string \<Rightarrow> json" where
  "config_value s k = jvalue_or (currentConfig s) k (jvalue_or default_config k JNull)"

definition getSocksAddress :: "svc \<Rightarrow> string" where
  "getSocksAddress s = to_str (config_value s ''inbound_address'')"

definition getSocksPort :: "svc \<Rightarrow> int" where
  "getSocksPort s = qjson_toInt (config_value s ''inbound_socks_port'')"

definition getHttpAddress :: "svc \<Rightarrow> string" where
  "getHttpAddress s = to_str (config_value s ''inbound_address'')"

definition getHttpPort :: "svc \<Rightarrow> int" where
  "getHttpPort s = qjson_toInt (config_value s ''inbound_http_port'')"

definition isTunModeRunning :: "svc \<Rightarrow> bool" where
  "isTunModeRunning s \<longleftrightarrow> tm_isRunning (tun s)"

section \<open>Lifecycle operations (bodies run with the lock held)\<close>

definition loadProfile_body :: "int \<Rightarrow> svc \<Rightarrow> os \<Rightarrow> bool svc_result" where
  "loadProfile_body pid s o' =
     (if pid \<le> 0 \<or> 100 < pid
      then Some (False, emit (ErrorOccurred (''Invalid profile ID: '' @ int_str pid)) s, o')
      else Some (True, emit (LogMessage ''info'' (''Profile '' @ int_str pid @ '' loaded''))
                          (emit (ProfileChanged pid) (s\<lparr>currentProfileId := pid\<rparr>)), o'))"

text \<open>\<open>spmode_vpn\<close> (default false) and \<open>vpn_internal_tun\<close> (default true), read from
  the current document as \<open>startProxy\<close> reads them.\<close>

definition tun_auto_enabled :: "jobject \<Rightarrow> bool" where
  "tun_auto_enabled cfg \<longleftrightarrow>
     to_bool (jvalue_or cfg ''spmode_vpn'' (JBool False)) \<and> to_bool (jvalue_or cfg ''vpn_internal_tun'' (JBool True))"

definition startProxy_body :: "svc \<Rightarrow> os \<Rightarrow> bool svc_result" where
  "startProxy_body s o' =
     (if status s = Running then Some (True, s, o')
      else if currentProfileId s < 0 then Some (False, emit (ErrorOccurred ''No profile selected'') s, o')
      else
        (let s1 = setStatus Starting s;
             (ok, s2, o1) = core_call (cm_start (currentProfileId s1)) s1 o'
         in if \<not> ok then Some (False, emit (ErrorOccurred ''Failed to start core process'') (setStatus Error s2), o1)
            else
              (let (s3, o2) = (if tun_auto_enabled (currentConfig s2)
                               then (let (tok, s', o'') = tun_call tm_start s2 o1
                                     in (if tok then s' else emit (LogMessage ''warn'' ''Failed to start TUN mode, continuing without TUN'') s', o''))
                               else (s2, o1));
                   s4 = s3\<lparr>timerActive := True\<rparr>
               in Some (True, emit (LogMessage ''info'' ''Proxy started successfully'') (setStatus Running s4), o2))))"

definition stopProxy_body :: "svc \<Rightarrow> os \<Rightarrow> bool svc_result" where
  "stopProxy_body s o' =
     (if status s = Stopped then Some (True, s, o')
      else
        (let s1 = setStatus Stopping s;
             s2 = s1\<lparr>timerActive := False\<rparr>;
             (s3, o1) = (if tm_isRunning (tun s2) then (let (_, s', o'') = tun_call tm_stop s2 o' in (s', o'')) else (s2, o'));
             (s4, o2) = (if cm_isRunning (core s3) then (let (_, s', o'') = core_call cm_stop s3 o1 in (s', o'')) else (s3, o1))
         in Some (True, emit (LogMessage ''info'' ''Proxy stopped successfully'') (setStatus Stopped s4), o2)))"

definition startTunMode_body :: "svc \<Rightarrow> os \<Rightarrow> bool svc_result" where
  "startTunMode_body s o' = (if tm_isRunning (tun s) then Some (True, s, o') else Some (tun_call tm_start s o'))"

definition stopTunMode_body :: "svc \<Rightarrow> os \<Rightarrow> bool svc_result" where
  "stopTunMode_body s o' = Some (tun_call tm_stop s o')"

definition saveConfig_body :: "svc \<Rightarrow> os \<Rightarrow> bool svc_result" where
  "saveConfig_body s o' = (let (ok, o1) = cfm_save (cfgm s) o' in Some (ok, s, o1))"

definition loadConfig_body :: "path \<Rightarrow> svc \<Rightarrow> os \<Rightarrow> bool svc_result" where
  "loadConfig_body p s o' =
     (if p \<noteq> []
      then (case os_files o' p of
              None \<Rightarrow> Some (False, s, o')
            | Some d \<Rightarrow> (case doc_object d of
                          None \<Rightarrow> Some (False, s, o')
                        | Some obj \<Rightarrow> Some (True, s\<lparr>currentConfig := obj\<rparr>, o')))
      else (let (ok, cm, o1) = cfm_load (cfgm s) o' in Some (ok, s\<lparr>cfgm := cm\<rparr>, o1)))"

definition resetTraffic_body :: "svc \<Rightarrow> os \<Rightarrow> unit svc_result" where
  "resetTraffic_body s o' =
     Some ((), emit (TrafficUpdated 0 0)
                 (s\<lparr>uploadBytes := 0, downloadBytes := 0, lastUploadBytes := 0, lastDownloadBytes := 0\<rparr>), o')"

definition loadProfile :: "int \<Rightarrow> svc \<Rightarrow> os \<Rightarrow> bool svc_result" where
  "loadProfile pid = with_lock (loadProfile_body pid)"

definition startProxy :: "svc \<Rightarrow> os \<Rightarrow> bool svc_result" where
  "startProxy = with_lock startProxy_body"

definition stopProxy :: "svc \<Rightarrow> os \<Rightarrow> bool svc_result" where
  "stopProxy = with_lock stopProxy_body"

text \<open>\<open>restartProxy\<close> takes no lock itself: a stop, the 500 ms sleep, a start.\<close>

definition restartProxy :: "svc \<Rightarrow> os \<Rightarrow> bool svc_result" where
  "restartProxy s o' =
     (case stopProxy s o' of
        None \<Rightarrow> None
      | Some (ok, s1, o1) \<Rightarrow> if \<not> ok then Some (False, s1, o1) else startProxy s1 o1)"

definition startTunMode :: "svc \<Rightarrow> os \<Rightarrow> bool svc_result" where
  "startTunMode = with_lock startTunMode_body"

definition stopTunMode :: "svc \<Rightarrow> os \<Rightarrow> bool svc_result" where
  "stopTunMode = with_lock stopTunMode_body"

definition saveConfig :: "svc \<Rightarrow> os \<Rightarrow> bool svc_result" where
  "saveConfig = with_lock saveConfig_body"

definition loadConfig :: "path \<Rightarrow> svc \<Rightarrow> os \<Rightarrow> bool svc_result" where
  "loadConfig p = with_lock (loadConfig_body p)"

definition resetTraffic :: "svc \<Rightarrow> os \<Rightarrow> unit svc_result" where
  "resetTraffic = with_lock resetTraffic_body"

section \<open>Initialisation and shutdown\<close>

definition initializeDirectories :: "svc \<Rightarrow> os \<Rightarrow> bool \<times> svc \<times> os" where
  "initializeDirectories s o' =
     (let d = configDir s;
          (ok, o1) = (if d \<in> os_dirs o' then (True, o') else make_dir d o')
      in if \<not> ok then (False, emit (ErrorOccurred (''Failed to create config directory: '' @ d)) s, o1)
         else fold (\<lambda>sub (ok, s, o1).
                      if \<not> ok then (ok, s, o1)
                      else if d @ ''/'' @ sub \<in> os_dirs o1 then (True, s, o1)
                      else (let (ok', o2) = make_dir (d @ ''/'' @ sub) o1
                            in if ok' then (True, s, o2)
                               else (False, emit (ErrorOccurred (''Failed to create directory: '' @ d @ ''/'' @ sub)) s, o2)))
                   [''profiles'', ''groups'', ''routes''] (True, s, o1))"

text \<open>\<open>loadDataStore\<close>: on a missing file it calls the public \<open>saveConfig\<close>, which locks
  \<open>m_mutex\<close> again.\<close>

definition loadDataStore :: "svc \<Rightarrow> os \<Rightarrow> bool svc_result" where
  "loadDataStore s o' =
     (let f = settings_file (configDir s)
      in case os_files o' f of
           None \<Rightarrow> saveConfig (s\<lparr>currentConfig := default_config\<rparr>) o'
         | Some d \<Rightarrow> (case doc_object d of
                       None \<Rightarrow> Some (False, s, o')
                     | Some obj \<Rightarrow> Some (True, s\<lparr>currentConfig := merge_defaults obj default_config\<rparr>, o')))"

definition initialize_body :: "path \<Rightarrow> svc \<Rightarrow> os \<Rightarrow> bool svc_result" where
  "initialize_body dir s o' =
     (let s0 = s\<lparr>configDir := (if dir = [] then os_config_location o' @ ''/nekoray'' else dir)\<rparr>;
          (ok1, s1, o1) = initializeDirectories s0 o'
      in if \<not> ok1 then Some (False, s1, o1)
         else (let (ok2, cm, o2) = cfm_initialize (configDir s1) (cfgm s1) o1;
                   s2 = s1\<lparr>cfgm := cm\<rparr>
               in if \<not> ok2 then Some (False, s2, o2)
                  else (case loadDataStore s2 o2 of
                          None \<Rightarrow> None
                        | Some (ok3, s3, o3) \<Rightarrow>
                            if \<not> ok3 then Some (False, s3, o3) else Some (True, setStatus Stopped s3, o3))))"

definition initialize :: "path \<Rightarrow> svc \<Rightarrow> os \<Rightarrow> bool svc_result" where
  "initialize dir = with_lock (initialize_body dir)"

definition shutdown_body :: "svc \<Rightarrow> os \<Rightarrow> unit svc_result" where
  "shutdown_body s o' =
     (if status s = Stopped then Some ((), s, o')
      else
        (let s1 = setStatus Stopping s;
             s2 = s1\<lparr>timerActive := False\<rparr>;
             (s3, o1) = (if tm_isRunning (tun s2) then (let (_, s', o'') = tun_call tm_stop s2 o' in (s', o'')) else (s2, o'));
             (s4, o2) = (if cm_isRunning (core s3) then (let (_, s', o'') = core_call cm_stop s3 o1 in (s', o'')) else (s3, o1));
             (_, o3) = cfm_save (cfgm s4) o2
         in Some ((), setStatus Stopped s4, o3)))"

definition shutdown :: "svc \<Rightarrow> os \<Rightarrow> unit svc_result" where
  "shutdown = with_lock shutdown_body"

section \<open>Events from the environment\<close>

text \<open>The core or tunnel child exits on its own; the signal reaches the slot.\<close>

definition core_exit :: "svc \<Rightarrow> svc" where
  "core_exit s = (let (cm, gs) = cm_process_exit (core s) in core_signals gs (s\<lparr>core := cm\<rparr>))"

definition tun_exit :: "svc \<Rightarrow> svc" where
  "tun_exit s = (let (tm, gs) = tm_process_exit (tun s) in tun_signals gs (s\<lparr>tun := tm\<rparr>))"

text \<open>The directories \<open>initialize\<close> needs.\<close>

definition svc_dirs :: "path \<Rightarrow> path set" where
  "svc_dirs d = {d, d @ ''/profiles'', d @ ''/groups'', d @ ''/routes''}"

text \<open>The messages of the \<open>errorOccurred\<close> signals in an event list.\<close>

fun error_msgs :: "event list \<Rightarrow> string list" where
  "error_msgs [] = []"
| "error_msgs (ErrorOccurred m # es) = m # error_msgs es"
| "error_msgs (_ # es) = error_msgs es"

lemmas svc_ops [neko_defs] = loadProfile_def startProxy_def stopProxy_def startTunMode_def
  stopTunMode_def saveConfig_def loadConfig_def resetTraffic_def initialize_def shutdown_def

section \<open>Basic lemmas\<close>

lemma emit_frame [simp]:
  "status (emit e s) = status s" "currentProfileId (emit e s) = currentProfileId s"
  "core (emit e s) = core s" "tun (emit e s) = tun s" "cfgm (emit e s) = cfgm s"
  "timerActive (emit e s) = timerActive s" "currentConfig (emit e s) = currentConfig s"
  "locked (emit e s) = locked s" "uploadBytes (emit e s) = uploadBytes s"
  "downloadBytes (emit e s) = downloadBytes s" "configDir (emit e s) = configDir s"
  "events (emit e s) = events s @ [e]"
  by (simp_all add: emit_def)

lemma setStatus_frame [simp]:
  "status (setStatus st s) = st" "currentProfileId (setStatus st s) = currentProfileId s"
  "core (setStatus st s) = core s" "tun (setStatus st s) = tun s" "cfgm (setStatus st s) = cfgm s"
  "timerActive (setStatus st s) = timerActive s" "currentConfig (setStatus st s) = currentConfig s"
  "locked (setStatus st s) = locked s" "uploadBytes (setStatus st s) = uploadBytes s"
  "downloadBytes (setStatus st s) = downloadBytes s" "configDir (setStatus st s) = configDir s"
  by (simp_all add: setStatus_def)

lemma setStatus_events:
  "events (setStatus st s) = events s @
     (if status s \<noteq> st then [StatusChanged st, LogMessage ''debug'' (''Service status changed to: '' @ status_string st)] else [])"
  by (simp add: setStatus_def)

lemma onCoreProcessFinished_idem [simp]:
  "onCoreProcessFinished (onCoreProcessFinished s) = onCoreProcessFinished s"
  by (simp add: onCoreProcessFinished_def)

lemma core_signals_eq:
  "core_signals gs s = (if ProcessFinished \<in> set gs then onCoreProcessFinished s else s)"
proof (induction gs arbitrary: s)
  case Nil
  then show ?case by (simp add: core_signals_def)
next
  case (Cons g gs)
  have "core_signals (g # gs) s = core_signals gs (if g = ProcessFinished then onCoreProcessFinished s else s)"
    by (simp add: core_signals_def)
  with Cons.IH show ?case by auto
qed

lemma onTunProcessFinished_frame [simp]:
  "status (onTunProcessFinished s) = status s" "core (onTunProcessFinished s) = core s"
  "tun (onTunProcessFinished s) = tun s" "timerActive (onTunProcessFinished s) = timerActive s"
  "currentProfileId (onTunProcessFinished s) = currentProfileId s" "locked (onTunProcessFinished s) = locked s"
  "currentConfig (onTunProcessFinished s) = currentConfig s" "cfgm (onTunProcessFinished s) = cfgm s"
  "uploadBytes (onTunProcessFinished s) = uploadBytes s" "downloadBytes (onTunProcessFinished s) = downloadBytes s"
  by (simp_all add: onTunProcessFinished_def)

lemma tun_signals_frame:
  "status (tun_signals gs s) = status s \<and> core (tun_signals gs s) = core s \<and> tun (tun_signals gs s) = tun s
   \<and> timerActive (tun_signals gs s) = timerActive s \<and> currentProfileId (tun_signals gs s) = currentProfileId s
   \<and> locked (tun_signals gs s) = locked s \<and> currentConfig (tun_signals gs s) = currentConfig s
   \<and> cfgm (tun_signals gs s) = cfgm s"
  by (induction gs arbitrary: s) (simp_all add: tun_signals_def)

lemma tun_signals_events:
  "\<exists>es. events (tun_signals gs s) = events s @ es \<and> (\<forall>e \<in> set es. \<forall>m. e \<noteq> ErrorOccurred m)"
proof (induction gs arbitrary: s)
  case Nil
  then show ?case by (simp add: tun_signals_def)
next
  case (Cons g gs)
  let ?s' = "if g = ProcessFinished then onTunProcessFinished s else s"
  obtain es where "events (tun_signals gs ?s') = events ?s' @ es" and "\<forall>e \<in> set es. \<forall>m. e \<noteq> ErrorOccurred m"
    using Cons.IH by blast
  then show ?case by (auto simp: tun_signals_def onTunProcessFinished_def emit_def)
qed

lemma error_msgs_append [simp]: "error_msgs (xs @ ys) = error_msgs xs @ error_msgs ys"
  by (induction xs rule: error_msgs.induct) auto

lemma error_msgs_setStatus [simp]: "error_msgs (events (setStatus st s)) = error_msgs (events s)"
  by (simp add: setStatus_events)

lemma error_msgs_tun_signals [simp]: "error_msgs (events (tun_signals gs s)) = error_msgs (events s)"
  by (induction gs arbitrary: s) (simp_all add: tun_signals_def onTunProcessFinished_def emit_def)

lemma tun_call_simps [simp]:
  "fst (tun_call f s o') = fst (f (tun s) o')"
  "tun (fst (snd (tun_call f s o'))) = fst (snd (f (tun s) o'))"
  "snd (snd (tun_call f s o')) = fst (snd (snd (f (tun s) o')))"
  "status (fst (snd (tun_call f s o'))) = status s"
  "core (fst (snd (tun_call f s o'))) = core s"
  "timerActive (fst (snd (tun_call f s o'))) = timerActive s"
  "currentProfileId (fst (snd (tun_call f s o'))) = currentProfileId s"
  "locked (fst (snd (tun_call f s o'))) = locked s"
  "currentConfig (fst (snd (tun_call f s o'))) = currentConfig s"
  "cfgm (fst (snd (tun_call f s o'))) = cfgm s"
  "error_msgs (events (fst (snd (tun_call f s o')))) = error_msgs (events s)"
  by (simp_all add: tun_call_def split_def Let_def tun_signals_frame)

lemma core_call_state:
  "fst (snd (core_call f s o')) =
     (let s1 = s\<lparr>core := fst (snd (f (core s) o'))\<rparr>
      in if ProcessFinished \<in> set (snd (snd (snd (f (core s) o')))) then onCoreProcessFinished s1 else s1)"
  by (simp add: core_call_def split_def core_signals_eq Let_def)

lemma core_call_result [simp]:
  "fst (core_call f s o') = fst (f (core s) o')"
  "snd (snd (core_call f s o')) = fst (snd (snd (f (core s) o')))"
  by (simp_all add: core_call_def split_def Let_def)

lemma core_call_simps [simp]:
  "core (fst (snd (core_call f s o'))) = fst (snd (f (core s) o'))"
  "tun (fst (snd (core_call f s o'))) = tun s"
  "timerActive (fst (snd (core_call f s o'))) = timerActive s"
  "currentProfileId (fst (snd (core_call f s o'))) = currentProfileId s"
  "locked (fst (snd (core_call f s o'))) = locked s"
  "currentConfig (fst (snd (core_call f s o'))) = currentConfig s"
  by (simp_all add: core_call_state Let_def onCoreProcessFinished_def)

lemma core_call_status:
  "status s \<noteq> Running \<Longrightarrow> status (fst (snd (core_call f s o'))) = status s"
  "status s \<noteq> Running \<Longrightarrow> error_msgs (events (fst (snd (core_call f s o')))) = error_msgs (events s)"
  by (simp_all add: core_call_state Let_def onCoreProcessFinished_def)


lemma stopProxy_body_stops:
  assumes "status s \<noteq> Stopped"
  shows "\<exists>s' o''. stopProxy_body s o' = Some (True, s', o'') \<and> status s' = Stopped \<and> \<not> timerActive s'
     \<and> \<not> tm_isRunning (tun s') \<and> \<not> proc_running (cm_process (core s'))
     \<and> (\<not> cm_simulationMode (core s) \<longrightarrow> \<not> cm_isRunning (core s'))
     \<and> error_msgs (events s') = error_msgs (events s) \<and> locked s' = locked s
     \<and> currentProfileId s' = currentProfileId s"
  using assms
  by (auto simp: stopProxy_body_def Let_def split_def core_call_status tm_isRunning_def
      tm_stop_not_running cm_stop_not_running cm_isRunning_def)


lemma with_lock_Some:
  "\<not> locked s \<Longrightarrow> f (s\<lparr>locked := True\<rparr>) o' = Some (r, s1, o1) \<Longrightarrow> with_lock f s o' = Some (r, s1\<lparr>locked := False\<rparr>, o1)"
  by (simp add: with_lock_def)

lemma with_lock_locked: "locked s \<Longrightarrow> with_lock f s o' = None"
  by (simp add: with_lock_def)

text \<open>C7. \<open>stopProxy\<close> on a service that is not Stopped returns true and leaves it
  Stopped with the traffic timer off, the tunnel down and no running core child (outside
  simulation mode the core is not running at all); it reports no error.\<close>

theorem stopProxy_stops:
  assumes "\<not> locked s" and "status s \<noteq> Stopped"
  shows "\<exists>s' o''. stopProxy s o' = Some (True, s', o'') \<and> status s' = Stopped \<and> \<not> timerActive s'
     \<and> \<not> isTunModeRunning s' \<and> \<not> proc_running (cm_process (core s'))
     \<and> (\<not> cm_simulationMode (core s) \<longrightarrow> \<not> cm_isRunning (core s'))
     \<and> error_msgs (events s') = error_msgs (events s) \<and> \<not> locked s'"
proof -
  from assms(2) have "status (s\<lparr>locked := True\<rparr>) \<noteq> Stopped" by simp
  from stopProxy_body_stops [OF this, of o'] obtain s1 o1 where
    body: "stopProxy_body (s\<lparr>locked := True\<rparr>) o' = Some (True, s1, o1)" and
    props: "status s1 = Stopped" "\<not> timerActive s1" "\<not> tm_isRunning (tun s1)"
      "\<not> proc_running (cm_process (core s1))"
      "\<not> cm_simulationMode (core s) \<longrightarrow> \<not> cm_isRunning (core s1)"
      "error_msgs (events s1) = error_msgs (events s)"
    by auto
  from with_lock_Some [where f = stopProxy_body, OF assms(1) body] props show ?thesis
    by (simp add: stopProxy_def isTunModeRunning_def)
qed

lemma stopProxy_stopped:
  "\<not> locked s \<Longrightarrow> status s = Stopped \<Longrightarrow> stopProxy s o' = Some (True, s, o')"
  by (simp add: stopProxy_def with_lock_def stopProxy_body_def)

lemma startProxy_running:
  "\<not> locked s \<Longrightarrow> status s = Running \<Longrightarrow> startProxy s o' = Some (True, s, o')"
  by (simp add: startProxy_def with_lock_def startProxy_body_def)

lemma startProxy_no_profile:
  assumes "\<not> locked s" and "status s \<noteq> Running" and "currentProfileId s < 0"
  shows "startProxy s o' = Some (False, emit (ErrorOccurred ''No profile selected'') s, o')"
  using assms by (simp add: startProxy_def with_lock_def startProxy_body_def emit_def)

lemma startProxy_core_fails:
  assumes "\<not> locked s" and "status s \<noteq> Running" and "0 \<le> currentProfileId s"
    and "\<not> fst (cm_start (currentProfileId s) (core s) o')"
  shows "\<exists>s' o''. startProxy s o' = Some (False, s', o'') \<and> status s' = Error \<and> timerActive s' = timerActive s
     \<and> error_msgs (events s') = error_msgs (events s) @ [''Failed to start core process'']
     \<and> \<not> proc_active (cm_process (core s')) \<and> core s' = fst (snd (cm_start (currentProfileId s) (core s) o'))
     \<and> tun s' = tun s \<and> currentProfileId s' = currentProfileId s \<and> \<not> locked s'"
proof -
  let ?s1 = "setStatus Starting (s\<lparr>locked := True\<rparr>)"
  let ?c = "core_call (cm_start (currentProfileId s)) ?s1 o'"
  have st: "status ?s1 \<noteq> Running" by simp
  have nok: "\<not> fst ?c" using assms(4) by simp
  have body: "startProxy_body (s\<lparr>locked := True\<rparr>) o' =
      Some (False, emit (ErrorOccurred ''Failed to start core process'') (setStatus Error (fst (snd ?c))), snd (snd ?c))"
    using assms(2,3) nok by (simp add: startProxy_body_def Let_def split_def)
  have "\<not> proc_active (cm_process (core (fst (snd ?c))))"
    using cm_start_False [OF assms(4)] by simp
  moreover have "error_msgs (events (fst (snd ?c))) = error_msgs (events s)"
    using core_call_status(2) [OF st] by simp
  moreover have "timerActive (fst (snd ?c)) = timerActive s" by simp
  moreover have "tun (fst (snd ?c)) = tun s \<and> currentProfileId (fst (snd ?c)) = currentProfileId s" by simp
  ultimately show ?thesis
    using with_lock_Some [where f = startProxy_body, OF assms(1) body] by (simp add: startProxy_def)
qed

lemma startProxy_starts:
  assumes "\<not> locked s" and "status s \<noteq> Running" and "0 \<le> currentProfileId s"
    and ok: "fst (cm_start (currentProfileId s) (core s) o')"
  defines "cr \<equiv> cm_start (currentProfileId s) (core s) o'"
  defines "tr \<equiv> tm_start (tun s) (fst (snd (snd cr)))"
  shows "\<exists>s' o''. startProxy s o' = Some (True, s', o'') \<and> status s' = Running \<and> timerActive s'
     \<and> \<not> locked s' \<and> core s' = fst (snd cr) \<and> error_msgs (events s') = error_msgs (events s)
     \<and> currentProfileId s' = currentProfileId s
     \<and> tun s' = (if tun_auto_enabled (currentConfig s) then fst (snd tr) else tun s)
     \<and> (tun_auto_enabled (currentConfig s) \<and> \<not> fst tr \<longrightarrow>
          LogMessage ''warn'' ''Failed to start TUN mode, continuing without TUN'' \<in> set (events s'))"
proof -
  let ?s1 = "setStatus Starting (s\<lparr>locked := True\<rparr>)"
  let ?c = "core_call (cm_start (currentProfileId s)) ?s1 o'"
  let ?t = "tun_call tm_start (fst (snd ?c)) (snd (snd ?c))"
  let ?s3 = "if tun_auto_enabled (currentConfig s)
             then (if fst ?t then fst (snd ?t)
                   else emit (LogMessage ''warn'' ''Failed to start TUN mode, continuing without TUN'') (fst (snd ?t)))
             else fst (snd ?c)"
  let ?o2 = "if tun_auto_enabled (currentConfig s) then snd (snd ?t) else snd (snd ?c)"
  have st: "status ?s1 \<noteq> Running" by simp
  have cst: "status (fst (snd ?c)) = Starting" using core_call_status(1) [OF st] by simp
  have cerr: "error_msgs (events (fst (snd ?c))) = error_msgs (events s)"
    using core_call_status(2) [OF st] by simp
  have body: "startProxy_body (s\<lparr>locked := True\<rparr>) o' =
      Some (True, emit (LogMessage ''info'' ''Proxy started successfully'')
                   (setStatus Running (?s3\<lparr>timerActive := True\<rparr>)), ?o2)"
    using assms(2,3) ok by (simp add: startProxy_body_def Let_def split_def cr_def)
  have tun3: "tun ?s3 = (if tun_auto_enabled (currentConfig s) then fst (snd tr) else tun s)"
    by (simp add: tr_def cr_def)
  have core3: "core ?s3 = fst (snd cr)" by (simp add: cr_def)
  have pid3: "currentProfileId ?s3 = currentProfileId s" by simp
  have err3: "error_msgs (events ?s3) = error_msgs (events s)"
    using cerr by (simp add: emit_def)
  have warn: "tun_auto_enabled (currentConfig s) \<and> \<not> fst tr \<longrightarrow>
      LogMessage ''warn'' ''Failed to start TUN mode, continuing without TUN'' \<in> set (events ?s3)"
    by (simp add: tr_def cr_def)
  show ?thesis
    using with_lock_Some [where f = startProxy_body, OF assms(1) body] tun3 core3 err3 warn pid3
    by (simp add: startProxy_def setStatus_events)
qed


lemma loadProfile_spec:
  assumes "\<not> locked s"
  shows "\<exists>s'. loadProfile pid s o' = Some (1 \<le> pid \<and> pid \<le> 100, s', o')
     \<and> currentProfileId s' = (if 1 \<le> pid \<and> pid \<le> 100 then pid else currentProfileId s)
     \<and> status s' = status s \<and> core s' = core s \<and> tun s' = tun s \<and> timerActive s' = timerActive s
     \<and> \<not> locked s'
     \<and> error_msgs (events s') =
         error_msgs (events s) @ (if 1 \<le> pid \<and> pid \<le> 100 then [] else [''Invalid profile ID: '' @ int_str pid])"
  using assms by (auto simp: loadProfile_def with_lock_def loadProfile_body_def emit_def)

text \<open>C9. When the core child exits on its own while the service is Running, the status
  becomes Error and exactly the error \<open>Core process crashed unexpectedly\<close> is reported.\<close>

theorem core_exit_crash:
  assumes "status s = Running" and "proc_active (cm_process (core s))"
  shows "status (core_exit s) = Error
    \<and> error_msgs (events (core_exit s)) = error_msgs (events s) @ [''Core process crashed unexpectedly'']
    \<and> \<not> proc_running (cm_process (core (core_exit s)))"
  using assms cm_process_exit_not_running [of "core s"]
  by (simp add: core_exit_def split_def Let_def core_signals_eq cm_process_exit_signals onCoreProcessFinished_def emit_def)

lemma core_exit_other:
  assumes "status s \<noteq> Running"
  shows "status (core_exit s) = status s \<and> error_msgs (events (core_exit s)) = error_msgs (events s)"
  using assms by (simp add: core_exit_def split_def Let_def core_signals_eq onCoreProcessFinished_def)

lemma initializeDirectories_ok:
  assumes "svc_dirs (configDir s) \<inter> os_unwritable o' = {}"
  shows "\<exists>o1. initializeDirectories s o' = (True, s, o1) \<and> os_files o1 = os_files o'
           \<and> os_unwritable o1 = os_unwritable o' \<and> svc_dirs (configDir s) \<subseteq> os_dirs o1"
  using assms by (auto simp: initializeDirectories_def svc_dirs_def make_dir_def Let_def)

lemma initialize_prefix:
  assumes "\<not> locked s" and "dir \<noteq> []" and "svc_dirs dir \<inter> os_unwritable o' = {}"
  shows "\<exists>o1. initialize dir s o' =
      (case loadDataStore (s\<lparr>locked := True, configDir := dir,
                              cfgm := cfgm s\<lparr>cfm_configDir := dir, cfm_configFile := settings_file dir\<rparr>\<rparr>) o1 of
         None \<Rightarrow> None
       | Some (ok3, s3, o3) \<Rightarrow>
           if \<not> ok3 then Some (False, s3\<lparr>locked := False\<rparr>, o3)
           else Some (True, (setStatus Stopped s3)\<lparr>locked := False\<rparr>, o3))
      \<and> os_files o1 = os_files o' \<and> svc_dirs dir \<subseteq> os_dirs o1"
proof -
  let ?s0 = "s\<lparr>locked := True, configDir := dir\<rparr>"
  obtain o1 where dirs: "initializeDirectories ?s0 o' = (True, ?s0, o1)" and
    files: "os_files o1 = os_files o'" and sub: "svc_dirs dir \<subseteq> os_dirs o1"
    using initializeDirectories_ok [of ?s0 o'] assms(3) by auto
  have cfm: "cfm_initialize dir (cfgm ?s0) o1 =
      (True, cfgm ?s0\<lparr>cfm_configDir := dir, cfm_configFile := settings_file dir\<rparr>, o1)"
    using sub by (intro cfm_initialize_existing) (auto simp: svc_dirs_def)
  have "initialize dir s o' =
      (case loadDataStore (s\<lparr>locked := True, configDir := dir,
                              cfgm := cfgm s\<lparr>cfm_configDir := dir, cfm_configFile := settings_file dir\<rparr>\<rparr>) o1 of
         None \<Rightarrow> None
       | Some (ok3, s3, o3) \<Rightarrow>
           if \<not> ok3 then Some (False, s3\<lparr>locked := False\<rparr>, o3)
           else Some (True, (setStatus Stopped s3)\<lparr>locked := False\<rparr>, o3))"
    using assms(1,2) dirs cfm by (simp add: initialize_def with_lock_def initialize_body_def Let_def split: option.splits)
  with files sub show ?thesis by blast
qed

text \<open>C5. On a first run, when the settings file does not exist yet, \<open>initialize\<close> never
  returns: \<open>loadDataStore\<close> calls the public \<open>saveConfig\<close>, which locks the non-recursive
  \<open>m_mutex\<close> that \<open>initialize\<close> already holds. With writable directories the result is
  the deadlock \<open>None\<close>.\<close>

theorem initialize_fresh_deadlock:
  assumes "\<not> locked s" and "dir \<noteq> []" and "svc_dirs dir \<inter> os_unwritable o' = {}"
    and "os_files o' (settings_file dir) = None"
  shows "initialize dir s o' = None"
proof -
  obtain o1 where eq: "initialize dir s o' =
      (case loadDataStore (s\<lparr>locked := True, configDir := dir,
                              cfgm := cfgm s\<lparr>cfm_configDir := dir, cfm_configFile := settings_file dir\<rparr>\<rparr>) o1 of
         None \<Rightarrow> None
       | Some (ok3, s3, o3) \<Rightarrow>
           if \<not> ok3 then Some (False, s3\<lparr>locked := False\<rparr>, o3)
           else Some (True, (setStatus Stopped s3)\<lparr>locked := False\<rparr>, o3))" and files: "os_files o1 = os_files o'"
    using initialize_prefix [OF assms(1-3)] by blast
  show ?thesis
    using assms(1,4) files by (simp add: eq loadDataStore_def saveConfig_def with_lock_def)
qed

text \<open>C6. With an existing settings file and writable directories \<open>initialize\<close> returns
  true, creates the directory tree, reports Stopped and holds the stored document merged
  with the defaults; the supervisors, the selected profile and the timer are untouched.\<close>

theorem initialize_existing:
  assumes "\<not> locked s" and "dir \<noteq> []" and "svc_dirs dir \<inter> os_unwritable o' = {}"
    and "os_files o' (settings_file dir) = Some (JsonDoc (JObj obj))"
  shows "\<exists>s' o''. initialize dir s o' = Some (True, s', o'') \<and> status s' = Stopped \<and> \<not> locked s'
     \<and> currentConfig s' = merge_defaults obj default_config \<and> configDir s' = dir
     \<and> core s' = core s \<and> tun s' = tun s \<and> currentProfileId s' = currentProfileId s
     \<and> timerActive s' = timerActive s \<and> svc_dirs dir \<subseteq> os_dirs o''"
proof -
  obtain o1 where eq: "initialize dir s o' =
      (case loadDataStore (s\<lparr>locked := True, configDir := dir,
                              cfgm := cfgm s\<lparr>cfm_configDir := dir, cfm_configFile := settings_file dir\<rparr>\<rparr>) o1 of
         None \<Rightarrow> None
       | Some (ok3, s3, o3) \<Rightarrow>
           if \<not> ok3 then Some (False, s3\<lparr>locked := False\<rparr>, o3)
           else Some (True, (setStatus Stopped s3)\<lparr>locked := False\<rparr>, o3))" and files: "os_files o1 = os_files o'" and sub: "svc_dirs dir \<subseteq> os_dirs o1"
    using initialize_prefix [OF assms(1-3)] by blast
  show ?thesis
    using assms(1,4) files sub by (simp add: eq loadDataStore_def)
qed

text \<open>C11. A timer tick while the core runs adds \<open>r1 mod 1000\<close> bytes to the upload and
  \<open>r2 mod 5000\<close> to the download counter, exactly, read as signed 64-bit integers, as
  long as the counters stay below \<open>2^63\<close>.\<close>

theorem updateTraffic_counters:
  assumes "cm_isRunning (core s)"
    and "unat (uploadBytes s) + 999 < 2 ^ 63" and "unat (downloadBytes s) + 4999 < 2 ^ 63"
  shows "sint (uploadBytes (updateTraffic r1 r2 s)) = sint (uploadBytes s) + int (r1 mod 1000)
     \<and> sint (downloadBytes (updateTraffic r1 r2 s)) = sint (downloadBytes s) + int (r2 mod 5000)"
proof -
  have u: "unat (uploadBytes s) + r1 mod 1000 < 2 ^ 63" using assms(2) by simp
  have d: "unat (downloadBytes s) + r2 mod 5000 < 2 ^ 63" using assms(3) by simp
  have "sint (uploadBytes s + of_nat (r1 mod 1000)) = int (unat (uploadBytes s) + r1 mod 1000)"
    using u by (simp add: sint_small word_add_nat_small)
  moreover have "sint (downloadBytes s + of_nat (r2 mod 5000)) = int (unat (downloadBytes s) + r2 mod 5000)"
    using d by (simp add: sint_small word_add_nat_small)
  moreover have "sint (uploadBytes s) = int (unat (uploadBytes s))" using u by (intro sint_small) simp
  moreover have "sint (downloadBytes s) = int (unat (downloadBytes s))" using d by (intro sint_small) simp
  ultimately show ?thesis using assms(1) by (simp add: updateTraffic_def Let_def)
qed

lemma updateTraffic_idle: "\<not> cm_isRunning (core s) \<Longrightarrow> updateTraffic r1 r2 s = s"
  by (simp add: updateTraffic_def)

section \<open>Properties of start, reads and profile selection\<close>

text \<open>C8. \<open>startProxy\<close> with a selected profile, a core executable that starts and a
  writable temporary directory returns true and reports Running with the timer on; the
  core child runs the found executable with the per-profile configuration file as its
  \<open>-c\<close> argument, and no error is reported.\<close>

theorem startProxy_spawns_core:
  assumes "\<not> locked s" and "status s \<noteq> Running" and "0 \<le> currentProfileId s"
    and "\<not> proc_active (cm_process (core s))" and "cm_corePath (core s) \<noteq> []"
    and "temp_path o' (core_config_name (currentProfileId s)) \<notin> os_unwritable o'"
    and "cm_corePath (core s) \<in> os_startable o'"
  shows "\<exists>s' o'' q. startProxy s o' = Some (True, s', o'') \<and> status s' = Running \<and> timerActive s'
    \<and> cm_process (core s') = Some q \<and> qp_state q = QRunning \<and> qp_program q = cm_corePath (core s)
    \<and> qp_args q = core_args (temp_path o' (core_config_name (currentProfileId s)))
    \<and> error_msgs (events s') = error_msgs (events s)"
proof -
  obtain q o1 where cs: "cm_start (currentProfileId s) (core s) o' =
      (True, (core s)\<lparr>cm_configPath := temp_path o' (core_config_name (currentProfileId s)), cm_process := Some q,
                      cm_currentProfileId := currentProfileId s\<rparr>, o1,
       [LogOutput (''Core started with PID '' @ nat_str (qp_pid q))])"
    and q: "qp_state q = QRunning" "qp_program q = cm_corePath (core s)"
       "qp_args q = core_args (temp_path o' (core_config_name (currentProfileId s)))"
    using cm_start_spawns [OF assms(4-7)] by blast
  then have ok: "fst (cm_start (currentProfileId s) (core s) o')" by simp
  from startProxy_starts [OF assms(1-3) ok] obtain s' o'' where
    "startProxy s o' = Some (True, s', o'')" "status s' = Running" "timerActive s'"
    "core s' = fst (snd (cm_start (currentProfileId s) (core s) o'))"
    "error_msgs (events s') = error_msgs (events s)"
    by blast
  with cs q show ?thesis by auto
qed

text \<open>C10. \<open>getCurrentConfig\<close>, read as a map, is the defaults overlaid by the loaded
  document: every key of the document keeps its value and every missing default key
  is added (refinement of the merge loop by map override).\<close>

theorem getCurrentConfig_refines:
  "map_of (getCurrentConfig s) = map_of default_config ++ map_of (currentConfig s)"
  by (simp add: getCurrentConfig_def map_of_merge_defaults)

text \<open>C27. \<open>loadProfile\<close> accepts exactly the ids 1..100; on a rejected id the selection
  is unchanged and the error \<open>Invalid profile ID: <id>\<close> is the only one reported. It
  never touches the environment, the status or the core.\<close>

theorem loadProfile_validates:
  assumes "\<not> locked s" and "loadProfile pid s o' = Some (r, s', o'')"
  shows "(r \<longleftrightarrow> 1 \<le> pid \<and> pid \<le> 100) \<and> o'' = o' \<and> status s' = status s \<and> core s' = core s
    \<and> currentProfileId s' = (if r then pid else currentProfileId s)
    \<and> (\<not> r \<longrightarrow> error_msgs (events s') = error_msgs (events s) @ [''Invalid profile ID: '' @ int_str pid])"
  using loadProfile_spec [OF assms(1), of pid o'] assms(2) by auto

section \<open>Witnesses\<close>

text \<open>A service running the demonstration core for profile 1.\<close>

definition demo_running :: svc where
  "demo_running = (svc_new demo_os)\<lparr>status := Running, currentProfileId := 1, timerActive := True,
     core := (cm_new demo_os)\<lparr>cm_process := Some demo_core_proc, cm_configPath := ''/tmp/nekoray_core_1.json'',
       cm_currentProfileId := 1\<rparr>\<rparr>"

lemma demo_running_simps:
  "\<not> locked demo_running" "status demo_running = Running" "currentProfileId demo_running = 1"
  "proc_active (cm_process (core demo_running))" "cm_isRunning (core demo_running)"
  "\<not> cm_simulationMode (core demo_running)" "events demo_running = []"
  "uploadBytes demo_running = 0" "downloadBytes demo_running = 0"
  by code_simp+

theorem initialize_fresh_deadlock_witness:
  "\<not> locked (svc_new fresh_os) \<and> svc_dirs ''/home/nekoray'' \<inter> os_unwritable fresh_os = {}
   \<and> os_files fresh_os (settings_file ''/home/nekoray'') = None
   \<and> initialize ''/home/nekoray'' (svc_new fresh_os) fresh_os = None"
proof -
  have h: "\<not> locked (svc_new fresh_os)" "''/home/nekoray'' \<noteq> []"
    "svc_dirs ''/home/nekoray'' \<inter> os_unwritable fresh_os = {}"
    "os_files fresh_os (settings_file ''/home/nekoray'') = None"
    by (simp_all add: svc_new_def fresh_os_def demo_os_def settings_file_def)
  from initialize_fresh_deadlock [OF h] h show ?thesis by simp
qed

theorem initialize_existing_witness:
  "\<not> locked (svc_new demo_os) \<and> os_files demo_os (settings_file ''/home/nekoray'') = Some (JsonDoc (JObj []))
   \<and> (\<exists>s' o''. initialize ''/home/nekoray'' (svc_new demo_os) demo_os = Some (True, s', o'') \<and> status s' = Stopped
        \<and> currentConfig s' = merge_defaults [] default_config)"
proof -
  have h: "\<not> locked (svc_new demo_os)" "''/home/nekoray'' \<noteq> []"
    "svc_dirs ''/home/nekoray'' \<inter> os_unwritable demo_os = {}"
    "os_files demo_os (settings_file ''/home/nekoray'') = Some (JsonDoc (JObj []))"
    by (simp_all add: svc_new_def demo_os_def settings_file_def)
  from initialize_existing [OF h] h show ?thesis by blast
qed

theorem stopProxy_stops_witness:
  "\<not> locked demo_running \<and> status demo_running \<noteq> Stopped
   \<and> (\<exists>s' o''. stopProxy demo_running demo_os = Some (True, s', o'') \<and> status s' = Stopped
        \<and> \<not> cm_isRunning (core s'))"
  using stopProxy_stops [of demo_running, OF demo_running_simps(1), of demo_os] demo_running_simps
  by auto

theorem startProxy_spawns_core_witness:
  "\<not> locked ((svc_new demo_os)\<lparr>currentProfileId := 1\<rparr>) \<and> status ((svc_new demo_os)\<lparr>currentProfileId := 1\<rparr>) = Stopped
   \<and> (\<exists>s' o'' q. startProxy ((svc_new demo_os)\<lparr>currentProfileId := 1\<rparr>) demo_os = Some (True, s', o'')
        \<and> status s' = Running \<and> cm_process (core s') = Some q \<and> qp_program q = ''/opt/nekoray/nekobox_core''
        \<and> qp_args q = [''--disable-color'', ''run'', ''-c'', ''/tmp/nekoray_core_1.json''])"
proof -
  let ?s = "(svc_new demo_os)\<lparr>currentProfileId := 1\<rparr>"
  have c: "core ?s = cm_new demo_os" "status ?s = Stopped" "\<not> locked ?s" "currentProfileId ?s = 1"
    by (simp_all add: svc_new_def)
  have h: "\<not> locked ?s" "status ?s \<noteq> Running" "0 \<le> currentProfileId ?s"
    "\<not> proc_active (cm_process (core ?s))" "cm_corePath (core ?s) \<noteq> []"
    "temp_path demo_os (core_config_name (currentProfileId ?s)) \<notin> os_unwritable demo_os"
    "cm_corePath (core ?s) \<in> os_startable demo_os"
  proof -
    have "cm_process (cm_new demo_os) = None" by (simp add: cm_new_def)
    then show "\<not> proc_active (cm_process (core ?s))" by (simp add: c)
  qed (simp_all add: c demo_core_found demo_os_simps temp_path_def)
  from startProxy_spawns_core [OF h] c show ?thesis
    by (auto simp: demo_core_found demo_core_config_path core_args_def)
qed

theorem core_exit_crash_witness:
  "status demo_running = Running \<and> proc_active (cm_process (core demo_running))
   \<and> status (core_exit demo_running) = Error
   \<and> error_msgs (events (core_exit demo_running)) = [''Core process crashed unexpectedly'']"
  using core_exit_crash [OF demo_running_simps(2,4)] demo_running_simps by simp

theorem updateTraffic_counters_witness:
  "cm_isRunning (core demo_running) \<and> unat (uploadBytes demo_running) + 999 < 2 ^ 63
   \<and> unat (downloadBytes demo_running) + 4999 < 2 ^ 63
   \<and> sint (uploadBytes (updateTraffic 1234 99 demo_running)) = 234
   \<and> sint (downloadBytes (updateTraffic 1234 99 demo_running)) = 99"
proof -
  have h: "cm_isRunning (core demo_running)" "unat (uploadBytes demo_running) + 999 < 2 ^ 63"
    "unat (downloadBytes demo_running) + 4999 < 2 ^ 63"
    using demo_running_simps by simp_all
  from updateTraffic_counters [OF h, of 1234 99] h demo_running_simps show ?thesis by simp
qed

theorem loadProfile_validates_witness:
  "\<not> locked demo_running
   \<and> (case loadProfile 101 demo_running demo_os of
        Some (r, s', o'') \<Rightarrow> \<not> r \<and> currentProfileId s' = 1 \<and> o'' = demo_os
          \<and> error_msgs (events s') = [''Invalid profile ID: 101'']
      | None \<Rightarrow> False)"
proof -
  obtain r s' o'' where l: "loadProfile 101 demo_running demo_os = Some (r, s', o'')"
    using loadProfile_spec [OF demo_running_simps(1), of 101 demo_os] by blast
  have "int_str 101 = ''101''" by code_simp
  with loadProfile_validates [OF demo_running_simps(1) l] l demo_running_simps show ?thesis by simp
qed

end
