(* ===== verification/Neko_Lifecycle.thy ===== *)
theory Neko_Lifecycle
  imports Neko_Service
begin

text \<open>
  The life of one \<open>NekoService\<close> object as a transition system. A configuration is the
  service state together with the operating system. It starts from a successful
  \<open>initialize\<close> on a freshly constructed service (what \<open>main_web.cpp\<close>, \<open>main_cli.cpp\<close>
  and the daemon do before anything else) and then moves by
  \<^item> a call of one of the public operations, each under its own lock (\<open>api_step\<close>),
  \<^item> a tick of the traffic timer while it is active (\<open>updateTraffic\<close>),
  \<^item> the core or the tunnel child exiting on its own (\<open>core_exit\<close>, \<open>tun_exit\<close>),
  \<^item> any change of the environment (files, startable programs, platform).
  The invariant \<open>svc_inv\<close> says the mutex is free between calls, the status is one of
  Stopped, Running, Error (Starting and Stopping never survive a call), the profile id is
  -1 or in 1..100, the traffic timer runs exactly while the status is not Stopped and
  always when it is Running, a Running service has a running core, and outside Running
  no core child is alive. Every transition preserves it. A second group shows that no
  public call blocks on the mutex in a reachable configuration.
\<close>

section \<open>Supervisor invariants\<close>
definition core_ok :: "core_manager \<Rightarrow> bool" where
  "core_ok cm \<longleftrightarrow> cm_wf cm \<and> (proc_active (cm_process cm) \<longrightarrow> proc_running (cm_process cm))"

definition tun_ok :: "tun_manager \<Rightarrow> bool" where
  "tun_ok tm \<longleftrightarrow> (proc_active (tm_process tm) \<longrightarrow> proc_running (tm_process tm))"

lemma core_ok_start: "core_ok cm \<Longrightarrow> core_ok (fst (snd (cm_start pid cm o')))"
  by (auto simp: core_ok_def cm_wf_def cm_start_def cm_generateConfig_def spawn_def Let_def split_def
           split: option.splits if_splits)

lemma core_ok_stop: "core_ok cm \<Longrightarrow> core_ok (fst (snd (cm_stop cm o')))"
  by (auto simp: core_ok_def cm_wf_def cm_stop_def)

lemma core_ok_exit: "core_ok cm \<Longrightarrow> core_ok (fst (cm_process_exit cm))"
  by (auto simp: core_ok_def cm_wf_def cm_process_exit_def split: option.splits)

lemma tun_ok_start: "tun_ok tm \<Longrightarrow> tun_ok (fst (snd (tm_start tm o')))"
  by (auto simp: tun_ok_def tm_start_def tm_startTunProcess_def tm_generateTunConfig_def spawn_def Let_def split_def
           split: option.splits if_splits)

lemma tun_ok_stop: "tun_ok tm \<Longrightarrow> tun_ok (fst (snd (tm_stop tm o')))"
  by (auto simp: tun_ok_def tm_stop_def Let_def)

lemma tun_ok_exit: "tun_ok tm \<Longrightarrow> tun_ok (fst (tm_process_exit tm))"
  by (auto simp: tun_ok_def tm_process_exit_def split: option.splits)

lemma cm_start_True_running:
  assumes "fst (cm_start pid cm o')" and "core_ok cm" and "0 < pid"
  shows "cm_isRunning (fst (snd (cm_start pid cm o')))"
  using assms
  by (auto simp: core_ok_def cm_wf_def cm_isRunning_def cm_start_def cm_generateConfig_def spawn_def Let_def split_def
           split: option.splits if_splits)

lemma cm_stop_inactive: "core_ok cm \<Longrightarrow> \<not> proc_active (cm_process (fst (snd (cm_stop cm o'))))"
  by (auto simp: core_ok_def cm_stop_def)

definition svc_inv :: "svc \<Rightarrow> bool" where
  "svc_inv s \<longleftrightarrow> \<not> locked s \<and> status s \<in> {Stopped, Running, Error}
     \<and> (currentProfileId s = -1 \<or> 1 \<le> currentProfileId s \<and> currentProfileId s \<le> 100)
     \<and> (timerActive s \<longrightarrow> status s \<noteq> Stopped)
     \<and> (status s = Running \<longrightarrow> timerActive s \<and> cm_isRunning (core s))
     \<and> (status s \<noteq> Running \<longrightarrow> \<not> proc_active (cm_process (core s)))
     \<and> core_ok (core s) \<and> tun_ok (tun s)"

lemma cm_stop_state: "fst (snd (cm_stop cm o')) = (if proc_active (cm_process cm) then cm\<lparr>cm_process := None, cm_currentProfileId := -1\<rparr> else cm)"
  by (simp add: cm_stop_def)

lemma tm_stop_state: "fst (snd (tm_stop tm o')) = (if proc_active (tm_process tm) then tm\<lparr>tm_process := None\<rparr> else tm)"
  by (simp add: tm_stop_def Let_def)

lemma stopProxy_body_result:
  assumes "status s \<noteq> Stopped"
  shows "\<exists>s' o''. stopProxy_body s o' = Some (True, s', o'') \<and> status s' = Stopped \<and> \<not> timerActive s'
     \<and> locked s' = locked s \<and> currentProfileId s' = currentProfileId s
     \<and> core s' = (if cm_isRunning (core s) then fst (snd (cm_stop (core s) o')) else core s)
     \<and> tun s' = (if tm_isRunning (tun s) then fst (snd (tm_stop (tun s) o')) else tun s)
     \<and> error_msgs (events s') = error_msgs (events s)"
proof -
  define s2 where "s2 = (setStatus Stopping s)\<lparr>timerActive := False\<rparr>"
  define s3 where "s3 = (if tm_isRunning (tun s2) then fst (snd (tun_call tm_stop s2 o')) else s2)"
  define o1 where "o1 = (if tm_isRunning (tun s2) then snd (snd (tun_call tm_stop s2 o')) else o')"
  define s4 where "s4 = (if cm_isRunning (core s3) then fst (snd (core_call cm_stop s3 o1)) else s3)"
  define o2 where "o2 = (if cm_isRunning (core s3) then snd (snd (core_call cm_stop s3 o1)) else o1)"
  have body: "stopProxy_body s o' =
      Some (True, emit (LogMessage ''info'' ''Proxy stopped successfully'') (setStatus Stopped s4), o2)"
    using assms by (simp add: stopProxy_body_def Let_def split_def s2_def s3_def o1_def s4_def o2_def)
  have s3: "status s3 = Stopping \<and> \<not> timerActive s3 \<and> locked s3 = locked s \<and> currentProfileId s3 = currentProfileId s
      \<and> core s3 = core s \<and> tun s3 = (if tm_isRunning (tun s) then fst (snd (tm_stop (tun s) o')) else tun s)
      \<and> error_msgs (events s3) = error_msgs (events s)"
    by (simp add: s3_def s2_def tm_stop_state)
  then have "status s4 = Stopping \<and> \<not> timerActive s4 \<and> locked s4 = locked s \<and> currentProfileId s4 = currentProfileId s
      \<and> core s4 = (if cm_isRunning (core s) then fst (snd (cm_stop (core s) o')) else core s)
      \<and> tun s4 = tun s3 \<and> error_msgs (events s4) = error_msgs (events s)"
    by (simp add: s4_def core_call_status cm_stop_state)
  with body s3 show ?thesis by simp
qed

lemma stopProxy_inv:
  assumes inv: "svc_inv s" and res: "stopProxy s o' = Some (r, s', o'')"
  shows "svc_inv s'"
proof (cases "status s = Stopped")
  case True
  with inv res show ?thesis by (auto simp: stopProxy_def with_lock_def stopProxy_body_def svc_inv_def)
next
  case False
  then have "status (s\<lparr>locked := True\<rparr>) \<noteq> Stopped" by simp
  from stopProxy_body_result [OF this, of o'] obtain s1 o1 where
    body: "stopProxy_body (s\<lparr>locked := True\<rparr>) o' = Some (True, s1, o1)" and
    f: "status s1 = Stopped" "\<not> timerActive s1" "currentProfileId s1 = currentProfileId s"
       "core s1 = (if cm_isRunning (core s) then fst (snd (cm_stop (core s) o')) else core s)"
       "tun s1 = (if tm_isRunning (tun s) then fst (snd (tm_stop (tun s) o')) else tun s)"
    by auto
  from res body have s': "s' = s1\<lparr>locked := False\<rparr>"
    by (simp add: stopProxy_def with_lock_def inv [unfolded svc_inv_def])
  have "\<not> proc_active (cm_process (core s1))"
    using inv f(4) by (auto simp: svc_inv_def cm_stop_inactive)
  moreover have "core_ok (core s1) \<and> tun_ok (tun s1)"
    using inv f(4,5) by (auto simp: svc_inv_def core_ok_stop tun_ok_stop)
  ultimately show ?thesis
    using inv f(1-3) by (simp add: s' svc_inv_def)
qed

lemma startProxy_inv:
  assumes inv: "svc_inv s" and res: "startProxy s o' = Some (r, s', o'')"
  shows "svc_inv s'"
proof -
  have nl: "\<not> locked s" using inv by (simp add: svc_inv_def)
  consider (run) "status s = Running" | (nop) "status s \<noteq> Running" "currentProfileId s < 0"
    | (fail) "status s \<noteq> Running" "0 \<le> currentProfileId s" "\<not> fst (cm_start (currentProfileId s) (core s) o')"
    | (ok) "status s \<noteq> Running" "0 \<le> currentProfileId s" "fst (cm_start (currentProfileId s) (core s) o')"
    by linarith
  then show ?thesis
  proof cases
    case run
    with inv res show ?thesis by (simp add: startProxy_running nl)
  next
    case nop
    with inv res show ?thesis by (auto simp: startProxy_no_profile nl svc_inv_def)
  next
    case fail
    from startProxy_core_fails [OF nl fail] res obtain s1 where
      "s' = s1" "status s1 = Error" "timerActive s1 = timerActive s" "\<not> proc_active (cm_process (core s1))"
      "core s1 = fst (snd (cm_start (currentProfileId s) (core s) o'))" "tun s1 = tun s"
      "currentProfileId s1 = currentProfileId s" "\<not> locked s1"
      by auto
    with inv show ?thesis by (auto simp: svc_inv_def core_ok_start)
  next
    case ok
    have pid: "0 < currentProfileId s" using ok(2) inv by (auto simp: svc_inv_def)
    from startProxy_starts [OF nl ok] res obtain s1 where
      "s' = s1" "status s1 = Running" "timerActive s1" "\<not> locked s1"
      "core s1 = fst (snd (cm_start (currentProfileId s) (core s) o'))"
      "currentProfileId s1 = currentProfileId s"
      "tun s1 = (if tun_auto_enabled (currentConfig s) then fst (snd (tm_start (tun s)
          (fst (snd (snd (cm_start (currentProfileId s) (core s) o')))))) else tun s)"
      by auto
    with inv pid ok(3) show ?thesis
      by (auto simp: svc_inv_def core_ok_start tun_ok_start cm_start_True_running)
  qed
qed

lemma with_lock_SomeE:
  assumes "with_lock f s o' = Some (r, s', o'')"
  obtains s1 where "f (s\<lparr>locked := True\<rparr>) o' = Some (r, s1, o'')" and "s' = s1\<lparr>locked := False\<rparr>"
  using assms by (auto simp: with_lock_def split: if_splits option.splits)

lemma with_lock_frame_inv:
  assumes inv: "svc_inv s" and res: "with_lock f s o' = Some (r, s', o'')"
    and body: "\<And>s1. f (s\<lparr>locked := True\<rparr>) o' = Some (r, s1, o'') \<Longrightarrow>
       tun_ok (tun s1) \<and> status s1 = status s \<and> core s1 = core s \<and> timerActive s1 = timerActive s
       \<and> currentProfileId s1 = currentProfileId s"
  shows "svc_inv s'"
proof -
  obtain s1 where b: "f (s\<lparr>locked := True\<rparr>) o' = Some (r, s1, o'')" and s': "s' = s1\<lparr>locked := False\<rparr>"
    using res by (rule with_lock_SomeE)
  from body [OF b] inv show ?thesis by (simp add: s' svc_inv_def)
qed

lemma loadProfile_inv:
  assumes inv: "svc_inv s" and res: "loadProfile pid s o' = Some (r, s', o'')"
  shows "svc_inv s'"
proof -
  have nl: "\<not> locked s" using inv by (simp add: svc_inv_def)
  from loadProfile_spec [OF nl, of pid o'] res inv show ?thesis
    by (auto simp: svc_inv_def split: if_splits)
qed

lemma tun_call_frame:
  assumes "tun_call f s o' = (r, s1, o1)"
  shows "tun s1 = fst (snd (f (tun s) o')) \<and> status s1 = status s \<and> core s1 = core s
    \<and> timerActive s1 = timerActive s \<and> currentProfileId s1 = currentProfileId s"
proof -
  have "s1 = fst (snd (tun_call f s o'))" using assms by simp
  then show ?thesis by simp
qed

lemma startTunMode_inv:
  assumes inv: "svc_inv s" and res: "startTunMode s o' = Some (r, s', o'')"
  shows "svc_inv s'"
  using inv res [unfolded startTunMode_def]
proof (rule with_lock_frame_inv)
  fix s1 assume b: "startTunMode_body (s\<lparr>locked := True\<rparr>) o' = Some (r, s1, o'')"
  show "tun_ok (tun s1) \<and> status s1 = status s \<and> core s1 = core s \<and> timerActive s1 = timerActive s
      \<and> currentProfileId s1 = currentProfileId s"
  proof (cases "tm_isRunning (tun s)")
    case True
    with b inv show ?thesis by (auto simp: startTunMode_body_def svc_inv_def)
  next
    case False
    with b have "tun_call tm_start (s\<lparr>locked := True\<rparr>) o' = (r, s1, o'')"
      by (simp add: startTunMode_body_def)
    from tun_call_frame [OF this] inv show ?thesis by (simp add: svc_inv_def tun_ok_start)
  qed
qed

lemma stopTunMode_inv:
  assumes inv: "svc_inv s" and res: "stopTunMode s o' = Some (r, s', o'')"
  shows "svc_inv s'"
  using inv res [unfolded stopTunMode_def]
proof (rule with_lock_frame_inv)
  fix s1 assume "stopTunMode_body (s\<lparr>locked := True\<rparr>) o' = Some (r, s1, o'')"
  then have "tun_call tm_stop (s\<lparr>locked := True\<rparr>) o' = (r, s1, o'')"
    by (simp add: stopTunMode_body_def)
  from tun_call_frame [OF this] inv
  show "tun_ok (tun s1) \<and> status s1 = status s \<and> core s1 = core s \<and> timerActive s1 = timerActive s
      \<and> currentProfileId s1 = currentProfileId s"
    by (simp add: svc_inv_def tun_ok_stop)
qed

lemma saveConfig_inv:
  assumes inv: "svc_inv s" and res: "saveConfig s o' = Some (r, s', o'')"
  shows "svc_inv s'"
  using inv res [unfolded saveConfig_def]
  by (rule with_lock_frame_inv) (use inv in \<open>auto simp: saveConfig_body_def split_def Let_def svc_inv_def\<close>)

lemma loadConfig_inv:
  assumes inv: "svc_inv s" and res: "loadConfig p s o' = Some (r, s', o'')"
  shows "svc_inv s'"
  using inv res [unfolded loadConfig_def]
  by (rule with_lock_frame_inv)
     (use inv in \<open>auto simp: loadConfig_body_def split_def Let_def svc_inv_def split: if_splits option.splits\<close>)

lemma resetTraffic_inv:
  assumes inv: "svc_inv s" and res: "resetTraffic s o' = Some (r, s', o'')"
  shows "svc_inv s'"
  using inv res [unfolded resetTraffic_def]
  by (rule with_lock_frame_inv) (use inv in \<open>auto simp: resetTraffic_body_def svc_inv_def\<close>)

lemma updateTraffic_inv: "svc_inv s \<Longrightarrow> svc_inv (updateTraffic r1 r2 s)"
  by (auto simp: updateTraffic_def Let_def svc_inv_def)

lemma core_exit_inv:
  assumes inv: "svc_inv s"
  shows "svc_inv (core_exit s)"
proof (cases "proc_active (cm_process (core s))")
  case True
  then have run: "status s = Running" using inv by (auto simp: svc_inv_def)
  let ?cm = "fst (cm_process_exit (core s))"
  have ex: "core_exit s = emit (ErrorOccurred ''Core process crashed unexpectedly'') (setStatus Error (s\<lparr>core := ?cm\<rparr>))"
    using True run by (simp add: core_exit_def split_def core_signals_eq cm_process_exit_signals onCoreProcessFinished_def)
  have "\<not> proc_active (cm_process ?cm)"
    using True by (auto simp: cm_process_exit_def split: option.splits)
  with inv show ?thesis by (simp add: ex svc_inv_def core_ok_exit)
next
  case False
  then have "cm_process_exit (core s) = (core s, [])"
    by (auto simp: cm_process_exit_def split: option.splits)
  with inv show ?thesis by (simp add: core_exit_def core_signals_def)
qed

lemma tun_exit_inv:
  assumes inv: "svc_inv s"
  shows "svc_inv (tun_exit s)"
proof -
  let ?tm = "fst (tm_process_exit (tun s))" and ?gs = "snd (tm_process_exit (tun s))"
  have "tun_exit s = tun_signals ?gs (s\<lparr>tun := ?tm\<rparr>)"
    by (simp add: tun_exit_def split_def Let_def)
  with tun_signals_frame [of ?gs "s\<lparr>tun := ?tm\<rparr>"] inv show ?thesis
    by (simp add: svc_inv_def tun_ok_exit)
qed

lemma restartProxy_inv:
  assumes inv: "svc_inv s" and res: "restartProxy s o' = Some (r, s', o'')"
  shows "svc_inv s'"
proof (cases "stopProxy s o'")
  case None
  with res show ?thesis by (simp add: restartProxy_def)
next
  case (Some a)
  then obtain ok s1 o1 where stop: "stopProxy s o' = Some (ok, s1, o1)" by (cases a) auto
  have inv1: "svc_inv s1" using stopProxy_inv [OF inv stop] .
  show ?thesis
  proof (cases ok)
    case True
    with res stop have "startProxy s1 o1 = Some (r, s', o'')" by (simp add: restartProxy_def)
    with inv1 show ?thesis by (rule startProxy_inv)
  next
    case False
    with res stop inv1 show ?thesis by (simp add: restartProxy_def)
  qed
qed

lemma shutdown_body_result:
  assumes "status s \<noteq> Stopped"
  shows "\<exists>s' o''. shutdown_body s o' = Some ((), s', o'') \<and> status s' = Stopped \<and> \<not> timerActive s'
     \<and> locked s' = locked s \<and> currentProfileId s' = currentProfileId s
     \<and> core s' = (if cm_isRunning (core s) then fst (snd (cm_stop (core s) o')) else core s)
     \<and> tun s' = (if tm_isRunning (tun s) then fst (snd (tm_stop (tun s) o')) else tun s)"
proof -
  define s2 where "s2 = (setStatus Stopping s)\<lparr>timerActive := False\<rparr>"
  define s3 where "s3 = (if tm_isRunning (tun s2) then fst (snd (tun_call tm_stop s2 o')) else s2)"
  define o1 where "o1 = (if tm_isRunning (tun s2) then snd (snd (tun_call tm_stop s2 o')) else o')"
  define s4 where "s4 = (if cm_isRunning (core s3) then fst (snd (core_call cm_stop s3 o1)) else s3)"
  define o2 where "o2 = (if cm_isRunning (core s3) then snd (snd (core_call cm_stop s3 o1)) else o1)"
  have body: "shutdown_body s o' = Some ((), setStatus Stopped s4, snd (cfm_save (cfgm s4) o2))"
    using assms by (simp add: shutdown_body_def Let_def split_def s2_def s3_def o1_def s4_def o2_def)
  have s3: "status s3 = Stopping \<and> \<not> timerActive s3 \<and> locked s3 = locked s \<and> currentProfileId s3 = currentProfileId s
      \<and> core s3 = core s \<and> tun s3 = (if tm_isRunning (tun s) then fst (snd (tm_stop (tun s) o')) else tun s)"
    by (simp add: s3_def s2_def tm_stop_state)
  then have "\<not> timerActive s4 \<and> locked s4 = locked s \<and> currentProfileId s4 = currentProfileId s
      \<and> core s4 = (if cm_isRunning (core s) then fst (snd (cm_stop (core s) o')) else core s)
      \<and> tun s4 = tun s3"
    by (simp add: s4_def cm_stop_state)
  with body s3 show ?thesis by simp
qed

lemma shutdown_inv:
  assumes inv: "svc_inv s" and res: "shutdown s o' = Some (u, s', o'')"
  shows "svc_inv s'"
proof (cases "status s = Stopped")
  case True
  with inv res show ?thesis by (auto simp: shutdown_def with_lock_def shutdown_body_def svc_inv_def)
next
  case False
  then have "status (s\<lparr>locked := True\<rparr>) \<noteq> Stopped" by simp
  from shutdown_body_result [OF this, of o'] obtain s1 o1 where
    body: "shutdown_body (s\<lparr>locked := True\<rparr>) o' = Some ((), s1, o1)" and
    f: "status s1 = Stopped" "\<not> timerActive s1" "currentProfileId s1 = currentProfileId s"
       "core s1 = (if cm_isRunning (core s) then fst (snd (cm_stop (core s) o')) else core s)"
       "tun s1 = (if tm_isRunning (tun s) then fst (snd (tm_stop (tun s) o')) else tun s)"
    by auto
  from res body have s': "s' = s1\<lparr>locked := False\<rparr>"
    by (simp add: shutdown_def with_lock_def inv [unfolded svc_inv_def])
  have "\<not> proc_active (cm_process (core s1))"
    using inv f(4) by (auto simp: svc_inv_def cm_stop_inactive)
  moreover have "core_ok (core s1) \<and> tun_ok (tun s1)"
    using inv f(4,5) by (auto simp: svc_inv_def core_ok_stop tun_ok_stop)
  ultimately show ?thesis
    using inv f(1-3) by (simp add: s' svc_inv_def)
qed

lemma initializeDirectories_frame:
  assumes "initializeDirectories s o' = (ok, s1, o1)"
  shows "status s1 = status s \<and> core s1 = core s \<and> tun s1 = tun s \<and> timerActive s1 = timerActive s
     \<and> currentProfileId s1 = currentProfileId s \<and> locked s1 = locked s \<and> configDir s1 = configDir s
     \<and> cfgm s1 = cfgm s"
  using assms by (auto simp: initializeDirectories_def Let_def split_def split: if_splits)

lemma loadDataStore_frame:
  assumes "locked s" and "loadDataStore s o' = Some (r, s1, o1)"
  shows "status s1 = status s \<and> core s1 = core s \<and> tun s1 = tun s \<and> timerActive s1 = timerActive s
     \<and> currentProfileId s1 = currentProfileId s \<and> locked s1"
  using assms by (auto simp: loadDataStore_def saveConfig_def with_lock_def Let_def split: option.splits)

lemma initialize_frame:
  assumes "initialize dir s o' = Some (True, s', o'')"
  shows "status s' = Stopped \<and> core s' = core s \<and> tun s' = tun s \<and> timerActive s' = timerActive s
     \<and> currentProfileId s' = currentProfileId s \<and> \<not> locked s'"
proof -
  obtain s1 where b: "initialize_body dir (s\<lparr>locked := True\<rparr>) o' = Some (True, s1, o'')"
    and s': "s' = s1\<lparr>locked := False\<rparr>"
    using assms unfolding initialize_def by (rule with_lock_SomeE)
  let ?s0 = "s\<lparr>locked := True, configDir := (if dir = [] then os_config_location o' @ ''/nekoray'' else dir)\<rparr>"
  obtain ok1 t1 p1 where d: "initializeDirectories ?s0 o' = (ok1, t1, p1)" by (cases "initializeDirectories ?s0 o'")
  obtain ok2 cm p2 where c: "cfm_initialize (configDir t1) (cfgm t1) p1 = (ok2, cm, p2)"
    by (cases "cfm_initialize (configDir t1) (cfgm t1) p1")
  from b d c obtain ok3 t3 p3 where l: "loadDataStore (t1\<lparr>cfgm := cm\<rparr>) p2 = Some (ok3, t3, p3)"
    and s1: "s1 = setStatus Stopped t3"
    by (auto simp: initialize_body_def Let_def split: if_splits option.splits)
  from initializeDirectories_frame [OF d] have "locked (t1\<lparr>cfgm := cm\<rparr>)" by simp
  from loadDataStore_frame [OF this l] initializeDirectories_frame [OF d]
  show ?thesis by (simp add: s' s1)
qed

section \<open>The service as a transition system\<close>

text \<open>The public operations of \<open>NekoService.hpp\<close> that a client (the web API, the CLI,
  the daemon) calls after \<open>initialize\<close>; the result value is dropped.\<close>

datatype api_call = LoadProfileCall int | StartProxyCall | StopProxyCall | RestartProxyCall
  | StartTunModeCall | StopTunModeCall | SaveConfigCall | LoadConfigCall path | ResetTrafficCall | ShutdownCall

fun api_step :: "api_call \<Rightarrow> svc \<Rightarrow> os \<Rightarrow> (svc \<times> os) option" where
  "api_step (LoadProfileCall p) s o' = map_option snd (loadProfile p s o')"
| "api_step StartProxyCall s o' = map_option snd (startProxy s o')"
| "api_step StopProxyCall s o' = map_option snd (stopProxy s o')"
| "api_step RestartProxyCall s o' = map_option snd (restartProxy s o')"
| "api_step StartTunModeCall s o' = map_option snd (startTunMode s o')"
| "api_step StopTunModeCall s o' = map_option snd (stopTunMode s o')"
| "api_step SaveConfigCall s o' = map_option snd (saveConfig s o')"
| "api_step (LoadConfigCall p) s o' = map_option snd (loadConfig p s o')"
| "api_step ResetTrafficCall s o' = map_option snd (resetTraffic s o')"
| "api_step ShutdownCall s o' = map_option snd (shutdown s o')"

inductive svc_step :: "svc \<times> os \<Rightarrow> svc \<times> os \<Rightarrow> bool" where
  call: "api_step c s o' = Some (s', o'') \<Longrightarrow> svc_step (s, o') (s', o'')"
| tick: "timerActive s \<Longrightarrow> svc_step (s, o') (updateTraffic r1 r2 s, o')"
| core_dies: "svc_step (s, o') (core_exit s, o')"
| tun_dies: "svc_step (s, o') (tun_exit s, o')"
| env: "svc_step (s, o') (s, o'')"

inductive reachable :: "svc \<times> os \<Rightarrow> bool" where
  init: "initialize dir (svc_new o') o' = Some (True, s, o'') \<Longrightarrow> reachable (s, o'')"
| step: "reachable c \<Longrightarrow> svc_step c c' \<Longrightarrow> reachable c'"

section \<open>Preservation of the invariant\<close>

lemma map_option_snd_SomeE:
  assumes "map_option snd x = Some y"
  obtains r where "x = Some (r, y)"
  using assms by (cases x) auto

lemma api_step_inv:
  assumes inv: "svc_inv s" and st: "api_step c s o' = Some (s', o'')"
  shows "svc_inv s'"
  using st
  by (cases c) (auto elim!: map_option_snd_SomeE intro: loadProfile_inv [OF inv] startProxy_inv [OF inv]
      stopProxy_inv [OF inv] restartProxy_inv [OF inv] startTunMode_inv [OF inv] stopTunMode_inv [OF inv]
      saveConfig_inv [OF inv] loadConfig_inv [OF inv] resetTraffic_inv [OF inv] shutdown_inv [OF inv])

lemma svc_step_inv: "svc_step (s, o') (s', o'') \<Longrightarrow> svc_inv s \<Longrightarrow> svc_inv s'"
  by (induction "(s, o')" "(s', o'')" rule: svc_step.induct)
     (auto intro: api_step_inv updateTraffic_inv core_exit_inv tun_exit_inv)

lemma svc_new_inv_init:
  assumes "initialize dir (svc_new o') o' = Some (True, s, o'')"
  shows "svc_inv s"
  using initialize_frame [OF assms]
  by (simp add: svc_inv_def svc_new_def cm_new_def tm_new_def core_ok_def tun_ok_def cm_wf_def cm_isRunning_def)

lemma reachable_inv: "reachable (s, o') \<Longrightarrow> svc_inv s"
proof (induction "(s, o')" arbitrary: s o' rule: reachable.induct)
  case (init dir o1 s o'')
  then show ?case by (rule svc_new_inv_init)
next
  case (step c s o')
  obtain s0 o0 where c: "c = (s0, o0)" by fastforce
  with step show ?case by (auto intro: svc_step_inv)
qed

section \<open>No call blocks on the mutex\<close>

lemma with_lock_unlocks: "with_lock f s o' = Some (r, s', o'') \<Longrightarrow> \<not> locked s'"
  by (auto simp: with_lock_def split: if_splits option.splits)

lemma with_lock_total: "\<not> locked s \<Longrightarrow> (\<And>s1. f s1 o' \<noteq> None) \<Longrightarrow> with_lock f s o' \<noteq> None"
  by (auto simp: with_lock_def split: option.splits)

lemma ex_triple: "\<exists>a b c. x = (a, b, c)"
  by (cases x) auto

lemma bodies_total:
  "loadProfile_body p s o' \<noteq> None" "startProxy_body s o' \<noteq> None" "stopProxy_body s o' \<noteq> None"
  "startTunMode_body s o' \<noteq> None" "stopTunMode_body s o' \<noteq> None" "saveConfig_body s o' \<noteq> None"
  "loadConfig_body q s o' \<noteq> None" "resetTraffic_body s o' \<noteq> None" "shutdown_body s o' \<noteq> None"
  by (simp_all add: loadProfile_body_def startProxy_body_def stopProxy_body_def startTunMode_body_def
      stopTunMode_body_def saveConfig_body_def loadConfig_body_def resetTraffic_body_def shutdown_body_def
      Let_def split_def ex_triple split: option.splits; auto)+

lemma api_step_total:
  assumes "\<not> locked s"
  shows "api_step c s o' \<noteq> None"
proof (cases c)
  case RestartProxyCall
  obtain r s1 o1 where stop: "stopProxy s o' = Some (r, s1, o1)"
    using with_lock_total [OF assms, of stopProxy_body o'] bodies_total(3) by (auto simp: stopProxy_def)
  then have "\<not> locked s1" unfolding stopProxy_def by (rule with_lock_unlocks)
  then have "startProxy s1 o1 \<noteq> None"
    unfolding startProxy_def by (rule with_lock_total) (rule bodies_total(2))
  with stop RestartProxyCall show ?thesis by (auto simp: restartProxy_def)
qed (use assms bodies_total in \<open>simp_all add: svc_ops with_lock_total\<close>)

section \<open>Client sessions\<close>

text \<open>Start-up as the front ends do it: construct the service, call \<open>initialize\<close>,
  give up unless it returns true; then a sequence of calls.\<close>

definition boot :: "path \<Rightarrow> os \<Rightarrow> (svc \<times> os) option" where
  "boot dir o' = (case initialize dir (svc_new o') o' of Some (True, s, o'') \<Rightarrow> Some (s, o'') | _ \<Rightarrow> None)"

fun run_calls :: "api_call list \<Rightarrow> svc \<Rightarrow> os \<Rightarrow> (svc \<times> os) option" where
  "run_calls [] s o' = Some (s, o')"
| "run_calls (c # cs) s o' = (case api_step c s o' of None \<Rightarrow> None | Some (s1, o1) \<Rightarrow> run_calls cs s1 o1)"

definition session :: "path \<Rightarrow> os \<Rightarrow> api_call list \<Rightarrow> (svc \<times> os) option" where
  "session dir o' cs = (case boot dir o' of None \<Rightarrow> None | Some (s, o1) \<Rightarrow> run_calls cs s o1)"

lemma run_calls_reachable: "run_calls cs s o' = Some c \<Longrightarrow> reachable (s, o') \<Longrightarrow> reachable c"
proof (induction cs arbitrary: s o')
  case Nil
  then show ?case by simp
next
  case (Cons c' cs)
  then obtain s1 o1 where st: "api_step c' s o' = Some (s1, o1)" and rest: "run_calls cs s1 o1 = Some c"
    by (auto split: option.splits)
  from Cons.prems(2) st have "reachable (s1, o1)" by (blast intro: reachable.step svc_step.call)
  with rest show ?case by (rule Cons.IH)
qed

lemma session_reachable:
  assumes "session dir o' cs = Some c"
  shows "reachable c"
proof -
  obtain s o1 where b: "boot dir o' = Some (s, o1)" and r: "run_calls cs s o1 = Some c"
    using assms by (auto simp: session_def split: option.splits)
  from b have "initialize dir (svc_new o') o' = Some (True, s, o1)"
    by (auto simp: boot_def split: option.splits bool.splits)
  then have "reachable (s, o1)" by (rule reachable.init)
  with r show ?thesis by (rule run_calls_reachable)
qed

text \<open>The demonstration session: select profile 1, start the proxy.\<close>

lemma demo_session_running:
  "case session [] demo_os [LoadProfileCall 1, StartProxyCall] of
     Some (s, o') \<Rightarrow> status s = Running \<and> proc_active (cm_process (core s)) | None \<Rightarrow> False"
  by code_simp

lemma demo_session_profile:
  "case session [] demo_os [LoadProfileCall 1, StartProxyCall] of
     Some (s, o') \<Rightarrow> currentProfileId s = 1 | None \<Rightarrow> False"
  by code_simp

lemma demo_session:
  obtains s o' where "session [] demo_os [LoadProfileCall 1, StartProxyCall] = Some (s, o')"
    and "reachable (s, o')" and "status s = Running" and "proc_active (cm_process (core s))"
proof -
  obtain s o' where e: "session [] demo_os [LoadProfileCall 1, StartProxyCall] = Some (s, o')"
    and "status s = Running" and "proc_active (cm_process (core s))"
    using demo_session_running by (auto split: option.splits)
  moreover have "reachable (s, o')" using e by (rule session_reachable)
  ultimately show ?thesis using that by blast
qed

section \<open>Properties of the service\<close>

text \<open>C1. In every reachable configuration a live core child exists only while the
  service reports Running: no call, timer tick, crash or environment change leaves an
  orphaned core process behind a status of Stopped or Error.\<close>

theorem reachable_no_orphan_core:
  assumes "reachable (s, o')" and "proc_active (cm_process (core s))"
  shows "status s = Running"
  using reachable_inv [OF assms(1)] assms(2) by (auto simp: svc_inv_def)

theorem reachable_no_orphan_core_witness:
  "case session [] demo_os [LoadProfileCall 1, StartProxyCall] of
     Some (s, o') \<Rightarrow> reachable (s, o') \<and> proc_active (cm_process (core s)) \<and> status s = Running
   | None \<Rightarrow> False"
proof -
  obtain s o' where e: "session [] demo_os [LoadProfileCall 1, StartProxyCall] = Some (s, o')"
    and r: "reachable (s, o')" and p: "proc_active (cm_process (core s))"
    by (rule demo_session)
  show ?thesis using e r p reachable_no_orphan_core [OF r p] by simp
qed

text \<open>C2. In every reachable configuration a Running service has a running core (or a
  simulated one with a selected profile) and an active traffic timer.\<close>

theorem reachable_running_alive:
  assumes "reachable (s, o')" and "status s = Running"
  shows "timerActive s \<and> cm_isRunning (core s)"
  using reachable_inv [OF assms(1)] assms(2) by (simp add: svc_inv_def)

theorem reachable_running_alive_witness:
  "case session [] demo_os [LoadProfileCall 1, StartProxyCall] of
     Some (s, o') \<Rightarrow> reachable (s, o') \<and> status s = Running \<and> timerActive s \<and> cm_isRunning (core s)
   | None \<Rightarrow> False"
proof -
  obtain s o' where e: "session [] demo_os [LoadProfileCall 1, StartProxyCall] = Some (s, o')"
    and r: "reachable (s, o')" and st: "status s = Running"
    by (rule demo_session)
  show ?thesis using e r st reachable_running_alive [OF r st] by simp
qed

text \<open>C3. In every reachable configuration every public operation returns: none of
  them blocks on the service mutex (restartProxy, which calls stopProxy and startProxy
  in turn, included).\<close>

theorem reachable_calls_return:
  assumes "reachable (s, o')"
  shows "api_step c s o' \<noteq> None"
proof -
  have "\<not> locked s" using reachable_inv [OF assms] by (simp add: svc_inv_def)
  then show ?thesis by (rule api_step_total)
qed

theorem reachable_calls_return_witness:
  "case session [] demo_os [LoadProfileCall 1, StartProxyCall] of
     Some (s, o') \<Rightarrow> reachable (s, o') \<and> api_step RestartProxyCall s o' \<noteq> None
   | None \<Rightarrow> False"
proof -
  obtain s o' where e: "session [] demo_os [LoadProfileCall 1, StartProxyCall] = Some (s, o')"
    and r: "reachable (s, o')"
    by (rule demo_session)
  show ?thesis using e r reachable_calls_return [OF r, of RestartProxyCall] by simp
qed

text \<open>C4. Between calls the service is never seen Starting or Stopping, its mutex is
  free, the selected profile is -1 or a valid id 1..100, and the traffic timer is
  stopped whenever the status is Stopped.\<close>

theorem reachable_status_stable:
  assumes "reachable (s, o')"
  shows "\<not> locked s \<and> status s \<notin> {Starting, Stopping}
    \<and> (currentProfileId s = -1 \<or> 1 \<le> currentProfileId s \<and> currentProfileId s \<le> 100)
    \<and> (status s = Stopped \<longrightarrow> \<not> timerActive s)"
  using reachable_inv [OF assms] by (auto simp: svc_inv_def)

theorem reachable_status_stable_witness:
  "case session [] demo_os [LoadProfileCall 1, StartProxyCall] of
     Some (s, o') \<Rightarrow> reachable (s, o') \<and> \<not> locked s \<and> currentProfileId s = 1
   | None \<Rightarrow> False"
proof -
  obtain s o' where e: "session [] demo_os [LoadProfileCall 1, StartProxyCall] = Some (s, o')"
    and r: "reachable (s, o')"
    by (rule demo_session)
  have "currentProfileId s = 1" using e demo_session_profile by simp
  then show ?thesis using e r reachable_status_stable [OF r] by simp
qed

end
