(* ===== verification/Neko_Codec.thy ===== *)
theory Neko_Codec
  imports Neko_Prelude
begin

text \<open>
  The Qt text codecs the protocol beans call, as executable functions on byte
  strings: \<open>QByteArray::toBase64\<close> and the decoding loop of
  \<open>QByteArray::fromBase64\<close> (default options: characters outside the alphabet, the
  padding included, are skipped), \<open>QUrl::toPercentEncoding\<close> with its unreserved set
  and the decoding loop of \<open>QUrl::fromPercentEncoding\<close>, and \<open>QString::toInt\<close> (optional
  sign, surrounding whitespace, 0 on failure or overflow of a 32-bit \<open>int\<close>).
  They are library code, not code of the repository; each comes with its round trip.
\<close>

unbundle bit_operations_syntax

section \<open>Base64\<close>

definition b64_alphabet :: string where
  "b64_alphabet = ''ABCDEFGHIJKLMNOPQRSTUVWXYZabcdefghijklmnopqrstuvwxyz0123456789+/''"

definition b64_char :: "nat \<Rightarrow> char" where
  "b64_char n = b64_alphabet ! n"

text \<open>The value of an input character in the decoding loop, \<open>None\<close> for \<open>d = -1\<close>.\<close>

definition b64_digit :: "char \<Rightarrow> nat option" where
  "b64_digit c =
     (let n = of_char c :: nat in
      if 65 \<le> n \<and> n \<le> 90 then Some (n - 65)
      else if 97 \<le> n \<and> n \<le> 122 then Some (n - 97 + 26)
      else if 48 \<le> n \<and> n \<le> 57 then Some (n - 48 + 52)
      else if n = 43 then Some 62
      else if n = 47 then Some 63
      else None)"

text \<open>Three bytes become four characters; a final group of one or two bytes is
  padded with \<open>=\<close>.\<close>

definition b64_quad :: "nat \<Rightarrow> nat \<Rightarrow> nat \<Rightarrow> string" where
  "b64_quad x y z = [b64_char (x div 4), b64_char (x mod 4 * 16 + y div 16),
                     b64_char (y mod 16 * 4 + z div 64), b64_char (z mod 64)]"

fun b64_encode :: "string \<Rightarrow> string" where
  "b64_encode (a # b # c # rest) = b64_quad (of_char a) (of_char b) (of_char c) @ b64_encode rest"
| "b64_encode [a, b] =
     (let x = of_char a; y = of_char b
      in [b64_char (x div 4), b64_char (x mod 4 * 16 + y div 16), b64_char (y mod 16 * 4), CHR ''=''])"
| "b64_encode [a] = (let x = of_char a in [b64_char (x div 4), b64_char (x mod 4 * 16), CHR ''='', CHR ''=''])"
| "b64_encode [] = []"

text \<open>The decoding loop: \<open>buf\<close> holds the pending bits, \<open>nbits\<close> how many; a byte is
  emitted as soon as eight bits are pending.\<close>

fun b64_dec :: "string \<Rightarrow> nat \<Rightarrow> nat \<Rightarrow> string \<Rightarrow> string" where
  "b64_dec [] buf nbits out = out"
| "b64_dec (c # cs) buf nbits out =
     (case b64_digit c of
        None \<Rightarrow> b64_dec cs buf nbits out
      | Some d \<Rightarrow>
          (let buf' = buf * 64 + d; nb = nbits + 6
           in if 8 \<le> nb
              then b64_dec cs (buf' mod 2 ^ (nb - 8)) (nb - 8) (out @ [char_of (buf' div 2 ^ (nb - 8))])
              else b64_dec cs buf' nb out))"

definition b64_decode :: "string \<Rightarrow> string" where
  "b64_decode s = b64_dec s 0 0 []"

lemma b64_digit_alphabet: "map b64_digit b64_alphabet = map Some [0..<64]"
  by code_simp

lemma b64_alphabet_length [simp]: "length b64_alphabet = 64"
  by (simp add: b64_alphabet_def)

lemma b64_digit_char [simp]:
  assumes "n < 64"
  shows "b64_digit (b64_char n) = Some n"
proof -
  have "map b64_digit b64_alphabet ! n = Some n"
    using assms by (simp add: b64_digit_alphabet)
  then show ?thesis
    using assms by (simp add: b64_char_def)
qed

lemma b64_digit_pad [simp]: "b64_digit (CHR ''='') = None"
  by (simp add: b64_digit_def)

text \<open>Re-assembling a byte from the digits that carry it.\<close>

lemma b64_pack:
  assumes "(c :: nat) < m"
  shows "(x div n * (n * m) + (x mod n * m + c)) div m = x" and "(x div n * (n * m) + (x mod n * m + c)) mod m = c"
proof -
  have "x div n * (n * m) + x mod n * m = (x div n * n + x mod n) * m"
    by (simp only: distrib_right mult.assoc)
  then have e: "x div n * (n * m) + (x mod n * m + c) = x * m + c" by simp
  show "(x div n * (n * m) + (x mod n * m + c)) div m = x" using assms by (simp add: e)
  show "(x div n * (n * m) + (x mod n * m + c)) mod m = c" using assms by (simp add: e)
qed

lemma b64_pack_instances:
  "(y :: nat) < 256 \<Longrightarrow> (x div 4 * 64 + (x mod 4 * 16 + y div 16)) div 16 = x"
  "(y :: nat) < 256 \<Longrightarrow> (x div 4 * 64 + (x mod 4 * 16 + y div 16)) mod 16 = y div 16"
  "(z :: nat) < 256 \<Longrightarrow> (y div 16 * 64 + (y mod 16 * 4 + z div 64)) div 4 = y"
  "(z :: nat) < 256 \<Longrightarrow> (y div 16 * 64 + (y mod 16 * 4 + z div 64)) mod 4 = z div 64"
  "(x div 4 * 64 + x mod 4 * 16) div 16 = (x :: nat)"
  "(y div 16 * 64 + y mod 16 * 4) div 4 = (y :: nat)"
  using b64_pack [of "y div 16" 16 x 4] b64_pack [of "z div 64" 4 y 16]
    b64_pack [of 0 16 x 4] b64_pack [of 0 4 y 16]
  by simp_all

lemma b64_digit_bounds:
  assumes "(x :: nat) < 256" and "y < 256" and "z < 256"
  shows "x div 4 < 64" and "x mod 4 * 16 + y div 16 < 64" and "y mod 16 * 4 + z div 64 < 64"
    and "x mod 4 * 16 < 64" and "y mod 16 * 4 < 64" and "z mod 64 < 64"
  using assms by auto

lemma b64_quad_dec:
  assumes "x < 256" and "y < 256" and "z < 256"
  shows "b64_dec (b64_quad x y z @ rest) 0 0 out = b64_dec rest 0 0 (out @ [char_of x, char_of y, char_of z])"
proof -
  have d: "x div 4 < 64" "x mod 4 * 16 + y div 16 < 64" "y mod 16 * 4 + z div 64 < 64" "z mod 64 < 64"
    using b64_digit_bounds [OF assms] by simp_all
  show ?thesis
    using d assms by (simp add: b64_quad_def Let_def b64_pack_instances)
qed

lemma b64_dec_encode: "b64_dec (b64_encode s) 0 0 out = out @ s"
proof (induction s arbitrary: out rule: b64_encode.induct)
  case (1 a b c rest)
  then show ?case by (simp add: b64_quad_dec)
next
  case (2 a b)
  have d: "of_char a div 4 < (64 :: nat)" "of_char a mod 4 * 16 + of_char b div 16 < (64 :: nat)"
    "of_char b mod 16 * 4 < (64 :: nat)"
    using b64_digit_bounds [of "of_char a" "of_char b" 0] by simp_all
  then show ?case by (simp add: Let_def b64_pack_instances)
next
  case (3 a)
  have d: "of_char a div 4 < (64 :: nat)" "of_char a mod 4 * 16 < (64 :: nat)"
    using b64_digit_bounds [of "of_char a" 0 0] by simp_all
  then show ?case by (simp add: Let_def b64_pack_instances)
next
  case 4
  then show ?case by simp
qed

theorem b64_roundtrip: "b64_decode (b64_encode s) = s"
  by (simp add: b64_decode_def b64_dec_encode)


section \<open>Percent encoding\<close>

text \<open>\<open>QUrl::toPercentEncoding\<close> keeps the unreserved characters of RFC 3986 and writes
  every other byte as \<open>%XX\<close> with upper-case hex digits.\<close>

definition pct_unreserved :: "char \<Rightarrow> bool" where
  "pct_unreserved c \<longleftrightarrow>
     (let n = of_char c :: nat in
      (65 \<le> n \<and> n \<le> 90) \<or> (97 \<le> n \<and> n \<le> 122) \<or> (48 \<le> n \<and> n \<le> 57) \<or>
      c \<in> {CHR ''-'', CHR ''.'', CHR ''_'', CHR ''~''})"

definition hex_digits :: string where
  "hex_digits = ''0123456789ABCDEF''"

fun pct_encode :: "string \<Rightarrow> string" where
  "pct_encode [] = []"
| "pct_encode (c # cs) =
     (if pct_unreserved c then [c]
      else [CHR ''%'', hex_digits ! (of_char c div 16), hex_digits ! (of_char c mod 16)]) @ pct_encode cs"

text \<open>The value the decoding loop of \<open>QByteArray::fromPercentEncoding\<close> gives a character
  after \<open>%\<close>: a hex digit its value, any other character its own code.\<close>

definition hex_val :: "char \<Rightarrow> nat" where
  "hex_val c =
     (let a = of_char c :: nat in
      if 48 \<le> a \<and> a \<le> 57 then a - 48
      else if 97 \<le> a \<and> a \<le> 102 then a - 97 + 10
      else if 65 \<le> a \<and> a \<le> 70 then a - 65 + 10
      else a)"

text \<open>A \<open>%\<close> followed by at least two characters (\<open>i + 2 < len\<close>) becomes the byte
  \<open>(a << 4) | b\<close>; everything else is copied.\<close>

fun pct_decode :: "string \<Rightarrow> string" where
  "pct_decode (c # a # b # rest) =
     (if c = CHR ''%'' then char_of (push_bit 4 (hex_val a) OR hex_val b) # pct_decode rest
      else c # pct_decode (a # b # rest))"
| "pct_decode cs = cs"

lemma hex_val_digits: "map hex_val hex_digits = [0..<16]"
  by code_simp

lemma hex_digits_length [simp]: "length hex_digits = 16"
  by (simp add: hex_digits_def)

lemma hex_val_digit [simp]:
  assumes "n < 16"
  shows "hex_val (hex_digits ! n) = n"
proof -
  have "map hex_val hex_digits ! n = n"
    using assms by (simp add: hex_val_digits)
  then show ?thesis
    using assms by simp
qed

lemma hex_digits_no_hash:
  assumes "n < 16"
  shows "hex_digits ! n \<noteq> CHR ''#''" and "CHR ''#'' \<noteq> hex_digits ! n"
proof -
  have "hex_val CHR ''#'' = 35" by (simp add: hex_val_def)
  moreover have "hex_digits ! n = CHR ''#'' \<Longrightarrow> hex_val CHR ''#'' = n"
    using hex_val_digit [OF assms] by (simp only:)
  ultimately show "hex_digits ! n \<noteq> CHR ''#''" and "CHR ''#'' \<noteq> hex_digits ! n"
    using assms by auto
qed

lemma byte_hex_bounds: "of_char c div 16 < (16 :: nat)" "of_char c mod 16 < (16 :: nat)"
  using nat_of_char_less_256 [of c] by (simp_all add: div_less_iff_less_mult)

lemma push_bit_or_small:
  assumes "(y :: nat) < 2 ^ k"
  shows "push_bit k x OR y = x * 2 ^ k + y"
proof -
  have "push_bit k x AND y = 0"
  proof (rule bit_eqI)
    fix n
    have "bit y n \<Longrightarrow> n < k"
      using assms by (metis bit_take_bit_iff take_bit_nat_eq_self_iff)
    then show "bit (push_bit k x AND y) n = bit 0 n"
      by (auto simp: bit_and_iff bit_push_bit_iff)
  qed
  then have "push_bit k x + y = push_bit k x OR y"
    by (rule disjunctive_add_eq_or)
  then show ?thesis
    by (simp add: push_bit_eq_mult)
qed

lemma pct_decode_Cons [simp]: "c \<noteq> CHR ''%'' \<Longrightarrow> pct_decode (c # s) = c # pct_decode s"
  by (cases s rule: remdups_adj.cases) auto

lemma pct_unreserved_not_pct [simp]: "pct_unreserved c \<Longrightarrow> c \<noteq> CHR ''%''"
  by (auto simp: pct_unreserved_def)

lemma pct_roundtrip: "pct_decode (pct_encode s) = s"
proof (induction s)
  case (Cons c cs)
  have "push_bit 4 (of_char c div 16) OR of_char c mod 16 = (of_char c :: nat)"
    by (simp add: push_bit_or_small)
  with Cons show ?case by (simp add: byte_hex_bounds)
qed simp

lemma pct_encode_no_hash: "CHR ''#'' \<notin> set (pct_encode s)"
  by (induction s) (auto simp: pct_unreserved_def hex_digits_no_hash byte_hex_bounds)

section \<open>\<open>QString::toInt\<close>\<close>

text \<open>Base 10: surrounding white space is skipped, an optional sign, digits; a string
  that is not a number, or a number outside the 32-bit \<open>int\<close> range, gives 0.\<close>

definition qstr_toInt :: "string \<Rightarrow> int" where
  "qstr_toInt s =
     (let t = trimmed s;
          v = (if t \<noteq> [] \<and> hd t = CHR ''-'' then map_option (\<lambda>n. - int n) (parse_nat (tl t))
               else if t \<noteq> [] \<and> hd t = CHR ''+'' then map_option int (parse_nat (tl t))
               else map_option int (parse_nat t))
      in case v of
           Some i \<Rightarrow> if - (2 ^ 31) \<le> i \<and> i < 2 ^ 31 then i else 0
         | None \<Rightarrow> 0)"

lemma digit_char_not:
  assumes "d < 10"
  shows "\<not> is_space (digit_char d)" and "digit_char d \<noteq> CHR ''-''" and "digit_char d \<noteq> CHR ''+''"
proof -
  have o: "of_char (digit_char d) = (48 + d :: nat)"
    using assms by (simp add: digit_char_def)
  show "\<not> is_space (digit_char d)" using o by (simp add: is_space_def)
  show "digit_char d \<noteq> CHR ''-''" using o by auto
  show "digit_char d \<noteq> CHR ''+''" using o by auto
qed

lemma nat_str_digits: "c \<in> set (nat_str n) \<Longrightarrow> \<exists>d < 10. c = digit_char d"
proof (induction n rule: nat_str.induct)
  case (1 n)
  have "c \<in> set (nat_str (n div 10)) \<and> \<not> n < 10 \<or> c = digit_char (n mod 10)"
    using "1.prems" by (subst (asm) nat_str.simps) (auto split: if_splits)
  then show ?case
  proof
    assume "c = digit_char (n mod 10)"
    then show ?case by (intro exI [of _ "n mod 10"]) simp
  qed (use "1.IH" in blast)
qed

lemma nat_str_char_not:
  assumes "c \<in> set (nat_str n)"
  shows "\<not> is_space c" and "c \<noteq> CHR ''-''" and "c \<noteq> CHR ''+''"
  using nat_str_digits [OF assms] digit_char_not by auto

lemma nat_str_hd_last: "hd (nat_str n) \<in> set (nat_str n)" "last (nat_str n) \<in> set (nat_str n)"
  by simp_all

lemma int_str_trimmed [simp]: "trimmed (int_str i) = int_str i"
proof (rule trimmed_no_space)
  have "\<not> is_space CHR ''-''" by (simp add: is_space_def)
  then show "int_str i = [] \<or> \<not> is_space (hd (int_str i)) \<and> \<not> is_space (last (int_str i))"
    using nat_str_char_not(1) [OF nat_str_hd_last(1)] nat_str_char_not(1) [OF nat_str_hd_last(2)]
    by (simp add: int_str_def)
qed

lemma qstr_toInt_int_str:
  assumes "- (2 ^ 31) \<le> i" and "i < 2 ^ 31"
  shows "qstr_toInt (int_str i) = i"
proof (cases "i < 0")
  case True
  then show ?thesis
    unfolding qstr_toInt_def int_str_trimmed using assms by (simp add: int_str_def)
next
  case False
  then show ?thesis
    unfolding qstr_toInt_def int_str_trimmed using assms nat_str_char_not(2,3) [OF nat_str_hd_last(1)]
    by (simp add: int_str_def)
qed

section \<open>\<open>QString::arg\<close>\<close>

text \<open>A place marker is \<open>%\<close>, an optional \<open>L\<close>, and one or two decimal digits. The
  template is cut into literal characters and markers; the text of a marker is kept so
  that a marker left unreplaced prints as it was.\<close>

datatype arg_tok = ALit char | AEsc nat string

definition arg_esc :: "string \<Rightarrow> (nat \<times> string \<times> string) option" where
  "arg_esc cs =
     (let l = (if cs \<noteq> [] \<and> hd cs = CHR ''L'' then [hd cs] else []);
          ds = drop (length l) cs
      in case ds of
           [] \<Rightarrow> None
         | d1 # r \<Rightarrow>
             (case digit_val d1 of
                None \<Rightarrow> None
              | Some a \<Rightarrow>
                  (case r of
                     [] \<Rightarrow> Some (a, l @ [d1], [])
                   | d2 # r' \<Rightarrow>
                       (case digit_val d2 of
                          None \<Rightarrow> Some (a, l @ [d1], r)
                        | Some b \<Rightarrow> Some (10 * a + b, l @ [d1, d2], r')))))"

lemma arg_esc_split: "arg_esc cs = Some (n, t, r) \<Longrightarrow> cs = t @ r \<and> t \<noteq> []"
  by (auto simp: arg_esc_def Let_def split: list.splits option.splits if_splits) (cases cs; simp)+

function arg_tokens :: "string \<Rightarrow> arg_tok list" where
  "arg_tokens [] = []"
| "arg_tokens (c # cs) =
     (if c \<noteq> CHR ''%'' then ALit c # arg_tokens cs
      else case arg_esc cs of
             None \<Rightarrow> ALit c # arg_tokens cs
           | Some (n, t, r) \<Rightarrow> AEsc n (c # t) # arg_tokens r)"
  by pat_completeness auto
termination
  by (relation "measure length") (auto dest!: arg_esc_split)

fun tok_text :: "arg_tok \<Rightarrow> string" where
  "tok_text (ALit c) = [c]"
| "tok_text (AEsc n t) = t"

fun esc_nums :: "arg_tok list \<Rightarrow> nat list" where
  "esc_nums [] = []"
| "esc_nums (ALit c # ts) = esc_nums ts"
| "esc_nums (AEsc n t # ts) = n # esc_nums ts"

text \<open>\<open>QString::arg(a)\<close>: every marker with the lowest number is replaced by \<open>a\<close>; a
  template with no marker is returned unchanged (Qt prints a warning).\<close>

definition qarg :: "string \<Rightarrow> string \<Rightarrow> string" where
  "qarg s a =
     (let ts = arg_tokens s; ns = esc_nums ts
      in if ns = [] then s
         else concat (map (\<lambda>t. case t of ALit c \<Rightarrow> [c]
                                    | AEsc n txt \<Rightarrow> if n = min_list ns then a else txt) ts))"

text \<open>\<open>QString::arg(a1, a2, ...)\<close>: one pass; the lowest-numbered marker gets \<open>a1\<close>, the
  next lowest \<open>a2\<close>, and so on; markers beyond the arguments stay as they are.\<close>

definition qargs :: "string \<Rightarrow> string list \<Rightarrow> string" where
  "qargs s as =
     (let ts = arg_tokens s; ns = remdups (esc_nums ts)
      in concat (map (\<lambda>t. case t of ALit c \<Rightarrow> [c]
                             | AEsc n txt \<Rightarrow>
                                 (let k = length (filter (\<lambda>m. m < n) ns)
                                  in if k < length as then as ! k else txt)) ts))"

lemma arg_tokens_text: "concat (map tok_text (arg_tokens s)) = s"
  by (induction s rule: arg_tokens.induct) (auto split: option.splits dest: arg_esc_split)

lemma arg_tokens_plain [simp]:
  "CHR ''%'' \<notin> set s \<Longrightarrow> arg_tokens (s @ t) = map ALit s @ arg_tokens t"
  by (induction s) auto

lemma esc_nums_append [simp]: "esc_nums (xs @ ys) = esc_nums xs @ esc_nums ys"
  by (induction xs rule: esc_nums.induct) auto

lemma esc_nums_lits [simp]: "esc_nums (map ALit s) = []"
  by (induction s) auto

lemma qarg_Cons [simp]: "c \<noteq> CHR ''%'' \<Longrightarrow> qarg (c # t) a = c # qarg t a"
  by (simp add: qarg_def Let_def)

lemma qarg_append_plain [simp]: "CHR ''%'' \<notin> set s \<Longrightarrow> qarg (s @ t) a = s @ qarg t a"
proof (induction s)
  case (Cons x s)
  then have "x \<noteq> CHR ''%''" by auto
  with Cons show ?case by simp
qed simp

lemma b64_char_mem: "n < 64 \<Longrightarrow> b64_char n \<in> set b64_alphabet"
  by (simp add: b64_char_def)

lemma b64_encode_chars: "set (b64_encode s) \<subseteq> set b64_alphabet \<union> {CHR ''=''}"
  by (induction s rule: b64_encode.induct)
    (auto simp: b64_quad_def Let_def b64_char_mem b64_digit_bounds [OF nat_of_char_less_256 nat_of_char_less_256 nat_of_char_less_256])

lemma b64_encode_no [simp]:
  "CHR ''%'' \<notin> set (b64_encode s)" "CHR ''#'' \<notin> set (b64_encode s)" "CHR ''@'' \<notin> set (b64_encode s)"
  using b64_encode_chars [of s] by (auto simp: b64_alphabet_def)

lemma nat_str_no [simp]:
  "CHR ''%'' \<notin> set (nat_str n)" "CHR ''#'' \<notin> set (nat_str n)" "CHR '':'' \<notin> set (nat_str n)"
proof -
  have "\<forall>c \<in> set (nat_str n). 48 \<le> (of_char c :: nat) \<and> (of_char c :: nat) < 58"
    using nat_str_digits [of _ n] by (fastforce simp: digit_char_def)
  then show "CHR ''%'' \<notin> set (nat_str n)" "CHR ''#'' \<notin> set (nat_str n)" "CHR '':'' \<notin> set (nat_str n)"
    by auto
qed

lemma int_str_no [simp]:
  "CHR ''%'' \<notin> set (int_str i)" "CHR ''#'' \<notin> set (int_str i)" "CHR '':'' \<notin> set (int_str i)"
  by (simp_all add: int_str_def)

end
