(* ===== verification/Neko_Beans.thy ===== *)
theory Neko_Beans
  imports Neko_Json Neko_Codec
begin

text \<open>
  The protocol beans of \<open>src/nekoray/fmt\<close>: \<open>AbstractBean\<close> and its eight subclasses
  (\<open>SocksHttpBean\<close>, \<open>ShadowSocksBean\<close>, \<open>VMessBean\<close>, and \<open>TrojanVLESSBean\<close>,
  \<open>NaiveBean\<close>, \<open>QUICBean\<close>, \<open>CustomBean\<close>, \<open>ChainBean\<close> of \<open>includes_headless.h\<close>).
  The fields of \<open>AbstractBean\<close> are the record \<open>bean\<close>; the fields a subclass adds are a
  record of their own, and \<open>proto\<close> says which subclass an object is, so that a virtual
  call is a case on \<open>proto\<close>. A C++ \<open>int\<close> field is a HOL \<open>int\<close>; \<open>bean_wf\<close> says every
  one of them fits in 32 bits, the range in which \<open>FromJson\<close> reads a number back
  unchanged (\<open>QJsonValue::toInt\<close> gives the default outside it).
\<close>

section \<open>Integers of the C++ \<open>int\<close> type\<close>

text \<open>\<open>QJsonValue::toInt(d)\<close> and \<open>toBool(d)\<close> with an explicit default.\<close>

definition json_int_or :: "int \<Rightarrow> json \<Rightarrow> int" where
  "json_int_or d v = (case v of JNum n \<Rightarrow> if int32 n then n else d | _ \<Rightarrow> d)"

definition json_bool_or :: "bool \<Rightarrow> json \<Rightarrow> bool" where
  "json_bool_or d v = (case v of JBool b \<Rightarrow> b | _ \<Rightarrow> d)"

text \<open>\<open>obj[k]\<close> on a \<open>const QJsonObject\<close>: the value, or \<open>Undefined\<close> (read as null).\<close>

definition jfield :: "jobject \<Rightarrow> string \<Rightarrow> json" where
  "jfield obj k = jvalue_or obj k JNull"

text \<open>A run of assignments \<open>obj[k1] = v1; obj[k2] = v2; ...\<close> on an existing object.\<close>

definition jsets :: "(string \<times> json) list \<Rightarrow> jobject \<Rightarrow> jobject" where
  "jsets kvs obj = fold (\<lambda>(k, v) ob. jset k v ob) kvs obj"

section \<open>The beans\<close>

record bean =
  b_version :: int
  b_name :: string
  b_serverAddress :: string
  b_serverPort :: int
  b_custom_config :: string
  b_custom_outbound :: string
  b_software_core_name :: string

definition AbstractBean :: "int \<Rightarrow> bean" where
  "AbstractBean v =
     \<lparr>b_version = v, b_name = [], b_serverAddress = ''127.0.0.1'', b_serverPort = 1080,
      b_custom_config = [], b_custom_outbound = [], b_software_core_name = ''sing-box''\<rparr>"

definition type_HTTP :: int where [simp]: "type_HTTP = 0"
definition type_Socks5 :: int where [simp]: "type_Socks5 = 1"

record socks_data =
  sk_socks_http_type :: int
  sk_username :: string
  sk_password :: string

record ss_data =
  ss_method :: string
  ss_password :: string
  ss_plugin :: string
  ss_plugin_opts :: string

record vmess_data =
  vm_uuid :: string
  vm_security :: string
  vm_aid :: int
  vm_network :: string
  vm_path :: string
  vm_host :: string
  vm_tls :: string

definition proxy_Trojan :: int where [simp]: "proxy_Trojan = 0"
definition proxy_VLESS :: int where [simp]: "proxy_VLESS = 1"

record tv_data =
  tv_proxy_type_value :: int
  tv_password :: string
  tv_uuid :: string
  tv_flow :: string
  tv_network :: string
  tv_path :: string
  tv_host :: string
  tv_tls :: string

record naive_data =
  nv_username :: string
  nv_password :: string

definition proxy_Hysteria2 :: int where [simp]: "proxy_Hysteria2 = 0"
definition proxy_TUIC :: int where [simp]: "proxy_TUIC = 1"

record quic_data =
  qc_proxy_type_value :: int
  qc_password :: string
  qc_uuid :: string

record custom_data =
  cu_core_type :: string
  cu_config_simple :: string

datatype proto =
    PSocks socks_data
  | PShadowSocks ss_data
  | PVMess vmess_data
  | PTrojanVLESS tv_data
  | PNaive naive_data
  | PQUIC quic_data
  | PCustom custom_data
  | PChain "string list"
  | PBase

text \<open>A bean object: the \<open>AbstractBean\<close> part and the subclass part; \<open>PBase\<close> is an
  object of \<open>AbstractBean\<close> itself.\<close>

type_synonym proxy_bean = "bean \<times> proto"

subsection \<open>Constructors\<close>

text \<open>Each constructor gives the \<open>AbstractBean\<close> part and the fields of its class.\<close>

definition SocksHttpBean :: "int \<Rightarrow> bean \<times> socks_data" where
  "SocksHttpBean t =
     ((AbstractBean 0)\<lparr>b_software_core_name := ''sing-box''\<rparr>,
      \<lparr>sk_socks_http_type = t, sk_username = [], sk_password = []\<rparr>)"

definition ShadowSocksBean :: "bean \<times> ss_data" where
  "ShadowSocksBean =
     ((AbstractBean 0)\<lparr>b_software_core_name := ''sing-box'', b_serverPort := 8388\<rparr>,
      \<lparr>ss_method = ''chacha20-ietf-poly1305'', ss_password = [], ss_plugin = [], ss_plugin_opts = []\<rparr>)"

definition VMessBean :: "bean \<times> vmess_data" where
  "VMessBean =
     ((AbstractBean 0)\<lparr>b_software_core_name := ''sing-box'', b_serverPort := 443\<rparr>,
      \<lparr>vm_uuid = [], vm_security = ''auto'', vm_aid = 0, vm_network = ''tcp'', vm_path = ''/'',
       vm_host = [], vm_tls = []\<rparr>)"

definition TrojanVLESSBean :: "int \<Rightarrow> bean \<times> tv_data" where
  "TrojanVLESSBean t =
     ((AbstractBean 0)\<lparr>b_software_core_name := ''sing-box''\<rparr>,
      \<lparr>tv_proxy_type_value = t, tv_password = [], tv_uuid = [], tv_flow = [],
       tv_network = ''tcp'', tv_path = ''/'', tv_host = [], tv_tls = []\<rparr>)"

definition NaiveBean :: "bean \<times> naive_data" where
  "NaiveBean =
     ((AbstractBean 0)\<lparr>b_software_core_name := ''naive''\<rparr>,
      \<lparr>nv_username = [], nv_password = []\<rparr>)"

definition QUICBean :: "int \<Rightarrow> bean \<times> quic_data" where
  "QUICBean t =
     ((AbstractBean 0)\<lparr>b_software_core_name := ''sing-box''\<rparr>,
      \<lparr>qc_proxy_type_value = t, qc_password = [], qc_uuid = []\<rparr>)"

definition CustomBean :: "bean \<times> custom_data" where
  "CustomBean =
     ((AbstractBean 0)\<lparr>b_software_core_name := ''sing-box''\<rparr>,
      \<lparr>cu_core_type = ''sing-box'', cu_config_simple = []\<rparr>)"

definition ChainBean :: "bean \<times> string list" where
  "ChainBean = ((AbstractBean 0)\<lparr>b_software_core_name := ''sing-box''\<rparr>, [])"

subsection \<open>Display and validity\<close>

fun DisplayType :: "proto \<Rightarrow> string" where
  "DisplayType (PSocks d) = (if sk_socks_http_type d = type_HTTP then ''HTTP'' else ''SOCKS5'')"
| "DisplayType (PShadowSocks d) = ''Shadowsocks''"
| "DisplayType (PVMess d) = ''VMess''"
| "DisplayType (PTrojanVLESS d) = (if tv_proxy_type_value d = proxy_Trojan then ''Trojan'' else ''VLESS'')"
| "DisplayType (PNaive d) = ''Naive''"
| "DisplayType (PQUIC d) = (if qc_proxy_type_value d = proxy_Hysteria2 then ''Hysteria2'' else ''TUIC'')"
| "DisplayType (PCustom d) = ''Custom''"
| "DisplayType (PChain l) = ''Chain''"
| "DisplayType PBase = ''Unknown''"

definition DisplayAddress :: "bean \<Rightarrow> string" where
  "DisplayAddress b = qarg (qarg ''%1:%2'' (b_serverAddress b)) (int_str (b_serverPort b))"

definition DisplayName :: "bean \<Rightarrow> string" where
  "DisplayName b = (if b_name b \<noteq> [] then b_name b else DisplayAddress b)"

definition DisplayTypeAndName :: "proxy_bean \<Rightarrow> string" where
  "DisplayTypeAndName pb = qargs ''[%1] %2'' [DisplayType (snd pb), DisplayName (fst pb)]"

definition IsValid :: "bean \<Rightarrow> bool" where
  "IsValid b \<longleftrightarrow> b_serverAddress b \<noteq> [] \<and> 0 < b_serverPort b \<and> b_serverPort b \<le> 65535"

subsection \<open>Serialisation\<close>

definition AbstractBean_ToJson :: "bean \<Rightarrow> jobject" where
  "AbstractBean_ToJson b =
     jsets [(''version'', JNum (b_version b)), (''name'', JStr (b_name b)),
            (''serverAddress'', JStr (b_serverAddress b)), (''serverPort'', JNum (b_serverPort b)),
            (''custom_config'', JStr (b_custom_config b)), (''custom_outbound'', JStr (b_custom_outbound b)),
            (''software_core_name'', JStr (b_software_core_name b))] []"

text \<open>\<open>AbstractBean::FromJson\<close> assigns every field, then answers \<open>IsValid()\<close>; the
  fields stay assigned when the answer is \<open>false\<close>.\<close>

definition AbstractBean_FromJson :: "bean \<Rightarrow> jobject \<Rightarrow> bool \<times> bean" where
  "AbstractBean_FromJson b obj =
     (let b' = b\<lparr>b_version := qjson_toInt (jfield obj ''version''),
                 b_name := to_str (jfield obj ''name''),
                 b_serverAddress := to_str (jfield obj ''serverAddress''),
                 b_serverPort := qjson_toInt (jfield obj ''serverPort''),
                 b_custom_config := to_str (jfield obj ''custom_config''),
                 b_custom_outbound := to_str (jfield obj ''custom_outbound''),
                 b_software_core_name := to_str (jfield obj ''software_core_name'')\<rparr>
      in (IsValid b', b'))"

definition SocksHttpBean_ToJson :: "bean \<Rightarrow> socks_data \<Rightarrow> jobject" where
  "SocksHttpBean_ToJson b d =
     jsets [(''socks_http_type'', JNum (sk_socks_http_type d)), (''username'', JStr (sk_username d)),
            (''password'', JStr (sk_password d))] (AbstractBean_ToJson b)"

definition SocksHttpBean_FromJson :: "bean \<Rightarrow> socks_data \<Rightarrow> jobject \<Rightarrow> bool \<times> bean \<times> socks_data" where
  "SocksHttpBean_FromJson b d obj =
     (case AbstractBean_FromJson b obj of
        (False, b') \<Rightarrow> (False, b', d)
      | (True, b') \<Rightarrow>
          (let d' = d\<lparr>sk_socks_http_type := qjson_toInt (jfield obj ''socks_http_type''),
                      sk_username := to_str (jfield obj ''username''),
                      sk_password := to_str (jfield obj ''password'')\<rparr>
           in (IsValid b', b', d')))"

definition ShadowSocksBean_ToJson :: "bean \<Rightarrow> ss_data \<Rightarrow> jobject" where
  "ShadowSocksBean_ToJson b d =
     jsets [(''method'', JStr (ss_method d)), (''password'', JStr (ss_password d)),
            (''plugin'', JStr (ss_plugin d)), (''plugin_opts'', JStr (ss_plugin_opts d))]
       (AbstractBean_ToJson b)"

definition ShadowSocksBean_FromJson :: "bean \<Rightarrow> ss_data \<Rightarrow> jobject \<Rightarrow> bool \<times> bean \<times> ss_data" where
  "ShadowSocksBean_FromJson b d obj =
     (case AbstractBean_FromJson b obj of
        (False, b') \<Rightarrow> (False, b', d)
      | (True, b') \<Rightarrow>
          (let d' = d\<lparr>ss_method := to_str (jfield obj ''method''),
                      ss_password := to_str (jfield obj ''password''),
                      ss_plugin := to_str (jfield obj ''plugin''),
                      ss_plugin_opts := to_str (jfield obj ''plugin_opts'')\<rparr>
           in (IsValid b' \<and> ss_password d' \<noteq> [], b', d')))"

definition VMessBean_ToJson :: "bean \<Rightarrow> vmess_data \<Rightarrow> jobject" where
  "VMessBean_ToJson b d =
     jsets [(''uuid'', JStr (vm_uuid d)), (''security'', JStr (vm_security d)), (''aid'', JNum (vm_aid d)),
            (''network'', JStr (vm_network d)), (''path'', JStr (vm_path d)), (''host'', JStr (vm_host d)),
            (''tls'', JStr (vm_tls d))] (AbstractBean_ToJson b)"

definition VMessBean_FromJson :: "bean \<Rightarrow> vmess_data \<Rightarrow> jobject \<Rightarrow> bool \<times> bean \<times> vmess_data" where
  "VMessBean_FromJson b d obj =
     (case AbstractBean_FromJson b obj of
        (False, b') \<Rightarrow> (False, b', d)
      | (True, b') \<Rightarrow>
          (let d' = d\<lparr>vm_uuid := to_str (jfield obj ''uuid''),
                      vm_security := to_str (jfield obj ''security''),
                      vm_aid := qjson_toInt (jfield obj ''aid''),
                      vm_network := to_str (jfield obj ''network''),
                      vm_path := to_str (jfield obj ''path''),
                      vm_host := to_str (jfield obj ''host''),
                      vm_tls := to_str (jfield obj ''tls'')\<rparr>
           in (IsValid b' \<and> vm_uuid d' \<noteq> [], b', d')))"

definition TrojanVLESSBean_ToJson :: "bean \<Rightarrow> tv_data \<Rightarrow> jobject" where
  "TrojanVLESSBean_ToJson b d =
     jsets [(''proxy_type_value'', JNum (tv_proxy_type_value d)), (''password'', JStr (tv_password d)),
            (''uuid'', JStr (tv_uuid d)), (''flow'', JStr (tv_flow d)), (''network'', JStr (tv_network d)),
            (''path'', JStr (tv_path d)), (''host'', JStr (tv_host d)), (''tls'', JStr (tv_tls d))]
       (AbstractBean_ToJson b)"

definition TrojanVLESSBean_FromJson :: "bean \<Rightarrow> tv_data \<Rightarrow> jobject \<Rightarrow> bool \<times> bean \<times> tv_data" where
  "TrojanVLESSBean_FromJson b d obj =
     (case AbstractBean_FromJson b obj of
        (False, b') \<Rightarrow> (False, b', d)
      | (True, b') \<Rightarrow>
          (let d' = d\<lparr>tv_proxy_type_value := qjson_toInt (jfield obj ''proxy_type_value''),
                      tv_password := to_str (jfield obj ''password''),
                      tv_uuid := to_str (jfield obj ''uuid''),
                      tv_flow := to_str (jfield obj ''flow''),
                      tv_network := to_str (jfield obj ''network''),
                      tv_path := to_str (jfield obj ''path''),
                      tv_host := to_str (jfield obj ''host''),
                      tv_tls := to_str (jfield obj ''tls'')\<rparr>
           in (IsValid b', b', d')))"

definition NaiveBean_ToJson :: "bean \<Rightarrow> naive_data \<Rightarrow> jobject" where
  "NaiveBean_ToJson b d =
     jsets [(''username'', JStr (nv_username d)), (''password'', JStr (nv_password d))] (AbstractBean_ToJson b)"

definition NaiveBean_FromJson :: "bean \<Rightarrow> naive_data \<Rightarrow> jobject \<Rightarrow> bool \<times> bean \<times> naive_data" where
  "NaiveBean_FromJson b d obj =
     (case AbstractBean_FromJson b obj of
        (False, b') \<Rightarrow> (False, b', d)
      | (True, b') \<Rightarrow>
          (let d' = d\<lparr>nv_username := to_str (jfield obj ''username''),
                      nv_password := to_str (jfield obj ''password'')\<rparr>
           in (IsValid b', b', d')))"

definition QUICBean_ToJson :: "bean \<Rightarrow> quic_data \<Rightarrow> jobject" where
  "QUICBean_ToJson b d =
     jsets [(''proxy_type_value'', JNum (qc_proxy_type_value d)), (''password'', JStr (qc_password d)),
            (''uuid'', JStr (qc_uuid d))] (AbstractBean_ToJson b)"

definition QUICBean_FromJson :: "bean \<Rightarrow> quic_data \<Rightarrow> jobject \<Rightarrow> bool \<times> bean \<times> quic_data" where
  "QUICBean_FromJson b d obj =
     (case AbstractBean_FromJson b obj of
        (False, b') \<Rightarrow> (False, b', d)
      | (True, b') \<Rightarrow>
          (let d' = d\<lparr>qc_proxy_type_value := qjson_toInt (jfield obj ''proxy_type_value''),
                      qc_password := to_str (jfield obj ''password''),
                      qc_uuid := to_str (jfield obj ''uuid'')\<rparr>
           in (IsValid b', b', d')))"

definition CustomBean_ToJson :: "bean \<Rightarrow> custom_data \<Rightarrow> jobject" where
  "CustomBean_ToJson b d =
     jsets [(''core_type'', JStr (cu_core_type d)), (''config_simple'', JStr (cu_config_simple d))]
       (AbstractBean_ToJson b)"

definition CustomBean_FromJson :: "bean \<Rightarrow> custom_data \<Rightarrow> jobject \<Rightarrow> bool \<times> bean \<times> custom_data" where
  "CustomBean_FromJson b d obj =
     (case AbstractBean_FromJson b obj of
        (False, b') \<Rightarrow> (False, b', d)
      | (True, b') \<Rightarrow>
          (let d' = d\<lparr>cu_core_type := to_str (jfield obj ''core_type''),
                      cu_config_simple := to_str (jfield obj ''config_simple'')\<rparr>
           in (True, b', d')))"

definition ChainBean_ToJson :: "bean \<Rightarrow> string list \<Rightarrow> jobject" where
  "ChainBean_ToJson b l = jset ''chain_list'' (JArr (map JStr l)) (AbstractBean_ToJson b)"

definition ChainBean_FromJson :: "bean \<Rightarrow> string list \<Rightarrow> jobject \<Rightarrow> bool \<times> bean \<times> string list" where
  "ChainBean_FromJson b l obj =
     (case AbstractBean_FromJson b obj of
        (False, b') \<Rightarrow> (False, b', l)
      | (True, b') \<Rightarrow> (True, b', map to_str (jitems (jfield obj ''chain_list''))))"

text \<open>The virtual \<open>ToJson\<close> and \<open>FromJson\<close>.\<close>

fun ToJson :: "proxy_bean \<Rightarrow> jobject" where
  "ToJson (b, PSocks d) = SocksHttpBean_ToJson b d"
| "ToJson (b, PShadowSocks d) = ShadowSocksBean_ToJson b d"
| "ToJson (b, PVMess d) = VMessBean_ToJson b d"
| "ToJson (b, PTrojanVLESS d) = TrojanVLESSBean_ToJson b d"
| "ToJson (b, PNaive d) = NaiveBean_ToJson b d"
| "ToJson (b, PQUIC d) = QUICBean_ToJson b d"
| "ToJson (b, PCustom d) = CustomBean_ToJson b d"
| "ToJson (b, PChain l) = ChainBean_ToJson b l"
| "ToJson (b, PBase) = AbstractBean_ToJson b"

fun FromJson :: "proxy_bean \<Rightarrow> jobject \<Rightarrow> bool \<times> proxy_bean" where
  "FromJson (b, PSocks d) obj = (case SocksHttpBean_FromJson b d obj of (ok, b', d') \<Rightarrow> (ok, b', PSocks d'))"
| "FromJson (b, PShadowSocks d) obj =
     (case ShadowSocksBean_FromJson b d obj of (ok, b', d') \<Rightarrow> (ok, b', PShadowSocks d'))"
| "FromJson (b, PVMess d) obj = (case VMessBean_FromJson b d obj of (ok, b', d') \<Rightarrow> (ok, b', PVMess d'))"
| "FromJson (b, PTrojanVLESS d) obj =
     (case TrojanVLESSBean_FromJson b d obj of (ok, b', d') \<Rightarrow> (ok, b', PTrojanVLESS d'))"
| "FromJson (b, PNaive d) obj = (case NaiveBean_FromJson b d obj of (ok, b', d') \<Rightarrow> (ok, b', PNaive d'))"
| "FromJson (b, PQUIC d) obj = (case QUICBean_FromJson b d obj of (ok, b', d') \<Rightarrow> (ok, b', PQUIC d'))"
| "FromJson (b, PCustom d) obj = (case CustomBean_FromJson b d obj of (ok, b', d') \<Rightarrow> (ok, b', PCustom d'))"
| "FromJson (b, PChain l) obj = (case ChainBean_FromJson b l obj of (ok, b', l') \<Rightarrow> (ok, b', PChain l'))"
| "FromJson (b, PBase) obj = (case AbstractBean_FromJson b obj of (ok, b') \<Rightarrow> (ok, b', PBase))"

subsection \<open>Well-formedness\<close>

text \<open>Every \<open>int\<close> field of the object holds a 32-bit value.\<close>

fun proto_wf :: "proto \<Rightarrow> bool" where
  "proto_wf (PSocks d) = int32 (sk_socks_http_type d)"
| "proto_wf (PVMess d) = int32 (vm_aid d)"
| "proto_wf (PTrojanVLESS d) = int32 (tv_proxy_type_value d)"
| "proto_wf (PQUIC d) = int32 (qc_proxy_type_value d)"
| "proto_wf _ = True"

definition bean_wf :: "proxy_bean \<Rightarrow> bool" where
  "bean_wf pb \<longleftrightarrow> int32 (b_version (fst pb)) \<and> int32 (b_serverPort (fst pb)) \<and> proto_wf (snd pb)"

text \<open>Two objects of the same class.\<close>

fun class_id :: "proto \<Rightarrow> nat" where
  "class_id (PSocks _) = 0"
| "class_id (PShadowSocks _) = 1"
| "class_id (PVMess _) = 2"
| "class_id (PTrojanVLESS _) = 3"
| "class_id (PNaive _) = 4"
| "class_id (PQUIC _) = 5"
| "class_id (PCustom _) = 6"
| "class_id (PChain _) = 7"
| "class_id PBase = 8"

definition same_class :: "proto \<Rightarrow> proto \<Rightarrow> bool" where
  "same_class p q \<longleftrightarrow> class_id p = class_id q"

text \<open>What \<open>FromJson\<close> answers for an object it read completely.\<close>

fun accepts :: "proxy_bean \<Rightarrow> bool" where
  "accepts (b, PShadowSocks d) \<longleftrightarrow> IsValid b \<and> ss_password d \<noteq> []"
| "accepts (b, PVMess d) \<longleftrightarrow> IsValid b \<and> vm_uuid d \<noteq> []"
| "accepts (b, _) \<longleftrightarrow> IsValid b"

lemma jvalue_or_jsets [simp]:
  "jvalue_or (jsets kvs obj) k d = (case map_of (rev kvs) k of Some v \<Rightarrow> v | None \<Rightarrow> jvalue_or obj k d)"
  by (induction kvs arbitrary: obj) (auto simp: jsets_def split: option.splits)

lemma jfield_jsets [simp]:
  "jfield (jsets kvs obj) k = (case map_of (rev kvs) k of Some v \<Rightarrow> v | None \<Rightarrow> jfield obj k)"
  unfolding jfield_def by simp

lemma jfield_jset [simp]: "jfield (jset k v obj) k' = (if k' = k then v else jfield obj k')"
  by (simp add: jfield_def)

lemma jfield_Nil [simp]: "jfield [] k = JNull"
  by (simp add: jfield_def jvalue_or_def)

lemma bean_update_all [simp]:
  "(b' :: bean)\<lparr>b_version := b_version b, b_name := b_name b, b_serverAddress := b_serverAddress b,
       b_serverPort := b_serverPort b, b_custom_config := b_custom_config b,
       b_custom_outbound := b_custom_outbound b, b_software_core_name := b_software_core_name b\<rparr> = b"
  by (cases b, cases b') simp

lemma to_str_comp_JStr [simp]: "to_str \<circ> JStr = id"
  by auto

lemma qjson_toInt_JNum [simp]: "int32 n \<Longrightarrow> qjson_toInt (JNum n) = n"
  by (simp add: qjson_toInt_def)

lemma int32_qjson_toInt [simp]: "int32 (qjson_toInt v)"
  by (simp add: qjson_toInt_def int32_def)

lemmas bean_ToJson_defs = AbstractBean_ToJson_def SocksHttpBean_ToJson_def ShadowSocksBean_ToJson_def
  VMessBean_ToJson_def TrojanVLESSBean_ToJson_def NaiveBean_ToJson_def QUICBean_ToJson_def
  CustomBean_ToJson_def ChainBean_ToJson_def

lemmas bean_FromJson_defs = AbstractBean_FromJson_def SocksHttpBean_FromJson_def
  ShadowSocksBean_FromJson_def VMessBean_FromJson_def TrojanVLESSBean_FromJson_def
  NaiveBean_FromJson_def QUICBean_FromJson_def CustomBean_FromJson_def ChainBean_FromJson_def

text \<open>C25. \<open>FromJson\<close> reads back what \<open>ToJson\<close> wrote, into an object of the same
  class: it answers whether the object is acceptable, and takes every field when the
  base part is valid, and none of the subclass's fields otherwise.\<close>

lemma FromJson_ToJson:
  assumes "bean_wf x" and "same_class (snd y) (snd x)"
  shows "FromJson y (ToJson x) = (accepts x, if IsValid (fst x) then x else (fst x, snd y))"
proof -
  obtain b p where x: "x = (b, p)" by fastforce
  obtain b' p' where y: "y = (b', p')" by fastforce
  have base: "AbstractBean_FromJson b' (AbstractBean_ToJson b) = (IsValid b, b)"
    using assms by (simp add: x AbstractBean_FromJson_def AbstractBean_ToJson_def bean_wf_def)
  show ?thesis
    using assms base
    by (cases p; cases p')
      (simp_all add: x y bean_wf_def same_class_def bean_ToJson_defs bean_FromJson_defs)
qed

lemma FromJson_ok_valid:
  assumes "fst (FromJson y obj)"
  shows "IsValid (fst (snd (FromJson y obj)))"
proof -
  obtain b p where y: "y = (b, p)" by fastforce
  show ?thesis
    using assms by (cases p) (auto simp: y bean_FromJson_defs Let_def split: bool.splits prod.splits)
qed

section \<open>Outbound objects for sing-box\<close>

definition BuildOutboundObj :: "string \<Rightarrow> string \<Rightarrow> jobject" where
  "BuildOutboundObj type tag = jsets [(''type'', JStr type), (''tag'', JStr tag)] []"

definition BuildInboundObj :: "string \<Rightarrow> int \<Rightarrow> string \<Rightarrow> jobject" where
  "BuildInboundObj type port listen =
     jsets [(''type'', JStr type), (''tag'', JStr (qarg ''inbound-%1'' type)), (''listen'', JStr listen),
            (''listen_port'', JNum port)] []"

text \<open>\<open>GenerateRandomTag\<close>: eight draws of \<open>QRandomGenerator::bounded(62)\<close>; the draws
  are the parameter \<open>rnd\<close>, \<open>mod 62\<close> keeping each in the range \<open>bounded\<close> returns.\<close>

definition tag_chars :: string where
  "tag_chars = ''ABCDEFGHIJKLMNOPQRSTUVWXYZabcdefghijklmnopqrstuvwxyz0123456789''"

definition GenerateRandomTag :: "(nat \<Rightarrow> nat) \<Rightarrow> string" where
  "GenerateRandomTag rnd = map (\<lambda>i. tag_chars ! (rnd i mod length tag_chars)) [0..<8]"

definition SocksHttpBean_BuildCoreObjSingBox :: "string \<Rightarrow> bean \<Rightarrow> socks_data \<Rightarrow> jobject" where
  "SocksHttpBean_BuildCoreObjSingBox tag b d =
     (let ob = BuildOutboundObj (if sk_socks_http_type d = type_HTTP then ''http'' else ''socks'') tag;
          ob = jsets [(''server'', JStr (b_serverAddress b)), (''server_port'', JNum (b_serverPort b))] ob;
          ob = (if sk_username d \<noteq> []
                then (let ob = jset ''username'' (JStr (sk_username d)) ob
                      in if sk_password d \<noteq> [] then jset ''password'' (JStr (sk_password d)) ob else ob)
                else ob)
      in if sk_socks_http_type d = type_Socks5 then jset ''version'' (JStr ''5'') ob else ob)"

definition ShadowSocksBean_BuildCoreObjSingBox :: "string \<Rightarrow> bean \<Rightarrow> ss_data \<Rightarrow> jobject" where
  "ShadowSocksBean_BuildCoreObjSingBox tag b d =
     (let ob = BuildOutboundObj ''shadowsocks'' tag;
          ob = jsets [(''server'', JStr (b_serverAddress b)), (''server_port'', JNum (b_serverPort b)),
                      (''method'', JStr (ss_method d)), (''password'', JStr (ss_password d))] ob
      in if ss_plugin d \<noteq> []
         then (let po = jset ''type'' (JStr (ss_plugin d)) [];
                   po = (if ss_plugin_opts d \<noteq> [] then jset ''options'' (JStr (ss_plugin_opts d)) po else po)
               in jset ''plugin'' (JObj po) ob)
         else ob)"

definition VMessBean_BuildCoreObjSingBox :: "string \<Rightarrow> bean \<Rightarrow> vmess_data \<Rightarrow> jobject" where
  "VMessBean_BuildCoreObjSingBox tag b d =
     (let ob = BuildOutboundObj ''vmess'' tag;
          ob = jsets [(''server'', JStr (b_serverAddress b)), (''server_port'', JNum (b_serverPort b)),
                      (''uuid'', JStr (vm_uuid d)), (''security'', JStr (vm_security d))] ob;
          ob = (if 0 < vm_aid d then jset ''alter_id'' (JNum (vm_aid d)) ob else ob);
          tr = jset ''type'' (JStr (vm_network d)) [];
          tr = (if vm_network d = ''ws''
                then (let tr = jset ''path'' (JStr (vm_path d)) tr
                      in if vm_host d \<noteq> [] then jset ''headers'' (JObj (jset ''Host'' (JStr (vm_host d)) [])) tr
                         else tr)
                else if vm_network d = ''grpc'' then jset ''service_name'' (JStr (vm_path d)) tr
                else tr);
          ob = jset ''transport'' (JObj tr) ob
      in if vm_tls d = ''tls''
         then (let tc = jset ''enabled'' (JBool True) [];
                   tc = (if vm_host d \<noteq> [] then jset ''server_name'' (JStr (vm_host d)) tc else tc)
               in jset ''tls'' (JObj tc) ob)
         else ob)"

definition TrojanVLESSBean_BuildCoreObjSingBox :: "string \<Rightarrow> bean \<Rightarrow> tv_data \<Rightarrow> jobject" where
  "TrojanVLESSBean_BuildCoreObjSingBox tag b d =
     (let ob = BuildOutboundObj (if tv_proxy_type_value d = proxy_Trojan then ''trojan'' else ''vless'') tag;
          ob = jsets [(''server'', JStr (b_serverAddress b)), (''server_port'', JNum (b_serverPort b))] ob
      in if tv_proxy_type_value d = proxy_Trojan then jset ''password'' (JStr (tv_password d)) ob
         else (let ob = jset ''uuid'' (JStr (tv_uuid d)) ob
               in if tv_flow d \<noteq> [] then jset ''flow'' (JStr (tv_flow d)) ob else ob))"

text \<open>The virtual \<open>BuildCoreObjSingBox\<close>: the classes that do not override it return
  the default, empty outbound. The subclasses that do draw their tag first.\<close>

fun BuildCoreObjSingBox :: "(nat \<Rightarrow> nat) \<Rightarrow> proxy_bean \<Rightarrow> jobject" where
  "BuildCoreObjSingBox rnd (b, PSocks d) = SocksHttpBean_BuildCoreObjSingBox (GenerateRandomTag rnd) b d"
| "BuildCoreObjSingBox rnd (b, PShadowSocks d) = ShadowSocksBean_BuildCoreObjSingBox (GenerateRandomTag rnd) b d"
| "BuildCoreObjSingBox rnd (b, PVMess d) = VMessBean_BuildCoreObjSingBox (GenerateRandomTag rnd) b d"
| "BuildCoreObjSingBox rnd (b, PTrojanVLESS d) = TrojanVLESSBean_BuildCoreObjSingBox (GenerateRandomTag rnd) b d"
| "BuildCoreObjSingBox rnd (b, _) = []"

lemma GenerateRandomTag_chars: "length (GenerateRandomTag rnd) = 8 \<and> set (GenerateRandomTag rnd) \<subseteq> set tag_chars"
proof -
  have "0 < length tag_chars" by (simp add: tag_chars_def)
  then show ?thesis by (auto simp: GenerateRandomTag_def)
qed

section \<open>Share links\<close>

text \<open>\<open>QString::indexOf(c)\<close> and \<open>QString::lastIndexOf(c)\<close>, \<open>None\<close> for \<open>-1\<close>.\<close>

fun index_of :: "char \<Rightarrow> string \<Rightarrow> nat option" where
  "index_of c [] = None"
| "index_of c (x # xs) = (if x = c then Some 0 else map_option Suc (index_of c xs))"

definition last_index_of :: "char \<Rightarrow> string \<Rightarrow> nat option" where
  "last_index_of c s = map_option (\<lambda>i. length s - 1 - i) (index_of c (rev s))"

text \<open>\<open>ShadowSocksBean::ToShareLink\<close>: \<open>ss://base64(method:password)@host:port\<close>, then
  \<open>#\<close> and the percent-encoded name when there is one. The host and the port go in by two
  chained \<open>arg\<close> calls.\<close>

definition ShadowSocksBean_ToShareLink :: "bean \<Rightarrow> ss_data \<Rightarrow> string" where
  "ShadowSocksBean_ToShareLink b d =
     (let auth = qargs ''%1:%2'' [ss_method d, ss_password d];
          authEncoded = b64_encode auth;
          link = qarg (qarg (qarg ''ss://%1@%2:%3'' authEncoded) (b_serverAddress b)) (int_str (b_serverPort b))
      in if b_name b \<noteq> [] then link @ ''#'' @ pct_encode (b_name b) else link)"

definition ShadowSocksBean_FromShareLink :: "string \<Rightarrow> proxy_bean option" where
  "ShadowSocksBean_FromShareLink link =
     (if take 5 link \<noteq> ''ss://'' then None
      else
        let (b, d) = ShadowSocksBean;
            content = drop 5 link;
            (b, content) = (case index_of CHR ''#'' content of
                              Some i \<Rightarrow> (b\<lparr>b_name := pct_decode (drop (i + 1) content)\<rparr>, take i content)
                            | None \<Rightarrow> (b, content))
        in case index_of CHR ''@'' content of
             None \<Rightarrow> None
           | Some a \<Rightarrow>
               let authPart = take a content; serverPart = drop (a + 1) content
               in case last_index_of CHR '':'' serverPart of
                    None \<Rightarrow> None
                  | Some c \<Rightarrow>
                      let b = b\<lparr>b_serverAddress := take c serverPart,
                                 b_serverPort := qstr_toInt (drop (c + 1) serverPart)\<rparr>;
                          authStr = b64_decode authPart
                      in case index_of CHR '':'' authStr of
                           None \<Rightarrow> None
                         | Some m \<Rightarrow>
                             let d = d\<lparr>ss_method := take m authStr, ss_password := drop (m + 1) authStr\<rparr>
                             in if IsValid b then Some (b, PShadowSocks d) else None)"

text \<open>The object \<open>VMessBean::ToShareLink\<close> encodes (before \<open>toJson\<close> and base64), and
  the reading of that object in \<open>VMessBean::FromShareLink\<close> (after base64 and
  \<open>fromJson\<close>).\<close>

definition VMessBean_ToShareLink_config :: "bean \<Rightarrow> vmess_data \<Rightarrow> jobject" where
  "VMessBean_ToShareLink_config b d =
     jsets [(''v'', JStr ''2''), (''ps'', JStr (b_name b)), (''add'', JStr (b_serverAddress b)),
            (''port'', JStr (int_str (b_serverPort b))), (''id'', JStr (vm_uuid d)),
            (''aid'', JStr (int_str (vm_aid d))), (''net'', JStr (vm_network d)), (''type'', JStr ''none''),
            (''host'', JStr (vm_host d)), (''path'', JStr (vm_path d)), (''tls'', JStr (vm_tls d))] []"

definition VMessBean_FromShareLink_config :: "jobject \<Rightarrow> proxy_bean option" where
  "VMessBean_FromShareLink_config config =
     (let (b, d) = VMessBean;
          b = b\<lparr>b_name := to_str (jfield config ''ps''), b_serverAddress := to_str (jfield config ''add''),
                b_serverPort := qstr_toInt (to_str (jfield config ''port''))\<rparr>;
          d = d\<lparr>vm_uuid := to_str (jfield config ''id''), vm_aid := qstr_toInt (to_str (jfield config ''aid'')),
                vm_network := to_str (jfield config ''net''), vm_host := to_str (jfield config ''host''),
                vm_path := to_str (jfield config ''path''), vm_tls := to_str (jfield config ''tls'')\<rparr>
      in if IsValid b then Some (b, PVMess d) else None)"

lemma index_of_None [simp]: "c \<notin> set xs \<Longrightarrow> index_of c xs = None"
  by (induction xs) auto

lemma index_of_append_gen [simp]:
  "index_of c (xs @ ys) =
     (case index_of c xs of
        Some i \<Rightarrow> Some i
      | None \<Rightarrow> (case index_of c ys of Some j \<Rightarrow> Some (length xs + j) | None \<Rightarrow> None))"
  by (induction xs) (auto split: option.splits)

lemma index_of_less: "index_of c s = Some i \<Longrightarrow> i < length s"
  by (induction s arbitrary: i) (auto split: if_splits)

lemma last_index_of_append_gen [simp]:
  "last_index_of c (xs @ ys) =
     (case last_index_of c ys of Some j \<Rightarrow> Some (length xs + j) | None \<Rightarrow> last_index_of c xs)"
  by (auto simp: last_index_of_def dest: index_of_less split: option.splits)

lemma last_index_of_Cons [simp]:
  "last_index_of c (x # xs) =
     (case last_index_of c xs of Some j \<Rightarrow> Some (Suc j) | None \<Rightarrow> if x = c then Some 0 else None)"
  by (auto simp: last_index_of_def dest: index_of_less split: option.splits)

lemma last_index_of_None [simp]: "c \<notin> set xs \<Longrightarrow> last_index_of c xs = None"
  by (simp add: last_index_of_def)

lemma drop_three_seps [simp]: "drop (3 + (length xs + length ys)) (a # xs @ b # ys @ c # zs) = zs"
  by (simp add: numeral_3_eq_3)

lemma last_index_of_sep [simp]: "c \<notin> set ys \<Longrightarrow> last_index_of c (xs @ c # ys) = Some (length xs)"
  by (simp add: last_index_of_def)

lemma int32_port: "IsValid b \<Longrightarrow> int32 (b_serverPort b)"
  by (simp add: IsValid_def int32_def)

lemma qstr_toInt_int32 [simp]: "int32 i \<Longrightarrow> qstr_toInt (int_str i) = i"
  by (simp add: int32_def qstr_toInt_int_str)

text \<open>The templates of the share link, evaluated.\<close>

lemma ss_templates [simp]:
  "qargs ''%1:%2'' [x, y] = x @ CHR '':'' # y"
  "qarg ''ss://%1@%2:%3'' x = ''ss://'' @ x @ ''@%2:%3''"
  "qarg ''%2:%3'' x = x @ '':%3''"
  "qarg ''%3'' x = x"
  by (simp_all add: qargs_def qarg_def arg_esc_def digit_val_def)

lemma ss_link_form:
  assumes "CHR ''%'' \<notin> set (b_serverAddress b)"
  shows "ShadowSocksBean_ToShareLink b d =
           ''ss://'' @ b64_encode (ss_method d @ CHR '':'' # ss_password d) @ CHR ''@'' # b_serverAddress b @
           CHR '':'' # int_str (b_serverPort b) @
           (if b_name b \<noteq> [] then CHR ''#'' # pct_encode (b_name b) else [])"
  using assms by (simp add: ShadowSocksBean_ToShareLink_def Let_def)

text \<open>C26. A Shadowsocks share link parses back to the bean it was made from, name,
  address, port, method and password, when the address has no \<open>#\<close> or \<open>%\<close> and the
  method no colon; the plugin is not carried.\<close>

lemma ss_link_roundtrip:
  assumes "IsValid b" and "CHR ''#'' \<notin> set (b_serverAddress b)" and "CHR ''%'' \<notin> set (b_serverAddress b)"
    and "CHR '':'' \<notin> set (ss_method d)"
  shows "ShadowSocksBean_FromShareLink (ShadowSocksBean_ToShareLink b d) =
           Some ((fst ShadowSocksBean)\<lparr>b_name := b_name b, b_serverAddress := b_serverAddress b,
                                        b_serverPort := b_serverPort b\<rparr>,
                 PShadowSocks ((snd ShadowSocksBean)\<lparr>ss_method := ss_method d, ss_password := ss_password d\<rparr>))"
proof -
  have p: "int32 (b_serverPort b)" using assms(1) by (rule int32_port)
  show ?thesis
    using assms p
    by (simp add: ss_link_form ShadowSocksBean_FromShareLink_def ShadowSocksBean_def AbstractBean_def Let_def
        b64_roundtrip pct_roundtrip IsValid_def)
qed

lemma vmess_link_config_roundtrip:
  assumes "IsValid b" and "int32 (vm_aid d)"
  shows "VMessBean_FromShareLink_config (VMessBean_ToShareLink_config b d) =
           Some ((fst VMessBean)\<lparr>b_name := b_name b, b_serverAddress := b_serverAddress b,
                                  b_serverPort := b_serverPort b\<rparr>,
                 PVMess (d\<lparr>vm_security := ''auto''\<rparr>))"
proof -
  have p: "int32 (b_serverPort b)" using assms(1) by (rule int32_port)
  show ?thesis
    using assms p
    by (cases d)
      (simp add: VMessBean_FromShareLink_config_def VMessBean_ToShareLink_config_def VMessBean_def
        AbstractBean_def IsValid_def Let_def)
qed

text \<open>A server address with a zone index such as \<open>%1\<close> is itself a place marker for the
  third chained \<open>arg\<close>: the port lands inside the address, and the link does not parse
  back.\<close>

lemma ss_link_zone_index:
  "ShadowSocksBean_ToShareLink ((fst ShadowSocksBean)\<lparr>b_serverAddress := ''fe80::1%1''\<rparr>)
       ((snd ShadowSocksBean)\<lparr>ss_method := ''aes'', ss_password := ''pw''\<rparr>) =
     ''ss://'' @ b64_encode ''aes:pw'' @ ''@fe80::1'' @ int_str 8388 @ '':%3'' \<and>
   IsValid ((fst ShadowSocksBean)\<lparr>b_serverAddress := ''fe80::1%1''\<rparr>) \<and>
   ShadowSocksBean_FromShareLink (''ss://'' @ b64_encode ''aes:pw'' @ ''@fe80::1'' @ int_str 8388 @ '':%3'') = None"
proof -
  have "qarg ''%1:%3'' x = x @ '':%3''" for x by (simp add: qarg_def arg_esc_def digit_val_def)
  then show ?thesis
    by (simp add: ShadowSocksBean_ToShareLink_def ShadowSocksBean_FromShareLink_def ShadowSocksBean_def
      AbstractBean_def IsValid_def Let_def b64_roundtrip
      qstr_toInt_def trimmed_def is_space_def parse_nat_def digit_val_def del: b64_encode.simps)
qed

text \<open>\<open>FromShareLink\<close> accepts an empty password, which \<open>FromJson\<close> rejects.\<close>

lemma ss_link_empty_password:
  "ShadowSocksBean_FromShareLink (''ss://'' @ b64_encode ''aes:'' @ ''@h:1'') =
     Some ((fst ShadowSocksBean)\<lparr>b_serverAddress := ''h'', b_serverPort := 1\<rparr>,
           PShadowSocks ((snd ShadowSocksBean)\<lparr>ss_method := ''aes''\<rparr>)) \<and>
   \<not> fst (FromJson (fst ShadowSocksBean, PShadowSocks (snd ShadowSocksBean))
           (ToJson ((fst ShadowSocksBean)\<lparr>b_serverAddress := ''h'', b_serverPort := 1\<rparr>,
                    PShadowSocks ((snd ShadowSocksBean)\<lparr>ss_method := ''aes''\<rparr>))))"
  by (simp add: ShadowSocksBean_FromShareLink_def ShadowSocksBean_def AbstractBean_def IsValid_def Let_def
      b64_roundtrip qstr_toInt_def trimmed_def is_space_def parse_nat_def digit_val_def
      bean_ToJson_defs bean_FromJson_defs int32_def del: b64_encode.simps)
section \<open>Witnesses\<close>

theorem FromJson_ToJson_witness:
  "bean_wf ((fst ShadowSocksBean)\<lparr>b_serverAddress := ''h''\<rparr>, PShadowSocks ((snd ShadowSocksBean)\<lparr>ss_password := ''pw''\<rparr>))
   \<and> same_class (PShadowSocks (snd ShadowSocksBean)) (PShadowSocks ((snd ShadowSocksBean)\<lparr>ss_password := ''pw''\<rparr>))
   \<and> FromJson (fst ShadowSocksBean, PShadowSocks (snd ShadowSocksBean))
       (ToJson ((fst ShadowSocksBean)\<lparr>b_serverAddress := ''h''\<rparr>, PShadowSocks ((snd ShadowSocksBean)\<lparr>ss_password := ''pw''\<rparr>)))
     = (True, ((fst ShadowSocksBean)\<lparr>b_serverAddress := ''h''\<rparr>, PShadowSocks ((snd ShadowSocksBean)\<lparr>ss_password := ''pw''\<rparr>)))"
proof -
  have w: "bean_wf ((fst ShadowSocksBean)\<lparr>b_serverAddress := ''h''\<rparr>, PShadowSocks ((snd ShadowSocksBean)\<lparr>ss_password := ''pw''\<rparr>))"
    by (simp add: bean_wf_def ShadowSocksBean_def AbstractBean_def int32_def)
  have c: "same_class (PShadowSocks (snd ShadowSocksBean)) (PShadowSocks ((snd ShadowSocksBean)\<lparr>ss_password := ''pw''\<rparr>))"
    by (simp add: same_class_def)
  show ?thesis
    using FromJson_ToJson [OF w, of "(fst ShadowSocksBean, PShadowSocks (snd ShadowSocksBean))"] w c
    by (simp add: same_class_def IsValid_def ShadowSocksBean_def AbstractBean_def)
qed

theorem ss_link_roundtrip_witness:
  "IsValid ((fst ShadowSocksBean)\<lparr>b_serverAddress := ''h''\<rparr>) \<and> CHR ''#'' \<notin> set ''h'' \<and> CHR ''%'' \<notin> set ''h''
   \<and> CHR '':'' \<notin> set (ss_method (snd ShadowSocksBean))
   \<and> ShadowSocksBean_FromShareLink (ShadowSocksBean_ToShareLink ((fst ShadowSocksBean)\<lparr>b_serverAddress := ''h''\<rparr>)
        ((snd ShadowSocksBean)\<lparr>ss_password := ''pw''\<rparr>)) =
     Some ((fst ShadowSocksBean)\<lparr>b_serverAddress := ''h''\<rparr>, PShadowSocks ((snd ShadowSocksBean)\<lparr>ss_password := ''pw''\<rparr>))"
proof -
  have v: "IsValid ((fst ShadowSocksBean)\<lparr>b_serverAddress := ''h''\<rparr>)"
    by (simp add: IsValid_def ShadowSocksBean_def AbstractBean_def)
  have m: "CHR '':'' \<notin> set (ss_method ((snd ShadowSocksBean)\<lparr>ss_password := ''pw''\<rparr>))"
    by (simp add: ShadowSocksBean_def)
  show ?thesis
    using ss_link_roundtrip [OF v _ _ m] v m
    by (simp add: ShadowSocksBean_def AbstractBean_def)
qed

end
