(* ===== verification/Neko_SimpleWeb.thy ===== *)
theory Neko_SimpleWeb
  imports Neko_Lifecycle Neko_Beans
begin

text \<open>
  \<open>src/nekoray/web/SimpleWebServer.cpp\<close>: a \<open>QTcpServer\<close> that reads one HTTP request
  per \<open>readyRead\<close>, routes it, calls the service (\<open>NekoService\<close> of Neko_Service) and
  writes one response. A client socket is the bytes written to it and whether it is
  still open: \<open>sendResponse\<close> flushes and disconnects, after which a write is refused.
  Qt's JSON text layer is a parameter of the model: \<open>jparse\<close> is
  \<open>QJsonDocument::fromJson\<close>, \<open>jprint\<close> is \<open>QJsonDocument::toJson\<close>; the page of
  \<open>getWebInterface\<close> (one string literal) is the parameter \<open>page\<close>, and the time stamp
  \<open>QDateTime::currentDateTime().toString(Qt::ISODate)\<close> is \<open>now\<close>.
\<close>

section \<open>Client sockets\<close>

record sock =
  so_out :: string
  so_open :: bool

definition sock_write :: "string \<Rightarrow> sock \<Rightarrow> sock" where
  "sock_write d so = (if so_open so then so\<lparr>so_out := so_out so @ d\<rparr> else so)"

definition disconnectFromHost :: "sock \<Rightarrow> sock" where
  "disconnectFromHost so = so\<lparr>so_open := False\<rparr>"

section \<open>The server object\<close>

datatype web_sig = ClientConnected string | RequestReceived string string | WebErrorOccurred string

record simple_web =
  sw_listening :: bool
  sw_host :: string
  sw_port :: int
  sw_clients :: "nat list"
  sw_signals :: "web_sig list"

definition SimpleWebServer :: simple_web where
  "SimpleWebServer = \<lparr>sw_listening = False, sw_host = [], sw_port = 0, sw_clients = [], sw_signals = []\<rparr>"

definition sw_emit :: "web_sig \<Rightarrow> simple_web \<Rightarrow> simple_web" where
  "sw_emit e sw = sw\<lparr>sw_signals := sw_signals sw @ [e]\<rparr>"

definition sw_stop :: "simple_web \<Rightarrow> simple_web" where
  "sw_stop sw = sw\<lparr>sw_listening := False, sw_clients := []\<rparr>"

text \<open>\<open>start\<close>: the address to listen on, and the answer of \<open>QTcpServer::listen\<close> as the
  parameter \<open>listen\<close>: \<open>Inl\<close> its error string, or \<open>Inr\<close> the port it is bound to.\<close>

definition listen_address :: "string \<Rightarrow> string" where
  "listen_address host = (if host \<noteq> ''127.0.0.1'' \<and> host \<noteq> ''localhost'' then host else ''127.0.0.1'')"

definition sw_start :: "(string \<Rightarrow> int \<Rightarrow> string + int) \<Rightarrow> string \<Rightarrow> int \<Rightarrow> simple_web \<Rightarrow> bool \<times> simple_web" where
  "sw_start listen host port sw =
     (let sw = (if sw_listening sw then sw_stop sw else sw)
      in case listen (listen_address host) port of
           Inl err \<Rightarrow> (False, sw_emit (WebErrorOccurred (qarg ''Failed to start server: %1'' err)) sw)
         | Inr bound \<Rightarrow> (True, sw\<lparr>sw_listening := True, sw_host := host, sw_port := bound\<rparr>))"

definition sw_isRunning :: "simple_web \<Rightarrow> bool" where
  "sw_isRunning sw = sw_listening sw"

definition onNewConnection :: "(nat \<times> string) list \<Rightarrow> simple_web \<Rightarrow> simple_web" where
  "onNewConnection pending sw =
     fold (\<lambda>(c, peer) sw. sw_emit (ClientConnected peer) (sw\<lparr>sw_clients := sw_clients sw @ [c]\<rparr>)) pending sw"

definition onClientDisconnected :: "nat \<Rightarrow> simple_web \<Rightarrow> simple_web" where
  "onClientDisconnected c sw = sw\<lparr>sw_clients := filter (\<lambda>x. x \<noteq> c) (sw_clients sw)\<rparr>"

section \<open>Text of requests and responses\<close>

definition crlf :: string where
  "crlf = [CHR 0x0D, CHR 0x0A]"

text \<open>\<open>QString::split(sep)\<close> keeping empty parts.\<close>

function split_str :: "string \<Rightarrow> string \<Rightarrow> string list" where
  "split_str sep s =
     (if sep = [] then [s]
      else case str_index sep s of
             None \<Rightarrow> [s]
           | Some i \<Rightarrow> take i s # split_str sep (drop (i + length sep) s))"
  by pat_completeness auto
termination
  by (relation "measure (\<lambda>(sep, s). length s)") (auto dest!: str_index_bound simp: neq_Nil_conv)

definition cors_headers :: string where
  "cors_headers =
     ''Access-Control-Allow-Origin: *'' @ crlf @
     ''Access-Control-Allow-Methods: GET, POST, PUT, DELETE, OPTIONS'' @ crlf @
     ''Access-Control-Allow-Headers: Content-Type, Authorization'' @ crlf"

definition response_template :: string where
  "response_template =
     ''HTTP/1.1 %1 OK'' @ crlf @ ''Content-Type: %2'' @ crlf @ ''Content-Length: %3'' @ crlf @ cors_headers @ crlf"

definition sendResponse :: "int \<Rightarrow> string \<Rightarrow> string \<Rightarrow> sock \<Rightarrow> sock" where
  "sendResponse statusCode contentType body so =
     (let response = qarg (qarg (qarg response_template (int_str statusCode)) contentType) (int_str (int (length body)))
      in disconnectFromHost (sock_write body (sock_write response so)))"

definition sendJsonResponse :: "(jobject \<Rightarrow> string) \<Rightarrow> jobject \<Rightarrow> int \<Rightarrow> sock \<Rightarrow> sock" where
  "sendJsonResponse jprint data statusCode so = sendResponse statusCode ''application/json'' (jprint data) so"

definition sendErrorResponse :: "(jobject \<Rightarrow> string) \<Rightarrow> string \<Rightarrow> int \<Rightarrow> sock \<Rightarrow> sock" where
  "sendErrorResponse jprint err statusCode so =
     sendJsonResponse jprint (jsets [(''error'', JStr err), (''success'', JBool False)] []) statusCode so"

definition sendCorsHeaders :: "sock \<Rightarrow> sock" where
  "sendCorsHeaders so = sock_write cors_headers so"

section \<open>The API handlers\<close>

definition failure :: "string \<Rightarrow> jobject" where
  "failure msg = jsets [(''success'', JBool False), (''error'', JStr msg)] []"

definition handleApiStatus :: "string \<Rightarrow> svc \<Rightarrow> jobject" where
  "handleApiStatus now s =
     jsets [(''success'', JBool True), (''status'', JStr (status_string (status s))),
            (''current_profile'', JNum (currentProfileId s)),
            (''socks_address'', JStr (getSocksAddress s)), (''socks_port'', JNum (getSocksPort s)),
            (''http_address'', JStr (getHttpAddress s)), (''http_port'', JNum (getHttpPort s)),
            (''tun_running'', JBool (isTunModeRunning s)),
            (''upload_bytes'', JNum (sint (uploadBytes s))), (''download_bytes'', JNum (sint (downloadBytes s))),
            (''timestamp'', JStr now)] []"

definition handleApiStart :: "jobject \<Rightarrow> svc \<Rightarrow> os \<Rightarrow> jobject svc_result" where
  "handleApiStart params s o' =
     (let profileId = json_int_or 1 (jvalue_or params ''profile_id'' JNull);
          tunMode = json_bool_or False (jvalue_or params ''tun_mode'' JNull)
      in case loadProfile profileId s o' of
           None \<Rightarrow> None
         | Some (ok, s1, o1) \<Rightarrow>
             if \<not> ok then Some (failure ''Failed to load profile'', s1, o1)
             else case startProxy s1 o1 of
                    None \<Rightarrow> None
                  | Some (ok, s2, o2) \<Rightarrow>
                      if \<not> ok then Some (failure ''Failed to start proxy'', s2, o2)
                      else case (if tunMode then startTunMode s2 o2 else Some (True, s2, o2)) of
                             None \<Rightarrow> None
                           | Some (tok, s3, o3) \<Rightarrow>
                               if tunMode \<and> \<not> tok then Some (failure ''Failed to start TUN mode'', s3, o3)
                               else Some (jsets [(''success'', JBool True), (''message'', JStr ''Proxy started successfully''),
                                                 (''profile_id'', JNum profileId),
                                                 (''tun_mode'', JBool (tunMode \<and> isTunModeRunning s3))] [], s3, o3))"

definition handleApiStop :: "svc \<Rightarrow> os \<Rightarrow> jobject svc_result" where
  "handleApiStop s o' =
     (case stopProxy s o' of
        None \<Rightarrow> None
      | Some (success, s1, o1) \<Rightarrow>
          (case stopTunMode s1 o1 of
             None \<Rightarrow> None
           | Some (_, s2, o2) \<Rightarrow>
               Some (jsets [(''success'', JBool success),
                            (''message'', JStr (if success then ''Proxy stopped successfully'' else ''Failed to stop proxy''))] [],
                     s2, o2)))"

definition handleApiRestart :: "jobject \<Rightarrow> svc \<Rightarrow> os \<Rightarrow> jobject svc_result" where
  "handleApiRestart params s o' =
     (case stopProxy s o' of
        None \<Rightarrow> None
      | Some (ok, s1, o1) \<Rightarrow> if \<not> ok then Some (failure ''Failed to stop proxy'', s1, o1) else handleApiStart params s1 o1)"

definition handleApiProfiles :: jobject where
  "handleApiProfiles =
     jsets [(''success'', JBool True),
            (''profiles'', JArr [JObj (jsets [(''id'', JNum 1), (''name'', JStr ''Sample Profile''), (''type'', JStr ''direct''),
                                              (''server'', JStr [])] [])])] []"

definition handleApiConfig :: "svc \<Rightarrow> jobject" where
  "handleApiConfig s = jsets [(''success'', JBool True), (''config'', JObj (getCurrentConfig s))] []"

definition handleApiTraffic :: "string \<Rightarrow> svc \<Rightarrow> jobject" where
  "handleApiTraffic now s =
     jsets [(''success'', JBool True), (''upload'', JNum (sint (uploadBytes s))),
            (''download'', JNum (sint (downloadBytes s))), (''timestamp'', JStr now)] []"

section \<open>Requests\<close>

text \<open>The JSON body of a \<open>POST\<close> or \<open>PUT\<close>: what follows the first empty line, when
  that line does not start the request; a body that does not parse, or is not an object,
  gives no parameters.\<close>

definition request_params :: "(string \<Rightarrow> json option) \<Rightarrow> string \<Rightarrow> jobject" where
  "request_params jparse requestStr =
     (case str_index (crlf @ crlf) requestStr of
        None \<Rightarrow> []
      | Some bodyStart \<Rightarrow>
          if 0 < bodyStart
          then (case jparse (drop (bodyStart + 4) requestStr) of Some (JObj ob) \<Rightarrow> ob | _ \<Rightarrow> [])
          else [])"

definition route_request ::
  "(jobject \<Rightarrow> string) \<Rightarrow> string \<Rightarrow> string \<Rightarrow> string \<Rightarrow> string \<Rightarrow> jobject \<Rightarrow> svc \<Rightarrow> os \<Rightarrow> sock \<Rightarrow> (svc \<times> os \<times> sock) option" where
  "route_request jprint page now method path params s o' so =
     (let reply = (\<lambda>r. case r of None \<Rightarrow> None | Some (obj, s1, o1) \<Rightarrow> Some (s1, o1, sendJsonResponse jprint obj 200 so));
          not_allowed = Some (s, o', sendErrorResponse jprint ''Method not allowed'' 405 so)
      in if path = ''/'' \<or> take 6 path = ''/index'' then Some (s, o', sendResponse 200 ''text/html'' page so)
         else if path = ''/api/status'' then
           (if method = ''GET'' then Some (s, o', sendJsonResponse jprint (handleApiStatus now s) 200 so) else not_allowed)
         else if path = ''/api/start'' then (if method = ''POST'' then reply (handleApiStart params s o') else not_allowed)
         else if path = ''/api/stop'' then (if method = ''POST'' then reply (handleApiStop s o') else not_allowed)
         else if path = ''/api/restart'' then (if method = ''POST'' then reply (handleApiRestart params s o') else not_allowed)
         else if path = ''/api/profiles'' then
           (if method = ''GET'' then Some (s, o', sendJsonResponse jprint handleApiProfiles 200 so) else not_allowed)
         else if path = ''/api/config'' then
           (if method = ''GET'' then Some (s, o', sendJsonResponse jprint (handleApiConfig s) 200 so) else not_allowed)
         else if path = ''/api/traffic'' then
           (if method = ''GET'' then Some (s, o', sendJsonResponse jprint (handleApiTraffic now s) 200 so) else not_allowed)
         else Some (s, o', sendErrorResponse jprint ''Not found'' 404 so))"

text \<open>\<open>handleHttpRequest\<close>: the request line is the text before the first CR LF, split at
  spaces; an \<open>OPTIONS\<close> request gets a plain 200 and then the CORS lines, written after
  the socket was closed.\<close>

definition handleHttpRequest ::
  "(string \<Rightarrow> json option) \<Rightarrow> (jobject \<Rightarrow> string) \<Rightarrow> string \<Rightarrow> string \<Rightarrow> string \<Rightarrow> simple_web \<Rightarrow> svc \<Rightarrow> os \<Rightarrow> sock \<Rightarrow>
   (simple_web \<times> svc \<times> os \<times> sock) option" where
  "handleHttpRequest jparse jprint page now request sw s o' so =
     (let lines = split_str crlf request
      in if lines = [] then Some (sw, s, o', sendErrorResponse jprint ''Invalid request'' 400 so)
         else
           let requestLine = split_on CHR '' '' (hd lines)
           in if length requestLine < 3 then Some (sw, s, o', sendErrorResponse jprint ''Invalid request line'' 400 so)
              else
                let method = requestLine ! 0; path = requestLine ! 1;
                    sw = sw_emit (RequestReceived method path) sw
                in if method = ''OPTIONS'' then Some (sw, s, o', sendCorsHeaders (sendResponse 200 ''text/plain'' ''OK'' so))
                   else
                     let params = (if method = ''POST'' \<or> method = ''PUT'' then request_params jparse request else [])
                     in map_option (\<lambda>(s1, o1, so1). (sw, s1, o1, so1))
                          (route_request jprint page now method path params s o' so))"

text \<open>A socket just accepted, and the paths the router serves under \<open>/api\<close>.\<close>

definition fresh_sock :: sock where "fresh_sock = \<lparr>so_out = [], so_open = True\<rparr>"

definition api_paths :: "string list" where
  "api_paths = [''/api/status'', ''/api/start'', ''/api/stop'', ''/api/restart'', ''/api/profiles'', ''/api/config'', ''/api/traffic'']"

section \<open>Properties\<close>

subsection \<open>The service stays reachable\<close>

lemma reachable_unlocked: "reachable (s, o') \<Longrightarrow> \<not> locked s"
  using reachable_inv by (auto simp: svc_inv_def)

lemma reachable_result:
  assumes "reachable (s, o')" and "api_step c s o' = map_option snd r"
  shows "\<exists>x s1 o1. r = Some (x, s1, o1) \<and> reachable (s1, o1)"
proof -
  have "api_step c s o' \<noteq> None" by (rule api_step_total [OF reachable_unlocked [OF assms(1)]])
  then obtain s1 o1 where st: "api_step c s o' = Some (s1, o1)" by auto
  then have "reachable (s1, o1)" using assms(1) by (blast intro: reachable.step svc_step.call)
  moreover obtain x where "r = Some (x, s1, o1)"
    using st assms(2) by (auto elim: map_option_snd_SomeE)
  ultimately show ?thesis by blast
qed

lemma reachable_ops:
  assumes "reachable (s, o')"
  shows "\<exists>r s1 o1. loadProfile p s o' = Some (r, s1, o1) \<and> reachable (s1, o1)"
    and "\<exists>r s1 o1. startProxy s o' = Some (r, s1, o1) \<and> reachable (s1, o1)"
    and "\<exists>r s1 o1. stopProxy s o' = Some (r, s1, o1) \<and> reachable (s1, o1)"
    and "\<exists>r s1 o1. startTunMode s o' = Some (r, s1, o1) \<and> reachable (s1, o1)"
    and "\<exists>r s1 o1. stopTunMode s o' = Some (r, s1, o1) \<and> reachable (s1, o1)"
  using reachable_result [OF assms, of "LoadProfileCall p" "loadProfile p s o'"]
    reachable_result [OF assms, of StartProxyCall "startProxy s o'"]
    reachable_result [OF assms, of StopProxyCall "stopProxy s o'"]
    reachable_result [OF assms, of StartTunModeCall "startTunMode s o'"]
    reachable_result [OF assms, of StopTunModeCall "stopTunMode s o'"]
  by simp_all

lemma handleApiStart_reachable:
  assumes "reachable (s, o')"
  shows "\<exists>r s1 o1. handleApiStart params s o' = Some (r, s1, o1) \<and> reachable (s1, o1)"
proof -
  define p where "p = json_int_or 1 (jvalue_or params ''profile_id'' JNull)"
  define t where "t = json_bool_or False (jvalue_or params ''tun_mode'' JNull)"
  obtain ok1 s1 o1 where l: "loadProfile p s o' = Some (ok1, s1, o1)" and r1: "reachable (s1, o1)"
    using reachable_ops(1) [OF assms] by blast
  obtain ok2 s2 o2 where st: "startProxy s1 o1 = Some (ok2, s2, o2)" and r2: "reachable (s2, o2)"
    using reachable_ops(2) [OF r1] by blast
  obtain ok3 s3 o3 where tu: "startTunMode s2 o2 = Some (ok3, s3, o3)" and r3: "reachable (s3, o3)"
    using reachable_ops(4) [OF r2] by blast
  show ?thesis
    using l st tu r1 r2 r3 by (simp add: handleApiStart_def Let_def p_def [symmetric] t_def [symmetric])
qed

lemma handleApiStop_reachable:
  assumes "reachable (s, o')"
  shows "\<exists>r s1 o1. handleApiStop s o' = Some (r, s1, o1) \<and> reachable (s1, o1)"
proof -
  obtain ok1 s1 o1 where a: "stopProxy s o' = Some (ok1, s1, o1)" and r1: "reachable (s1, o1)"
    using reachable_ops(3) [OF assms] by blast
  obtain ok2 s2 o2 where b: "stopTunMode s1 o1 = Some (ok2, s2, o2)" and r2: "reachable (s2, o2)"
    using reachable_ops(5) [OF r1] by blast
  show ?thesis using a b r2 by (simp add: handleApiStop_def)
qed

lemma handleApiRestart_reachable:
  assumes "reachable (s, o')"
  shows "\<exists>r s1 o1. handleApiRestart params s o' = Some (r, s1, o1) \<and> reachable (s1, o1)"
proof -
  obtain ok1 s1 o1 where a: "stopProxy s o' = Some (ok1, s1, o1)" and r1: "reachable (s1, o1)"
    using reachable_ops(3) [OF assms] by blast
  show ?thesis
    using a r1 handleApiStart_reachable [OF r1, of params] by (auto simp: handleApiRestart_def)
qed

lemma route_request_reachable:
  assumes "reachable (s, o')"
  shows "\<exists>s1 o1 so1. route_request jprint page now method path params s o' so = Some (s1, o1, so1) \<and> reachable (s1, o1)"
proof -
  obtain r1 s1 o1 where h1: "handleApiStart params s o' = Some (r1, s1, o1)" "reachable (s1, o1)"
    using handleApiStart_reachable [OF assms, of params] by blast
  obtain r2 s2 o2 where h2: "handleApiStop s o' = Some (r2, s2, o2)" "reachable (s2, o2)"
    using handleApiStop_reachable [OF assms] by blast
  obtain r3 s3 o3 where h3: "handleApiRestart params s o' = Some (r3, s3, o3)" "reachable (s3, o3)"
    using handleApiRestart_reachable [OF assms, of params] by blast
  show ?thesis
    using assms h1 h2 h3 by (simp add: route_request_def Let_def)
qed

text \<open>Every reply of the server is one \<open>sendResponse\<close> on the request's socket; the CORS
  lines \<open>OPTIONS\<close> writes after it reach a closed socket and change nothing.\<close>

lemma sendCorsHeaders_sendResponse: "sendCorsHeaders (sendResponse code ct body so) = sendResponse code ct body so"
  by (simp add: sendCorsHeaders_def sendResponse_def Let_def sock_write_def disconnectFromHost_def)

lemma sendResponse_closed: "\<not> so_open (sendResponse code ct body so)"
  by (simp add: sendResponse_def Let_def disconnectFromHost_def)

lemma route_request_answers:
  "route_request jprint page now method path params s o' so = Some (s1, o1, so1) \<Longrightarrow>
   \<exists>code ct body. so1 = sendResponse code ct body so"
  by (auto simp: route_request_def Let_def sendJsonResponse_def sendErrorResponse_def
      split: if_splits option.splits prod.splits)

text \<open>C19. Every request the simple web server reads is answered: the socket receives
  exactly one response (status line, headers and body, as \<open>sendResponse\<close> writes them)
  and is closed, and the service it drives stays in a reachable configuration: no
  route blocks on the service mutex, whatever the request text.\<close>

lemma handleHttpRequest_reachable:
  assumes "reachable (s, o')"
  shows "\<exists>sw1 s1 o1 so1 code ct body. handleHttpRequest jparse jprint page now request sw s o' so = Some (sw1, s1, o1, so1) \<and>
           reachable (s1, o1) \<and> so1 = sendResponse code ct body so \<and> \<not> so_open so1"
proof -
  define rl where "rl = split_on CHR '' '' (hd (split_str crlf request))"
  define pr where "pr = (if rl ! 0 = ''POST'' \<or> rl ! 0 = ''PUT'' then request_params jparse request else [])"
  obtain s1 o1 so1 where r: "route_request jprint page now (rl ! 0) (rl ! 1) pr s o' so = Some (s1, o1, so1)"
    "reachable (s1, o1)"
    using route_request_reachable [OF assms] by blast
  obtain code ct body where a: "so1 = sendResponse code ct body so"
    using route_request_answers [OF r(1)] by blast
  show ?thesis
    using assms r a sendResponse_closed
    by (simp add: handleHttpRequest_def Let_def rl_def [symmetric] pr_def [symmetric] sendErrorResponse_def
        sendJsonResponse_def sendCorsHeaders_sendResponse del: split_str.simps) blast
qed

subsection \<open>Responses\<close>
lemma cors_headers_plain [simp]: "CHR ''%'' \<notin> set cors_headers" "CHR ''%'' \<notin> set crlf"
  by (simp_all add: cors_headers_def crlf_def)

lemma response_template_args:
  "qarg response_template x =
     ''HTTP/1.1 '' @ x @ '' OK'' @ crlf @ ''Content-Type: %2'' @ crlf @ ''Content-Length: %3'' @ crlf @ cors_headers @ crlf"
  "qarg ('' OK'' @ crlf @ ''Content-Type: %2'' @ crlf @ ''Content-Length: %3'' @ crlf @ cors_headers @ crlf) y =
     '' OK'' @ crlf @ ''Content-Type: '' @ y @ crlf @ ''Content-Length: %3'' @ crlf @ cors_headers @ crlf"
  "qarg (crlf @ ''Content-Length: %3'' @ crlf @ cors_headers @ crlf) z =
     crlf @ ''Content-Length: '' @ z @ crlf @ cors_headers @ crlf"
  by (simp_all add: response_template_def qarg_def arg_esc_def digit_val_def crlf_def cors_headers_def)

text \<open>\<open>sendResponse\<close> writes the status line, the content type, the length of the
  body and the three CORS lines, then the body, and closes the socket; the reason phrase
  is \<open>OK\<close> whatever the status code, so a 404 goes out as \<open>HTTP/1.1 404 OK\<close>.\<close>

theorem sendResponse_out:
  assumes "so_open so" and "CHR ''%'' \<notin> set contentType"
  shows "sendResponse statusCode contentType body so =
           \<lparr>so_out = so_out so @ ''HTTP/1.1 '' @ int_str statusCode @ '' OK'' @ crlf @
                     ''Content-Type: '' @ contentType @ crlf @ ''Content-Length: '' @ int_str (int (length body)) @ crlf @
                     cors_headers @ crlf @ body,
            so_open = False\<rparr>"
  using assms
  by (simp add: sendResponse_def response_template_args sock_write_def disconnectFromHost_def
      del: append_Cons)


theorem sendResponse_out_witness:
  "sendResponse 404 ''application/json'' ''{}'' fresh_sock =
     \<lparr>so_out = ''HTTP/1.1 404 OK'' @ crlf @ ''Content-Type: application/json'' @ crlf @ ''Content-Length: 2'' @ crlf @
               cors_headers @ crlf @ ''{}'', so_open = False\<rparr>"
proof -
  have "int_str 404 = ''404''" "int_str (int (length ''{}'')) = ''2''" by code_simp+
  with sendResponse_out [of fresh_sock "''application/json''" 404 "''{}''"] show ?thesis
    by (simp add: fresh_sock_def del: append_Cons)
qed


text \<open>A path outside the route table is answered by a 404 error object and changes
  nothing; \<open>/api/tun/start\<close> and \<open>/api/tun/stop\<close> are among those paths.\<close>

lemma route_request_not_found:
  assumes "path \<noteq> ''/''" and "take 6 path \<noteq> ''/index''" and "path \<notin> set api_paths"
  shows "route_request jprint page now method path params s o' so =
           Some (s, o', sendErrorResponse jprint ''Not found'' 404 so)"
  using assms by (simp add: route_request_def api_paths_def)

lemma route_request_tun_not_found:
  "route_request (\<lambda>_. ''{}'') [] [] ''POST'' ''/api/tun/start'' [] demo_running demo_os fresh_sock =
     Some (demo_running, demo_os, sendErrorResponse (\<lambda>_. ''{}'') ''Not found'' 404 fresh_sock)"
  by (rule route_request_not_found) (simp_all add: api_paths_def)

text \<open>C20. \<open>POST /api/start\<close> with a profile id outside 1..100 leaves the service's
  status, core and selected profile as they were and answers the failure with status
  200: the error is only in the body.\<close>

theorem route_request_bad_profile:
  assumes "\<not> locked s" and "\<not> (1 \<le> p \<and> p \<le> 100)" and "int32 p"
  shows "\<exists>s1. route_request jprint page now ''POST'' ''/api/start'' [(''profile_id'', JNum p)] s o' so =
           Some (s1, o', sendJsonResponse jprint (failure ''Failed to load profile'') 200 so)
         \<and> status s1 = status s \<and> core s1 = core s \<and> currentProfileId s1 = currentProfileId s"
proof -
  obtain s1 where l: "loadProfile p s o' = Some (False, s1, o')" and
    st: "status s1 = status s" "core s1 = core s" "currentProfileId s1 = currentProfileId s"
    using loadProfile_spec [OF assms(1), of p o'] assms(2) by auto
  have "handleApiStart [(''profile_id'', JNum p)] s o' = Some (failure ''Failed to load profile'', s1, o')"
    using l assms(3) by (simp add: handleApiStart_def json_int_or_def jvalue_or_def)
  then show ?thesis using st by (simp add: route_request_def)
qed

theorem route_request_bad_profile_witness:
  "\<exists>s1. route_request (\<lambda>_. ''{}'') [] [] ''POST'' ''/api/start'' [(''profile_id'', JNum 0)] demo_running demo_os fresh_sock =
     Some (s1, demo_os, sendJsonResponse (\<lambda>_. ''{}'') (failure ''Failed to load profile'') 200 fresh_sock)
   \<and> status s1 = Running"
  using route_request_bad_profile [of demo_running 0 "\<lambda>_. ''{}''" "[]" "[]" demo_os fresh_sock] demo_running_simps
  by (auto simp: int32_def)
theorem handleHttpRequest_reachable_witness:
  "case session [] demo_os [LoadProfileCall 1, StartProxyCall] of
     Some (s, o') \<Rightarrow> reachable (s, o') \<and>
       (\<exists>sw1 s1 o1 so1 code ct body. handleHttpRequest (\<lambda>_. None) (\<lambda>_. ''{}'') [] [] (''POST /api/stop HTTP/1.1'' @ crlf @ crlf)
            SimpleWebServer s o' fresh_sock = Some (sw1, s1, o1, so1) \<and> reachable (s1, o1) \<and>
            so1 = sendResponse code ct body fresh_sock \<and> \<not> so_open so1)
   | None \<Rightarrow> False"
proof -
  obtain s o' where e: "session [] demo_os [LoadProfileCall 1, StartProxyCall] = Some (s, o')"
    and r: "reachable (s, o')"
    by (rule demo_session)
  show ?thesis using e r handleHttpRequest_reachable [OF r] by simp
qed

end
