(* ===== verification/Neko_WebApi.thy ===== *)
theory Neko_WebApi
  imports Neko_SimpleWeb
begin

text \<open>
  \<open>src/nekoray/web/WebApiServer.cpp\<close>: the \<open>QHttpServer\<close> front end of the service. A
  request is its method, path, headers and body; a response is a status code, a MIME type,
  a body and the headers set on it. A JSON body is kept as the object it prints
  (\<open>QJsonDocument::toJson\<close> is a serialisation the model does not look into), so a
  property can read what a response says. The server also keeps the last \<open>m_maxLogs\<close>
  log lines the service emitted; the slots that fill that buffer are connected to the
  service's signals by every call of \<open>start\<close>, and \<open>stop\<close> never disconnects them, so
  the model counts the connections (\<open>wa_conns\<close>) and calls a slot once per connection.
\<close>

section \<open>Requests and responses\<close>

record http_request =
  rq_method :: string
  rq_path :: string
  rq_headers :: "(string \<times> string) list"
  rq_body :: string

datatype resp_body = BJson jobject | BBytes string

record http_response =
  rs_status :: int
  rs_mime :: string
  rs_body :: resp_body
  rs_headers :: "(string \<times> string) list"

text \<open>\<open>QHttpServerResponse::setHeader\<close>: replaces a header of the same name.\<close>

definition setHeader :: "string \<Rightarrow> string \<Rightarrow> http_response \<Rightarrow> http_response" where
  "setHeader k v r = r\<lparr>rs_headers := filter (\<lambda>(k', _). k' \<noteq> k) (rs_headers r) @ [(k, v)]\<rparr>"

definition jsonResponse :: "jobject \<Rightarrow> int \<Rightarrow> http_response" where
  "jsonResponse data statusCode =
     \<lparr>rs_status = statusCode, rs_mime = ''application/json'', rs_body = BJson data, rs_headers = []\<rparr>"

definition errorResponse :: "string \<Rightarrow> int \<Rightarrow> http_response" where
  "errorResponse err statusCode = jsonResponse (jsets [(''error'', JStr err)] []) statusCode"

definition addCorsHeaders :: "http_response \<Rightarrow> http_response" where
  "addCorsHeaders r =
     setHeader ''Access-Control-Allow-Headers'' ''Content-Type, Authorization''
       (setHeader ''Access-Control-Allow-Methods'' ''GET, POST, PUT, DELETE, OPTIONS''
         (setHeader ''Access-Control-Allow-Origin'' ''*'' r))"

text \<open>\<open>QJsonDocument::fromJson\<close> is the parameter \<open>jparse\<close>; a body that does not parse
  gives the empty object, and so does a document that is not an object
  (\<open>QJsonDocument::object\<close>).\<close>

definition parseRequestBody :: "(string \<Rightarrow> json option) \<Rightarrow> http_request \<Rightarrow> jobject" where
  "parseRequestBody jparse rq = (case jparse (rq_body rq) of Some (JObj ob) \<Rightarrow> ob | _ \<Rightarrow> [])"

definition validateJsonRequest :: "http_request \<Rightarrow> bool" where
  "validateJsonRequest rq \<longleftrightarrow> map_of (rq_headers rq) ''content-type'' = Some ''application/json''"

section \<open>The server object and its log buffer\<close>

record web_api =
  wa_listening :: bool
  wa_hasService :: bool
  wa_port :: int
  wa_maxLogs :: nat
  wa_logs :: "jobject list"
  wa_lastTrafficStats :: jobject
  wa_conns :: nat
  wa_errors :: "string list"

definition WebApiServer :: web_api where
  "WebApiServer = \<lparr>wa_listening = False, wa_hasService = False, wa_port = 0, wa_maxLogs = 1000,
     wa_logs = [], wa_lastTrafficStats = [], wa_conns = 0, wa_errors = []\<rparr>"

text \<open>\<open>start(port, service)\<close>: \<open>listen\<close> is the answer of \<open>QHttpServer::listen\<close>. The
  three connections are made before the server listens, so a failed \<open>listen\<close> keeps them.\<close>

definition wa_start :: "bool \<Rightarrow> bool \<Rightarrow> int \<Rightarrow> web_api \<Rightarrow> bool \<times> web_api" where
  "wa_start listen service port wa =
     (if \<not> service then (False, wa\<lparr>wa_errors := wa_errors wa @ [''Service is null'']\<rparr>)
      else
        let wa = wa\<lparr>wa_hasService := True, wa_port := port, wa_conns := Suc (wa_conns wa)\<rparr>
        in if listen then (True, wa\<lparr>wa_listening := True\<rparr>)
           else (False, wa\<lparr>wa_errors := wa_errors wa @ [qarg ''Failed to start web server on port %1'' (int_str port)]\<rparr>))"

text \<open>\<open>stop\<close>: \<open>m_httpServer->disconnect()\<close> drops the connections made from the HTTP
  server, not those from the service to this object; the server is replaced by a fresh,
  not listening one.\<close>

definition wa_stop :: "web_api \<Rightarrow> web_api" where
  "wa_stop wa = wa\<lparr>wa_listening := False, wa_hasService := False, wa_port := 0\<rparr>"

definition wa_isRunning :: "web_api \<Rightarrow> bool" where
  "wa_isRunning wa = wa_listening wa"

definition log_entry :: "string \<Rightarrow> string \<Rightarrow> string \<Rightarrow> jobject" where
  "log_entry now level message =
     jsets [(''timestamp'', JStr now), (''level'', JStr level), (''message'', JStr message)] []"

text \<open>\<open>m_logs.append(e); if (m_logs.size() > m_maxLogs) m_logs.removeFirst();\<close>\<close>

definition append_log :: "nat \<Rightarrow> jobject \<Rightarrow> jobject list \<Rightarrow> jobject list" where
  "append_log maxLogs e logs = (let l = logs @ [e] in if maxLogs < length l then tl l else l)"

definition onServiceError :: "string \<Rightarrow> string \<Rightarrow> web_api \<Rightarrow> web_api" where
  "onServiceError now err wa = wa\<lparr>wa_logs := append_log (wa_maxLogs wa) (log_entry now ''error'' err) (wa_logs wa)\<rparr>"

definition onServiceLogMessage :: "string \<Rightarrow> string \<Rightarrow> string \<Rightarrow> web_api \<Rightarrow> web_api" where
  "onServiceLogMessage now level message wa =
     wa\<lparr>wa_logs := append_log (wa_maxLogs wa) (log_entry now level message) (wa_logs wa)\<rparr>"

definition onServiceStatusChanged :: "service_status \<Rightarrow> web_api \<Rightarrow> web_api" where
  "onServiceStatusChanged st wa = wa"

text \<open>One emission of a service signal: every connection calls the slot once.\<close>

fun slot_of :: "string \<Rightarrow> event \<Rightarrow> web_api \<Rightarrow> web_api" where
  "slot_of now (ErrorOccurred e) = onServiceError now e"
| "slot_of now (LogMessage l m) = onServiceLogMessage now l m"
| "slot_of now (StatusChanged st) = onServiceStatusChanged st"
| "slot_of now _ = id"

definition deliver :: "string \<Rightarrow> event \<Rightarrow> web_api \<Rightarrow> web_api" where
  "deliver now e wa = (slot_of now e ^^ wa_conns wa) wa"

definition deliver_all :: "string \<Rightarrow> event list \<Rightarrow> web_api \<Rightarrow> web_api" where
  "deliver_all now es wa = fold (deliver now) es wa"

text \<open>The events a service call emitted: the suffix of the service's event list.\<close>

definition new_events :: "svc \<Rightarrow> svc \<Rightarrow> event list" where
  "new_events s s' = drop (length (events s)) (events s')"

section \<open>Handlers\<close>

definition handleGetStatus :: "svc \<Rightarrow> http_response" where
  "handleGetStatus s =
     (let response = jsets [(''status'', JStr (map lower_char (status_string (status s)))),
                            (''current_profile'', JNum (currentProfileId s)),
                            (''tun_running'', JBool (isTunModeRunning s))] [];
          response = (if status s = Running
                      then jset ''proxy'' (JObj (jsets [(''socks_address'', JStr (getSocksAddress s)),
                                                        (''socks_port'', JNum (getSocksPort s)),
                                                        (''http_address'', JStr (getHttpAddress s)),
                                                        (''http_port'', JNum (getHttpPort s))] [])) response
                      else response)
      in addCorsHeaders (jsonResponse response 200))"

text \<open>The checks \<open>handlePostStart\<close> and \<open>handlePostRestart\<close> share: the content type, then
  the \<open>profile_id\<close> field, read with \<open>toInt()\<close> (default 0).\<close>

definition profile_request :: "(string \<Rightarrow> json option) \<Rightarrow> http_request \<Rightarrow> http_response + int" where
  "profile_request jparse rq =
     (if \<not> validateJsonRequest rq then Inl (addCorsHeaders (errorResponse ''Invalid JSON request'' 400))
      else let body = parseRequestBody jparse rq
           in if \<not> jcontains body ''profile_id'' then Inl (addCorsHeaders (errorResponse ''Missing profile_id'' 400))
              else Inr (qjson_toInt (jfield body ''profile_id'')))"

definition handlePostStart :: "(string \<Rightarrow> json option) \<Rightarrow> http_request \<Rightarrow> svc \<Rightarrow> os \<Rightarrow> http_response svc_result" where
  "handlePostStart jparse rq s o' =
     (case profile_request jparse rq of
        Inl r \<Rightarrow> Some (r, s, o')
      | Inr profileId \<Rightarrow>
          (case loadProfile profileId s o' of
             None \<Rightarrow> None
           | Some (ok, s1, o1) \<Rightarrow>
               if \<not> ok then Some (addCorsHeaders (errorResponse ''Failed to load profile'' 400), s1, o1)
               else case startProxy s1 o1 of
                      None \<Rightarrow> None
                    | Some (ok, s2, o2) \<Rightarrow>
                        if \<not> ok then Some (addCorsHeaders (errorResponse ''Failed to start proxy'' 500), s2, o2)
                        else Some (addCorsHeaders (jsonResponse (jsets [(''success'', JBool True),
                                     (''message'', JStr ''Proxy started successfully''),
                                     (''profile_id'', JNum profileId)] []) 200), s2, o2)))"

text \<open>A service operation with no argument answered by a message or an error.\<close>

definition simple_call ::
  "(svc \<Rightarrow> os \<Rightarrow> bool svc_result) \<Rightarrow> string \<Rightarrow> string \<Rightarrow> svc \<Rightarrow> os \<Rightarrow> http_response svc_result" where
  "simple_call f err msg s o' =
     (case f s o' of
        None \<Rightarrow> None
      | Some (ok, s1, o1) \<Rightarrow>
          if \<not> ok then Some (addCorsHeaders (errorResponse err 500), s1, o1)
          else Some (addCorsHeaders (jsonResponse (jsets [(''success'', JBool True), (''message'', JStr msg)] []) 200), s1, o1))"

definition handlePostStop :: "svc \<Rightarrow> os \<Rightarrow> http_response svc_result" where
  "handlePostStop = simple_call stopProxy ''Failed to stop proxy'' ''Proxy stopped successfully''"

definition handlePostRestart :: "(string \<Rightarrow> json option) \<Rightarrow> http_request \<Rightarrow> svc \<Rightarrow> os \<Rightarrow> http_response svc_result" where
  "handlePostRestart jparse rq s o' =
     (case profile_request jparse rq of
        Inl r \<Rightarrow> Some (r, s, o')
      | Inr profileId \<Rightarrow>
          (case loadProfile profileId s o' of
             None \<Rightarrow> None
           | Some (ok, s1, o1) \<Rightarrow>
               if \<not> ok then Some (addCorsHeaders (errorResponse ''Failed to load profile'' 400), s1, o1)
               else case restartProxy s1 o1 of
                      None \<Rightarrow> None
                    | Some (ok, s2, o2) \<Rightarrow>
                        if \<not> ok then Some (addCorsHeaders (errorResponse ''Failed to restart proxy'' 500), s2, o2)
                        else Some (addCorsHeaders (jsonResponse (jsets [(''success'', JBool True),
                                     (''message'', JStr ''Proxy restarted successfully''),
                                     (''profile_id'', JNum profileId)] []) 200), s2, o2)))"

definition handleGetProfiles :: http_response where
  "handleGetProfiles =
     addCorsHeaders (jsonResponse (jsets [(''profiles'', JArr [JObj (jsets [(''id'', JNum 1),
        (''name'', JStr ''Sample Profile''), (''type'', JStr ''vmess'')] [])])] []) 200)"

definition handleGetConfig :: "svc \<Rightarrow> http_response" where
  "handleGetConfig s = addCorsHeaders (jsonResponse (getCurrentConfig s) 200)"

definition handlePostConfig :: "http_request \<Rightarrow> http_response" where
  "handlePostConfig rq =
     (if \<not> validateJsonRequest rq then addCorsHeaders (errorResponse ''Invalid JSON request'' 400)
      else addCorsHeaders (jsonResponse (jsets [(''success'', JBool True),
             (''message'', JStr ''Configuration updated successfully'')] []) 200))"

text \<open>\<open>handleGetTraffic\<close> also stores what it answers in \<open>m_lastTrafficStats\<close>; \<open>secs\<close> is
  \<open>QDateTime::currentSecsSinceEpoch()\<close>.\<close>

definition handleGetTraffic :: "int \<Rightarrow> svc \<Rightarrow> web_api \<Rightarrow> http_response \<times> web_api" where
  "handleGetTraffic secs s wa =
     (let response = jsets [(''upload_bytes'', JNum (sint (uploadBytes s))),
                            (''download_bytes'', JNum (sint (downloadBytes s))), (''timestamp'', JNum secs)] []
      in (addCorsHeaders (jsonResponse response 200), wa\<lparr>wa_lastTrafficStats := response\<rparr>))"

definition handlePostTunStart :: "svc \<Rightarrow> os \<Rightarrow> http_response svc_result" where
  "handlePostTunStart = simple_call startTunMode ''Failed to start TUN mode'' ''TUN mode started successfully''"

definition handlePostTunStop :: "svc \<Rightarrow> os \<Rightarrow> http_response svc_result" where
  "handlePostTunStop = simple_call stopTunMode ''Failed to stop TUN mode'' ''TUN mode stopped successfully''"

definition handleGetLogs :: "web_api \<Rightarrow> http_response" where
  "handleGetLogs wa = addCorsHeaders (jsonResponse (jsets [(''logs'', JArr (map JObj (wa_logs wa)))] []) 200)"

definition handlePostImport :: "http_request \<Rightarrow> http_response" where
  "handlePostImport rq =
     (if \<not> validateJsonRequest rq then addCorsHeaders (errorResponse ''Invalid JSON request'' 400)
      else addCorsHeaders (jsonResponse (jsets [(''success'', JBool True),
             (''message'', JStr ''Import functionality not yet implemented'')] []) 200))"

text \<open>The page of \<open>handleGetWebUI\<close> (one raw string literal) is the parameter \<open>page\<close>; it
  is answered without the CORS headers. \<open>QHttpServerResponse()\<close> is an empty 200.\<close>

definition handleGetWebUI :: "string \<Rightarrow> http_response" where
  "handleGetWebUI page = \<lparr>rs_status = 200, rs_mime = ''text/html'', rs_body = BBytes page, rs_headers = []\<rparr>"

definition handleOptionsRequest :: http_response where
  "handleOptionsRequest = addCorsHeaders \<lparr>rs_status = 200, rs_mime = [], rs_body = BBytes [], rs_headers = []\<rparr>"

section \<open>Routing\<close>

text \<open>\<open>setupRoutes\<close>: a rule is a literal path, or a prefix followed by one \<open><arg>\<close>, which
  \<open>QHttpServerRouter\<close> matches for a \<open>QString\<close> argument by \<open>[^/]+\<close>; the first rule
  registered that matches the path and the method is taken. A request no rule matches is
  answered by \<open>QHttpServer\<close> itself with an empty 404 and no CORS header.\<close>

datatype route_pat = PLit string | PArg string

datatype api_route =
    GetStatus | PostStart | PostStop | PostRestart | GetProfiles | GetConfig | PostConfig | GetTraffic
  | PostTunStart | PostTunStop | GetLogs | PostImport | GetWebUI | GetWebUIArg | OptionsApi

definition routes :: "(route_pat \<times> string \<times> api_route) list" where
  "routes =
     [(PLit ''/api/status'', ''GET'', GetStatus), (PLit ''/api/start'', ''POST'', PostStart),
      (PLit ''/api/stop'', ''POST'', PostStop), (PLit ''/api/restart'', ''POST'', PostRestart),
      (PLit ''/api/profiles'', ''GET'', GetProfiles), (PLit ''/api/config'', ''GET'', GetConfig),
      (PLit ''/api/config'', ''POST'', PostConfig), (PLit ''/api/traffic'', ''GET'', GetTraffic),
      (PLit ''/api/tun/start'', ''POST'', PostTunStart), (PLit ''/api/tun/stop'', ''POST'', PostTunStop),
      (PLit ''/api/logs'', ''GET'', GetLogs), (PLit ''/api/import'', ''POST'', PostImport),
      (PLit ''/'', ''GET'', GetWebUI), (PArg ''/'', ''GET'', GetWebUIArg), (PArg ''/api/'', ''OPTIONS'', OptionsApi)]"

fun pat_matches :: "route_pat \<Rightarrow> string \<Rightarrow> bool" where
  "pat_matches (PLit p) path \<longleftrightarrow> path = p"
| "pat_matches (PArg p) path \<longleftrightarrow>
     take (length p) path = p \<and> drop (length p) path \<noteq> [] \<and> CHR ''/'' \<notin> set (drop (length p) path)"

definition route_of :: "string \<Rightarrow> string \<Rightarrow> api_route option" where
  "route_of method path =
     map_option (\<lambda>(_, _, r). r) (find (\<lambda>(p, m, _). pat_matches p path \<and> m = method) routes)"

definition not_found :: http_response where
  "not_found = \<lparr>rs_status = 404, rs_mime = [], rs_body = BBytes [], rs_headers = []\<rparr>"

text \<open>One request: the handler, then the service's signals emitted meanwhile, delivered to
  the log slots.\<close>

definition wa_handle ::
  "string \<Rightarrow> int \<Rightarrow> string \<Rightarrow> (string \<Rightarrow> json option) \<Rightarrow> http_request \<Rightarrow> web_api \<Rightarrow> svc \<Rightarrow> os \<Rightarrow>
   (http_response \<times> web_api \<times> svc \<times> os) option" where
  "wa_handle now secs page jparse rq wa s o' =
     (let pure = (\<lambda>r. Some (r, wa, s, o'));
          call = (\<lambda>x. case x of None \<Rightarrow> None
                                | Some (r, s1, o1) \<Rightarrow> Some (r, deliver_all now (new_events s s1) wa, s1, o1))
      in case route_of (rq_method rq) (rq_path rq) of
           None \<Rightarrow> pure not_found
         | Some GetStatus \<Rightarrow> pure (handleGetStatus s)
         | Some PostStart \<Rightarrow> call (handlePostStart jparse rq s o')
         | Some PostStop \<Rightarrow> call (handlePostStop s o')
         | Some PostRestart \<Rightarrow> call (handlePostRestart jparse rq s o')
         | Some GetProfiles \<Rightarrow> pure handleGetProfiles
         | Some GetConfig \<Rightarrow> pure (handleGetConfig s)
         | Some PostConfig \<Rightarrow> pure (handlePostConfig rq)
         | Some GetTraffic \<Rightarrow> (let (r, wa1) = handleGetTraffic secs s wa in Some (r, wa1, s, o'))
         | Some PostTunStart \<Rightarrow> call (handlePostTunStart s o')
         | Some PostTunStop \<Rightarrow> call (handlePostTunStop s o')
         | Some GetLogs \<Rightarrow> pure (handleGetLogs wa)
         | Some PostImport \<Rightarrow> pure (handlePostImport rq)
         | Some GetWebUI \<Rightarrow> pure (handleGetWebUI page)
         | Some GetWebUIArg \<Rightarrow> pure (handleGetWebUI page)
         | Some OptionsApi \<Rightarrow> pure handleOptionsRequest)"

text \<open>Start and stop as the front end calls them, for the count of connections.\<close>

datatype wa_ctl = WStart bool bool int | WStop

fun wa_life :: "wa_ctl \<Rightarrow> web_api \<Rightarrow> web_api" where
  "wa_life (WStart listen service port) wa = snd (wa_start listen service port wa)"
| "wa_life WStop wa = wa_stop wa"

fun ctl_connects :: "wa_ctl \<Rightarrow> bool" where
  "ctl_connects (WStart _ service _) = service"
| "ctl_connects WStop = False"

text \<open>The two shapes of an answer to a state-changing request: a success object with
  \<open>"success": true\<close> and status 200, or an error object (an \<open>error\<close> field and no
  \<open>success\<close> field) with a 4xx or 5xx status.\<close>

definition success_reply :: "http_response \<Rightarrow> bool" where
  "success_reply r \<longleftrightarrow>
     rs_status r = 200 \<and> (case rs_body r of BJson ob \<Rightarrow> jvalue_or ob ''success'' JNull = JBool True | _ \<Rightarrow> False)"

definition error_reply :: "http_response \<Rightarrow> bool" where
  "error_reply r \<longleftrightarrow>
     rs_status r \<in> {400, 500} \<and>
     (case rs_body r of BJson ob \<Rightarrow> jcontains ob ''error'' \<and> \<not> jcontains ob ''success'' | _ \<Rightarrow> False)"

section \<open>The log buffer against its specification\<close>

text \<open>What the buffer promises: the last \<open>n\<close> entries appended, oldest first.\<close>

definition last_n :: "nat \<Rightarrow> 'a list \<Rightarrow> 'a list" where
  "last_n n xs = drop (length xs - n) xs"

text \<open>The entries one emission of a service signal adds through one connection.\<close>

fun event_log :: "string \<Rightarrow> event \<Rightarrow> jobject list" where
  "event_log now (ErrorOccurred e) = [log_entry now ''error'' e]"
| "event_log now (LogMessage l m) = [log_entry now l m]"
| "event_log now _ = []"

definition emitted_logs :: "string \<Rightarrow> nat \<Rightarrow> event list \<Rightarrow> jobject list" where
  "emitted_logs now conns es = concat (map (\<lambda>e. concat (replicate conns (event_log now e))) es)"

lemma last_n_last_n_append: "last_n m (last_n m xs @ ys) = last_n m (xs @ ys)"
  by (cases "m \<le> length xs") (simp_all add: last_n_def drop_drop add.commute)

lemma append_log_last_n: "length L \<le> m \<Longrightarrow> append_log m e L = last_n m (L @ [e])"
  by (cases "m = length L") (simp_all add: append_log_def last_n_def Let_def drop_Suc del: drop_append)

lemma last_n_short: "length xs \<le> n \<Longrightarrow> last_n n xs = xs"
  by (simp add: last_n_def)

lemma last_n_length: "length (last_n m xs) \<le> m"
  by (simp add: last_n_def)

lemma fold_append_log: "length L \<le> m \<Longrightarrow> fold (append_log m) es L = last_n m (L @ es)"
proof (induction es arbitrary: L)
  case (Cons e es)
  have "length (append_log m e L) \<le> m"
    using append_log_last_n [OF Cons.prems] last_n_length by metis
  then show ?case
    using Cons.IH append_log_last_n [OF Cons.prems] last_n_last_n_append [of m "L @ [e]" es] by simp
qed (simp add: last_n_def)

lemma slot_of_fields:
  "wa_logs (slot_of now e wa) = fold (append_log (wa_maxLogs wa)) (event_log now e) (wa_logs wa)"
  "wa_maxLogs (slot_of now e wa) = wa_maxLogs wa" "wa_conns (slot_of now e wa) = wa_conns wa"
  by (cases e; simp add: onServiceError_def onServiceLogMessage_def onServiceStatusChanged_def)+

lemma slot_of_funpow:
  "wa_logs ((slot_of now e ^^ n) wa) = fold (append_log (wa_maxLogs wa)) (concat (replicate n (event_log now e))) (wa_logs wa)
   \<and> wa_maxLogs ((slot_of now e ^^ n) wa) = wa_maxLogs wa \<and> wa_conns ((slot_of now e ^^ n) wa) = wa_conns wa"
  by (induction n arbitrary: wa) (simp_all add: slot_of_fields funpow_Suc_right del: funpow.simps)

lemma deliver_all_fields:
  "wa_logs (deliver_all now es wa) = fold (append_log (wa_maxLogs wa)) (emitted_logs now (wa_conns wa) es) (wa_logs wa)
   \<and> wa_maxLogs (deliver_all now es wa) = wa_maxLogs wa \<and> wa_conns (deliver_all now es wa) = wa_conns wa"
  unfolding deliver_all_def emitted_logs_def
  by (induction es arbitrary: wa) (simp_all add: deliver_def slot_of_funpow)

text \<open>C23. The log buffer implements its specification: after the service emitted the
  events \<open>es\<close>, it holds the last \<open>m_maxLogs\<close> entries of what it held followed by the
  entries of \<open>es\<close>, each as many times as the slots are connected.\<close>

theorem deliver_all_last_n:
  assumes "length (wa_logs wa) \<le> wa_maxLogs wa"
  shows "wa_logs (deliver_all now es wa) = last_n (wa_maxLogs wa) (wa_logs wa @ emitted_logs now (wa_conns wa) es)"
  using deliver_all_fields [of now es wa] fold_append_log [OF assms] by simp

lemma deliver_all_inv:
  assumes "length (wa_logs wa) \<le> wa_maxLogs wa"
  shows "length (wa_logs (deliver_all now es wa)) \<le> wa_maxLogs (deliver_all now es wa)"
    and "wa_maxLogs (deliver_all now es wa) = wa_maxLogs wa" and "wa_conns (deliver_all now es wa) = wa_conns wa"
  using deliver_all_fields [of now es wa] fold_append_log [OF assms] last_n_length by simp_all

section \<open>Properties of the web API\<close>

lemma map_of_jsets:
  "map_of (jsets kvs obj) k = (case map_of (rev kvs) k of Some v \<Rightarrow> Some v | None \<Rightarrow> map_of obj k)"
  by (induction kvs arbitrary: obj) (auto simp: jsets_def jset_def update_conv' split: option.splits)

lemma jcontains_jsets [simp]: "jcontains (jsets kvs obj) k \<longleftrightarrow> k \<in> fst ` set kvs \<or> jcontains obj k"
proof (cases "map_of (rev kvs) k")
  case None
  then have "k \<notin> fst ` set kvs" by (simp add: map_of_eq_None_iff)
  with None show ?thesis by (simp add: jcontains_def map_of_jsets)
next
  case (Some v)
  then have "k \<in> fst ` set kvs" using map_of_SomeD by force
  with Some show ?thesis by (simp add: jcontains_def map_of_jsets)
qed

lemma jcontains_Nil [simp]: "\<not> jcontains [] k"
  by (simp add: jcontains_def)

lemma addCorsHeaders_fields [simp]:
  "rs_status (addCorsHeaders r) = rs_status r" "rs_body (addCorsHeaders r) = rs_body r"
  "rs_mime (addCorsHeaders r) = rs_mime r"
  by (simp_all add: addCorsHeaders_def setHeader_def)

lemma error_reply_errorResponse [simp]:
  "error_reply (addCorsHeaders (errorResponse e 400))" "error_reply (addCorsHeaders (errorResponse e 500))"
  by (simp_all add: error_reply_def errorResponse_def jsonResponse_def)

lemma success_reply_jsonResponse:
  assumes "''success'' \<notin> fst ` set kvs"
  shows "success_reply (addCorsHeaders (jsonResponse (jsets ((''success'', JBool True) # kvs) []) 200))"
proof -
  have "map_of (rev kvs) ''success'' = None" using assms by (simp add: map_of_eq_None_iff)
  then show ?thesis by (simp add: success_reply_def jsonResponse_def map_add_def)
qed

lemma profile_request_reply: "profile_request jparse rq = Inl r \<Longrightarrow> error_reply r"
  by (auto simp: profile_request_def Let_def split: if_splits)

lemma simple_call_reply: "simple_call f e m s o' = Some (r, s', o'') \<Longrightarrow> success_reply r \<or> error_reply r"
  by (auto simp: simple_call_def success_reply_jsonResponse split: option.splits if_splits)

lemma handlePostStart_reply: "handlePostStart jparse rq s o' = Some (r, s', o'') \<Longrightarrow> success_reply r \<or> error_reply r"
  by (auto simp: handlePostStart_def profile_request_reply success_reply_jsonResponse split: sum.splits option.splits if_splits)

lemma handlePostRestart_reply: "handlePostRestart jparse rq s o' = Some (r, s', o'') \<Longrightarrow> success_reply r \<or> error_reply r"
  by (auto simp: handlePostRestart_def profile_request_reply success_reply_jsonResponse split: sum.splits option.splits if_splits)

lemma route_of_POST:
  "route_of ''POST'' p = Some a \<Longrightarrow> a \<in> {PostStart, PostStop, PostRestart, PostConfig, PostTunStart, PostTunStop, PostImport}"
  by (auto simp: route_of_def routes_def split: if_splits)

lemma call_SomeE:
  "(case x of None \<Rightarrow> None | Some (r, s1, o1) \<Rightarrow> Some (r, f s1, s1, o1)) = Some (r', w, s', o'') \<Longrightarrow> x = Some (r', s', o'')"
  by (auto split: option.splits)

lemma wa_handle_route:
  assumes "route_of (rq_method rq) (rq_path rq) = Some a"
  shows "wa_handle now secs page jparse rq wa s o' =
    (let pure = (\<lambda>r. Some (r, wa, s, o'));
         call = (\<lambda>x. case x of None \<Rightarrow> None | Some (r, s1, o1) \<Rightarrow> Some (r, deliver_all now (new_events s s1) wa, s1, o1))
     in case a of
          GetStatus \<Rightarrow> pure (handleGetStatus s) | PostStart \<Rightarrow> call (handlePostStart jparse rq s o')
        | PostStop \<Rightarrow> call (handlePostStop s o') | PostRestart \<Rightarrow> call (handlePostRestart jparse rq s o')
        | GetProfiles \<Rightarrow> pure handleGetProfiles | GetConfig \<Rightarrow> pure (handleGetConfig s)
        | PostConfig \<Rightarrow> pure (handlePostConfig rq)
        | GetTraffic \<Rightarrow> (let (r, wa1) = handleGetTraffic secs s wa in Some (r, wa1, s, o'))
        | PostTunStart \<Rightarrow> call (handlePostTunStart s o') | PostTunStop \<Rightarrow> call (handlePostTunStop s o')
        | GetLogs \<Rightarrow> pure (handleGetLogs wa) | PostImport \<Rightarrow> pure (handlePostImport rq)
        | GetWebUI \<Rightarrow> pure (handleGetWebUI page) | GetWebUIArg \<Rightarrow> pure (handleGetWebUI page)
        | OptionsApi \<Rightarrow> pure handleOptionsRequest)"
  using assms by (simp add: wa_handle_def)

lemma wa_handle_cases:
  assumes "wa_handle now secs page jparse rq wa s o' = Some (r, wa', s', o'')"
  shows "wa' = wa \<or> wa' = deliver_all now (new_events s s') wa \<or> (\<exists>x. wa' = wa\<lparr>wa_lastTrafficStats := x\<rparr>)"
proof (cases "route_of (rq_method rq) (rq_path rq)")
  case None
  then show ?thesis using assms by (simp add: wa_handle_def)
next
  case (Some a)
  then show ?thesis using assms
    by (cases a) (auto simp: wa_handle_route handleGetTraffic_def Let_def split: option.splits)
qed

lemma wa_handle_inv:
  assumes "length (wa_logs wa) \<le> wa_maxLogs wa"
    and "wa_handle now secs page jparse rq wa s o' = Some (r, wa', s', o'')"
  shows "length (wa_logs wa') \<le> wa_maxLogs wa' \<and> wa_maxLogs wa' = wa_maxLogs wa \<and> wa_conns wa' = wa_conns wa"
  using wa_handle_cases [OF assms(2)] deliver_all_inv [OF assms(1)] assms(1) by auto


lemma wa_life_fields:
  "wa_maxLogs (wa_life c wa) = wa_maxLogs wa" "wa_logs (wa_life c wa) = wa_logs wa"
  "wa_conns (wa_life c wa) = wa_conns wa + (if ctl_connects c then 1 else 0)"
  by (cases c; simp add: wa_start_def wa_stop_def Let_def)+

lemma wa_life_fold:
  "wa_maxLogs (fold wa_life cs wa) = wa_maxLogs wa \<and> wa_logs (fold wa_life cs wa) = wa_logs wa
   \<and> wa_conns (fold wa_life cs wa) = wa_conns wa + length (filter ctl_connects cs)"
  by (induction cs arbitrary: wa) (simp_all add: wa_life_fields)

text \<open>C24. Each \<open>start\<close> with a service connects the log slots once more and \<open>stop\<close>
  never disconnects them: after \<open>n\<close> starts, one log message of the service is stored
  \<open>n\<close> times.\<close>

theorem logs_once_per_start:
  assumes "length (filter ctl_connects cs) \<le> 1000"
  shows "wa_logs (deliver_all now [LogMessage level msg] (fold wa_life cs WebApiServer)) =
           replicate (length (filter ctl_connects cs)) (log_entry now level msg)"
proof -
  let ?wa = "fold wa_life cs WebApiServer"
  have f: "wa_maxLogs ?wa = 1000" "wa_logs ?wa = []" "wa_conns ?wa = length (filter ctl_connects cs)"
    using wa_life_fold [of cs WebApiServer] by (simp_all add: WebApiServer_def)
  have e: "emitted_logs now (wa_conns ?wa) [LogMessage level msg] = replicate (length (filter ctl_connects cs)) (log_entry now level msg)"
    by (simp add: emitted_logs_def f concat_replicate_single)
  have "wa_logs (deliver_all now [LogMessage level msg] ?wa) =
          fold (append_log 1000) (emitted_logs now (wa_conns ?wa) [LogMessage level msg]) []"
    using deliver_all_fields [of now "[LogMessage level msg]" ?wa] f by simp
  also have "\<dots> = last_n 1000 (emitted_logs now (wa_conns ?wa) [LogMessage level msg])"
    using fold_append_log [of "[]" 1000] by simp
  also have "\<dots> = emitted_logs now (wa_conns ?wa) [LogMessage level msg]"
    by (rule last_n_short) (simp add: e assms)
  finally show ?thesis by (simp only: e)
qed

text \<open>C22. Every answer of the web API to a \<open>POST\<close> is the router's bare 404, a success
  object with \<open>"success": true\<close> and status 200, or an error object with status 400 or
  500: a failure is never reported with a 2xx status.\<close>

theorem wa_post_replies:
  assumes h: "wa_handle now secs page jparse rq wa s o' = Some (r, wa', s', o'')" and m: "rq_method rq = ''POST''"
  shows "r = not_found \<or> success_reply r \<or> error_reply r"
proof (cases "route_of ''POST'' (rq_path rq)")
  case None
  then show ?thesis using h m by (simp add: wa_handle_def)
next
  case (Some a)
  have "route_of (rq_method rq) (rq_path rq) = Some a" using Some m by simp
  note d = wa_handle_route [OF this, of now secs page jparse wa s o']
  have "a \<in> {PostStart, PostStop, PostRestart, PostConfig, PostTunStart, PostTunStop, PostImport}"
    using Some by (rule route_of_POST)
  then consider "a = PostStart" | "a = PostStop" | "a = PostRestart" | "a = PostConfig" | "a = PostTunStart"
    | "a = PostTunStop" | "a = PostImport" by blast
  then show ?thesis
  proof cases
    case 1 then show ?thesis using h d by (auto dest!: call_SomeE handlePostStart_reply)
  next
    case 2 then show ?thesis using h d by (auto simp: handlePostStop_def dest!: call_SomeE simple_call_reply)
  next
    case 3 then show ?thesis using h d by (auto dest!: call_SomeE handlePostRestart_reply)
  next
    case 4 then show ?thesis using h d
      by (auto simp: handlePostConfig_def success_reply_jsonResponse)
  next
    case 5 then show ?thesis using h d by (auto simp: handlePostTunStart_def dest!: call_SomeE simple_call_reply)
  next
    case 6 then show ?thesis using h d by (auto simp: handlePostTunStop_def dest!: call_SomeE simple_call_reply)
  next
    case 7 then show ?thesis using h d
      by (auto simp: handlePostImport_def success_reply_jsonResponse)
  qed
qed

text \<open>A preflight is routed exactly for the paths one segment below \<open>/api/\<close>.\<close>

lemma route_of_OPTIONS:
  "route_of ''OPTIONS'' path = (if pat_matches (PArg ''/api/'') path then Some OptionsApi else None)"
  by (simp add: route_of_def routes_def)

subsection \<open>Every request is answered\<close>

lemma simple_call_reachable:
  assumes "reachable (s, o')" and "api_step c s o' = map_option snd (f s o')"
  shows "\<exists>r s1 o1. simple_call f e m s o' = Some (r, s1, o1) \<and> reachable (s1, o1)"
  using reachable_result [OF assms] by (auto simp: simple_call_def)

lemma handlePostStart_reachable:
  assumes "reachable (s, o')"
  shows "\<exists>r s1 o1. handlePostStart jparse rq s o' = Some (r, s1, o1) \<and> reachable (s1, o1)"
proof (cases "profile_request jparse rq")
  case (Inl r)
  then show ?thesis using assms by (simp add: handlePostStart_def)
next
  case (Inr p)
  obtain ok1 s1 o1 where l: "loadProfile p s o' = Some (ok1, s1, o1)" and r1: "reachable (s1, o1)"
    using reachable_ops(1) [OF assms] by blast
  obtain ok2 s2 o2 where st: "startProxy s1 o1 = Some (ok2, s2, o2)" and r2: "reachable (s2, o2)"
    using reachable_ops(2) [OF r1] by blast
  show ?thesis using Inr l st r1 r2 by (simp add: handlePostStart_def)
qed

lemma handlePostRestart_reachable:
  assumes "reachable (s, o')"
  shows "\<exists>r s1 o1. handlePostRestart jparse rq s o' = Some (r, s1, o1) \<and> reachable (s1, o1)"
proof (cases "profile_request jparse rq")
  case (Inl r)
  then show ?thesis using assms by (simp add: handlePostRestart_def)
next
  case (Inr p)
  obtain ok1 s1 o1 where l: "loadProfile p s o' = Some (ok1, s1, o1)" and r1: "reachable (s1, o1)"
    using reachable_ops(1) [OF assms] by blast
  obtain ok2 s2 o2 where st: "restartProxy s1 o1 = Some (ok2, s2, o2)" and r2: "reachable (s2, o2)"
    using reachable_result [OF r1, of RestartProxyCall "restartProxy s1 o1"] by auto
  show ?thesis using Inr l st r1 r2 by (simp add: handlePostRestart_def)
qed

lemma call_reachable:
  "\<exists>r s1 o1. x = Some (r, s1, o1) \<and> reachable (s1, o1) \<Longrightarrow>
   \<exists>r w s1 o1. (case x of None \<Rightarrow> None | Some (r, s1, o1) \<Rightarrow> Some (r, f s1, s1, o1)) = Some (r, w, s1, o1)
     \<and> reachable (s1, o1)"
  by auto

lemma wa_handle_reachable_step:
  assumes "reachable (s, o')"
  shows "\<exists>r wa' s' o''. wa_handle now secs page jparse rq wa s o' = Some (r, wa', s', o'') \<and> reachable (s', o'')"
proof (cases "route_of (rq_method rq) (rq_path rq)")
  case None
  then show ?thesis using assms by (simp add: wa_handle_def)
next
  case (Some a)
  note d = wa_handle_route [OF Some, of now secs page jparse wa s o']
  have stop: "\<exists>r s1 o1. handlePostStop s o' = Some (r, s1, o1) \<and> reachable (s1, o1)"
    unfolding handlePostStop_def by (rule simple_call_reachable [OF assms, of StopProxyCall]) simp
  have tstart: "\<exists>r s1 o1. handlePostTunStart s o' = Some (r, s1, o1) \<and> reachable (s1, o1)"
    unfolding handlePostTunStart_def by (rule simple_call_reachable [OF assms, of StartTunModeCall]) simp
  have tstop: "\<exists>r s1 o1. handlePostTunStop s o' = Some (r, s1, o1) \<and> reachable (s1, o1)"
    unfolding handlePostTunStop_def by (rule simple_call_reachable [OF assms, of StopTunModeCall]) simp
  show ?thesis
  proof (cases a)
    case PostStart
    then show ?thesis using d call_reachable [OF handlePostStart_reachable [OF assms, of jparse rq]] by simp
  next
    case PostStop
    then show ?thesis using d call_reachable [OF stop] by simp
  next
    case PostRestart
    then show ?thesis using d call_reachable [OF handlePostRestart_reachable [OF assms, of jparse rq]] by simp
  next
    case PostTunStart
    then show ?thesis using d call_reachable [OF tstart] by simp
  next
    case PostTunStop
    then show ?thesis using d call_reachable [OF tstop] by simp
  next
    case GetTraffic
    then show ?thesis using d assms by (simp add: handleGetTraffic_def Let_def)
  qed (use d assms in simp_all)
qed

section \<open>Witnesses\<close>

definition demo_request :: "string \<Rightarrow> string \<Rightarrow> http_request" where
  "demo_request method path = \<lparr>rq_method = method, rq_path = path, rq_headers = [], rq_body = []\<rparr>"

theorem deliver_all_last_n_witness:
  "length (wa_logs (WebApiServer\<lparr>wa_conns := 1\<rparr>)) \<le> wa_maxLogs (WebApiServer\<lparr>wa_conns := 1\<rparr>) \<and>
   wa_logs (deliver_all ''t'' [StatusChanged Running, ErrorOccurred ''boom''] (WebApiServer\<lparr>wa_conns := 1\<rparr>)) =
     [log_entry ''t'' ''error'' ''boom'']"
proof -
  have h: "length (wa_logs (WebApiServer\<lparr>wa_conns := 1\<rparr>)) \<le> wa_maxLogs (WebApiServer\<lparr>wa_conns := 1\<rparr>)"
    by (simp add: WebApiServer_def)
  show ?thesis
    using deliver_all_last_n [OF h, of "''t''" "[StatusChanged Running, ErrorOccurred ''boom'']"] h
    by (simp add: WebApiServer_def emitted_logs_def last_n_def)
qed

theorem logs_once_per_start_witness:
  "length (filter ctl_connects [WStart True True 8080, WStop, WStart True True 8080]) \<le> 1000 \<and>
   wa_logs (deliver_all ''t'' [LogMessage ''info'' ''up''] (fold wa_life [WStart True True 8080, WStop, WStart True True 8080] WebApiServer))
     = [log_entry ''t'' ''info'' ''up'', log_entry ''t'' ''info'' ''up'']"
proof -
  have n: "length (filter ctl_connects [WStart True True 8080, WStop, WStart True True 8080]) = 2" by simp
  have "wa_logs (deliver_all ''t'' [LogMessage ''info'' ''up''] (fold wa_life [WStart True True 8080, WStop, WStart True True 8080] WebApiServer))
     = replicate (length (filter ctl_connects [WStart True True 8080, WStop, WStart True True 8080])) (log_entry ''t'' ''info'' ''up'')"
    by (rule logs_once_per_start) (unfold n, simp)
  then show ?thesis by (simp only: n numeral_2_eq_2 replicate_Suc replicate_0) simp
qed

theorem wa_post_replies_witness:
  "wa_handle ''t'' 0 [] (\<lambda>_. None) (demo_request ''POST'' ''/api/start'') WebApiServer demo_running demo_os =
     Some (addCorsHeaders (errorResponse ''Invalid JSON request'' 400), WebApiServer, demo_running, demo_os) \<and>
   rq_method (demo_request ''POST'' ''/api/start'') = ''POST'' \<and>
   (addCorsHeaders (errorResponse ''Invalid JSON request'' 400) = not_found \<or>
    success_reply (addCorsHeaders (errorResponse ''Invalid JSON request'' 400)) \<or>
    error_reply (addCorsHeaders (errorResponse ''Invalid JSON request'' 400)))"
proof -
  have e: "wa_handle ''t'' 0 [] (\<lambda>_. None) (demo_request ''POST'' ''/api/start'') WebApiServer demo_running demo_os =
     Some (addCorsHeaders (errorResponse ''Invalid JSON request'' 400), WebApiServer, demo_running, demo_os)"
    by (simp add: wa_handle_def route_of_def routes_def demo_request_def handlePostStart_def profile_request_def
        validateJsonRequest_def new_events_def deliver_all_def)
  have m: "rq_method (demo_request ''POST'' ''/api/start'') = ''POST''" by (simp add: demo_request_def)
  show ?thesis using wa_post_replies [OF e m] e m by simp
qed

text \<open>A CORS preflight for \<open>/api/tun/start\<close> or \<open>/api/tun/stop\<close>, two segments below
  \<open>/api/\<close>, matches no rule: the browser gets the bare 404 and never sends the request.\<close>

lemma options_tun_not_found:
  "wa_handle now secs page jparse (demo_request ''OPTIONS'' ''/api/tun/start'') wa s o' = Some (not_found, wa, s, o')"
  using route_of_OPTIONS [of "''/api/tun/start''"] by (simp add: wa_handle_def demo_request_def)

end
