(* ===== verification/Neko_Safety.thy ===== *)
theory Neko_Safety
  imports Neko_Os
begin

text \<open>
  \<open>src/core/SafetyUtils.cpp\<close>: the checks the command-line front end runs before it
  touches the network. They read the host: \<open>/proc/cpuinfo\<close>, environment variables,
  the files that exist, and what some programs print. The host is the record \<open>host\<close>:
  the text of \<open>/proc/cpuinfo\<close> when it opens, \<open>qgetenv\<close>, the exit code and standard
  output of a program run with \<open>QProcess\<close> for at most 3 s (a program that does not
  start reports exit code 0 and no output, as \<open>QProcess::exitCode\<close> does), the
  addresses and ports a \<open>QTcpServer\<close> may bind, and the time stamp
  \<open>QDateTime::currentDateTime().toString()\<close>. Files written and read are those of the
  \<open>os\<close> state of Neko_Os.
\<close>

record host =
  h_cpuinfo :: "string option"
  h_env :: "string \<Rightarrow> string"
  h_run :: "string \<Rightarrow> string list \<Rightarrow> int \<times> string"
  h_bindable :: "(string \<times> int) set"
  h_now :: string

text \<open>\<open>QFile::exists\<close>: a file or a directory.\<close>

definition qfile_exists :: "os \<Rightarrow> path \<Rightarrow> bool" where
  "qfile_exists o' p \<longleftrightarrow> p \<in> dom (os_files o') \<or> p \<in> os_dirs o'"

definition contains_any :: "string \<Rightarrow> string list \<Rightarrow> bool" where
  "contains_any s ps \<longleftrightarrow> list_ex (str_contains s) ps"

definition checkVirtualMachine :: "host \<Rightarrow> bool" where
  "checkVirtualMachine h \<longleftrightarrow>
     (case h_cpuinfo h of
        Some content \<Rightarrow> contains_any content [''hypervisor'', ''VMware'', ''VirtualBox'', ''QEMU'']
      | None \<Rightarrow> False)
     \<or> (let (code, out) = h_run h ''dmidecode'' [''-s'', ''system-manufacturer'']
        in code = 0 \<and> contains_any (map lower_char out) [''vmware'', ''virtualbox'', ''qemu'', ''microsoft corporation''])"

definition checkSSHConnection :: "host \<Rightarrow> bool" where
  "checkSSHConnection h \<longleftrightarrow> h_env h ''SSH_CLIENT'' \<noteq> [] \<or> h_env h ''SSH_CONNECTION'' \<noteq> []"

definition checkProductionEnvironment :: "host \<Rightarrow> os \<Rightarrow> bool" where
  "checkProductionEnvironment h o' \<longleftrightarrow>
     (let (code, out) = h_run h ''hostname'' [''-f'']
      in code = 0 \<and> contains_any (map lower_char (trimmed out)) [''prod'', ''production'', ''live'', ''master''])
     \<or> list_ex (qfile_exists o') [''/etc/production'', ''/var/www'', ''/opt/production'', ''/.production'']
     \<or> (let (code, out) = h_run h ''systemctl'' [''list-units'', ''--type=service'', ''--state=running'']
        in code = 0 \<and> contains_any (map lower_char out) [''nginx'', ''apache'', ''mysql'', ''postgresql'', ''redis''])"

definition isSafeTestEnvironment :: "host \<Rightarrow> os \<Rightarrow> bool" where
  "isSafeTestEnvironment h o' \<longleftrightarrow>
     (let isVM = checkVirtualMachine h; hasSSH = checkSSHConnection h; isProd = checkProductionEnvironment h o'
      in if \<not> isVM \<and> hasSSH then False else if isProd then False else True)"

definition isTunOperationSafe :: "host \<Rightarrow> os \<Rightarrow> bool" where
  "isTunOperationSafe h o' \<longleftrightarrow>
     (if \<not> isSafeTestEnvironment h o' then False
      else let (code, out) = h_run h ''ip'' [''addr'', ''show'', ''type'', ''tun'']
           in \<not> (code = 0 \<and> trimmed out \<noteq> []))"

text \<open>\<open>validateConfig\<close>: the file exists, opens, parses, and has an \<open>inbounds\<close> or an
  \<open>outbounds\<close> field.\<close>

definition validateConfig :: "os \<Rightarrow> path \<Rightarrow> bool" where
  "validateConfig o' p \<longleftrightarrow>
     (case os_files o' p of
        None \<Rightarrow> False
      | Some d \<Rightarrow> (case d of
                    RawText _ \<Rightarrow> False
                  | JsonDoc j \<Rightarrow> (let obj = (case j of JObj ob \<Rightarrow> ob | _ \<Rightarrow> [])
                                 in jcontains obj ''inbounds'' \<or> jcontains obj ''outbounds'')))"

definition getActiveNetworkConnections :: "host \<Rightarrow> string list" where
  "getActiveNetworkConnections h =
     (let (code, out) = h_run h ''netstat'' [''-tuln'']
      in if code = 0
         then map trimmed (filter (\<lambda>l. str_contains l ''LISTEN'' \<or> str_contains l ''ESTABLISHED'') (split_on CHR ''\<newline>'' out))
         else [])"

definition backupNetworkState :: "host \<Rightarrow> path \<Rightarrow> os \<Rightarrow> bool \<times> os" where
  "backupNetworkState h backupPath o' =
     (let (rc, routes) = h_run h ''ip'' [''route'', ''show'']
      in if rc \<noteq> 0 then (False, o')
         else let (dc, dout) = h_run h ''systemd-resolve'' [''--status''];
                  dns = (if dc = 0 then dout else [])
              in write_file backupPath
                   (RawText (''# Network State Backup\<newline>'' @ ''# Generated: '' @ h_now h @ ''\<newline>\<newline>'' @
                             ''# Routes:\<newline>'' @ routes @ ''\<newline>'' @ ''# DNS:\<newline>'' @ dns @ ''\<newline>'')) o')"

definition restoreNetworkState :: "path \<Rightarrow> bool" where
  "restoreNetworkState backupPath = False"

definition isPortAvailable :: "host \<Rightarrow> int \<Rightarrow> string \<Rightarrow> bool" where
  "isPortAvailable h port interface \<longleftrightarrow> (interface, port) \<in> h_bindable h"

text \<open>\<open>QVariantMap::value(k, d).toInt()\<close> and \<open>.toString()\<close> on a map of numbers and
  strings.\<close>

definition variant_int :: "jobject \<Rightarrow> string \<Rightarrow> int \<Rightarrow> int" where
  "variant_int params k d = (case map_of params k of None \<Rightarrow> d | Some (JNum n) \<Rightarrow> n | Some _ \<Rightarrow> 0)"

definition variant_str :: "jobject \<Rightarrow> string \<Rightarrow> string \<Rightarrow> string" where
  "variant_str params k d = (case map_of params k of None \<Rightarrow> d | Some (JStr t) \<Rightarrow> t | Some _ \<Rightarrow> [])"

definition validateOperationDryRun :: "host \<Rightarrow> os \<Rightarrow> string \<Rightarrow> jobject \<Rightarrow> bool" where
  "validateOperationDryRun h o' operation params \<longleftrightarrow>
     (if operation = ''start_proxy'' then 0 < variant_int params ''profile_id'' (-1)
      else if operation = ''start_tun'' then isTunOperationSafe h o'
      else if operation = ''bind_port'' then
        isPortAvailable h (variant_int params ''port'' 0) (variant_str params ''interface'' ''127.0.0.1'')
      else True)"

text \<open>A host with no virtualisation marks, no SSH session, no program output and no
  bindable port.\<close>

definition plain_host :: host where
  "plain_host = \<lparr>h_cpuinfo = None, h_env = (\<lambda>_. []), h_run = (\<lambda>_ _. (0, [])), h_bindable = {}, h_now = []\<rparr>"

section \<open>Properties\<close>

text \<open>The TUN check is the environment check and more.\<close>

lemma isTunOperationSafe_safe: "isTunOperationSafe h o' \<Longrightarrow> isSafeTestEnvironment h o'"
  by (simp add: isTunOperationSafe_def split: if_splits)

lemma isSafeTestEnvironment_iff:
  "isSafeTestEnvironment h o' \<longleftrightarrow>
     (checkVirtualMachine h \<or> \<not> checkSSHConnection h) \<and> \<not> checkProductionEnvironment h o'"
  by (auto simp: isSafeTestEnvironment_def Let_def)

text \<open>The dry run of \<open>start_proxy\<close> accepts every positive profile id.\<close>

lemma dryRun_start_proxy:
  "validateOperationDryRun h o' ''start_proxy'' [(''profile_id'', JNum p)] \<longleftrightarrow> 0 < p"
  by (simp add: validateOperationDryRun_def variant_int_def)

text \<open>The host name test is a substring test: a host whose name merely contains
  \<open>live\<close>, such as \<open>delivery-01\<close>, is taken for a production machine.\<close>

lemma delivery_host_production:
  "checkProductionEnvironment (plain_host\<lparr>h_run := (\<lambda>p _. if p = ''hostname'' then (0, ''delivery-01'') else (0, []))\<rparr>) o'"
  by (simp add: checkProductionEnvironment_def plain_host_def contains_any_def str_contains_def trimmed_def
      is_space_def lower_char_def)

end
