(* ===== verification/Neko_WebComplete.thy ===== *)
theory Neko_WebComplete
  imports Neko_Safety Neko_SimpleWeb
begin

text \<open>
  \<open>src/nekoray-web-COMPLETE-FIXED.cpp\<close>: a self-contained web console. Its state is a set
  of global variables, here the record \<open>wc\<close>, and the lines it prints. It answers every
  request from these variables alone: no service, no core process and no file is
  involved. The page of \<open>getMainHTML\<close> is the parameter \<open>page\<close>, Qt's JSON text layer the
  parameters \<open>jparse\<close> and \<open>jprint\<close> (as in Neko_SimpleWeb), and the time stamps the
  parameters \<open>now\<close> (\<open>yyyy-MM-dd hh:mm:ss\<close>) and \<open>stamp\<close> (\<open>QDateTime::toString()\<close>).
  Request text is read as bytes, so the offsets of \<open>QString::indexOf\<close> and
  \<open>QByteArray::mid\<close> agree; a request head with non-ASCII text, where they differ, is
  not modelled.
\<close>

section \<open>Globals\<close>

record wc =
  wc_corePath :: string
  wc_configDir :: path
  wc_port :: int
  wc_verbose :: bool
  wc_proxyRunning :: bool
  wc_tunRunning :: bool
  wc_currentProfileId :: int
  wc_currentGroupName :: string
  wc_profiles :: "json list"
  wc_groups :: "json list"
  wc_out :: "string list"

definition wc_init :: wc where
  "wc_init = \<lparr>wc_corePath = [], wc_configDir = [], wc_port = 8080, wc_verbose = False, wc_proxyRunning = False,
              wc_tunRunning = False, wc_currentProfileId = -1, wc_currentGroupName = ''Default'',
              wc_profiles = [], wc_groups = [], wc_out = []\<rparr>"

definition wc_log :: "string \<Rightarrow> string \<Rightarrow> string \<Rightarrow> wc \<Rightarrow> wc" where
  "wc_log now level message g =
     (if wc_verbose g \<or> level = ''ERROR'' \<or> level = ''INFO''
      then g\<lparr>wc_out := wc_out g @ [qargs ''[%1] [%2] %3'' [now, level, message]]\<rparr> else g)"

definition wc_initializeDefaultData :: "string \<Rightarrow> wc \<Rightarrow> wc" where
  "wc_initializeDefaultData stamp g =
     g\<lparr>wc_groups := [JObj (jsets [(''id'', JNum 1), (''name'', JStr ''Default''), (''url'', JStr []),
                                  (''type'', JStr ''subscription'')] [])],
       wc_profiles := [JObj (jsets [(''id'', JNum 1), (''group_id'', JNum 1), (''name'', JStr ''SOCKS5 Profile''),
                                    (''type'', JStr ''socks''), (''address'', JStr ''127.0.0.1''), (''port'', JNum 1080),
                                    (''username'', JStr []), (''password'', JStr []), (''latency'', JNum 0),
                                    (''upload'', JNum 0), (''download'', JNum 0), (''created'', JStr stamp)] []),
                       JObj (jsets [(''id'', JNum 2), (''group_id'', JNum 1), (''name'', JStr ''VMess Profile''),
                                    (''type'', JStr ''vmess''), (''address'', JStr ''example.com''), (''port'', JNum 443),
                                    (''uuid'', JStr ''uuid-placeholder''), (''security'', JStr ''auto''), (''latency'', JNum 0),
                                    (''upload'', JNum 0), (''download'', JNum 0), (''created'', JStr stamp)] [])]\<rparr>"

section \<open>Requests\<close>

text \<open>The JSON object \<open>handleRequest\<close> builds for an API path, with the new globals.\<close>

definition wc_respond :: "(string \<Rightarrow> json option) \<Rightarrow> string \<Rightarrow> string \<Rightarrow> string \<Rightarrow> wc \<Rightarrow> jobject \<times> wc" where
  "wc_respond jparse now path body g =
     (if path = ''/api/status'' then
        (jsets [(''daemon_status'', JStr ''running''),
                (''core_status'', JStr (if wc_corePath g = [] then ''not_found'' else ''ready'')),
                (''core_path'', JStr (wc_corePath g)),
                (''proxy_status'', JStr (if wc_proxyRunning g then ''running'' else ''stopped'')),
                (''tun_status'', JStr (if wc_tunRunning g then ''running'' else ''stopped'')),
                (''current_profile'', JNum (wc_currentProfileId g)),
                (''current_group'', JStr (wc_currentGroupName g)),
                (''socks_port'', JNum 2080), (''http_port'', JNum 2081),
                (''config_dir'', JStr (wc_configDir g))] [], g)
      else if path = ''/api/profiles'' then
        (jsets [(''profiles'', JArr (wc_profiles g)), (''current_group'', JStr (wc_currentGroupName g))] [], g)
      else if path = ''/api/groups'' then (jsets [(''groups'', JArr (wc_groups g))] [], g)
      else if path = ''/api/start'' then
        (let req = (case jparse body of Some (JObj ob) \<Rightarrow> ob | _ \<Rightarrow> []);
             profileId = json_int_or 1 (jvalue_or req ''profile_id'' JNull);
             g1 = wc_log now ''INFO'' (qarg ''Proxy started with profile %1'' (int_str profileId))
                    (g\<lparr>wc_proxyRunning := True, wc_currentProfileId := profileId\<rparr>)
         in (jsets [(''result'', JStr ''success''), (''message'', JStr ''Proxy started successfully''),
                    (''profile_id'', JNum profileId), (''socks'', JStr ''127.0.0.1:2080''),
                    (''http'', JStr ''127.0.0.1:2081'')] [], g1))
      else if path = ''/api/stop'' then
        (jsets [(''result'', JStr ''success''), (''message'', JStr ''Proxy stopped successfully'')] [],
         wc_log now ''INFO'' ''Proxy stopped'' (g\<lparr>wc_proxyRunning := False, wc_currentProfileId := -1\<rparr>))
      else if path = ''/api/tun/start'' then
        (jsets [(''result'', JStr ''success''), (''message'', JStr ''TUN mode started successfully'')] [],
         wc_log now ''INFO'' ''TUN mode started'' (g\<lparr>wc_tunRunning := True\<rparr>))
      else if path = ''/api/tun/stop'' then
        (jsets [(''result'', JStr ''success''), (''message'', JStr ''TUN mode stopped successfully'')] [],
         wc_log now ''INFO'' ''TUN mode stopped'' (g\<lparr>wc_tunRunning := False\<rparr>))
      else
        (jsets [(''error'', JStr ''Endpoint not found''),
                (''available_endpoints'', JArr (map JStr [''/'', ''/api/status'', ''/api/profiles'', ''/api/groups'',
                                                         ''/api/start'', ''/api/stop'', ''/api/tun/start'', ''/api/tun/stop'']))] [], g))"

definition wc_handleRequest ::
  "(string \<Rightarrow> json option) \<Rightarrow> (jobject \<Rightarrow> string) \<Rightarrow> string \<Rightarrow> string \<Rightarrow> string \<Rightarrow> string \<Rightarrow> string \<Rightarrow> wc \<Rightarrow> string \<times> wc" where
  "wc_handleRequest jparse jprint page now method path body g =
     (if path = ''/'' \<or> path = ''/index.html'' then
        (''HTTP/1.1 200 OK'' @ crlf @ ''Content-Type: text/html; charset=UTF-8'' @ crlf @
         ''Content-Length: '' @ nat_str (length page) @ crlf @ crlf @ page, g)
      else let (response, g1) = wc_respond jparse now path body g; content = jprint response
           in (''HTTP/1.1 200 OK'' @ crlf @ ''Content-Type: application/json; charset=UTF-8'' @ crlf @
               ''Access-Control-Allow-Origin: *'' @ crlf @ ''Content-Length: '' @ nat_str (length content) @ crlf @
               crlf @ content, g1))"

text \<open>The \<open>readyRead\<close> handler of a connection: a request line with fewer than two
  words gets no answer and the socket stays open.\<close>

definition wc_readyRead ::
  "(string \<Rightarrow> json option) \<Rightarrow> (jobject \<Rightarrow> string) \<Rightarrow> string \<Rightarrow> string \<Rightarrow> string \<Rightarrow> wc \<Rightarrow> sock \<Rightarrow> wc \<times> sock" where
  "wc_readyRead jparse jprint page now request g so =
     (let requestLine = hd (split_str crlf request); parts = split_str '' '' requestLine
      in if length parts < 2 then (g, so)
         else let method = parts ! 0; path = parts ! 1;
                  body = (case str_index (crlf @ crlf) request of Some i \<Rightarrow> drop (i + 4) request | None \<Rightarrow> []);
                  (response, g1) = wc_handleRequest jparse jprint page now method path body g;
                  so1 = disconnectFromHost (sock_write response so)
              in (if wc_verbose g1 then wc_log now ''DEBUG'' (qargs ''%1 %2'' [method, path]) g1 else g1, so1))"

section \<open>\<open>main\<close>\<close>

record wc_opts =
  wo_port :: string
  wo_host :: string
  wo_verbose :: bool
  wo_config :: string

text \<open>\<open>main\<close> up to \<open>app.exec()\<close>: \<open>Some 1\<close> when the server cannot listen, \<open>None\<close> when
  it serves, with the globals it serves from. The host's \<open>h_bindable\<close> says where a
  \<open>QTcpServer\<close> may listen; \<open>errorString\<close> is the parameter \<open>err\<close>.\<close>

definition wc_main :: "host \<Rightarrow> string \<Rightarrow> string \<Rightarrow> string \<Rightarrow> string \<Rightarrow> wc_opts \<Rightarrow> os \<Rightarrow> int option \<times> wc \<times> string list" where
  "wc_main h home now stamp err opts o' =
     (let port = qstr_toInt (wo_port opts); host = wo_host opts;
          g0 = wc_init\<lparr>wc_port := port, wc_verbose := wo_verbose opts,
                       wc_configDir := (if wo_config opts = [] then home @ ''/.config/nekoray'' else wo_config opts)\<rparr>;
          g1 = (case find (\<lambda>name. qfile_exists o' (os_app_dir o' @ ''/'' @ name)) [''nekobox_core'', ''nekoray_core'', ''sing-box''] of
                  Some name \<Rightarrow> g0\<lparr>wc_corePath := os_app_dir o' @ ''/'' @ name\<rparr> | None \<Rightarrow> g0);
          g2 = wc_initializeDefaultData stamp g1
      in if (host, port) \<notin> h_bindable h then (Some 1, g2, [''Failed to start server: '' @ [CHR 0x22] @ err @ [CHR 0x22]])
         else (None, wc_log now ''INFO'' ''Complete GUI functionality migration ready''
                       (wc_log now ''INFO'' (qarg ''Access: http://localhost:%1'' (int_str port))
                         (wc_log now ''INFO'' (qarg (qarg ''NekoRay Web Console started on %1:%2'' host) (int_str port)) g2)), []))"

section \<open>Properties\<close>


lemma wc_log_fields [simp]:
  "wc_proxyRunning (wc_log now l m g) = wc_proxyRunning g" "wc_corePath (wc_log now l m g) = wc_corePath g"
  "wc_currentProfileId (wc_log now l m g) = wc_currentProfileId g" "wc_tunRunning (wc_log now l m g) = wc_tunRunning g"
  by (simp_all add: wc_log_def)

text \<open>\<open>/api/start\<close> changes two globals and answers success, whatever the method,
  the profile id and whether a core exists: no core process is ever started, yet
  \<open>/api/status\<close> then reports the proxy running beside a core that was not found.\<close>

lemma wc_start_without_core:
  assumes "wc_corePath g = []"
  shows "(case wc_respond jparse now ''/api/start'' body g of (r1, g1) \<Rightarrow>
            jfield r1 ''result'' = JStr ''success'' \<and>
            jfield (fst (wc_respond jparse now ''/api/status'' body' g1)) ''proxy_status'' = JStr ''running'' \<and>
            jfield (fst (wc_respond jparse now ''/api/status'' body' g1)) ''core_status'' = JStr ''not_found'')"
  using assms by (simp add: wc_respond_def Let_def)

lemma wc_method_ignored:
  "wc_handleRequest jparse jprint page now m1 path body g = wc_handleRequest jparse jprint page now m2 path body g"
  by (simp add: wc_handleRequest_def)

lemma wc_start_any_profile:
  assumes "jparse body = Some (JObj [(''profile_id'', JNum p)])" and "int32 p"
  shows "wc_currentProfileId (snd (wc_respond jparse now ''/api/start'' body g)) = p \<and>
         wc_proxyRunning (snd (wc_respond jparse now ''/api/start'' body g))"
  using assms by (simp add: wc_respond_def Let_def json_int_or_def jvalue_or_def)

end
