(* ===== verification/Neko_Database.thy ===== *)
theory Neko_Database
  imports Neko_Beans
begin

text \<open>
  The profile database of \<open>src/nekoray/db/Database_Headless.cpp\<close>: the groups of a
  \<open>ProfileManager\<close>, the bean factory \<open>GetBean\<close>, and \<open>ProxyEntity\<close> with its
  serialisation. \<open>JsonStore::Save\<close> of this header is declared and never defined, so a
  call of it is recorded as a count and nothing else. The manager that
  \<open>InitializeDefaultGroup\<close> adds to is the global \<open>profileManager\<close>, not necessarily
  \<open>this\<close>: managers live in a store addressed by pointers, so that the lemmas can say
  what happens when the two differ.
\<close>

section \<open>Groups and the manager\<close>

record group =
  g_id :: int
  g_name :: string
  g_created_at :: int
  g_updated_at :: int
  g_archive_id :: string
  g_url :: string
  g_manually_column_width :: bool
  g_sub_last_update :: int

definition Group :: group where
  "Group = \<lparr>g_id = -1, g_name = [], g_created_at = 0, g_updated_at = 0, g_archive_id = [], g_url = [],
            g_manually_column_width = False, g_sub_last_update = 0\<rparr>"

record profile_manager =
  pm_groupsTabOrder :: "int list"
  pm_groups :: "group list"
  pm_saves :: nat

definition ProfileManager :: profile_manager where
  "ProfileManager = \<lparr>pm_groupsTabOrder = [], pm_groups = [], pm_saves = 0\<rparr>"

definition Save :: "profile_manager \<Rightarrow> profile_manager" where
  "Save pm = pm\<lparr>pm_saves := Suc (pm_saves pm)\<rparr>"

text \<open>\<open>GetNextId\<close>: the largest id, at least 0, plus one, computed in the 32-bit C++
  \<open>int\<close>; \<open>maxId + 1\<close> at \<open>INT_MAX\<close> wraps to \<open>INT_MIN\<close> as two's complement
  arithmetic does.\<close>

definition group_maxId :: "profile_manager \<Rightarrow> int" where
  "group_maxId pm = fold (\<lambda>g maxId. if g_id g > maxId then g_id g else maxId) (pm_groups pm) 0"

definition GetNextId :: "profile_manager \<Rightarrow> int" where
  "GetNextId pm = sint (word_of_int (group_maxId pm) + (1 :: 32 word))"

text \<open>\<open>NewGroup\<close> reads the clock: \<open>now\<close> is \<open>QDateTime::currentMSecsSinceEpoch()\<close>.\<close>

definition NewGroup :: "profile_manager \<Rightarrow> int \<Rightarrow> group" where
  "NewGroup pm now =
     (let gid = GetNextId pm
      in Group\<lparr>g_id := gid, g_name := qarg ''Group %1'' (int_str gid), g_created_at := now,
               g_updated_at := now\<rparr>)"

definition AddGroup :: "group \<Rightarrow> profile_manager \<Rightarrow> profile_manager" where
  "AddGroup grp pm = Save (pm\<lparr>pm_groups := pm_groups pm @ [grp]\<rparr>)"

text \<open>The loop of \<open>DeleteGroup\<close>: the index runs up the list; the first group with the
  id is removed (\<open>removeAt\<close>), saved, and the loop left.\<close>

function DeleteGroup_loop :: "int \<Rightarrow> nat \<Rightarrow> group list \<Rightarrow> group list \<times> bool" where
  "DeleteGroup_loop gid i gs =
     (if i < length gs
      then (if g_id (gs ! i) = gid then (take i gs @ drop (Suc i) gs, True)
            else DeleteGroup_loop gid (Suc i) gs)
      else (gs, False))"
  by pat_completeness auto
termination
  by (relation "measure (\<lambda>(gid, i, gs). length gs - i)") auto

definition DeleteGroup :: "int \<Rightarrow> profile_manager \<Rightarrow> profile_manager" where
  "DeleteGroup gid pm =
     (case DeleteGroup_loop gid 0 (pm_groups pm) of
        (gs, True) \<Rightarrow> Save (pm\<lparr>pm_groups := gs\<rparr>)
      | (gs, False) \<Rightarrow> pm)"

definition GetGroups :: "profile_manager \<Rightarrow> group list" where
  "GetGroups pm = pm_groups pm"

text \<open>The managers, addressed by pointer; \<open>glob\<close> is the address \<open>profileManager\<close> holds.\<close>

type_synonym pm_store = "nat \<Rightarrow> profile_manager"

definition InitializeDefaultGroup :: "nat \<Rightarrow> nat \<Rightarrow> int \<Rightarrow> pm_store \<Rightarrow> pm_store" where
  "InitializeDefaultGroup glob this now st =
     (if pm_groups (st this) = []
      then (let defaultGroup = NewGroup (st this) now in st(glob := AddGroup defaultGroup (st glob)))
      else st)"

section \<open>The bean factory\<close>

definition GetProfileType :: "int \<Rightarrow> string" where
  "GetProfileType profileId = ''socks''"

definition GetBean_of_type :: "string \<Rightarrow> proxy_bean" where
  "GetBean_of_type type =
     (if type = ''socks'' then apsnd PSocks (SocksHttpBean type_Socks5)
      else if type = ''http'' then apsnd PSocks (SocksHttpBean type_HTTP)
      else if type = ''shadowsocks'' then apsnd PShadowSocks ShadowSocksBean
      else if type = ''chain'' then apsnd PChain ChainBean
      else if type = ''vmess'' then apsnd PVMess VMessBean
      else if type = ''trojan'' then apsnd PTrojanVLESS (TrojanVLESSBean proxy_Trojan)
      else if type = ''vless'' then apsnd PTrojanVLESS (TrojanVLESSBean proxy_VLESS)
      else if type = ''naive'' then apsnd PNaive NaiveBean
      else if type = ''hysteria2'' then apsnd PQUIC (QUICBean proxy_Hysteria2)
      else if type = ''tuic'' then apsnd PQUIC (QUICBean proxy_TUIC)
      else if type = ''custom'' then apsnd PCustom CustomBean
      else (AbstractBean (-114514), PBase))"

definition GetBean :: "int \<Rightarrow> proxy_bean" where
  "GetBean profileId = GetBean_of_type (GetProfileType profileId)"

section \<open>Proxy entities\<close>

record proxy_entity =
  pe_id :: int
  pe_gid :: int
  pe_name :: string
  pe_type :: string
  pe_latency :: int
  pe_created_at :: int
  pe_updated_at :: int
  pe_bean :: "proxy_bean option"

definition ProxyEntity :: "proxy_bean option \<Rightarrow> string \<Rightarrow> int \<Rightarrow> proxy_entity" where
  "ProxyEntity bean type now =
     \<lparr>pe_id = -1, pe_gid = 0, pe_name = [], pe_type = type, pe_latency = 0, pe_created_at = now,
      pe_updated_at = now, pe_bean = bean\<rparr>"

definition DisplayLatencyColor :: "proxy_entity \<Rightarrow> string" where
  "DisplayLatencyColor e =
     (if pe_latency e < 0 then ''#ff0000''
      else if pe_latency e = 0 then ''#808080''
      else if pe_latency e < 200 then ''#00ff00''
      else if pe_latency e < 500 then ''#ffff00''
      else ''#ffa500'')"

definition pe_DisplayAddress :: "proxy_entity \<Rightarrow> string" where
  "pe_DisplayAddress e = (case pe_bean e of None \<Rightarrow> ''Invalid'' | Some pb \<Rightarrow> DisplayAddress (fst pb))"

definition pe_DisplayName :: "proxy_entity \<Rightarrow> string" where
  "pe_DisplayName e = (if pe_name e = [] then pe_DisplayAddress e else pe_name e)"

definition pe_DisplayType :: "proxy_entity \<Rightarrow> string" where
  "pe_DisplayType e = (case pe_bean e of None \<Rightarrow> ''Unknown'' | Some pb \<Rightarrow> DisplayType (snd pb))"

definition pe_IsValid :: "proxy_entity \<Rightarrow> bool" where
  "pe_IsValid e = (case pe_bean e of None \<Rightarrow> False | Some pb \<Rightarrow> IsValid (fst pb))"

definition UpdateBean :: "proxy_bean option \<Rightarrow> int \<Rightarrow> proxy_entity \<Rightarrow> proxy_entity" where
  "UpdateBean newBean now e =
     (case newBean of None \<Rightarrow> e | Some pb \<Rightarrow> e\<lparr>pe_bean := Some pb, pe_updated_at := now\<rparr>)"

definition pe_ToJson :: "proxy_entity \<Rightarrow> jobject" where
  "pe_ToJson e =
     (let obj = jsets [(''id'', JNum (pe_id e)), (''gid'', JNum (pe_gid e)), (''type'', JStr (pe_type e)),
                       (''name'', JStr (pe_name e)), (''latency'', JNum (pe_latency e)),
                       (''created_at'', JNum (pe_created_at e)), (''updated_at'', JNum (pe_updated_at e))] []
      in case pe_bean e of None \<Rightarrow> obj | Some pb \<Rightarrow> jset ''bean'' (JObj (ToJson pb)) obj)"

text \<open>\<open>ProxyEntity::FromJson\<close>: the bean is made by \<open>GetBean(id)\<close> of the global manager
  and filled by its \<open>FromJson\<close>, whose answer is dropped; the entity answers \<open>IsValid()\<close>.
  \<open>toVariant().toLongLong()\<close> reads the time stamps as integers.\<close>

definition json_object :: "json \<Rightarrow> jobject" where
  "json_object v = (case v of JObj ob \<Rightarrow> ob | _ \<Rightarrow> [])"

definition pe_FromJson :: "proxy_entity \<Rightarrow> jobject \<Rightarrow> bool \<times> proxy_entity" where
  "pe_FromJson e obj =
     (let e = e\<lparr>pe_id := qjson_toInt (jfield obj ''id''), pe_gid := qjson_toInt (jfield obj ''gid''),
                pe_type := to_str (jfield obj ''type''), pe_name := to_str (jfield obj ''name''),
                pe_latency := qjson_toInt (jfield obj ''latency''),
                pe_created_at := to_int (jfield obj ''created_at''),
                pe_updated_at := to_int (jfield obj ''updated_at'')\<rparr>;
          e = (if jcontains obj ''bean''
               then (let beanObj = json_object (jfield obj ''bean'');
                         bean = GetBean (pe_id e)
                     in e\<lparr>pe_bean := Some (snd (FromJson bean beanObj))\<rparr>)
               else e)
      in (pe_IsValid e, e))"

section \<open>Properties\<close>

subsection \<open>Deleting a group\<close>

text \<open>Reference: remove the first group with the id.\<close>

fun del_first :: "int \<Rightarrow> group list \<Rightarrow> group list" where
  "del_first gid [] = []"
| "del_first gid (g # gs) = (if g_id g = gid then gs else g # del_first gid (gs))"

lemma del_first_subset: "set (del_first gid gs) \<subseteq> set gs"
  by (induction gs) auto

lemma del_first_distinct: "distinct (map g_id gs) \<Longrightarrow> distinct (map g_id (del_first gid gs))"
  by (induction gs) (auto dest: subsetD [OF del_first_subset])

lemma DeleteGroup_loop_ref:
  "i \<le> length gs \<Longrightarrow>
   DeleteGroup_loop gid i gs = (take i gs @ del_first gid (drop i gs), gid \<in> g_id ` set (drop i gs))"
proof (induction gid i gs rule: DeleteGroup_loop.induct)
  case (1 gid i gs)
  show ?case
  proof (cases "i < length gs")
    case True
    then have d: "drop i gs = gs ! i # drop (Suc i) gs" by (simp add: Cons_nth_drop_Suc)
    show ?thesis
    proof (cases "g_id (gs ! i) = gid")
      case True
      then show ?thesis using \<open>i < length gs\<close> d by simp
    next
      case False
      then have "DeleteGroup_loop gid i gs = DeleteGroup_loop gid (Suc i) gs"
        using \<open>i < length gs\<close> by simp
      also have "\<dots> = (take (Suc i) gs @ del_first gid (drop (Suc i) gs), gid \<in> g_id ` set (drop (Suc i) gs))"
        using "1.IH" \<open>i < length gs\<close> False by simp
      finally show ?thesis using False d by (simp add: take_Suc_conv_app_nth \<open>i < length gs\<close>)
    qed
  next
    case False
    with "1.prems" show ?thesis by simp
  qed
qed

lemma del_first_absent: "gid \<notin> g_id ` set gs \<Longrightarrow> del_first gid gs = gs"
  by (induction gs) auto

lemma DeleteGroup_groups: "pm_groups (DeleteGroup gid pm) = del_first gid (pm_groups pm)"
  using DeleteGroup_loop_ref [of 0 "pm_groups pm" gid] del_first_absent [of gid "pm_groups pm"]
  by (auto simp: DeleteGroup_def Save_def split: bool.splits)

text \<open>C28. \<open>DeleteGroup\<close> implements its reference: it removes the first group with the
  id, and saves exactly when there was one.\<close>

lemma DeleteGroup_refines:
  "pm_groups (DeleteGroup gid pm) = del_first gid (pm_groups pm) \<and>
   pm_saves (DeleteGroup gid pm) = (if gid \<in> g_id ` set (pm_groups pm) then Suc (pm_saves pm) else pm_saves pm)"
  using DeleteGroup_loop_ref [of 0 "pm_groups pm" gid] DeleteGroup_groups [of gid pm]
  by (auto simp: DeleteGroup_def Save_def split: bool.splits)

subsection \<open>Group ids\<close>

lemma GetNextId_fold:
  "m \<le> fold (\<lambda>g maxId. if g_id g > maxId then g_id g else maxId) gs m \<and>
   (\<forall>g \<in> set gs. g_id g \<le> fold (\<lambda>g maxId. if g_id g > maxId then g_id g else maxId) gs m)"
proof (induction gs arbitrary: m)
  case (Cons g gs)
  define m' where "m' = (if g_id g > m then g_id g else m)"
  have a: "m \<le> m'" and b: "g_id g \<le> m'" by (auto simp: m'_def)
  have c: "m' \<le> fold (\<lambda>g maxId. if g_id g > maxId then g_id g else maxId) gs m'"
    and d: "\<forall>g \<in> set gs. g_id g \<le> fold (\<lambda>g maxId. if g_id g > maxId then g_id g else maxId) gs m'"
    using Cons.IH [of m'] by simp_all
  have e: "fold (\<lambda>g maxId. if g_id g > maxId then g_id g else maxId) (g # gs) m =
           fold (\<lambda>g maxId. if g_id g > maxId then g_id g else maxId) gs m'"
    by (simp add: m'_def)
  show ?case
    unfolding e using order_trans [OF a c] order_trans [OF b c] d by simp
qed simp

lemma maxId_fold_in: "fold (\<lambda>g maxId. if g_id g > maxId then g_id g else maxId) gs m \<in> insert m (g_id ` set gs)"
proof (induction gs arbitrary: m)
  case (Cons a gs)
  from Cons.IH [of "if g_id a > m then g_id a else m"] show ?case by (auto split: if_splits)
qed simp

lemma group_maxId_bounds:
  "0 \<le> group_maxId pm" "g \<in> set (pm_groups pm) \<Longrightarrow> g_id g \<le> group_maxId pm"
  "0 \<le> B \<Longrightarrow> (\<forall>g \<in> set (pm_groups pm). g_id g \<le> B) \<Longrightarrow> group_maxId pm \<le> B"
  using GetNextId_fold [of 0 "pm_groups pm"] maxId_fold_in [of "pm_groups pm" 0]
  by (auto simp: group_maxId_def)

text \<open>Below \<open>INT_MAX\<close> the next id is the largest id plus one; at \<open>INT_MAX\<close> it wraps.\<close>

lemma GetNextId_no_wrap:
  assumes "group_maxId pm < 2 ^ 31 - 1"
  shows "GetNextId pm = group_maxId pm + 1"
proof -
  have eq: "word_of_int (group_maxId pm) + (1 :: 32 word) = word_of_int (group_maxId pm + 1)"
    by (metis of_int_1 of_int_add)
  have "0 \<le> group_maxId pm + 1" using group_maxId_bounds(1) [of pm] by simp
  with assms show ?thesis
    unfolding GetNextId_def eq sint_sbintrunc' by (intro signed_take_bit_int_eq_self) simp_all
qed

lemma GetNextId_wraps: "group_maxId pm = 2 ^ 31 - 1 \<Longrightarrow> GetNextId pm = - (2 ^ 31)"
  by (simp add: GetNextId_def)

text \<open>The groups a manager holds have distinct, positive ids.\<close>

definition groups_ok :: "profile_manager \<Rightarrow> bool" where
  "groups_ok pm \<longleftrightarrow> distinct (map g_id (pm_groups pm)) \<and> (\<forall>g \<in> set (pm_groups pm). 0 < g_id g)"

text \<open>The operations on the groups of one manager: a new group added to it (what
  \<open>InitializeDefaultGroup\<close> does when the manager is the global one), and a deletion.\<close>

datatype pm_op = OpNewGroup int | OpDeleteGroup int

fun pm_apply :: "pm_op \<Rightarrow> profile_manager \<Rightarrow> profile_manager" where
  "pm_apply (OpNewGroup now) pm = AddGroup (NewGroup pm now) pm"
| "pm_apply (OpDeleteGroup gid) pm = DeleteGroup gid pm"

text \<open>The operations that create a group: each one can raise the largest id by one.\<close>

fun pm_creates :: "pm_op \<Rightarrow> bool" where
  "pm_creates (OpNewGroup now) = True"
| "pm_creates (OpDeleteGroup gid) = False"

text \<open>One operation keeps the ids distinct and positive and raises their bound \<open>B\<close>
  by at most one, as long as \<open>B\<close> is below \<open>INT_MAX\<close>.\<close>

lemma pm_apply_ok:
  assumes ok: "groups_ok pm" and b: "0 \<le> B" "\<forall>g \<in> set (pm_groups pm). g_id g \<le> B" "B < 2 ^ 31 - 1"
  shows "groups_ok (pm_apply op pm) \<and> (\<forall>g \<in> set (pm_groups (pm_apply op pm)). g_id g \<le> B + 1)"
proof (cases op)
  case (OpNewGroup now)
  have m: "group_maxId pm \<le> B" using group_maxId_bounds(3) [OF b(1,2)] .
  then have n: "GetNextId pm = group_maxId pm + 1" using b(3) by (intro GetNextId_no_wrap) simp
  have "GetNextId pm \<notin> g_id ` set (pm_groups pm)"
    using group_maxId_bounds(2) [of _ pm] n by fastforce
  with ok b(2) m n group_maxId_bounds(1) [of pm] show ?thesis
    by (auto simp: OpNewGroup groups_ok_def AddGroup_def NewGroup_def Save_def Group_def Let_def)
next
  case (OpDeleteGroup gid)
  have "set (pm_groups (pm_apply op pm)) \<subseteq> set (pm_groups pm)"
    using DeleteGroup_groups [of gid pm] del_first_subset [of gid "pm_groups pm"] by (simp add: OpDeleteGroup)
  with ok b show ?thesis
    using DeleteGroup_groups [of gid pm] del_first_distinct [of "pm_groups pm" gid]
    by (fastforce simp: OpDeleteGroup groups_ok_def)
qed

lemma pm_fold_ok:
  "groups_ok pm \<Longrightarrow> 0 \<le> B \<Longrightarrow> \<forall>g \<in> set (pm_groups pm). g_id g \<le> B \<Longrightarrow>
   B + int (length (filter pm_creates ops)) < 2 ^ 31 \<Longrightarrow> groups_ok (fold pm_apply ops pm)"
proof (induction ops arbitrary: pm B)
  case (Cons op ops)
  show ?case
  proof (cases "pm_creates op")
    case True
    with Cons.prems have "B < 2 ^ 31 - 1" by simp
    with Cons.prems pm_apply_ok [of pm B op] True show ?thesis
      by (auto intro!: Cons.IH [of _ "B + 1"])
  next
    case False
    then obtain gid where op: "op = OpDeleteGroup gid" by (cases op) auto
    have "groups_ok (pm_apply op pm) \<and> (\<forall>g \<in> set (pm_groups (pm_apply op pm)). g_id g \<le> B)"
      using Cons.prems DeleteGroup_groups [of gid pm] del_first_distinct [of "pm_groups pm" gid]
        del_first_subset [of gid "pm_groups pm"]
      by (auto simp: op groups_ok_def)
    with Cons.prems False show ?thesis
      by (auto intro!: Cons.IH [of _ B])
  qed
qed simp

text \<open>C29. Every sequence of group creations and deletions on the manager keeps the
  group ids distinct and positive, as long as it creates fewer than \<open>2^31\<close> groups:
  the ids then stay at most \<open>INT_MAX\<close>, where \<open>GetNextId\<close> does not wrap.\<close>

lemma pm_run_ok:
  "int (length (filter pm_creates ops)) < 2 ^ 31 \<Longrightarrow> groups_ok (fold pm_apply ops ProfileManager)"
  by (rule pm_fold_ok [of _ 0]) (simp_all add: groups_ok_def ProfileManager_def)

subsection \<open>The default group\<close>

lemma InitializeDefaultGroup_self:
  "pm_groups (st glob) = [] \<Longrightarrow>
   pm_groups (InitializeDefaultGroup glob glob now st glob) = [NewGroup (st glob) now] \<and>
   g_id (NewGroup (st glob) now) = 1"
  by (simp add: InitializeDefaultGroup_def AddGroup_def Save_def NewGroup_def GetNextId_def group_maxId_def Group_def)

text \<open>\<open>InitializeDefaultGroup\<close> called on a manager that is not the global one
  adds the default group to the global manager: the manager stays empty, and when the
  global one already has a group with id 1 it ends up with two groups of the same id.\<close>

lemma InitializeDefaultGroup_other:
  assumes "this \<noteq> glob" and "pm_groups (st this) = []" and "1 \<in> g_id ` set (pm_groups (st glob))"
  shows "pm_groups (InitializeDefaultGroup glob this now st this) = [] \<and>
         \<not> distinct (map g_id (pm_groups (InitializeDefaultGroup glob this now st glob)))"
  using assms
  by (auto simp: InitializeDefaultGroup_def AddGroup_def Save_def NewGroup_def GetNextId_def group_maxId_def Group_def)


subsection \<open>Reading an entity back\<close>

lemma GetBean_socks: "GetBean pid = apsnd PSocks (SocksHttpBean type_Socks5)"
  by (simp add: GetBean_def GetProfileType_def GetBean_of_type_def)

lemma pe_FromJson_socks:
  assumes "jcontains obj ''bean''"
  shows "\<exists>b d. pe_bean (snd (pe_FromJson e obj)) = Some (b, PSocks d)"
  using assms
  by (auto simp: pe_FromJson_def Let_def GetBean_socks SocksHttpBean_def split: prod.splits bool.splits)

section \<open>Witnesses\<close>

theorem pm_run_ok_witness:
  "int (length (filter pm_creates [OpNewGroup 5, OpNewGroup 6, OpDeleteGroup 1])) < 2 ^ 31 \<and>
   groups_ok (fold pm_apply [OpNewGroup 5, OpNewGroup 6, OpDeleteGroup 1] ProfileManager)"
  using pm_run_ok [of "[OpNewGroup 5, OpNewGroup 6, OpDeleteGroup 1]"] by simp

theorem InitializeDefaultGroup_other_witness:
  "(1::nat) \<noteq> 0 \<and> pm_groups ((\<lambda>n::nat. if n = 0 then AddGroup (NewGroup ProfileManager 0) ProfileManager else ProfileManager) 1) = []
   \<and> 1 \<in> g_id ` set (pm_groups ((\<lambda>n::nat. if n = 0 then AddGroup (NewGroup ProfileManager 0) ProfileManager else ProfileManager) 0))
   \<and> pm_groups (InitializeDefaultGroup 0 1 7 (\<lambda>n::nat. if n = 0 then AddGroup (NewGroup ProfileManager 0) ProfileManager else ProfileManager) 1) = []
   \<and> \<not> distinct (map g_id (pm_groups (InitializeDefaultGroup 0 1 7
        (\<lambda>n::nat. if n = 0 then AddGroup (NewGroup ProfileManager 0) ProfileManager else ProfileManager) 0)))"
proof -
  let ?st = "\<lambda>n::nat. if n = 0 then AddGroup (NewGroup ProfileManager 0) ProfileManager else ProfileManager"
  have a: "pm_groups (?st 1) = []" by (simp add: ProfileManager_def)
  have b: "1 \<in> g_id ` set (pm_groups (?st 0))"
    by (simp add: ProfileManager_def AddGroup_def NewGroup_def GetNextId_def group_maxId_def Group_def Save_def)
  have n: "(1::nat) \<noteq> 0" by simp
  show ?thesis using InitializeDefaultGroup_other [of 1 0 ?st 7, OF n a b] a b by simp
qed

end
