(* ===== verification/Neko_Cli.thy ===== *)
theory Neko_Cli
  imports Complex_Main Neko_Lifecycle Neko_Safety Neko_Codec
begin

text \<open>
  \<open>src/cli/main_cli.cpp\<close>: the command-line front end. It constructs the service,
  initialises it, connects its signals to three slots that print, runs the safety checks
  of SafetyUtils (Neko_Safety) when asked to, and runs one command, whose exit code is
  the program's. \<open>QCommandLineParser\<close> is not modelled: its result is the record
  \<open>cli_opts\<close> of the options and the list of positional arguments; the raw argument list
  \<open>argv\<close> is kept for the test \<open>main\<close> makes on it. Standard output and standard error
  are lists of lines; a \<open>QString\<close> given to \<open>qCritical()\<close> is printed in double
  quotes. Two Qt formatters are parameters: \<open>QJsonDocument::toJson\<close> (\<open>jprint\<close>)
  and \<open>QString::number(x, 'f', 2)\<close> (\<open>fixed2\<close>). A call that never returns
  (\<open>QCoreApplication::exec()\<close>, or a service call that blocks on its mutex) is the
  value \<open>None\<close>.
\<close>

section \<open>Options and state\<close>

record cli_opts =
  co_configDir :: path
  co_daemon :: bool
  co_verbose :: bool
  co_tun :: bool
  co_dryRun :: bool
  co_force :: bool
  co_safe :: bool
  co_port :: string

record cli =
  cl_verbose :: bool
  cl_dryRun :: bool
  cl_force :: bool
  cl_enableSafety :: bool
  cl_out :: "string list"
  cl_err :: "string list"

definition CliApplication :: cli where
  "CliApplication = \<lparr>cl_verbose = False, cl_dryRun = False, cl_force = False, cl_enableSafety = False,
     cl_out = [], cl_err = []\<rparr>"

definition put_out :: "string \<Rightarrow> cli \<Rightarrow> cli" where
  "put_out l c = c\<lparr>cl_out := cl_out c @ [l]\<rparr>"

definition put_err :: "string \<Rightarrow> cli \<Rightarrow> cli" where
  "put_err l c = c\<lparr>cl_err := cl_err c @ [l]\<rparr>"

definition qquote :: "string \<Rightarrow> string" where
  "qquote s = CHR 0x22 # s @ [CHR 0x22]"

text \<open>\<open>QString::toInt(&ok)\<close>: \<open>None\<close> when \<open>ok\<close> is false.\<close>

definition toInt_ok :: "string \<Rightarrow> int option" where
  "toInt_ok s =
     (let t = trimmed s;
          v = (if t \<noteq> [] \<and> hd t = CHR ''-'' then map_option (\<lambda>n. - int n) (parse_nat (tl t))
               else if t \<noteq> [] \<and> hd t = CHR ''+'' then map_option int (parse_nat (tl t))
               else map_option int (parse_nat t))
      in case v of
           Some i \<Rightarrow> if - (2 ^ 31) \<le> i \<and> i < 2 ^ 31 then Some i else None
         | None \<Rightarrow> None)"

section \<open>The slots\<close>

definition onLogMessage :: "string \<Rightarrow> string \<Rightarrow> cli \<Rightarrow> cli" where
  "onLogMessage level message c =
     (if cl_verbose c \<or> level = ''error'' \<or> level = ''warn''
      then put_out (qargs ''[%1] %2'' [map upper_char level, message]) c else c)"

definition onError :: "string \<Rightarrow> cli \<Rightarrow> cli" where
  "onError err c = put_err (''ERROR: '' @ err) c"

definition onStatusChanged :: "service_status \<Rightarrow> cli \<Rightarrow> cli" where
  "onStatusChanged st c = (if cl_verbose c then put_out (''Status: '' @ status_string st) c else c)"

fun cli_slot :: "event \<Rightarrow> cli \<Rightarrow> cli" where
  "cli_slot (LogMessage l m) = onLogMessage l m"
| "cli_slot (ErrorOccurred e) = onError e"
| "cli_slot (StatusChanged st) = onStatusChanged st"
| "cli_slot _ = id"

text \<open>A service call: the signals it emits reach the slots while it runs.\<close>

definition cli_call :: "(svc \<Rightarrow> os \<Rightarrow> 'r svc_result) \<Rightarrow> cli \<Rightarrow> svc \<Rightarrow> os \<Rightarrow> ('r \<times> cli \<times> svc \<times> os) option" where
  "cli_call f c s o' =
     (case f s o' of
        None \<Rightarrow> None
      | Some (r, s1, o1) \<Rightarrow> Some (r, fold cli_slot (drop (length (events s)) (events s1)) c, s1, o1))"

section \<open>The commands\<close>

type_synonym cli_result = "(int \<times> cli \<times> svc \<times> os) option"

text \<open>\<open>formatBytes\<close>: divide by 1024 while the size is at least 1024 and a larger unit
  is left.\<close>

function unit_loop :: "real \<Rightarrow> nat \<Rightarrow> real \<times> nat" where
  "unit_loop sz unitIndex =
     (if 1024 \<le> sz \<and> unitIndex < 4 then unit_loop (sz / 1024) (Suc unitIndex) else (sz, unitIndex))"
  by pat_completeness auto
termination
  by (relation "measure (\<lambda>(sz, i). 4 - i)") auto

definition byte_units :: "string list" where
  "byte_units = [''B'', ''KB'', ''MB'', ''GB'', ''TB'']"

definition formatBytes :: "(real \<Rightarrow> string) \<Rightarrow> int \<Rightarrow> string" where
  "formatBytes fixed2 bytes =
     (let (sz, unitIndex) = unit_loop (of_int bytes) 0
      in qargs ''%1 %2'' [fixed2 sz, byte_units ! unitIndex])"

definition handleStart :: "host \<Rightarrow> string list \<Rightarrow> cli \<Rightarrow> svc \<Rightarrow> os \<Rightarrow> cli_result" where
  "handleStart h args c s o' =
     (if length args < 2 then Some (1, put_err ''Profile ID required for start command'' c, s, o')
      else case toInt_ok (args ! 1) of
        None \<Rightarrow> Some (1, put_err (''Invalid profile ID: '' @ qquote (args ! 1)) c, s, o')
      | Some profileId \<Rightarrow>
          if cl_dryRun c then
            (if validateOperationDryRun h o' ''start_proxy'' [(''profile_id'', JNum profileId)]
             then Some (0, put_out (''DRY RUN: Would start proxy with profile '' @ int_str profileId) c, s, o')
             else Some (1, put_err ''DRY RUN: Validation failed'' c, s, o'))
          else case cli_call (loadProfile profileId) c s o' of
            None \<Rightarrow> None
          | Some (ok, c1, s1, o1) \<Rightarrow>
              if \<not> ok then Some (1, put_err (''Failed to load profile: '' @ int_str profileId) c1, s1, o1)
              else case cli_call startProxy c1 s1 o1 of
                None \<Rightarrow> None
              | Some (ok, c2, s2, o2) \<Rightarrow>
                  if \<not> ok then Some (1, put_err ''Failed to start proxy'' c2, s2, o2)
                  else Some (0, fold put_out
                                  [''Proxy started successfully with profile '' @ int_str profileId,
                                   ''SOCKS5: '' @ getSocksAddress s2 @ '':'' @ int_str (getSocksPort s2),
                                   ''HTTP: '' @ getHttpAddress s2 @ '':'' @ int_str (getHttpPort s2)] c2, s2, o2))"

definition handleStop :: "cli \<Rightarrow> svc \<Rightarrow> os \<Rightarrow> cli_result" where
  "handleStop c s o' =
     (case cli_call stopProxy c s o' of
        None \<Rightarrow> None
      | Some (ok, c1, s1, o1) \<Rightarrow>
          if \<not> ok then Some (1, put_err ''Failed to stop proxy'' c1, s1, o1)
          else Some (0, put_out ''Proxy stopped successfully'' c1, s1, o1))"

definition handleRestart :: "string list \<Rightarrow> cli \<Rightarrow> svc \<Rightarrow> os \<Rightarrow> cli_result" where
  "handleRestart args c s o' =
     (if length args < 2 then Some (1, put_err ''Profile ID required for restart command'' c, s, o')
      else case toInt_ok (args ! 1) of
        None \<Rightarrow> Some (1, put_err (''Invalid profile ID: '' @ qquote (args ! 1)) c, s, o')
      | Some profileId \<Rightarrow>
          (case cli_call (loadProfile profileId) c s o' of
             None \<Rightarrow> None
           | Some (ok, c1, s1, o1) \<Rightarrow>
               if \<not> ok then Some (1, put_err (''Failed to load profile: '' @ int_str profileId) c1, s1, o1)
               else case cli_call restartProxy c1 s1 o1 of
                 None \<Rightarrow> None
               | Some (ok, c2, s2, o2) \<Rightarrow>
                   if \<not> ok then Some (1, put_err ''Failed to restart proxy'' c2, s2, o2)
                   else Some (0, put_out (''Proxy restarted successfully with profile '' @ int_str profileId) c2, s2, o2)))"

definition handleStatus :: "(real \<Rightarrow> string) \<Rightarrow> cli \<Rightarrow> svc \<Rightarrow> os \<Rightarrow> cli_result" where
  "handleStatus fixed2 c s o' =
     Some (0, fold put_out
                ([''Service Status: '' @ status_string (status s),
                  ''Current Profile: '' @ int_str (currentProfileId s),
                  ''TUN Mode: '' @ (if isTunModeRunning s then ''Running'' else ''Stopped'')] @
                 (if status s = Running
                  then [''SOCKS5: '' @ getSocksAddress s @ '':'' @ int_str (getSocksPort s),
                        ''HTTP: '' @ getHttpAddress s @ '':'' @ int_str (getHttpPort s),
                        ''Upload: '' @ formatBytes fixed2 (sint (uploadBytes s)),
                        ''Download: '' @ formatBytes fixed2 (sint (downloadBytes s))]
                  else [])) c, s, o')"

definition handleList :: "cli \<Rightarrow> svc \<Rightarrow> os \<Rightarrow> cli_result" where
  "handleList c s o' = Some (0, put_out ''Profile listing not yet implemented'' c, s, o')"

text \<open>\<open>handleDaemon\<close> prints that the web API will be available, starts no server, ignores
  \<open>--tun\<close>, and enters the event loop, which nothing quits.\<close>

definition handleDaemon :: "bool \<Rightarrow> int \<Rightarrow> cli \<Rightarrow> svc \<Rightarrow> os \<Rightarrow> cli_result" where
  "handleDaemon enableTun webPort c s o' = None"

definition handleTunStart :: "host \<Rightarrow> cli \<Rightarrow> svc \<Rightarrow> os \<Rightarrow> cli_result" where
  "handleTunStart h c s o' =
     (if cl_enableSafety c \<and> \<not> cl_force c \<and> \<not> isTunOperationSafe h o'
      then Some (1, put_err ''Use --force to override, or run in safe environment''
                      (put_err ''TUN operation not safe in current environment'' c), s, o')
      else if cl_dryRun c then
        (if validateOperationDryRun h o' ''start_tun'' []
         then Some (0, put_out ''DRY RUN: Would start TUN mode'' c, s, o')
         else Some (1, put_err ''DRY RUN: TUN validation failed'' c, s, o'))
      else case cli_call startTunMode c s o' of
        None \<Rightarrow> None
      | Some (ok, c1, s1, o1) \<Rightarrow>
          if \<not> ok then Some (1, put_err ''Failed to start TUN mode'' c1, s1, o1)
          else Some (0, put_out ''TUN mode started successfully'' c1, s1, o1))"

definition handleTunStop :: "cli \<Rightarrow> svc \<Rightarrow> os \<Rightarrow> cli_result" where
  "handleTunStop c s o' =
     (case cli_call stopTunMode c s o' of
        None \<Rightarrow> None
      | Some (ok, c1, s1, o1) \<Rightarrow>
          if \<not> ok then Some (1, put_err ''Failed to stop TUN mode'' c1, s1, o1)
          else Some (0, put_out ''TUN mode stopped successfully'' c1, s1, o1))"

definition handleImport :: "string list \<Rightarrow> cli \<Rightarrow> svc \<Rightarrow> os \<Rightarrow> cli_result" where
  "handleImport args c s o' =
     (if length args < 2 then Some (1, put_err ''URL or file path required for import command'' c, s, o')
      else Some (0, put_out (''Import functionality not yet implemented for: '' @ args ! 1) c, s, o'))"

definition handleConfig :: "(jobject \<Rightarrow> string) \<Rightarrow> cli \<Rightarrow> svc \<Rightarrow> os \<Rightarrow> cli_result" where
  "handleConfig jprint c s o' = Some (0, put_out (jprint (getCurrentConfig s)) c, s, o')"

section \<open>\<open>run\<close> and \<open>main\<close>\<close>

definition cli_dispatch ::
  "host \<Rightarrow> (jobject \<Rightarrow> string) \<Rightarrow> (real \<Rightarrow> string) \<Rightarrow> cli_opts \<Rightarrow> string list \<Rightarrow> cli \<Rightarrow> svc \<Rightarrow> os \<Rightarrow> cli_result" where
  "cli_dispatch h jprint fixed2 opts positionalArgs c s o' =
     (let command = hd positionalArgs
      in if command = ''start'' then handleStart h positionalArgs c s o'
         else if command = ''stop'' then handleStop c s o'
         else if command = ''restart'' then handleRestart positionalArgs c s o'
         else if command = ''status'' then handleStatus fixed2 c s o'
         else if command = ''list'' then handleList c s o'
         else if command = ''daemon'' then handleDaemon (co_tun opts) (qstr_toInt (co_port opts)) c s o'
         else if command = ''tun-start'' then handleTunStart h c s o'
         else if command = ''tun-stop'' then handleTunStop c s o'
         else if command = ''import'' then handleImport positionalArgs c s o'
         else if command = ''config'' then handleConfig jprint c s o'
         else Some (1, put_err (''Unknown command: '' @ qquote command) c, s, o'))"

text \<open>\<open>run\<close>: \<open>parser.showHelp(1)\<close> prints the help and exits with code 1.\<close>

definition cli_run ::
  "host \<Rightarrow> (jobject \<Rightarrow> string) \<Rightarrow> (real \<Rightarrow> string) \<Rightarrow> cli_opts \<Rightarrow> string list \<Rightarrow> os \<Rightarrow> cli_result" where
  "cli_run h jprint fixed2 opts positionalArgs o' =
     (let s0 = svc_new o'
      in case initialize (co_configDir opts) s0 o' of
           None \<Rightarrow> None
         | Some (ok, s, o1) \<Rightarrow>
             if \<not> ok then Some (1, put_err ''Failed to initialize service'' CliApplication, s, o1)
             else
               let c = CliApplication\<lparr>cl_verbose := co_verbose opts, cl_dryRun := co_dryRun opts,
                                      cl_force := co_force opts, cl_enableSafety := co_safe opts\<rparr>
               in if cl_enableSafety c \<and> \<not> cl_force c \<and> \<not> isSafeTestEnvironment h o1
                  then Some (1, put_err ''Use --force to override, or run in VM/test environment''
                                  (put_err ''Safety check failed: Not in safe environment'' c), s, o1)
                  else if positionalArgs = [] then Some (1, c, s, o1)
                  else cli_dispatch h jprint fixed2 opts positionalArgs c s o1)"

text \<open>\<open>main\<close>: after a run that returned 0, an argument \<open>daemon\<close> anywhere on the command
  line enters the event loop.\<close>

definition cli_main ::
  "host \<Rightarrow> (jobject \<Rightarrow> string) \<Rightarrow> (real \<Rightarrow> string) \<Rightarrow> string list \<Rightarrow> cli_opts \<Rightarrow> string list \<Rightarrow> os \<Rightarrow> cli_result" where
  "cli_main h jprint fixed2 argv opts positionalArgs o' =
     (case cli_run h jprint fixed2 opts positionalArgs o' of
        None \<Rightarrow> None
      | Some (r, c, s, o1) \<Rightarrow> if r = 0 \<and> ''daemon'' \<in> set argv then None else Some (r, c, s, o1))"

section \<open>Properties\<close>

text \<open>\<open>formatBytes\<close> indexes its unit list within bounds.\<close>

lemma unit_loop_index: "snd (unit_loop x i) \<le> max i 4"
  by (induction x i rule: unit_loop.induct) (subst unit_loop.simps; auto)

lemma formatBytes_unit: "snd (unit_loop x 0) < length byte_units"
  using unit_loop_index [of x 0] by (simp add: byte_units_def)

text \<open>\<open>--safe\<close> is checked after \<open>initialize\<close>: on a host that fails the check the
  program exits 1, but the configuration directories and files \<open>initialize\<close> created
  stay.\<close>

lemma cli_safety_after_initialize:
  assumes "initialize (co_configDir opts) (svc_new o') o' = Some (True, s, o1)"
    and "co_safe opts" and "\<not> co_force opts" and "\<not> isSafeTestEnvironment h o1"
  shows "\<exists>c. cli_run h jprint fixed2 opts positionalArgs o' = Some (1, c, s, o1)"
  using assms by (simp add: cli_run_def Let_def)

text \<open>Any command that exits 0 with the word \<open>daemon\<close> among the arguments, such as
  \<open>import daemon\<close>, leaves the program in its event loop.\<close>

lemma cli_main_daemon_argument:
  assumes "cli_run h jprint fixed2 opts positionalArgs o' = Some (0, c, s, o1)" and "''daemon'' \<in> set argv"
  shows "cli_main h jprint fixed2 argv opts positionalArgs o' = None"
  using assms by (simp add: cli_main_def)

lemma handleImport_daemon:
  "handleImport [''import'', ''daemon''] c s o' = Some (0, put_out ''Import functionality not yet implemented for: daemon'' c, s, o')"
  by (simp add: handleImport_def)

text \<open>C30. The dry run of \<open>start\<close> validates only that the id is positive: for an id
  above 100 it reports that it would start the proxy and exits 0, while the real
  \<open>start\<close> fails to load the profile, exits 1 and leaves the service as it was.\<close>

theorem cli_start_dryrun_divergence:
  assumes "\<not> locked s" and "100 < p" and "toInt_ok a = Some p"
  shows "handleStart h [''start'', a] (c\<lparr>cl_dryRun := True\<rparr>) s o' =
           Some (0, put_out (''DRY RUN: Would start proxy with profile '' @ int_str p) (c\<lparr>cl_dryRun := True\<rparr>), s, o')
         \<and> (\<exists>c' s'. handleStart h [''start'', a] (c\<lparr>cl_dryRun := False\<rparr>) s o' = Some (1, c', s', o')
              \<and> status s' = status s \<and> core s' = core s \<and> currentProfileId s' = currentProfileId s)"
proof -
  have d: "validateOperationDryRun h o' ''start_proxy'' [(''profile_id'', JNum p)]"
    using assms(2) by (simp add: dryRun_start_proxy)
  obtain s' where l: "loadProfile p s o' = Some (False, s', o')" and
    st: "status s' = status s" "core s' = core s" "currentProfileId s' = currentProfileId s"
    using loadProfile_spec [OF assms(1), of p o'] assms(2) by auto
  show ?thesis
    using d l st assms(3) by (auto simp: handleStart_def cli_call_def)
qed

section \<open>Witnesses\<close>

theorem cli_start_dryrun_divergence_witness:
  "\<not> locked demo_running \<and> 100 < (101::int) \<and> toInt_ok ''101'' = Some 101 \<and>
   handleStart plain_host [''start'', ''101''] (CliApplication\<lparr>cl_dryRun := True\<rparr>) demo_running demo_os =
     Some (0, put_out (''DRY RUN: Would start proxy with profile '' @ int_str 101) (CliApplication\<lparr>cl_dryRun := True\<rparr>),
           demo_running, demo_os) \<and>
   (\<exists>c' s'. handleStart plain_host [''start'', ''101''] (CliApplication\<lparr>cl_dryRun := False\<rparr>) demo_running demo_os = Some (1, c', s', demo_os)
      \<and> status s' = Running \<and> core s' = core demo_running \<and> currentProfileId s' = 1)"
proof -
  have t: "toInt_ok ''101'' = Some 101" by code_simp
  show ?thesis
    using cli_start_dryrun_divergence [OF demo_running_simps(1) _ t, of plain_host CliApplication demo_os] t demo_running_simps
    by simp
qed

end
