(* ===== verification/Neko_CliHeadless.thy ===== *)
theory Neko_CliHeadless
  imports Neko_Cli
begin

text \<open>
  \<open>src/nekoray/cli/main_cli_headless.cpp\<close>: a second command line over the same service
  (its header \<open>NekoService_Headless.hpp\<close> declares the class of Neko_Service with one
  more getter, \<open>getCurrentProfileId\<close>). It differs from \<open>src/cli/main_cli.cpp\<close> (Neko_Cli)
  in its slots, which print every log line, in the safety check, which runs unless
  \<open>--force\<close> or \<open>--dry-run\<close> is given, and in its handlers. The options are those of
  the record \<open>cli_opts\<close> (\<open>co_verbose\<close> is not read); output goes to the \<open>cli\<close> record's
  lines. \<open>InitializeGRPC\<close> allocates a client and always succeeds, \<open>CleanupGRPC\<close>
  deletes it; neither touches the modelled state. The 500 ms sleep of \<open>restart\<close> is not
  modelled.
\<close>

section \<open>The slots\<close>

fun ch_slot :: "svc \<Rightarrow> event \<Rightarrow> cli \<Rightarrow> cli" where
  "ch_slot s (LogMessage level message) = put_out (''['' @ level @ ''] '' @ message)"
| "ch_slot s (ErrorOccurred e) = put_err (''Error: '' @ e)"
| "ch_slot s (StatusChanged st) = put_out (''Status changed to: '' @ status_string st)"
| "ch_slot s _ = id"

text \<open>A service call with the slots of this front end connected.\<close>

definition ch_call :: "(svc \<Rightarrow> os \<Rightarrow> 'r svc_result) \<Rightarrow> cli \<Rightarrow> svc \<Rightarrow> os \<Rightarrow> ('r \<times> cli \<times> svc \<times> os) option" where
  "ch_call f c s o' =
     (case f s o' of
        None \<Rightarrow> None
      | Some (r, s1, o1) \<Rightarrow> Some (r, fold (ch_slot s1) (drop (length (events s)) (events s1)) c, s1, o1))"

section \<open>The commands\<close>

definition ch_handleStart :: "string list \<Rightarrow> bool \<Rightarrow> bool \<Rightarrow> cli \<Rightarrow> svc \<Rightarrow> os \<Rightarrow> cli_result" where
  "ch_handleStart args enableTun dryRun c s o' =
     (if length args < 2 then Some (1, put_err ''Error: Profile ID required for start command'' c, s, o')
      else let profileId = qstr_toInt (args ! 1) in
        if profileId \<le> 0 then Some (1, put_err ''Error: Invalid profile ID'' c, s, o')
        else if dryRun then
          Some (0, put_out (''DRY RUN: Would start proxy with profile '' @ int_str profileId @
                            (if enableTun then '' (TUN mode enabled)'' else [])) c, s, o')
        else
          let c0 = put_out (''Starting proxy with profile '' @ int_str profileId @ ''...'') c in
          case ch_call (loadProfile profileId) c0 s o' of
            None \<Rightarrow> None
          | Some (ok, c1, s1, o1) \<Rightarrow>
              if \<not> ok then Some (1, put_err (''Error: Failed to load profile '' @ int_str profileId) c1, s1, o1)
              else case ch_call startProxy c1 s1 o1 of
                None \<Rightarrow> None
              | Some (ok, c2, s2, o2) \<Rightarrow>
                  if \<not> ok then Some (1, put_err ''Error: Failed to start proxy'' c2, s2, o2)
                  else if enableTun then
                    (case ch_call startTunMode c2 s2 o2 of
                       None \<Rightarrow> None
                     | Some (ok, c3, s3, o3) \<Rightarrow>
                         Some (0, put_out ''Proxy started successfully''
                                    (if ok then put_out ''TUN mode enabled'' c3
                                     else put_err ''Warning: Failed to start TUN mode'' c3), s3, o3))
                  else Some (0, put_out ''Proxy started successfully'' c2, s2, o2))"

definition ch_handleStop :: "bool \<Rightarrow> cli \<Rightarrow> svc \<Rightarrow> os \<Rightarrow> cli_result" where
  "ch_handleStop dryRun c s o' =
     (if dryRun then Some (0, put_out ''DRY RUN: Would stop proxy'' c, s, o')
      else case ch_call stopProxy (put_out ''Stopping proxy...'' c) s o' of
        None \<Rightarrow> None
      | Some (ok, c1, s1, o1) \<Rightarrow>
          if ok then Some (0, put_out ''Proxy stopped successfully'' c1, s1, o1)
          else Some (1, put_err ''Error: Failed to stop proxy'' c1, s1, o1))"

definition ch_handleRestart :: "string list \<Rightarrow> bool \<Rightarrow> bool \<Rightarrow> cli \<Rightarrow> svc \<Rightarrow> os \<Rightarrow> cli_result" where
  "ch_handleRestart args enableTun dryRun c s o' =
     (case ch_handleStop dryRun c s o' of
        None \<Rightarrow> None
      | Some (r, c1, s1, o1) \<Rightarrow>
          if r \<noteq> 0 then Some (1, c1, s1, o1) else ch_handleStart args enableTun dryRun c1 s1 o1)"

definition ch_handleStatus :: "cli \<Rightarrow> svc \<Rightarrow> os \<Rightarrow> cli_result" where
  "ch_handleStatus c s o' =
     Some (0, fold put_out
                [''=== NekoRay Status ==='',
                 ''Status: '' @ status_string (status s),
                 ''Profile: '' @ int_str (currentProfileId s),
                 ''SOCKS: '' @ getSocksAddress s @ '':'' @ int_str (getSocksPort s),
                 ''HTTP: '' @ getHttpAddress s @ '':'' @ int_str (getHttpPort s),
                 ''TUN Mode: '' @ (if isTunModeRunning s then ''Running'' else ''Stopped''),
                 ''Upload: '' @ int_str (sint (uploadBytes s)) @ '' bytes'',
                 ''Download: '' @ int_str (sint (downloadBytes s)) @ '' bytes''] c, s, o')"

definition ch_handleList :: "cli \<Rightarrow> svc \<Rightarrow> os \<Rightarrow> cli_result" where
  "ch_handleList c s o' =
     Some (0, fold put_out [''=== Available Profiles ==='', ''1. Sample SOCKS5 Profile (127.0.0.1:1080)'',
                            ''2. Sample HTTP Profile (127.0.0.1:8080)'', ''3. Sample Shadowsocks Profile''] c, s, o')"

definition ch_handleDaemon :: "int \<Rightarrow> cli \<Rightarrow> svc \<Rightarrow> os \<Rightarrow> cli_result" where
  "ch_handleDaemon port c s o' =
     Some (0, fold put_out [''Starting daemon mode on port '' @ int_str port @ ''...'',
                            ''Web interface will be available at http://127.0.0.1:'' @ int_str port,
                            ''Note: Use nekoray-web for full web interface support''] c, s, o')"

definition ch_handleTunStart :: "bool \<Rightarrow> cli \<Rightarrow> svc \<Rightarrow> os \<Rightarrow> cli_result" where
  "ch_handleTunStart dryRun c s o' =
     (if dryRun then Some (0, put_out ''DRY RUN: Would start TUN mode'' c, s, o')
      else case ch_call startTunMode (put_out ''Starting TUN mode...'' c) s o' of
        None \<Rightarrow> None
      | Some (ok, c1, s1, o1) \<Rightarrow>
          if ok then Some (0, put_out ''TUN mode started successfully'' c1, s1, o1)
          else Some (1, put_err ''Error: Failed to start TUN mode'' c1, s1, o1))"

definition ch_handleTunStop :: "bool \<Rightarrow> cli \<Rightarrow> svc \<Rightarrow> os \<Rightarrow> cli_result" where
  "ch_handleTunStop dryRun c s o' =
     (if dryRun then Some (0, put_out ''DRY RUN: Would stop TUN mode'' c, s, o')
      else case ch_call stopTunMode (put_out ''Stopping TUN mode...'' c) s o' of
        None \<Rightarrow> None
      | Some (ok, c1, s1, o1) \<Rightarrow>
          if ok then Some (0, put_out ''TUN mode stopped successfully'' c1, s1, o1)
          else Some (1, put_err ''Error: Failed to stop TUN mode'' c1, s1, o1))"

definition ch_handleImport :: "string list \<Rightarrow> cli \<Rightarrow> svc \<Rightarrow> os \<Rightarrow> cli_result" where
  "ch_handleImport args c s o' =
     (if length args < 2 then Some (1, put_err ''Error: URL or file path required for import command'' c, s, o')
      else Some (0, fold put_out [''Importing from: '' @ args ! 1, ''Note: Import functionality not yet implemented''] c, s, o'))"

definition ch_handleConfig :: "(jobject \<Rightarrow> string) \<Rightarrow> cli \<Rightarrow> svc \<Rightarrow> os \<Rightarrow> cli_result" where
  "ch_handleConfig jprint c s o' =
     Some (0, fold put_out [''=== Current Configuration ==='', jprint (getCurrentConfig s)] c, s, o')"

section \<open>\<open>run\<close>\<close>

definition ch_dispatch :: "(jobject \<Rightarrow> string) \<Rightarrow> cli_opts \<Rightarrow> string list \<Rightarrow> cli \<Rightarrow> svc \<Rightarrow> os \<Rightarrow> cli_result" where
  "ch_dispatch jprint opts positionalArgs c s o' =
     (let command = hd positionalArgs; enableTun = co_tun opts; dryRun = co_dryRun opts
      in if command = ''start'' then ch_handleStart positionalArgs enableTun dryRun c s o'
         else if command = ''stop'' then ch_handleStop dryRun c s o'
         else if command = ''restart'' then ch_handleRestart positionalArgs enableTun dryRun c s o'
         else if command = ''status'' then ch_handleStatus c s o'
         else if command = ''list'' then ch_handleList c s o'
         else if command = ''daemon'' then ch_handleDaemon (qstr_toInt (co_port opts)) c s o'
         else if command = ''tun-start'' then ch_handleTunStart dryRun c s o'
         else if command = ''tun-stop'' then ch_handleTunStop dryRun c s o'
         else if command = ''import'' then ch_handleImport positionalArgs c s o'
         else if command = ''config'' then ch_handleConfig jprint c s o'
         else Some (1, put_err (''Error: Unknown command '' @ [CHR 0x27] @ command @ [CHR 0x27]) c, s, o'))"

definition ch_run :: "host \<Rightarrow> (jobject \<Rightarrow> string) \<Rightarrow> cli_opts \<Rightarrow> string list \<Rightarrow> os \<Rightarrow> cli_result" where
  "ch_run h jprint opts positionalArgs o' =
     (if positionalArgs = []
      then Some (1, put_err ''Error: No command specified. Use --help for usage information.'' CliApplication, svc_new o', o')
      else case initialize (co_configDir opts) (svc_new o') o' of
        None \<Rightarrow> None
      | Some (ok, s, o1) \<Rightarrow>
          if \<not> ok then Some (1, put_err ''Error: Failed to initialize NekoRay service'' CliApplication, s, o1)
          else if (co_safe opts \<or> (\<not> co_force opts \<and> \<not> co_dryRun opts)) \<and> \<not> isSafeTestEnvironment h o1 then
            (let c = put_err ''Use --force to bypass or --safe for additional checks.''
                       (put_err ''Warning: Potentially unsafe environment detected.'' CliApplication)
             in if \<not> co_force opts then Some (1, c, s, o1) else ch_dispatch jprint opts positionalArgs c s o1)
          else ch_dispatch jprint opts positionalArgs CliApplication s o1)"

section \<open>Properties\<close>

text \<open>With no option at all the safety check runs: on a host that is not a safe test
  environment (a physical machine reached over SSH, a host whose name contains
  \<open>live\<close>, \<open>prod\<close> or \<open>master\<close>) every command, \<open>status\<close> included, exits 1 after
  \<open>initialize\<close> has run.\<close>

lemma ch_default_safety_blocks:
  assumes "initialize (co_configDir opts) (svc_new o') o' = Some (True, s, o1)"
      and "\<not> co_safe opts" "\<not> co_force opts" "\<not> co_dryRun opts" "\<not> isSafeTestEnvironment h o1"
      and "positionalArgs \<noteq> []"
  shows "\<exists>c. ch_run h jprint opts positionalArgs o' = Some (1, c, s, o1)"
  using assms by (simp add: ch_run_def Let_def)

text \<open>The dry run of \<open>start\<close> accepts every positive id, also those \<open>loadProfile\<close>
  rejects, and does not call the service.\<close>

lemma ch_dryrun_start_accepts:
  assumes "0 < p" "p < 2 ^ 31"
  shows "ch_handleStart [''start'', int_str p] False True c s o' =
           Some (0, put_out (''DRY RUN: Would start proxy with profile '' @ int_str p) c, s, o')"
proof -
  have "qstr_toInt (int_str p) = p" using assms qstr_toInt_int_str by simp
  with assms show ?thesis by (simp add: ch_handleStart_def)
qed

end
