(* ===== verification/Neko_CliComplete.thy ===== *)
theory Neko_CliComplete
  imports Neko_Beans Neko_Safety "HOL-Library.List_Lexorder" "HOL-Library.Char_ord"
begin

text \<open>
  \<open>src/nekoray-cli-COMPLETE.cpp\<close>: the class \<open>CompleteCliApplication\<close>, a front end of
  its own that keeps the settings, the profiles and the groups as three JSON files in a
  configuration directory, answers one command, or runs a menu read from standard
  input. Its state is the record \<open>ccli\<close>: the members \<open>m_configDir\<close>, \<open>m_corePath\<close>,
  \<open>m_config\<close>, \<open>m_profiles\<close>, \<open>m_groups\<close>, the text written to \<open>m_out\<close> and the text
  still unread on \<open>m_in\<close>. Text is a string of bytes: the box-drawing characters of
  the menus are their UTF-8 encodings, and every \<open>"\\n"\<close> of the source, a backslash
  and an \<open>n\<close> in C++, is the two characters \<open>bsn\<close>. Files are those of the \<open>os\<close> state.
\<close>

section \<open>State and streams\<close>

record ccli =
  cc_configDir :: path
  cc_corePath :: string
  cc_config :: jobject
  cc_profiles :: "json list"
  cc_groups :: "json list"
  cc_out :: string
  cc_in :: string

definition bsn :: string where
  "bsn = [CHR 0x5C, CHR ''n'']"

text \<open>UTF-8 of the box-drawing character U+2500 + k, and of U+2705.\<close>

definition box :: "nat \<Rightarrow> string" where
  "box k = [CHR 0xE2, CHR 0x94, char_of (128 + k)]"

definition hbar :: "nat \<Rightarrow> string" where
  "hbar n = concat (replicate n (box 0))"

definition sp :: "nat \<Rightarrow> string" where
  "sp n = replicate n CHR '' ''"

definition check_mark :: string where
  "check_mark = [CHR 0xE2, CHR 0x9C, CHR 0x85]"

definition cc_print :: "string \<Rightarrow> ccli \<Rightarrow> ccli" where
  "cc_print t c = c\<lparr>cc_out := cc_out c @ t\<rparr>"

text \<open>\<open>QTextStream >> QString\<close>: white space is skipped and a word is read; at the end
  of the input the word is empty.\<close>

definition ts_word :: "string \<Rightarrow> string \<times> string" where
  "ts_word s =
     (let r = dropWhile is_space s
      in (takeWhile (\<lambda>c. \<not> is_space c) r, dropWhile (\<lambda>c. \<not> is_space c) r))"

text \<open>\<open>QTextStream::readLine\<close>: the text up to the next line feed, which is consumed
  and not returned, nor a carriage return before it; at the end of the input the rest.\<close>

definition ts_readLine :: "string \<Rightarrow> string \<times> string" where
  "ts_readLine s =
     (let l = takeWhile (\<lambda>c. c \<noteq> CHR ''\<newline>'') s; r = dropWhile (\<lambda>c. c \<noteq> CHR ''\<newline>'') s
      in if r \<noteq> [] \<and> l \<noteq> [] \<and> last l = CHR 0x0D then (butlast l, tl r) else (l, drop 1 r))"

text \<open>\<open>QTextStream >> int\<close>: white space is skipped, then an optional sign and decimal
  digits; with no digit the value is 0 and the text after the sign is left unread.\<close>

definition ts_int :: "string \<Rightarrow> int \<times> string" where
  "ts_int s =
     (let r = dropWhile is_space s;
          (sg, r1) = (if r \<noteq> [] \<and> (hd r = CHR ''-'' \<or> hd r = CHR ''+'')
                      then (if hd r = CHR ''-'' then -1 else 1, tl r) else (1, r));
          ds = takeWhile (\<lambda>c. digit_val c \<noteq> None) r1
      in case parse_nat ds of
           Some n \<Rightarrow> (sg * int n, drop (length ds) r1)
         | None \<Rightarrow> (0, r1))"

definition cc_readWord :: "ccli \<Rightarrow> string \<times> ccli" where
  "cc_readWord c = (let (w, r) = ts_word (cc_in c) in (w, c\<lparr>cc_in := r\<rparr>))"

definition cc_readLine :: "ccli \<Rightarrow> string \<times> ccli" where
  "cc_readLine c = (let (l, r) = ts_readLine (cc_in c) in (l, c\<lparr>cc_in := r\<rparr>))"

definition cc_readInt :: "ccli \<Rightarrow> int \<times> ccli" where
  "cc_readInt c = (let (n, r) = ts_int (cc_in c) in (n, c\<lparr>cc_in := r\<rparr>))"

section \<open>JSON values as the class reads them\<close>

text \<open>\<open>obj[k]\<close> on a non-const \<open>QJsonObject\<close> inserts \<open>k\<close> with a null value when it is
  missing.\<close>

definition jref :: "string \<Rightarrow> jobject \<Rightarrow> jobject" where
  "jref k obj = (if jcontains obj k then obj else jset k JNull obj)"

definition cc_ref :: "string \<Rightarrow> ccli \<Rightarrow> json \<times> ccli" where
  "cc_ref k c = (let ob = jref k (cc_config c) in (jfield ob k, c\<lparr>cc_config := ob\<rparr>))"

definition to_object :: "json \<Rightarrow> jobject" where
  "to_object v = (case v of JObj ob \<Rightarrow> ob | _ \<Rightarrow> [])"

text \<open>\<open>QJsonDocument::fromJson(data).array()\<close>.\<close>

fun doc_array :: "file_data \<Rightarrow> json list" where
  "doc_array (JsonDoc (JArr xs)) = xs"
| "doc_array _ = []"

text \<open>\<open>QJsonValue::toVariant().toString()\<close>.\<close>

fun variant_string :: "json \<Rightarrow> string" where
  "variant_string (JStr s) = s"
| "variant_string (JNum n) = int_str n"
| "variant_string (JBool b) = (if b then ''true'' else ''false'')"
| "variant_string _ = []"

text \<open>\<open>QString::arg(a, fieldWidth)\<close>: \<open>a\<close> padded with spaces to the width, on the left
  for a positive width and on the right for a negative one.\<close>

definition qpad :: "int \<Rightarrow> string \<Rightarrow> string" where
  "qpad w a = (if 0 \<le> w then sp (nat w - length a) @ a else a @ sp (nat (- w) - length a))"

section \<open>Configuration files\<close>

definition cc_createDefaultConfig :: jobject where
  "cc_createDefaultConfig =
     jsets [(''inbound_socks_port'', JNum 2080), (''inbound_http_port'', JNum 2081),
            (''log_level'', JStr ''warning''), (''current_group'', JNum 0), (''tun_enabled'', JBool False),
            (''start_on_boot'', JBool False), (''system_proxy'', JBool False), (''auto_update'', JBool True),
            (''theme'', JStr ''auto'')] []"

definition cc_saveConfiguration :: "ccli \<Rightarrow> os \<Rightarrow> os" where
  "cc_saveConfiguration c o' =
     (let d = cc_configDir c;
          o1 = snd (make_dir d o');
          o2 = snd (write_file (d @ ''/config.json'') (JsonDoc (JObj (cc_config c))) o1);
          o3 = snd (write_file (d @ ''/profiles.json'') (JsonDoc (JArr (cc_profiles c))) o2)
      in snd (write_file (d @ ''/groups.json'') (JsonDoc (JArr (cc_groups c))) o3))"

definition cc_loadConfiguration :: "ccli \<Rightarrow> os \<Rightarrow> ccli \<times> os" where
  "cc_loadConfiguration c o' =
     (let d = cc_configDir c;
          o1 = (if d \<in> os_dirs o' then o' else snd (make_dir d o'));
          (c1, o2) = (case os_files o1 (d @ ''/config.json'') of
                        Some f \<Rightarrow> (c\<lparr>cc_config := (case doc_object f of Some ob \<Rightarrow> ob | None \<Rightarrow> [])\<rparr>, o1)
                      | None \<Rightarrow> (let c' = c\<lparr>cc_config := cc_createDefaultConfig\<rparr>
                                in (c', cc_saveConfiguration c' o1)));
          c2 = (case os_files o2 (d @ ''/profiles.json'') of
                  Some f \<Rightarrow> c1\<lparr>cc_profiles := doc_array f\<rparr> | None \<Rightarrow> c1);
          c3 = (case os_files o2 (d @ ''/groups.json'') of
                  Some f \<Rightarrow> c2\<lparr>cc_groups := doc_array f\<rparr> | None \<Rightarrow> c2)
      in (c3, o2))"

definition cc_findCore :: "os \<Rightarrow> ccli \<Rightarrow> ccli" where
  "cc_findCore o' c =
     (case find (\<lambda>name. qfile_exists o' (os_app_dir o' @ ''/'' @ name))
                [''nekobox_core'', ''nekoray_core'', ''sing-box''] of
        Some name \<Rightarrow> c\<lparr>cc_corePath := os_app_dir o' @ ''/'' @ name\<rparr>
      | None \<Rightarrow> c)"

text \<open>The constructor, for the home directory \<open>home\<close> and standard input \<open>inp\<close>.\<close>

definition cc_new :: "path \<Rightarrow> string \<Rightarrow> os \<Rightarrow> ccli \<times> os" where
  "cc_new home inp o' =
     (let c0 = \<lparr>cc_configDir = home @ ''/.config/nekoray'', cc_corePath = [], cc_config = [],
                cc_profiles = [], cc_groups = [], cc_out = [], cc_in = inp\<rparr>;
          (c1, o1) = cc_loadConfiguration c0 o'
      in (cc_findCore o1 c1, o1))"

section \<open>Commands\<close>

text \<open>A command that only prints a line and returns 0: the stub implementations.\<close>

definition cc_stub :: "string \<Rightarrow> ccli \<Rightarrow> int \<times> ccli" where
  "cc_stub msg c = (0, cc_print (msg @ bsn) c)"

definition cc_pure :: "(ccli \<Rightarrow> int \<times> ccli) \<Rightarrow> ccli \<Rightarrow> os \<Rightarrow> int \<times> ccli \<times> os" where
  "cc_pure f c o' = (let (r, c1) = f c in (r, c1, o'))"

definition cc_getServiceStatus :: string where
  "cc_getServiceStatus = ''Stopped''"

definition cc_getCurrentProfile :: "ccli \<Rightarrow> int \<times> ccli" where
  "cc_getCurrentProfile c = (let (v, c1) = cc_ref ''current_profile'' c in (json_int_or (-1) v, c1))"

definition cc_getTunStatus :: "ccli \<Rightarrow> string \<times> ccli" where
  "cc_getTunStatus c =
     (let (v, c1) = cc_ref ''tun_enabled'' c in (if json_bool_or False v then ''Started'' else ''Stopped'', c1))"

definition cc_getTraffic :: string where
  "cc_getTraffic = ''0''"

definition cc_handleStatus :: "ccli \<Rightarrow> int \<times> ccli" where
  "cc_handleStatus c =
     (let c1 = cc_print (bsn @ ''=== NekoRay Status ==='' @ bsn) c;
          c2 = cc_print (qarg (''Service Status: %1'' @ bsn) cc_getServiceStatus) c1;
          (p, c3) = cc_getCurrentProfile c2;
          c4 = cc_print (qarg (''Current Profile: %1'' @ bsn) (int_str p)) c3;
          (t, c5) = cc_getTunStatus c4;
          c6 = cc_print (qarg (''TUN Mode: %1'' @ bsn) t) c5;
          c7 = cc_print (qarg (''Core: %1'' @ bsn) (if cc_corePath c6 = [] then ''Not Found'' else cc_corePath c6)) c6;
          c8 = cc_print (qarg (''Core Status: %1'' @ bsn) (if cc_corePath c7 = [] then ''Missing'' else ''Ready'')) c7;
          (sv, c9) = cc_ref ''inbound_socks_port'' c8;
          (hv, c10) = cc_ref ''inbound_http_port'' c9;
          c11 = cc_print (qarg (''SOCKS5: 127.0.0.1:%1 (configured)'' @ bsn) (int_str (json_int_or 2080 sv))) c10;
          c12 = cc_print (qarg (''HTTP: 127.0.0.1:%1 (configured)'' @ bsn) (int_str (json_int_or 2081 hv))) c11;
          c13 = cc_print (qarg (''Upload: %1 B'' @ bsn) cc_getTraffic) c12
      in (0, cc_print (qarg (''Download: %1 B'' @ bsn) cc_getTraffic) c13))"

subsection \<open>Profiles\<close>

definition profile_row :: "nat \<Rightarrow> json \<Rightarrow> ccli \<Rightarrow> ccli" where
  "profile_row i v c =
     (let profile = to_object v;
          name = to_str (jfield profile ''name'');
          typ = to_str (jfield profile ''protocol'');
          (cur, c1) = cc_getCurrentProfile c;
          status = (if int i = cur then ''Active'' else ''Inactive'')
      in cc_print (qarg (qarg (qarg (qarg (box 2 @ '' %1 '' @ box 2 @ '' %2 '' @ box 2 @ '' %3 '' @ box 2 @ '' %4 '' @ box 2 @ bsn)
                                         (qpad 3 (int_str (int i))))
                                   (qpad (-20) (take 20 name)))
                             (qpad (-15) (take 15 typ)))
                       (qpad (-10) status)) c1)"

definition cc_listProfiles :: "ccli \<Rightarrow> int \<times> ccli" where
  "cc_listProfiles c =
     (let c1 = cc_print (bsn @ ''=== Profile List ==='' @ bsn @
                         box 0x0C @ hbar 5 @ box 0x2C @ hbar 22 @ box 0x2C @ hbar 17 @ box 0x2C @ hbar 12 @ box 0x10 @ bsn @
                         box 2 @ ''  ID '' @ box 2 @ '' Name'' @ sp 17 @ box 2 @ '' Type'' @ sp 12 @ box 2 @ '' Status'' @ sp 5 @ box 2 @ bsn @
                         box 0x1C @ hbar 5 @ box 0x3C @ hbar 22 @ box 0x3C @ hbar 17 @ box 0x3C @ hbar 12 @ box 0x24 @ bsn) c;
          c2 = (if cc_profiles c1 = [] then cc_print (box 2 @ sp 20 @ ''No profiles configured'' @ sp 19 @ box 2 @ bsn) c1
                else fold (\<lambda>(i, v). profile_row i v) (enumerate 0 (cc_profiles c1)) c1)
      in (0, cc_print (box 0x14 @ hbar 5 @ box 0x34 @ hbar 22 @ box 0x34 @ hbar 17 @ box 0x34 @ hbar 12 @ box 0x18 @ bsn) c2))"

definition cc_addProfile :: "ccli \<Rightarrow> os \<Rightarrow> int \<times> ccli \<times> os" where
  "cc_addProfile c o' =
     (let c1 = cc_print (bsn @ ''=== Add New Profile ==='' @ bsn @ ''Profile Name: '') c;
          (_, c2) = cc_readLine c1;
          (name, c3) = cc_readLine c2;
          (protocol, c4) = cc_readLine (cc_print ''Protocol (vmess/vless/shadowsocks/trojan): '' c3);
          (address, c5) = cc_readLine (cc_print ''Server Address: '' c4);
          (input, c6) = cc_readWord (cc_print ''Server Port: '' c5);
          base = [(''name'', JStr name), (''protocol'', JStr protocol), (''address'', JStr address),
                  (''port'', JNum (qstr_toInt input))];
          (extra, c7) =
            (if protocol = ''vmess'' \<or> protocol = ''vless'' then
               (let (_, d1) = cc_readLine (cc_print ''UUID: '' c6); (uuid, d2) = cc_readLine d1
                in ([(''uuid'', JStr uuid)], d2))
             else if protocol = ''shadowsocks'' then
               (let (_, d1) = cc_readLine (cc_print ''Method: '' c6); (method, d2) = cc_readLine d1;
                    (password, d3) = cc_readLine (cc_print ''Password: '' d2)
                in ([(''method'', JStr method), (''password'', JStr password)], d3))
             else ([], c6));
          c8 = c7\<lparr>cc_profiles := cc_profiles c7 @ [JObj (jsets (base @ extra) [])]\<rparr>
      in (0, cc_print (check_mark @ '' Profile added successfully'' @ bsn) c8, cc_saveConfiguration c8 o'))"

definition cc_editProfile :: "int \<Rightarrow> ccli \<Rightarrow> os \<Rightarrow> int \<times> ccli \<times> os" where
  "cc_editProfile i c o' =
     (if i < 0 \<or> int (length (cc_profiles c)) \<le> i then (1, cc_print (''Invalid profile ID'' @ bsn) c, o')
      else let profile = jref ''name'' (to_object (cc_profiles c ! nat i));
               name = to_str (jfield profile ''name'');
               c1 = cc_print (qarg (bsn @ ''=== Edit Profile: %1 ==='' @ bsn) name @
                              qarg (''Current Name: %1'' @ bsn) name @ ''New Name (Enter to keep current): '') c;
               (_, c2) = cc_readLine c1;
               (newName, c3) = cc_readLine c2;
               profile' = (if newName \<noteq> [] then jset ''name'' (JStr newName) profile else profile);
               c4 = c3\<lparr>cc_profiles := (cc_profiles c3)[nat i := JObj profile']\<rparr>
           in (0, cc_print (check_mark @ '' Profile updated successfully'' @ bsn) c4, cc_saveConfiguration c4 o'))"

definition cc_handleProfileCommand :: "string list \<Rightarrow> ccli \<Rightarrow> os \<Rightarrow> int \<times> ccli \<times> os" where
  "cc_handleProfileCommand args c o' =
     (if args = [] then (1, cc_print (''Profile command requires subcommand'' @ bsn) c, o')
      else let sub = hd args in
        if sub = ''list'' then cc_pure cc_listProfiles c o'
        else if sub = ''add'' then cc_addProfile c o'
        else if sub = ''edit'' \<and> 1 < length args then cc_editProfile (qstr_toInt (args ! 1)) c o'
        else if sub = ''delete'' \<and> 1 < length args
          then cc_pure (cc_stub (''Delete profile '' @ int_str (qstr_toInt (args ! 1)))) c o'
        else if sub = ''show'' \<and> 1 < length args
          then cc_pure (cc_stub (''Show profile '' @ int_str (qstr_toInt (args ! 1)))) c o'
        else if sub = ''import'' then cc_pure (cc_stub ''Import profiles...'') c o'
        else if sub = ''export'' then cc_pure (cc_stub ''Export profiles...'') c o'
        else (1, cc_print (''Invalid profile subcommand'' @ bsn) c, o'))"

subsection \<open>Groups and settings\<close>

definition group_row :: "nat \<Rightarrow> json \<Rightarrow> ccli \<Rightarrow> ccli" where
  "group_row i v c =
     (let g = to_object v
      in cc_print (qarg (qarg (qarg (''%1. %2 (%3 profiles)'' @ bsn) (int_str (int i)))
                              (to_str (jfield g ''name'')))
                        (int_str (int (length (jitems (jfield g ''profiles'')))))) c)"

definition cc_listGroups :: "ccli \<Rightarrow> int \<times> ccli" where
  "cc_listGroups c =
     (0, fold (\<lambda>(i, v). group_row i v) (enumerate 0 (cc_groups c))
           (cc_print (bsn @ ''=== Subscription Groups ==='' @ bsn) c))"

definition cc_handleGroupCommand :: "string list \<Rightarrow> ccli \<Rightarrow> int \<times> ccli" where
  "cc_handleGroupCommand args c =
     (if args = [] then (1, cc_print (''Group command requires subcommand'' @ bsn) c)
      else let sub = hd args in
        if sub = ''list'' then cc_listGroups c
        else if sub = ''add'' then cc_stub ''Add group...'' c
        else if sub = ''update'' \<and> 1 < length args
          then cc_stub (''Update group '' @ int_str (qstr_toInt (args ! 1))) c
        else if sub = ''delete'' \<and> 1 < length args
          then cc_stub (''Delete group '' @ int_str (qstr_toInt (args ! 1))) c
        else (1, cc_print (''Invalid group subcommand'' @ bsn) c))"

text \<open>\<open>showConfig\<close> walks \<open>m_config\<close> in the order of its keys, the order in which a
  \<open>QJsonObject\<close> keeps them.\<close>

definition cc_showConfig :: "ccli \<Rightarrow> int \<times> ccli" where
  "cc_showConfig c =
     (0, fold (\<lambda>(k, v). cc_print (qarg (qarg (''%-20s: %1'' @ bsn) k) (variant_string v)))
           (sort_key fst (cc_config c))
           (cc_print (bsn @ ''=== System Configuration ==='' @ bsn) c))"

definition cc_handleConfigCommand :: "string list \<Rightarrow> ccli \<Rightarrow> int \<times> ccli" where
  "cc_handleConfigCommand args c =
     (if args = [] then cc_showConfig c
      else let sub = hd args in
        if sub = ''show'' then cc_showConfig c
        else if sub = ''set'' \<and> 2 < length args
          then cc_stub (''Set '' @ args ! 1 @ '' = '' @ args ! 2) c
        else if sub = ''edit'' then cc_stub ''Edit config...'' c
        else if sub = ''reset'' then cc_stub ''Reset config...'' c
        else (1, cc_print (''Invalid config subcommand'' @ bsn) c))"

section \<open>The menu\<close>

definition menu_row :: "string \<Rightarrow> string" where
  "menu_row t = box 2 @ t @ box 2 @ bsn"

definition cc_showMainMenu :: "ccli \<Rightarrow> ccli" where
  "cc_showMainMenu =
     cc_print (bsn @ box 0x0C @ hbar 37 @ box 0x10 @ bsn @
               menu_row (sp 9 @ ''NekoRay CLI Menu'' @ sp 12) @
               box 0x1C @ hbar 37 @ box 0x24 @ bsn @
               menu_row ('' 1. Proxy Status & Control'' @ sp 11) @
               menu_row ('' 2. Profile Management'' @ sp 15) @
               menu_row '' 3. Group & Subscription Management  '' @
               menu_row ('' 4. TUN Mode Control'' @ sp 17) @
               menu_row ('' 5. System Settings'' @ sp 18) @
               menu_row ('' 6. Import/Export'' @ sp 20) @
               menu_row ('' 7. Logs & Statistics'' @ sp 16) @
               menu_row ('' 8. Advanced Tools'' @ sp 19) @
               menu_row ('' q. Quit'' @ sp 29) @
               box 0x14 @ hbar 37 @ box 0x18 @ bsn)"

definition cc_showProxyMenu :: "ccli \<Rightarrow> ccli" where
  "cc_showProxyMenu c =
     (let (choice, c1) = cc_readInt (cc_print (bsn @ ''=== Proxy Control ==='' @ bsn @
                            ''1. Show Status'' @ bsn @ ''2. Start Proxy'' @ bsn @ ''3. Stop Proxy'' @ bsn @
                            ''4. Test Profile'' @ bsn @ ''Choice: '') c)
      in if choice = 1 then snd (cc_handleStatus c1)
         else if choice = 2 then cc_print (''Interactive start...'' @ bsn) c1
         else if choice = 3 then snd (cc_stub ''Stopping proxy...'' c1)
         else if choice = 4 then cc_print (''Interactive test...'' @ bsn) c1
         else c1)"

definition cc_showProfileMenu :: "ccli \<Rightarrow> os \<Rightarrow> ccli \<times> os" where
  "cc_showProfileMenu c o' =
     (let (choice, c1) = cc_readInt (cc_print (bsn @ ''=== Profile Management ==='' @ bsn @
                            ''1. List Profiles'' @ bsn @ ''2. Add Profile'' @ bsn @ ''3. Edit Profile'' @ bsn @
                            ''4. Delete Profile'' @ bsn @ ''5. Import Profile'' @ bsn @ ''Choice: '') c);
          run = (\<lambda>args c'. let (_, c'', o'') = cc_handleProfileCommand args c' o' in (c'', o''))
      in if choice = 1 then run [''list''] c1
         else if choice = 2 then run [''add''] c1
         else if choice = 3 then (let (i, c2) = cc_readWord (cc_print ''Profile ID to edit: '' c1) in run [''edit'', i] c2)
         else if choice = 4 then (let (i, c2) = cc_readWord (cc_print ''Profile ID to delete: '' c1) in run [''delete'', i] c2)
         else if choice = 5 then run [''import''] c1
         else (c1, o'))"

definition cc_showGroupMenu :: "ccli \<Rightarrow> ccli" where
  "cc_showGroupMenu c =
     (let (choice, c1) = cc_readInt (cc_print (bsn @ ''=== Group Management ==='' @ bsn @
                            ''1. List Groups'' @ bsn @ ''2. Add Group'' @ bsn @ ''3. Update Group'' @ bsn @
                            ''4. Delete Group'' @ bsn @ ''Choice: '') c);
          run = (\<lambda>args c'. snd (cc_handleGroupCommand args c'))
      in if choice = 1 then run [''list''] c1
         else if choice = 2 then run [''add''] c1
         else if choice = 3 then (let (i, c2) = cc_readWord (cc_print ''Group ID to update: '' c1) in run [''update'', i] c2)
         else if choice = 4 then (let (i, c2) = cc_readWord (cc_print ''Group ID to delete: '' c1) in run [''delete'', i] c2)
         else c1)"

definition cc_handleMenuChoice :: "string \<Rightarrow> ccli \<Rightarrow> os \<Rightarrow> ccli \<times> os" where
  "cc_handleMenuChoice choice c o' =
     (let n = qstr_toInt choice in
      if n = 1 then (cc_showProxyMenu c, o')
      else if n = 2 then cc_showProfileMenu c o'
      else if n = 3 then (cc_showGroupMenu c, o')
      else if n = 4 then (cc_print (''TUN menu...'' @ bsn) c, o')
      else if n = 5 then (cc_print (''Settings menu...'' @ bsn) c, o')
      else if n = 6 then (cc_print (''Import/Export menu...'' @ bsn) c, o')
      else if n = 7 then (cc_print (''Logs menu...'' @ bsn) c, o')
      else if n = 8 then (cc_print (''Advanced menu...'' @ bsn) c, o')
      else (cc_print (''Invalid choice. Please try again.'' @ bsn) c, o'))"

text \<open>The \<open>while (true)\<close> loop of \<open>runInteractiveMode\<close>: it leaves only on the word
  \<open>q\<close> or \<open>quit\<close>, in any case; \<open>None\<close> is a loop that never leaves.\<close>

partial_function (option) cc_menuLoop :: "ccli \<Rightarrow> os \<Rightarrow> (ccli \<times> os) option" where
  "cc_menuLoop c o' =
     (let (choice, c1) = cc_readWord (cc_print (bsn @ ''Select option (q to quit): '') (cc_showMainMenu c))
      in if map lower_char choice = ''q'' \<or> map lower_char choice = ''quit''
         then Some (cc_print (''Goodbye!'' @ bsn) c1, o')
         else (let r = cc_handleMenuChoice choice c1 o' in cc_menuLoop (fst r) (snd r)))"

declare cc_menuLoop.simps [code]

definition cc_runInteractiveMode :: "ccli \<Rightarrow> os \<Rightarrow> (int \<times> ccli \<times> os) option" where
  "cc_runInteractiveMode c o' =
     map_option (\<lambda>(c1, o1). (0, c1, o1))
       (cc_menuLoop (cc_print (bsn @ ''=== NekoRay CLI - Interactive Mode ==='' @ bsn @
                               ''Complete GUI functionality in terminal'' @ bsn @ bsn) c) o')"

section \<open>The command line\<close>

text \<open>What \<open>QCommandLineParser::process\<close> leaves: the value of \<open>-c\<close>/\<open>--config\<close> and the
  positional arguments. The options \<open>--verbose\<close> and \<open>--json\<close> are read by nothing. For an
  unknown command \<open>run\<close> prints a line and calls \<open>showHelp(1)\<close>, which prints the help and
  exits with 1; the help text is not modelled.\<close>

record cc_opts =
  cco_config :: "path option"
  cco_positional :: "string list"

definition cc_run :: "cc_opts \<Rightarrow> ccli \<Rightarrow> os \<Rightarrow> (int \<times> ccli \<times> os) option" where
  "cc_run opts c o' =
     (let (c1, o1) = (case cco_config opts of
                        Some d \<Rightarrow> cc_loadConfiguration (c\<lparr>cc_configDir := d\<rparr>) o'
                      | None \<Rightarrow> (c, o'))
      in case cco_positional opts of
           [] \<Rightarrow> cc_runInteractiveMode c1 o1
         | command # args \<Rightarrow>
             if command = ''status'' then Some (cc_pure cc_handleStatus c1 o1)
             else if command = ''start'' then Some (cc_pure (cc_stub ''Starting proxy...'') c1 o1)
             else if command = ''stop'' then Some (cc_pure (cc_stub ''Stopping proxy...'') c1 o1)
             else if command = ''restart'' then Some (cc_pure (cc_stub ''Restarting proxy...'') c1 o1)
             else if command = ''test'' then Some (cc_pure (cc_stub ''Testing profile...'') c1 o1)
             else if command = ''profile'' then Some (cc_handleProfileCommand args c1 o1)
             else if command = ''group'' then Some (cc_pure (cc_handleGroupCommand args) c1 o1)
             else if command = ''tun'' then Some (cc_pure (cc_stub ''TUN command...'') c1 o1)
             else if command = ''config'' then Some (cc_pure (cc_handleConfigCommand args) c1 o1)
             else if command = ''import'' then Some (cc_pure (cc_stub ''Importing...'') c1 o1)
             else if command = ''export'' then Some (cc_pure (cc_stub ''Exporting...'') c1 o1)
             else if command = ''logs'' then Some (cc_pure (cc_stub ''Showing logs...'') c1 o1)
             else if command = ''stats'' then Some (cc_pure (cc_stub ''Traffic statistics...'') c1 o1)
             else if command = ''ping'' then Some (cc_pure (cc_stub ''Ping test...'') c1 o1)
             else if command = ''interactive'' then cc_runInteractiveMode c1 o1
             else if command = ''daemon'' then Some (cc_pure (cc_stub ''Running as daemon...'') c1 o1)
             else if command = ''update'' then Some (cc_pure (cc_stub ''Updating...'') c1 o1)
             else Some (1, cc_print (''Unknown command: '' @ command @ bsn) c1, o1))"

text \<open>\<open>main\<close>: the constructor, then \<open>run\<close>.\<close>

definition cc_main :: "path \<Rightarrow> string \<Rightarrow> cc_opts \<Rightarrow> os \<Rightarrow> (int \<times> ccli \<times> os) option" where
  "cc_main home inp opts o' = (let (c, o1) = cc_new home inp o' in cc_run opts c o1)"

section \<open>Example states\<close>

text \<open>A home directory \<open>/home/u\<close> whose \<open>profiles.json\<close> holds one profile and which has
  no \<open>config.json\<close>; and the object as it stands after the constructor wrote the default
  settings.\<close>

definition wipe_os :: os where
  "wipe_os = demo_os\<lparr>os_files := [''/home/u/.config/nekoray/profiles.json'' \<mapsto> JsonDoc (JArr [JObj [(''name'', JStr ''p1'')]])]\<rparr>"

definition cc_demo :: ccli where
  "cc_demo = \<lparr>cc_configDir = ''/home/u/.config/nekoray'', cc_corePath = [], cc_config = cc_createDefaultConfig,
              cc_profiles = [], cc_groups = [], cc_out = [], cc_in = []\<rparr>"

section \<open>Properties\<close>


lemma cc_print_fields [simp]:
  "cc_in (cc_print t c) = cc_in c" "cc_config (cc_print t c) = cc_config c"
  "cc_profiles (cc_print t c) = cc_profiles c" "cc_groups (cc_print t c) = cc_groups c"
  "cc_configDir (cc_print t c) = cc_configDir c" "cc_corePath (cc_print t c) = cc_corePath c"
  "cc_out (cc_print t c) = cc_out c @ t"
  by (simp_all add: cc_print_def)

lemma cc_readWord_eof: "cc_in c = [] \<Longrightarrow> cc_readWord c = ([], c)"
  by (simp add: cc_readWord_def ts_word_def)

lemma cc_handleMenuChoice_empty:
  "cc_handleMenuChoice [] c o' = (cc_print (''Invalid choice. Please try again.'' @ bsn) c, o')"
  by (simp add: cc_handleMenuChoice_def qstr_toInt_def trimmed_def parse_nat_def)

lemma cc_menuLoop_returns:
  assumes "cc_menuLoop c o' = Some r"
  shows "cc_in c \<noteq> []"
  apply (rule cc_menuLoop.raw_induct [where P = "\<lambda>c o' r. cc_in c \<noteq> []", OF _ assms])
  subgoal premises p for loop c o' r
  proof
    assume e: "cc_in c = []"
    let ?c1 = "cc_print (bsn @ ''Select option (q to quit): '') (cc_showMainMenu c)"
    have "cc_in ?c1 = []" using e by (simp add: cc_showMainMenu_def)
    with p(2) have "loop (cc_print (''Invalid choice. Please try again.'' @ bsn) ?c1) o' = Some r"
      by (simp add: cc_readWord_eof cc_handleMenuChoice_empty Let_def)
    then have "cc_in (cc_print (''Invalid choice. Please try again.'' @ bsn) ?c1) \<noteq> []"
      by (rule p(1))
    with e show False by (simp add: cc_showMainMenu_def)
  qed
  done

lemma cc_loadConfiguration_in [simp]: "cc_in (fst (cc_loadConfiguration c o')) = cc_in c"
  by (simp add: cc_loadConfiguration_def Let_def split: option.splits prod.splits)

lemma cc_findCore_in [simp]: "cc_in (cc_findCore o' c) = cc_in c"
  by (simp add: cc_findCore_def split: option.splits)

text \<open>C31. Run with no command and an empty or exhausted standard input, the program
  never exits: \<open>m_in >> choice\<close> reads the empty word at the end of the input, which
  is neither \<open>q\<close> nor \<open>quit\<close>, \<open>handleMenuChoice\<close> reports an invalid choice, and the
  \<open>while (true)\<close> loop prints the menu again, forever.\<close>

lemma cc_main_eof_diverges: "cc_main home [] \<lparr>cco_config = d, cco_positional = []\<rparr> o' = None"
proof -
  obtain c o1 where n: "cc_new home [] o' = (c, o1)" by (cases "cc_new home [] o'")
  then have "cc_in c = []"
    by (auto simp: cc_new_def Let_def split: prod.splits dest: arg_cong [where f = "\<lambda>p. cc_in (fst p)"])
  moreover obtain c2 o2 where l: "(case d of Some dir \<Rightarrow> cc_loadConfiguration (c\<lparr>cc_configDir := dir\<rparr>) o1 | None \<Rightarrow> (c, o1)) = (c2, o2)"
    by (cases "(case d of Some dir \<Rightarrow> cc_loadConfiguration (c\<lparr>cc_configDir := dir\<rparr>) o1 | None \<Rightarrow> (c, o1))")
  ultimately have "cc_in c2 = []"
    by (cases d) (auto dest: arg_cong [where f = "\<lambda>p. cc_in (fst p)"])
  then have "cc_runInteractiveMode c2 o2 = None"
    by (cases "cc_menuLoop (cc_print (bsn @ ''=== NekoRay CLI - Interactive Mode ==='' @ bsn @
                               ''Complete GUI functionality in terminal'' @ bsn @ bsn) c2) o2")
      (auto simp: cc_runInteractiveMode_def dest: cc_menuLoop_returns)
  with n l show ?thesis by (simp add: cc_main_def cc_run_def)
qed

lemma qarg_fmt: "CHR ''%'' \<notin> set k \<Longrightarrow> qarg (''%-20s: %1'' @ bsn) k = ''%-20s: '' @ k @ bsn"
  by (simp add: qarg_def bsn_def arg_esc_def digit_val_def Let_def)

lemma qarg_none: "esc_nums (arg_tokens s) = [] \<Longrightarrow> qarg s a = s"
  by (simp add: qarg_def)

lemma fmt_tokens: "CHR ''%'' \<notin> set k \<Longrightarrow> esc_nums (arg_tokens (''%-20s: '' @ k @ bsn)) = []"
  by (simp add: bsn_def arg_esc_def digit_val_def Let_def)

lemma showConfig_line:
  "CHR ''%'' \<notin> set k \<Longrightarrow> qarg (qarg (''%-20s: %1'' @ bsn) k) v = ''%-20s: '' @ k @ bsn"
  by (simp add: qarg_fmt fmt_tokens qarg_none del: append_Cons)

lemma fold_cc_print:
  "fold (\<lambda>(k, v). cc_print (f k v)) xs c = c\<lparr>cc_out := cc_out c @ concat (map (\<lambda>(k, v). f k v) xs)\<rparr>"
  by (induction xs arbitrary: c) (auto simp: cc_print_def)

text \<open>C33. \<open>config show\<close> prints, for every setting in key order, the line
  \<open>%-20s: <key>\<close> and never the value: the first \<open>arg\<close> fills the only place marker
  \<open>%1\<close> with the key (\<open>%-20s\<close> is not a Qt marker), so the second \<open>arg\<close> finds no
  marker and leaves the line as it is.\<close>

lemma cc_showConfig_no_values:
  assumes "\<forall>(k, v) \<in> set (cc_config c). CHR ''%'' \<notin> set k"
  shows "cc_showConfig c =
           (0, c\<lparr>cc_out := cc_out c @ bsn @ ''=== System Configuration ==='' @ bsn @
                    concat (map (\<lambda>(k, v). ''%-20s: '' @ k @ bsn) (sort_key fst (cc_config c)))\<rparr>)"
proof -
  have eq: "map (\<lambda>(k, v). qarg (qarg (''%-20s: %1'' @ bsn) k) (variant_string v)) (sort_key fst (cc_config c)) =
        map (\<lambda>(k, v). ''%-20s: '' @ k @ bsn) (sort_key fst (cc_config c))"
  proof (rule map_cong [OF refl])
    fix x assume "x \<in> set (sort_key fst (cc_config c))"
    moreover obtain k v where x: "x = (k, v)" by (cases x)
    ultimately have "(k, v) \<in> set (cc_config c)" by simp
    with assms have "CHR ''%'' \<notin> set k" by auto
    then show "(case x of (k, v) \<Rightarrow> qarg (qarg (''%-20s: %1'' @ bsn) k) (variant_string v)) =
               (case x of (k, v) \<Rightarrow> ''%-20s: '' @ k @ bsn)"
      unfolding x by (simp add: showConfig_line del: append_Cons)
  qed
  show ?thesis
    unfolding cc_showConfig_def fold_cc_print eq by (simp add: cc_print_def)
qed

lemma cc_saveConfiguration_profiles:
  assumes "cc_configDir c @ ''/profiles.json'' \<notin> os_unwritable o'"
  shows "os_files (cc_saveConfiguration c o') (cc_configDir c @ ''/profiles.json'') = Some (JsonDoc (JArr (cc_profiles c)))"
  using assms by (simp add: cc_saveConfiguration_def Let_def write_file_def)

lemma cc_loadConfiguration_fresh:
  assumes "os_files o' (cc_configDir c @ ''/config.json'') = None"
      and "cc_configDir c @ ''/profiles.json'' \<notin> os_unwritable o'"
  shows "cc_profiles (fst (cc_loadConfiguration c o')) = cc_profiles c \<and>
         os_files (snd (cc_loadConfiguration c o')) (cc_configDir c @ ''/profiles.json'') = Some (JsonDoc (JArr (cc_profiles c)))"
proof -
  define o1 where "o1 = (if cc_configDir c \<in> os_dirs o' then o' else snd (make_dir (cc_configDir c) o'))"
  have f: "os_files o1 = os_files o'" and u: "os_unwritable o1 = os_unwritable o'"
    by (simp_all add: o1_def)
  define c' where "c' = c\<lparr>cc_config := cc_createDefaultConfig\<rparr>"
  have s: "os_files (cc_saveConfiguration c' o1) (cc_configDir c @ ''/profiles.json'') = Some (JsonDoc (JArr (cc_profiles c)))"
    using cc_saveConfiguration_profiles [of c' o1] assms(2) u by (simp add: c'_def)
  have "cc_loadConfiguration c o' =
          (let c2 = (case os_files (cc_saveConfiguration c' o1) (cc_configDir c @ ''/profiles.json'') of
                       Some f \<Rightarrow> c'\<lparr>cc_profiles := doc_array f\<rparr> | None \<Rightarrow> c')
           in (case os_files (cc_saveConfiguration c' o1) (cc_configDir c @ ''/groups.json'') of
                 Some f \<Rightarrow> c2\<lparr>cc_groups := doc_array f\<rparr> | None \<Rightarrow> c2, cc_saveConfiguration c' o1))"
    using assms(1) f unfolding cc_loadConfiguration_def o1_def [symmetric] c'_def [symmetric] Let_def by simp
  with s show ?thesis by (simp add: Let_def c'_def split: option.splits)
qed

lemma cc_findCore_profiles [simp]: "cc_profiles (cc_findCore o' c) = cc_profiles c"
  by (simp add: cc_findCore_def split: option.splits)

text \<open>C32. When \<open>config.json\<close> is missing, the constructor writes the default
  settings with \<open>saveConfiguration\<close> before it reads \<open>profiles.json\<close>: the profiles file
  is overwritten with the still empty profile list, and the object starts with no
  profile, whatever the file held.\<close>

lemma cc_new_wipes_profiles:
  assumes "os_files o' (home @ ''/.config/nekoray/config.json'') = None"
      and "home @ ''/.config/nekoray/profiles.json'' \<notin> os_unwritable o'"
  shows "cc_profiles (fst (cc_new home inp o')) = [] \<and>
         os_files (snd (cc_new home inp o')) (home @ ''/.config/nekoray/profiles.json'') = Some (JsonDoc (JArr []))"
  using cc_loadConfiguration_fresh [of o' "\<lparr>cc_configDir = home @ ''/.config/nekoray'', cc_corePath = [], cc_config = [],
                cc_profiles = [], cc_groups = [], cc_out = [], cc_in = inp\<rparr>"] assms
  by (simp add: cc_new_def Let_def case_prod_beta)

lemma cc_new_wipes_profiles_witness:
  "os_files wipe_os (''/home/u'' @ ''/.config/nekoray/config.json'') = None \<and>
   ''/home/u'' @ ''/.config/nekoray/profiles.json'' \<notin> os_unwritable wipe_os \<and>
   os_files wipe_os ''/home/u/.config/nekoray/profiles.json'' \<noteq> Some (JsonDoc (JArr [])) \<and>
   cc_profiles (fst (cc_new ''/home/u'' [] wipe_os)) = [] \<and>
   os_files (snd (cc_new ''/home/u'' [] wipe_os)) (''/home/u'' @ ''/.config/nekoray/profiles.json'') = Some (JsonDoc (JArr []))"
proof -
  have a: "os_files wipe_os (''/home/u'' @ ''/.config/nekoray/config.json'') = None"
       "''/home/u'' @ ''/.config/nekoray/profiles.json'' \<notin> os_unwritable wipe_os"
    by (simp_all add: wipe_os_def demo_os_def)
  show ?thesis using cc_new_wipes_profiles [OF a, of "[]"] a by (simp add: wipe_os_def)
qed

lemma cc_showConfig_no_values_witness:
  "cc_showConfig cc_demo =
     (0, cc_demo\<lparr>cc_out := bsn @ ''=== System Configuration ==='' @ bsn @
           concat (map (\<lambda>(k, v). ''%-20s: '' @ k @ bsn) (sort_key fst (cc_config cc_demo)))\<rparr>)"
proof -
  have a: "\<forall>(k, v) \<in> set (cc_config cc_demo). CHR ''%'' \<notin> set k"
    by (simp add: cc_demo_def cc_createDefaultConfig_def jsets_def jset_def)
  have "cc_out cc_demo = []" by (simp add: cc_demo_def)
  then show ?thesis using cc_showConfig_no_values [OF a] by simp
qed

text \<open>\<open>addProfile\<close> reads a line and throws it away before it reads the name, to
  consume the line end left by the menu's \<open>m_in >> choice\<close>. Called from the command
  line (\<open>profile add\<close>) there is no such line end: the first line typed is lost and
  the second becomes the name.\<close>

lemma ts_readLine_append:
  assumes "CHR ''\<newline>'' \<notin> set l"
  shows "ts_readLine (l @ CHR ''\<newline>'' # r) = (if l \<noteq> [] \<and> last l = CHR 0x0D then butlast l else l, r)"
proof -
  have "takeWhile (\<lambda>c. c \<noteq> CHR ''\<newline>'') (l @ CHR ''\<newline>'' # r) = l"
       "dropWhile (\<lambda>c. c \<noteq> CHR ''\<newline>'') (l @ CHR ''\<newline>'' # r) = CHR ''\<newline>'' # r"
    using assms by (induction l) auto
  then show ?thesis by (simp add: ts_readLine_def)
qed

lemma cc_addProfile_name:
  assumes "cc_in c = l1 @ CHR ''\<newline>'' # l2 @ CHR ''\<newline>'' # r"
      and "CHR ''\<newline>'' \<notin> set l1" "CHR ''\<newline>'' \<notin> set l2" "CHR 0x0D \<notin> set l2"
  shows "jfield (to_object (last (cc_profiles (fst (snd (cc_addProfile c o')))))) ''name'' = JStr l2"
proof -
  have "l2 \<noteq> [] \<Longrightarrow> last l2 \<noteq> CHR 0x0D" using assms(4) last_in_set by metis
  then have h: "fst (cc_readLine (snd (cc_readLine (cc_print t c)))) = l2" for t
    using assms(1-3) by (auto simp: cc_readLine_def case_prod_beta ts_readLine_append)
  show ?thesis
    by (simp add: cc_addProfile_def Let_def case_prod_beta to_object_def h)
qed

end
