(* ===== verification/Neko_Standalone.thy ===== *)
theory Neko_Standalone
  imports Neko_Safety
begin

text \<open>
  \<open>src/nekoray_cli_standalone.cpp\<close>: the class \<open>NekoRayCLI\<close>, a command line without Qt
  that writes a fixed sing-box configuration and runs the core with \<open>fork\<close>/\<open>execlp\<close>.
  Its state is the record \<open>sa_cli\<close> (the members, and the lines written to standard
  output and standard error, one string per \<open>std::endl\<close>). Files and directories are
  those of the \<open>os\<close> state; \<open>getenv\<close> is the host's environment, where the empty string
  stands for an unset variable. The child processes are the process table \<open>procs\<close>,
  pairs of a pid and an argument vector, which outlives a run of the program: each
  command line is a new process with a new \<open>NekoRayCLI\<close>, while the cores it started
  keep running. \<open>fork\<close> always succeeds and gives the next pid of the \<open>os\<close> state; the
  child's \<open>execlp\<close> succeeds exactly for a program in \<open>os_startable\<close>, otherwise the
  child prints an error and exits. \<open>kill\<close> with \<open>SIGTERM\<close> and then \<open>SIGKILL\<close> ends the
  child; the \<open>sleep\<close> calls are not modelled.
\<close>

section \<open>State\<close>

type_synonym procs = "(int \<times> string list) list"

record sa_cli =
  sa_configDir :: path
  sa_coreExecutable :: string
  sa_corePid :: int
  sa_tunPid :: int
  sa_verbose :: bool
  sa_dryRun :: bool
  sa_out :: "string list"
  sa_err :: "string list"

definition sa_print :: "string \<Rightarrow> sa_cli \<Rightarrow> sa_cli" where
  "sa_print l c = c\<lparr>sa_out := sa_out c @ [l]\<rparr>"

definition sa_eprint :: "string \<Rightarrow> sa_cli \<Rightarrow> sa_cli" where
  "sa_eprint l c = c\<lparr>sa_err := sa_err c @ [l]\<rparr>"

text \<open>\<open>std::stoi\<close>: leading white space, an optional sign and decimal digits, read as far
  as they go; \<open>None\<close> is the exception \<open>invalid_argument\<close> (no digit) or \<open>out_of_range\<close>.\<close>

definition std_stoi :: "string \<Rightarrow> int option" where
  "std_stoi s =
     (let r = dropWhile is_space s;
          (sg, r1) = (if r \<noteq> [] \<and> (hd r = CHR ''-'' \<or> hd r = CHR ''+'')
                      then (if hd r = CHR ''-'' then -1 else 1, tl r) else (1, r))
      in case parse_nat (takeWhile (\<lambda>c. digit_val c \<noteq> None) r1) of
           None \<Rightarrow> None
         | Some n \<Rightarrow> if - (2 ^ 31) \<le> sg * int n \<and> sg * int n < 2 ^ 31 then Some (sg * int n) else None)"

section \<open>Construction and configuration files\<close>

definition sa_new :: "host \<Rightarrow> os \<Rightarrow> sa_cli" where
  "sa_new h o' =
     \<lparr>sa_configDir = (if h_env h ''HOME'' \<noteq> [] then h_env h ''HOME'' @ ''/.config/nekoray'' else ''/tmp/nekoray''),
      sa_coreExecutable =
        (case find (qfile_exists o')
                (concat (map (\<lambda>name. [''/usr/bin/'' @ name, ''/usr/local/bin/'' @ name])
                             [''sing-box'', ''nekobox_core'', ''nekoray_core''])) of
           Some p \<Rightarrow> p | None \<Rightarrow> []),
      sa_corePid = -1, sa_tunPid = -1, sa_verbose = False, sa_dryRun = False, sa_out = [], sa_err = []\<rparr>"

text \<open>\<open>system("mkdir -p <dir>/profiles <dir>/groups")\<close>: both directories are tried; the
  command fails when one of them cannot be made.\<close>

definition sa_createConfigDir :: "sa_cli \<Rightarrow> os \<Rightarrow> sa_cli \<times> os" where
  "sa_createConfigDir c o' =
     (let (ok1, o1) = make_dir (sa_configDir c @ ''/profiles'') o';
          (ok2, o2) = make_dir (sa_configDir c @ ''/groups'') o1
      in (if \<not> (ok1 \<and> ok2) \<and> sa_verbose c then sa_print ''Warning: Failed to create config directories'' c else c, o2))"

definition sa_config_doc :: json where
  "sa_config_doc =
     JObj [(''log'', JObj [(''level'', JStr ''info'')]),
           (''inbounds'', JArr [JObj [(''type'', JStr ''socks''), (''tag'', JStr ''socks-in''),
                                      (''listen'', JStr ''127.0.0.1''), (''listen_port'', JNum 2080)],
                                JObj [(''type'', JStr ''http''), (''tag'', JStr ''http-in''),
                                      (''listen'', JStr ''127.0.0.1''), (''listen_port'', JNum 2081)]]),
           (''outbounds'', JArr [JObj [(''type'', JStr ''direct''), (''tag'', JStr ''direct'')]]),
           (''route'', JObj [(''final'', JStr ''direct'')])]"

definition sa_tun_config_doc :: json where
  "sa_tun_config_doc =
     JObj [(''log'', JObj [(''level'', JStr ''info'')]),
           (''dns'', JObj [(''fakeip'', JObj [(''enabled'', JBool True), (''inet4_range'', JStr ''198.18.0.0/15''),
                                              (''inet6_range'', JStr ''fc00::/18'')]),
                          (''servers'', JArr [JObj [(''tag'', JStr ''dns-remote''), (''address'', JStr ''8.8.8.8''),
                                                    (''detour'', JStr ''proxy'')],
                                              JObj [(''tag'', JStr ''dns-direct''), (''address'', JStr ''223.5.5.5''),
                                                    (''detour'', JStr ''direct'')]])]),
           (''inbounds'', JArr [JObj [(''type'', JStr ''tun''), (''tag'', JStr ''tun-in''),
                                      (''interface_name'', JStr ''nekoray-tun''), (''inet4_address'', JStr ''172.19.0.1/28''),
                                      (''mtu'', JNum 9000), (''auto_route'', JBool True), (''strict_route'', JBool True),
                                      (''stack'', JStr ''system''), (''endpoint_independent_nat'', JBool True),
                                      (''sniff'', JBool True)]]),
           (''outbounds'', JArr [JObj [(''type'', JStr ''socks''), (''tag'', JStr ''proxy''), (''server'', JStr ''127.0.0.1''),
                                       (''server_port'', JNum 2080), (''udp_fragment'', JBool True)],
                                 JObj [(''type'', JStr ''direct''), (''tag'', JStr ''direct'')]]),
           (''route'', JObj [(''final'', JStr ''proxy''), (''auto_detect_interface'', JBool True),
                             (''rules'', JArr [JObj [(''ip_cidr'', JArr [JStr ''224.0.0.0/3'', JStr ''ff00::/8'']),
                                                     (''outbound'', JStr ''block'')],
                                               JObj [(''port'', JNum 53), (''outbound'', JStr ''dns-out'')]])])]"

text \<open>\<open>generateConfig\<close> and \<open>generateTunConfig\<close>: the path written, or the empty string
  when the file does not open.\<close>

definition sa_writeConfig :: "string \<Rightarrow> json \<Rightarrow> int \<Rightarrow> sa_cli \<Rightarrow> os \<Rightarrow> string \<times> os" where
  "sa_writeConfig prefix doc profileId c o' =
     (let configPath = sa_configDir c @ prefix @ int_str profileId @ ''.json'';
          (ok, o1) = write_file configPath (JsonDoc doc) o'
      in (if ok then configPath else [], o1))"

definition sa_generateConfig :: "int \<Rightarrow> sa_cli \<Rightarrow> os \<Rightarrow> string \<times> os" where
  "sa_generateConfig = sa_writeConfig ''/config_'' sa_config_doc"

definition sa_generateTunConfig :: "int \<Rightarrow> sa_cli \<Rightarrow> os \<Rightarrow> string \<times> os" where
  "sa_generateTunConfig = sa_writeConfig ''/tun_config_'' sa_tun_config_doc"

section \<open>Starting and stopping the core\<close>

definition sa_tag :: "bool \<Rightarrow> string" where
  "sa_tag tunMode = (if tunMode then ''TUN '' else [])"

definition sa_startCore :: "int \<Rightarrow> bool \<Rightarrow> sa_cli \<Rightarrow> os \<Rightarrow> procs \<Rightarrow> bool \<times> sa_cli \<times> os \<times> procs" where
  "sa_startCore profileId tunMode c o' ps =
     (if sa_coreExecutable c = [] then
        (False, sa_eprint ''Error: Core executable not found. Please install sing-box or nekobox_core.'' c, o', ps)
      else
        let (c1, o1) = sa_createConfigDir c o';
            (configPath, o2) = (if tunMode then sa_generateTunConfig profileId c1 o1 else sa_generateConfig profileId c1 o1);
            c2 = (if sa_verbose c1 then sa_print (if tunMode then ''Using TUN mode configuration'' else ''Using standard configuration'') c1 else c1)
        in if configPath = [] then (False, sa_eprint ''Error: Failed to generate configuration file'' c2, o2, ps)
           else if sa_dryRun c2 then
             (True, sa_print (''DRY RUN: Would execute: '' @ sa_coreExecutable c2 @ '' run -c '' @ configPath) c2, o2, ps)
           else
             let pid = int (os_next_pid o2);
                 o3 = o2\<lparr>os_next_pid := Suc (os_next_pid o2)\<rparr>;
                 argv = (if tunMode then [''pkexec'', sa_coreExecutable c2, ''run'', ''-c'', configPath]
                         else [sa_coreExecutable c2, ''run'', ''-c'', configPath]);
                 (c3, ps') = (if hd argv \<in> os_startable o2 then (c2, ps @ [(pid, argv)])
                              else (sa_eprint ''Error: Failed to start core process'' c2, ps));
                 c4 = (if tunMode then c3\<lparr>sa_tunPid := pid\<rparr> else c3\<lparr>sa_corePid := pid\<rparr>);
                 c5 = (if sa_verbose c4
                       then sa_print ''HTTP proxy: 127.0.0.1:2081'' (sa_print ''SOCKS proxy: 127.0.0.1:2080''
                              (sa_print (''Config: '' @ configPath)
                                (sa_print (''Started '' @ sa_tag tunMode @ ''core process with PID: '' @ int_str pid) c4)))
                       else c4)
             in (True, c5, o3, ps'))"

definition sa_stopCore :: "bool \<Rightarrow> sa_cli \<Rightarrow> procs \<Rightarrow> bool \<times> sa_cli \<times> procs" where
  "sa_stopCore tunMode c ps =
     (let targetPid = (if tunMode then sa_tunPid c else sa_corePid c)
      in if targetPid \<le> 0 then
           (True, if sa_verbose c then sa_print (sa_tag tunMode @ ''Core is not running'') c else c, ps)
         else if sa_dryRun c then
           (True, sa_print (''DRY RUN: Would stop '' @ sa_tag tunMode @ ''process with PID: '' @ int_str targetPid) c, ps)
         else
           let ps' = filter (\<lambda>p. fst p \<noteq> targetPid) ps;
               c1 = (if sa_verbose c then sa_print (''Stopped '' @ sa_tag tunMode @ ''core process'') c else c)
           in (True, if tunMode then c1\<lparr>sa_tunPid := -1\<rparr> else c1\<lparr>sa_corePid := -1\<rparr>, ps'))"

section \<open>Status, help and the command line\<close>

definition sa_showStatus :: "sa_cli \<Rightarrow> sa_cli" where
  "sa_showStatus c =
     fold sa_print
       ([''NekoRay CLI Status:'', ''==================='',
         ''Config Directory: '' @ sa_configDir c,
         ''Core Executable: '' @ (if sa_coreExecutable c = [] then ''Not found'' else sa_coreExecutable c),
         ''Standard Proxy: '' @ (if 0 < sa_corePid c then ''Running'' else ''Stopped'') @
            (if 0 < sa_corePid c then '' (PID: '' @ int_str (sa_corePid c) @ '')'' else []),
         ''TUN Mode: '' @ (if 0 < sa_tunPid c then ''Running'' else ''Stopped'') @
            (if 0 < sa_tunPid c then '' (PID: '' @ int_str (sa_tunPid c) @ '')'' else [])] @
        (if 0 < sa_corePid c \<or> 0 < sa_tunPid c
         then [[], ''Proxy Endpoints:'', ''  SOCKS5: 127.0.0.1:2080'', ''  HTTP:   127.0.0.1:2081''] else [])) c"

text \<open>UTF-8 of U+2713, the check mark of the help text.\<close>

definition tick :: string where
  "tick = [CHR 0xE2, CHR 0x9C, CHR 0x93]"

definition sa_showHelp :: "sa_cli \<Rightarrow> sa_cli" where
  "sa_showHelp =
     fold sa_print
       [''NekoRay CLI - Headless V2Ray Client v1.0'', ''=========================================='', [],
        ''USAGE:'', ''  nekoray-cli <command> [options]'', [],
        ''COMMANDS:'', ''  start [profile_id]  Start proxy service'', ''  stop                Stop proxy service'',
        ''  restart [profile_id] Restart proxy service'', ''  status              Show service status'',
        ''  help                Show this help'', [],
        ''OPTIONS:'', ''  --tun               Enable TUN mode (requires root)'',
        ''  --verbose, -v       Enable verbose output'', ''  --dry-run, -n       Dry run mode (safe testing)'',
        ''  --config-dir DIR    Set configuration directory'', [],
        ''EXAMPLES:'', ''  nekoray-cli start 1              # Start with profile 1'',
        ''  nekoray-cli start 1 --tun        # Start with TUN mode'',
        ''  nekoray-cli start --dry-run      # Test without executing'',
        ''  nekoray-cli status                # Check status'',
        ''  nekoray-cli stop                  # Stop all services'', [],
        ''SAFETY FEATURES:'', ''  '' @ tick @ '' Docker environment detection'', ''  '' @ tick @ '' SSH connection awareness'',
        ''  '' @ tick @ '' Dry-run mode for safe testing'', ''  '' @ tick @ '' Graceful shutdown handling'', [],
        ''For more information, visit: https://github.com/your-repo/nekoray-cli'']"

text \<open>The option loop of \<open>run\<close>; \<open>None\<close> is the exception of \<open>std::stoi\<close> on a word that
  is not a number, which nothing catches.\<close>

function sa_parse :: "string list \<Rightarrow> bool \<Rightarrow> int \<Rightarrow> sa_cli \<Rightarrow> (bool \<times> int \<times> sa_cli) option" where
  "sa_parse [] tunMode profileId c = Some (tunMode, profileId, c)"
| "sa_parse (arg # args) tunMode profileId c =
     (if arg = ''--tun'' then sa_parse args True profileId c
      else if arg = ''--verbose'' \<or> arg = ''-v'' then sa_parse args tunMode profileId (c\<lparr>sa_verbose := True\<rparr>)
      else if arg = ''--dry-run'' \<or> arg = ''-n'' then sa_parse args tunMode profileId (c\<lparr>sa_dryRun := True\<rparr>)
      else if arg = ''--config-dir'' \<and> args \<noteq> [] then sa_parse (tl args) tunMode profileId (c\<lparr>sa_configDir := hd args\<rparr>)
      else if arg = [] \<or> hd arg \<noteq> CHR ''-'' then
        (case std_stoi arg of None \<Rightarrow> None | Some n \<Rightarrow> sa_parse args tunMode n c)
      else sa_parse args tunMode profileId c)"
  by pat_completeness auto
termination
  by (relation "measure (\<lambda>(args, _, _, _). length args)") auto

text \<open>How the program ends: \<open>return\<close> from \<open>main\<close>, or \<open>std::terminate\<close> on an uncaught
  exception.\<close>

datatype sa_exit = Exit int | Abort

definition sa_start :: "int \<Rightarrow> bool \<Rightarrow> sa_cli \<Rightarrow> os \<Rightarrow> procs \<Rightarrow> sa_exit \<times> sa_cli \<times> os \<times> procs" where
  "sa_start profileId tunMode c o' ps =
     (let (ok, c1, o1, ps1) = sa_startCore profileId False c o' ps
      in if \<not> ok then (Exit 1, c1, o1, ps1)
         else if tunMode then (let (ok2, c2, o2, ps2) = sa_startCore profileId True c1 o1 ps1
                               in (Exit (if ok2 then 0 else 1), c2, o2, ps2))
         else (Exit 0, c1, o1, ps1))"

text \<open>The two warnings of \<open>run\<close> before it executes a command.\<close>

definition sa_safetyChecks :: "host \<Rightarrow> os \<Rightarrow> sa_cli \<Rightarrow> sa_cli" where
  "sa_safetyChecks h o' c =
     (let c1 = (if h_env h ''SSH_CLIENT'' \<noteq> [] \<or> h_env h ''SSH_CONNECTION'' \<noteq> []
                then sa_print ([CHR 0xE2, CHR 0x9A, CHR 0xA0, CHR 0xEF, CHR 0xB8, CHR 0x8F] @
                               ''  Warning: SSH connection detected. Use --dry-run for safe testing.'') c
                else c)
      in if qfile_exists o' ''/.dockerenv''
         then sa_print ([CHR 0xF0, CHR 0x9F, CHR 0x90, CHR 0xB3] @ '' Docker environment detected.'') c1
         else c1)"

definition sa_run :: "string list \<Rightarrow> host \<Rightarrow> sa_cli \<Rightarrow> os \<Rightarrow> procs \<Rightarrow> sa_exit \<times> sa_cli \<times> os \<times> procs" where
  "sa_run args h c o' ps =
     (case args of
        [] \<Rightarrow> (Exit 1, sa_showHelp c, o', ps)
      | command # opts \<Rightarrow>
          (case sa_parse opts False 1 c of
             None \<Rightarrow> (Abort, c, o', ps)
           | Some (tunMode, profileId, c1) \<Rightarrow>
               let c3 = sa_safetyChecks h o' c1
               in if command = ''start'' then sa_start profileId tunMode c3 o' ps
                  else if command = ''stop'' then
                    (let (ok1, c4, ps1) = sa_stopCore False c3 ps
                     in if tunMode then (let (ok2, c5, ps2) = sa_stopCore True c4 ps1
                                         in (Exit (if ok2 \<and> ok1 then 0 else 1), c5, o', ps2))
                        else (Exit (if ok1 then 0 else 1), c4, o', ps1))
                  else if command = ''restart'' then
                    (let (_, c4, ps1) = sa_stopCore False c3 ps;
                         (c5, ps2) = (if tunMode then (let (_, c', ps') = sa_stopCore True c4 ps1 in (c', ps')) else (c4, ps1))
                     in sa_start profileId tunMode c5 o' ps2)
                  else if command = ''status'' then (Exit 0, sa_showStatus c3, o', ps)
                  else if command = ''help'' \<or> command = ''--help'' \<or> command = ''-h'' then (Exit 0, sa_showHelp c3, o', ps)
                  else (Exit 1, sa_eprint ''Use 'nekoray-cli help' for usage information.''
                                  (sa_eprint (''Error: Unknown command '' @ [CHR 0x27] @ command @ [CHR 0x27]) c3), o', ps)))"

text \<open>\<open>main\<close>: a new \<open>NekoRayCLI\<close> for each run; \<open>args\<close> are \<open>argv[1..]\<close>.\<close>

definition sa_main :: "string list \<Rightarrow> host \<Rightarrow> os \<Rightarrow> procs \<Rightarrow> sa_exit \<times> sa_cli \<times> os \<times> procs" where
  "sa_main args h o' ps = sa_run args h (sa_new h o') o' ps"

section \<open>Example host\<close>

text \<open>A host with \<open>HOME=/home/u\<close> and \<open>/usr/bin/sing-box\<close> installed.\<close>

definition sa_host :: host where
  "sa_host = plain_host\<lparr>h_env := (\<lambda>v. if v = ''HOME'' then ''/home/u'' else [])\<rparr>"

definition sa_os :: os where
  "sa_os = demo_os\<lparr>os_files := [''/usr/bin/sing-box'' \<mapsto> RawText []], os_startable := {''/usr/bin/sing-box''}\<rparr>"

section \<open>Properties\<close>


lemma sa_print_fields [simp]:
  "sa_corePid (sa_print l c) = sa_corePid c" "sa_tunPid (sa_print l c) = sa_tunPid c"
  "sa_corePid (sa_eprint l c) = sa_corePid c" "sa_tunPid (sa_eprint l c) = sa_tunPid c"
  "sa_dryRun (sa_print l c) = sa_dryRun c" "sa_verbose (sa_print l c) = sa_verbose c"
  "sa_coreExecutable (sa_print l c) = sa_coreExecutable c" "sa_configDir (sa_print l c) = sa_configDir c"
  by (simp_all add: sa_print_def sa_eprint_def)

lemma sa_parse_pids:
  "sa_parse args t p c = Some (t', p', c') \<Longrightarrow> sa_corePid c' = sa_corePid c \<and> sa_tunPid c' = sa_tunPid c"
  by (induction args t p c rule: sa_parse.induct) (auto split: if_splits option.splits)

lemma sa_stopCore_idle:
  "(if tunMode then sa_tunPid c else sa_corePid c) \<le> 0 \<Longrightarrow> snd (snd (sa_stopCore tunMode c ps)) = ps \<and> sa_corePid (fst (snd (sa_stopCore tunMode c ps))) = sa_corePid c \<and> sa_tunPid (fst (snd (sa_stopCore tunMode c ps))) = sa_tunPid c"
  by (simp add: sa_stopCore_def Let_def)

lemma sa_new_pids [simp]: "sa_corePid (sa_new h o') = -1" "sa_tunPid (sa_new h o') = -1"
  by (simp_all add: sa_new_def)

lemma sa_stop_keeps_procs: "snd (snd (snd (sa_main (''stop'' # opts) h o' ps))) = ps"
proof (cases "sa_parse opts False 1 (sa_new h o')")
  case None
  then show ?thesis by (simp add: sa_main_def sa_run_def)
next
  case (Some r)
  obtain t p c where r: "r = (t, p, c)" by (cases r)
  with Some have pids: "sa_corePid c = -1" "sa_tunPid c = -1" using sa_parse_pids by fastforce+
  define c3 where "c3 = sa_safetyChecks h o' c"
  have p3: "sa_corePid c3 = -1" "sa_tunPid c3 = -1" using pids by (simp_all add: c3_def sa_safetyChecks_def Let_def)
  have s1: "snd (snd (sa_stopCore False c3 ps)) = ps" and
       p4: "sa_tunPid (fst (snd (sa_stopCore False c3 ps))) = -1"
    using sa_stopCore_idle [of False c3 ps] p3 by simp_all
  have s2: "snd (snd (sa_stopCore True (fst (snd (sa_stopCore False c3 ps))) ps)) = ps"
    using sa_stopCore_idle [of True "fst (snd (sa_stopCore False c3 ps))" ps] p4 by simp
  show ?thesis
    using Some s1 s2 unfolding r sa_main_def sa_run_def c3_def [symmetric]
    by (simp add: case_prod_beta Let_def c3_def)
qed

lemma sa_safetyChecks_fields [simp]:
  "sa_corePid (sa_safetyChecks h o' c) = sa_corePid c" "sa_tunPid (sa_safetyChecks h o' c) = sa_tunPid c"
  "sa_dryRun (sa_safetyChecks h o' c) = sa_dryRun c" "sa_verbose (sa_safetyChecks h o' c) = sa_verbose c"
  "sa_coreExecutable (sa_safetyChecks h o' c) = sa_coreExecutable c"
  "sa_configDir (sa_safetyChecks h o' c) = sa_configDir c"
  by (simp_all add: sa_safetyChecks_def Let_def)

lemma sa_createConfigDir_fields [simp]:
  "sa_dryRun (fst (sa_createConfigDir c o')) = sa_dryRun c" "sa_verbose (fst (sa_createConfigDir c o')) = sa_verbose c"
  "sa_coreExecutable (fst (sa_createConfigDir c o')) = sa_coreExecutable c"
  "sa_configDir (fst (sa_createConfigDir c o')) = sa_configDir c"
  "os_unwritable (snd (sa_createConfigDir c o')) = os_unwritable o'"
  "os_startable (snd (sa_createConfigDir c o')) = os_startable o'"
  "os_next_pid (snd (sa_createConfigDir c o')) = os_next_pid o'"
  by (simp_all add: sa_createConfigDir_def case_prod_beta)

lemma sa_startCore_spawns:
  assumes "sa_coreExecutable c \<noteq> []" "sa_coreExecutable c \<in> os_startable o'" "\<not> sa_dryRun c"
      and "sa_configDir c @ ''/config_'' @ int_str p @ ''.json'' \<notin> os_unwritable o'"
  shows "fst (sa_startCore p False c o' ps) \<and>
         snd (snd (snd (sa_startCore p False c o' ps))) =
           ps @ [(int (os_next_pid o'), [sa_coreExecutable c, ''run'', ''-c'', sa_configDir c @ ''/config_'' @ int_str p @ ''.json''])]"
  using assms
  by (simp add: sa_startCore_def sa_generateConfig_def sa_writeConfig_def case_prod_beta Let_def)

text \<open>\<open>stopCore\<close> reports success on every path, and \<open>nekoray-cli stop\<close> with no
  option exits 0.\<close>

lemma sa_stopCore_ok: "fst (sa_stopCore tunMode c ps)"
  by (simp add: sa_stopCore_def Let_def)

lemma sa_stop_exit: "fst (sa_main [''stop''] h o' ps) = Exit 0"
  by (simp add: sa_main_def sa_run_def sa_stopCore_ok case_prod_beta Let_def)

text \<open>C16. A core started by one run of the program is never stopped by another: the
  pid lives only in the \<open>NekoRayCLI\<close> object of the run that forked it, so a later
  \<open>nekoray-cli stop\<close> finds \<open>corePid = -1\<close>, exits 0 as if it had stopped the core,
  and leaves the process table as it is; \<open>start\<close> then \<open>stop\<close> leaves the core running.\<close>

lemma sa_start_stop_orphans:
  assumes "sa_coreExecutable (sa_new h o') \<noteq> []" "sa_coreExecutable (sa_new h o') \<in> os_startable o'"
      and "sa_configDir (sa_new h o') @ ''/config_1.json'' \<notin> os_unwritable o'"
  shows "(case sa_main [''start''] h o' ps of (r, _, o1, ps1) \<Rightarrow>
            r = Exit 0 \<and>
            ps1 = ps @ [(int (os_next_pid o'), [sa_coreExecutable (sa_new h o'), ''run'', ''-c'', sa_configDir (sa_new h o') @ ''/config_1.json''])] \<and>
            fst (sa_main [''stop''] h o1 ps1) = Exit 0 \<and>
            snd (snd (snd (sa_main [''stop''] h o1 ps1))) = ps1)"
proof -
  let ?c = "sa_safetyChecks h o' (sa_new h o')"
  have i: "int_str 1 = ''1''" by code_simp
  have "\<not> sa_dryRun ?c" by (simp add: sa_new_def)
  with assms i have sp: "fst (sa_startCore 1 False ?c o' ps) \<and>
         snd (snd (snd (sa_startCore 1 False ?c o' ps))) =
           ps @ [(int (os_next_pid o'), [sa_coreExecutable (sa_new h o'), ''run'', ''-c'', sa_configDir (sa_new h o') @ ''/config_1.json''])]"
    using sa_startCore_spawns [of ?c o' 1 ps] by simp
  have "sa_main [''start''] h o' ps = (Exit 0, fst (snd (sa_startCore 1 False ?c o' ps)),
          fst (snd (snd (sa_startCore 1 False ?c o' ps))), snd (snd (snd (sa_startCore 1 False ?c o' ps))))"
    using sp by (simp add: sa_main_def sa_run_def sa_start_def case_prod_beta Let_def)
  with sp show ?thesis by (simp add: sa_stop_keeps_procs sa_stop_exit)
qed

lemma sa_start_stop_orphans_witness:
  "sa_coreExecutable (sa_new sa_host sa_os) \<noteq> [] \<and> sa_coreExecutable (sa_new sa_host sa_os) \<in> os_startable sa_os \<and>
   sa_configDir (sa_new sa_host sa_os) @ ''/config_1.json'' \<notin> os_unwritable sa_os \<and>
   (case sa_main [''start''] sa_host sa_os [] of (r, _, o1, ps1) \<Rightarrow>
      r = Exit 0 \<and> ps1 = [(100, [''/usr/bin/sing-box'', ''run'', ''-c'', ''/home/u/.config/nekoray/config_1.json''])] \<and>
      fst (sa_main [''stop''] sa_host o1 ps1) = Exit 0 \<and>
      snd (snd (snd (sa_main [''stop''] sa_host o1 ps1))) = ps1)"
proof -
  have n: "sa_new sa_host sa_os = \<lparr>sa_configDir = ''/home/u/.config/nekoray'', sa_coreExecutable = ''/usr/bin/sing-box'',
      sa_corePid = -1, sa_tunPid = -1, sa_verbose = False, sa_dryRun = False, sa_out = [], sa_err = []\<rparr>"
    by (simp add: sa_new_def sa_host_def plain_host_def sa_os_def demo_os_def qfile_exists_def)
  have a: "sa_coreExecutable (sa_new sa_host sa_os) \<noteq> []" "sa_coreExecutable (sa_new sa_host sa_os) \<in> os_startable sa_os"
          "sa_configDir (sa_new sa_host sa_os) @ ''/config_1.json'' \<notin> os_unwritable sa_os"
    unfolding n by (simp_all add: sa_os_def demo_os_def)
  have "os_next_pid sa_os = 100" by (simp add: sa_os_def demo_os_def)
  then show ?thesis using sa_start_stop_orphans [OF a, of "[]"] a by (simp add: n)
qed

text \<open>A profile id that is not a number makes \<open>std::stoi\<close> throw; nothing catches
  it and the program aborts. The TUN configuration routes to the outbounds \<open>block\<close> and
  \<open>dns-out\<close>, which it never declares.\<close>

lemma sa_start_bad_id_aborts: "sa_main [''start'', ''abc''] h o' ps = (Abort, sa_new h o', o', ps)"
  by (simp add: sa_main_def sa_run_def std_stoi_def parse_nat_def digit_val_def is_space_def)

lemma sa_tun_config_dangling:
  "''dns-out'' \<notin> set (map (\<lambda>ob. to_str (jget ob ''tag'')) (jitems (jget sa_tun_config_doc ''outbounds''))) \<and>
   ''block'' \<notin> set (map (\<lambda>ob. to_str (jget ob ''tag'')) (jitems (jget sa_tun_config_doc ''outbounds''))) \<and>
   map (\<lambda>r. to_str (jget r ''outbound'')) (jitems (jget (jget sa_tun_config_doc ''route'') ''rules'')) = [''block'', ''dns-out'']"
  by (simp add: sa_tun_config_doc_def jvalue_or_def)

end
