(* ===== verification/Neko_Daemon.thy ===== *)
theory Neko_Daemon
  imports Neko_WebApi Neko_Cli
begin

text \<open>
  \<open>src/nekoray/daemon/main_daemon.cpp\<close>: the daemon, \<open>DaemonApplication\<close>. It
  composes the service (Neko_Service) with the web API server (Neko_WebApi): \<open>run\<close>
  initialises the service, connects three slots of its own to the service's signals,
  starts the web server (which connects its log slots), prints three lines, arms the
  auto-start timers and enters the event loop. The state is the record \<open>daemon\<close>: the
  verbose flag, the lines written to stdout and stderr, the web server object and the
  single-shot timers still pending, earliest first. The event loop is a list of inputs
  (\<open>dm_input\<close>): a timer expiry, an HTTP request, an exit of the core or tunnel child,
  and SIGINT/SIGTERM, which quits the loop and runs \<open>cleanup\<close> through \<open>aboutToQuit\<close>.
  The time stamp of \<open>QDateTime::currentDateTime()\<close> is the parameter \<open>now\<close>.
\<close>

section \<open>State\<close>

datatype dm_timer = AutoStartProxy int | AutoStartTun

record daemon =
  dm_verbose :: bool
  dm_out :: "string list"
  dm_err :: "string list"
  dm_web :: web_api
  dm_timers :: "dm_timer list"

text \<open>The constructor; \<open>m_webServer\<close> is created in \<open>run\<close>, before any use.\<close>

definition DaemonApplication :: daemon where
  "DaemonApplication = \<lparr>dm_verbose = False, dm_out = [], dm_err = [], dm_web = WebApiServer, dm_timers = []\<rparr>"

definition dm_put_out :: "string \<Rightarrow> daemon \<Rightarrow> daemon" where
  "dm_put_out l d = d\<lparr>dm_out := dm_out d @ [l]\<rparr>"

definition dm_put_err :: "string \<Rightarrow> daemon \<Rightarrow> daemon" where
  "dm_put_err l d = d\<lparr>dm_err := dm_err d @ [l]\<rparr>"

section \<open>The slots\<close>

definition dm_onLogMessage :: "string \<Rightarrow> string \<Rightarrow> string \<Rightarrow> daemon \<Rightarrow> daemon" where
  "dm_onLogMessage now level message d =
     (if dm_verbose d \<or> level = ''error'' \<or> level = ''warn''
      then dm_put_out (qargs ''[%1] [%2] %3'' [now, map upper_char level, message]) d else d)"

definition dm_onError :: "string \<Rightarrow> string \<Rightarrow> daemon \<Rightarrow> daemon" where
  "dm_onError now err d = dm_put_err (qargs ''[%1] ERROR: %2'' [now, err]) d"

text \<open>\<open>onStatusChanged\<close>. \<open>setStatus\<close> assigns \<open>m_status\<close> before it emits, so
  \<open>getStatusString()\<close> names the new status. The getters take no lock; the state \<open>s\<close>
  they read is the service after the call: \<open>Running\<close> is emitted only by
  \<open>startProxy\<close>, after which it changes nothing but its signal list.\<close>

definition dm_onStatusChanged :: "string \<Rightarrow> svc \<Rightarrow> service_status \<Rightarrow> daemon \<Rightarrow> daemon" where
  "dm_onStatusChanged now s st d =
     (let d1 = (if dm_verbose d then dm_put_out (qargs ''[%1] Status changed to: %2'' [now, status_string st]) d else d)
      in if st = Running then
           (let d2 = fold dm_put_out [''Proxy service is now running:'',
                                       ''  SOCKS5: '' @ getSocksAddress s @ '':'' @ int_str (getSocksPort s),
                                       ''  HTTP: '' @ getHttpAddress s @ '':'' @ int_str (getHttpPort s)] d1
            in if isTunModeRunning s then dm_put_out ''  TUN: Enabled'' d2 else d2)
         else d1)"

fun dm_slot :: "string \<Rightarrow> svc \<Rightarrow> event \<Rightarrow> daemon \<Rightarrow> daemon" where
  "dm_slot now s (LogMessage level message) = dm_onLogMessage now level message"
| "dm_slot now s (ErrorOccurred e) = dm_onError now e"
| "dm_slot now s (StatusChanged st) = dm_onStatusChanged now s st"
| "dm_slot now s _ = id"

text \<open>Each signal a service call emits reaches the daemon's slot (connected first) and
  the web server's log slots, once per connection (\<open>deliver_all\<close>).\<close>

definition dm_deliver :: "string \<Rightarrow> svc \<Rightarrow> event list \<Rightarrow> daemon \<Rightarrow> daemon" where
  "dm_deliver now s es d = (fold (dm_slot now s) es d)\<lparr>dm_web := deliver_all now es (dm_web d)\<rparr>"

definition dm_call ::
  "string \<Rightarrow> (svc \<Rightarrow> os \<Rightarrow> 'r svc_result) \<Rightarrow> daemon \<Rightarrow> svc \<Rightarrow> os \<Rightarrow> ('r \<times> daemon \<times> svc \<times> os) option" where
  "dm_call now f d s o' =
     (case f s o' of
        None \<Rightarrow> None
      | Some (r, s1, o1) \<Rightarrow> Some (r, dm_deliver now s1 (new_events s s1) d, s1, o1))"

section \<open>Timers and clean-up\<close>

definition dm_autoStartProxy :: "string \<Rightarrow> int \<Rightarrow> daemon \<Rightarrow> svc \<Rightarrow> os \<Rightarrow> (daemon \<times> svc \<times> os) option" where
  "dm_autoStartProxy now profileId d s o' =
     (let d1 = dm_put_out (''Auto-starting proxy with profile '' @ int_str profileId @ ''...'') d
      in case dm_call now (loadProfile profileId) d1 s o' of
           None \<Rightarrow> None
         | Some (ok, d2, s2, o2) \<Rightarrow>
             if \<not> ok then Some (dm_put_err (''Failed to load profile for auto-start: '' @ int_str profileId) d2, s2, o2)
             else (case dm_call now startProxy d2 s2 o2 of
                     None \<Rightarrow> None
                   | Some (ok', d3, s3, o3) \<Rightarrow>
                       if \<not> ok' then Some (dm_put_err ''Failed to auto-start proxy'' d3, s3, o3)
                       else Some (dm_put_out ''Proxy auto-started successfully'' d3, s3, o3)))"

definition dm_autoStartTun :: "string \<Rightarrow> daemon \<Rightarrow> svc \<Rightarrow> os \<Rightarrow> (daemon \<times> svc \<times> os) option" where
  "dm_autoStartTun now d s o' =
     (let d1 = dm_put_out ''Auto-starting TUN mode...'' d
      in case dm_call now startTunMode d1 s o' of
           None \<Rightarrow> None
         | Some (ok, d2, s2, o2) \<Rightarrow>
             if \<not> ok then Some (dm_put_err ''Failed to auto-start TUN mode'' d2, s2, o2)
             else Some (dm_put_out ''TUN mode auto-started successfully'' d2, s2, o2))"

fun dm_fire :: "string \<Rightarrow> dm_timer \<Rightarrow> daemon \<Rightarrow> svc \<Rightarrow> os \<Rightarrow> (daemon \<times> svc \<times> os) option" where
  "dm_fire now (AutoStartProxy profileId) = dm_autoStartProxy now profileId"
| "dm_fire now AutoStartTun = dm_autoStartTun now"

definition dm_cleanup :: "string \<Rightarrow> daemon \<Rightarrow> svc \<Rightarrow> os \<Rightarrow> (daemon \<times> svc \<times> os) option" where
  "dm_cleanup now d s o' =
     (let d1 = dm_put_out ''Shutting down daemon...'' d
      in case dm_call now shutdown d1 s o' of
           None \<Rightarrow> None
         | Some (_, d2, s2, o2) \<Rightarrow>
             Some (dm_put_out ''Daemon shutdown complete'' (d2\<lparr>dm_web := wa_stop (dm_web d2)\<rparr>), s2, o2))"

section \<open>\<open>run\<close>\<close>

text \<open>The options of \<open>QCommandLineParser\<close>: \<open>--auto-start\<close> is \<open>None\<close> when not given.\<close>

record dm_opts =
  dmo_config :: path
  dmo_port :: string
  dmo_verbose :: bool
  dmo_autoStart :: "string option"
  dmo_tun :: bool
  dmo_bind :: string

text \<open>\<open>run\<close> up to \<open>exec()\<close>: \<open>Some (Some 1, ...)\<close> when it returns 1, \<open>Some (None, ...)\<close>
  when it enters the event loop, \<open>None\<close> when \<open>initialize\<close> blocks. \<open>WebApiServer::start\<close>
  listens on \<open>QHostAddress::Any\<close>, which the host's \<open>h_bindable\<close> names \<open>0.0.0.0\<close>.\<close>

definition dm_run :: "host \<Rightarrow> dm_opts \<Rightarrow> os \<Rightarrow> (int option \<times> daemon \<times> svc \<times> os) option" where
  "dm_run h opts o' =
     (let d0 = DaemonApplication\<lparr>dm_verbose := dmo_verbose opts\<rparr>;
          configDir = dmo_config opts
      in case initialize configDir (svc_new o') o' of
           None \<Rightarrow> None
         | Some (ok, s, o1) \<Rightarrow>
             if \<not> ok then Some (Some 1, dm_put_err ''Failed to initialize service'' d0, s, o1)
             else
               (let webPort = qstr_toInt (dmo_port opts);
                    (started, wa) = wa_start ((''0.0.0.0'', webPort) \<in> h_bindable h) True webPort WebApiServer;
                    d1 = d0\<lparr>dm_web := wa\<rparr>
                in if \<not> started then Some (Some 1, dm_put_err ''Failed to start web server'' d1, s, o1)
                   else
                     (let d2 = fold dm_put_out [''NekoRay Daemon started successfully'',
                                                ''Web interface: http://localhost:'' @ int_str webPort,
                                                ''Configuration directory: '' @ (if configDir = [] then ''default'' else configDir)] d1;
                          d3 = (case dmo_autoStart opts of
                                  None \<Rightarrow> d2
                                | Some v \<Rightarrow> (case toInt_ok v of
                                              Some profileId \<Rightarrow> d2\<lparr>dm_timers := dm_timers d2 @ [AutoStartProxy profileId]\<rparr>
                                            | None \<Rightarrow> dm_put_err (''Invalid profile ID for auto-start: '' @ qquote v) d2));
                          d4 = (if dmo_tun opts then d3\<lparr>dm_timers := dm_timers d3 @ [AutoStartTun]\<rparr> else d3)
                      in Some (None, d4, s, o1))))"

section \<open>The event loop\<close>

text \<open>\<open>DTimer\<close> is the expiry of the earliest pending single-shot timer (the proxy's at
  1000 ms before the tunnel's at 2000 ms); \<open>DSignal\<close> is SIGINT or SIGTERM, whose handler
  prints with \<open>qDebug\<close> and quits; the inputs after it are never read. The answer to a
  request goes to the client and is not kept.\<close>

datatype dm_input = DTimer | DRequest http_request | DCoreExit | DTunExit | DSignal

fun dm_loop ::
  "string \<Rightarrow> int \<Rightarrow> string \<Rightarrow> (string \<Rightarrow> json option) \<Rightarrow> dm_input list \<Rightarrow> daemon \<Rightarrow> svc \<Rightarrow> os \<Rightarrow>
   (int option \<times> daemon \<times> svc \<times> os) option" where
  "dm_loop now secs page jparse [] d s o' = Some (None, d, s, o')"
| "dm_loop now secs page jparse (DSignal # _) d s o' =
     (case dm_cleanup now (dm_put_err ''Received shutdown signal, cleaning up...'' d) s o' of
        None \<Rightarrow> None
      | Some (d1, s1, o1) \<Rightarrow> Some (Some 0, d1, s1, o1))"
| "dm_loop now secs page jparse (DTimer # ins) d s o' =
     (case dm_timers d of
        [] \<Rightarrow> dm_loop now secs page jparse ins d s o'
      | t # ts \<Rightarrow> (case dm_fire now t (d\<lparr>dm_timers := ts\<rparr>) s o' of
                    None \<Rightarrow> None
                  | Some (d1, s1, o1) \<Rightarrow> dm_loop now secs page jparse ins d1 s1 o1))"
| "dm_loop now secs page jparse (DRequest rq # ins) d s o' =
     (case wa_handle now secs page jparse rq (dm_web d) s o' of
        None \<Rightarrow> None
      | Some (_, wa1, s1, o1) \<Rightarrow>
          dm_loop now secs page jparse ins (fold (dm_slot now s1) (new_events s s1) (d\<lparr>dm_web := wa1\<rparr>)) s1 o1)"
| "dm_loop now secs page jparse (DCoreExit # ins) d s o' =
     (let s1 = core_exit s in dm_loop now secs page jparse ins (dm_deliver now s1 (new_events s s1) d) s1 o')"
| "dm_loop now secs page jparse (DTunExit # ins) d s o' =
     (let s1 = tun_exit s in dm_loop now secs page jparse ins (dm_deliver now s1 (new_events s s1) d) s1 o')"

definition dm_main ::
  "host \<Rightarrow> string \<Rightarrow> int \<Rightarrow> string \<Rightarrow> (string \<Rightarrow> json option) \<Rightarrow> dm_opts \<Rightarrow> dm_input list \<Rightarrow> os \<Rightarrow>
   (int option \<times> daemon \<times> svc \<times> os) option" where
  "dm_main h now secs page jparse opts ins o' =
     (case dm_run h opts o' of
        Some (None, d, s, o1) \<Rightarrow> dm_loop now secs page jparse ins d s o1
      | r \<Rightarrow> r)"

section \<open>An example host and command line\<close>

definition dm_host :: host where
  "dm_host = plain_host\<lparr>h_bindable := {(''0.0.0.0'', 80)}\<rparr>"

definition dm_demo_opts :: dm_opts where
  "dm_demo_opts = \<lparr>dmo_config = [], dmo_port = ''80'', dmo_verbose = False, dmo_autoStart = Some ''1'',
     dmo_tun = False, dmo_bind = ''127.0.0.1''\<rparr>"

text \<open>The example system with a settings file that asks for the SOCKS port 1080.\<close>

definition dm_port_os :: os where
  "dm_port_os = demo_os\<lparr>os_files := (os_files demo_os)(''/home/nekoray/groups/nekobox.json'' \<mapsto>
                   JsonDoc (JObj [(''inbound_socks_port'', JNum 1080)]))\<rparr>"

section \<open>The daemon keeps the service live\<close>

lemma dm_call_reachable:
  assumes "reachable (s, o')" and "api_step c s o' = map_option snd (f s o')"
  shows "\<exists>r d1 s1 o1. dm_call now f d s o' = Some (r, d1, s1, o1) \<and> reachable (s1, o1)"
  using reachable_result [OF assms] by (auto simp: dm_call_def)

lemma dm_fire_reachable:
  assumes "reachable (s, o')"
  shows "\<exists>d1 s1 o1. dm_fire now t d s o' = Some (d1, s1, o1) \<and> reachable (s1, o1)"
proof (cases t)
  case (AutoStartProxy p)
  obtain ok d2 s2 o2 where l: "dm_call now (loadProfile p) (dm_put_out (''Auto-starting proxy with profile '' @ int_str p @ ''...'') d) s o' = Some (ok, d2, s2, o2)"
    and r2: "reachable (s2, o2)"
    using dm_call_reachable [OF assms, of "LoadProfileCall p"] by fastforce
  obtain ok' d3 s3 o3 where st: "dm_call now startProxy d2 s2 o2 = Some (ok', d3, s3, o3)" and r3: "reachable (s3, o3)"
    using dm_call_reachable [OF r2, of StartProxyCall] by fastforce
  show ?thesis using AutoStartProxy l st r2 r3 by (simp add: dm_autoStartProxy_def)
next
  case AutoStartTun
  obtain ok d2 s2 o2 where "dm_call now startTunMode (dm_put_out ''Auto-starting TUN mode...'' d) s o' = Some (ok, d2, s2, o2)"
    and "reachable (s2, o2)"
    using dm_call_reachable [OF assms, of StartTunModeCall] by fastforce
  then show ?thesis using AutoStartTun by (simp add: dm_autoStartTun_def)
qed

lemma shutdown_stopped:
  assumes "\<not> locked s" and "shutdown s o' = Some (u, s', o'')"
  shows "status s' = Stopped"
proof -
  obtain s1 where b: "shutdown_body (s\<lparr>locked := True\<rparr>) o' = Some (u, s1, o'')" and s': "s' = s1\<lparr>locked := False\<rparr>"
    using assms(2) unfolding shutdown_def by (rule with_lock_SomeE)
  show ?thesis
  proof (cases "status s = Stopped")
    case True
    then show ?thesis using b s' by (auto simp: shutdown_body_def)
  next
    case False
    then have "status (s\<lparr>locked := True\<rparr>) \<noteq> Stopped" by simp
    then show ?thesis using shutdown_body_result [of "s\<lparr>locked := True\<rparr>" o'] b s' by auto
  qed
qed

lemma dm_cleanup_stops:
  assumes "reachable (s, o')"
  shows "\<exists>d1 s1 o1. dm_cleanup now d s o' = Some (d1, s1, o1) \<and> reachable (s1, o1) \<and> status s1 = Stopped
           \<and> \<not> wa_listening (dm_web d1) \<and> last (dm_out d1) = ''Daemon shutdown complete''"
proof -
  obtain u d2 s2 o2 where c: "dm_call now shutdown (dm_put_out ''Shutting down daemon...'' d) s o' = Some (u, d2, s2, o2)"
    and r: "reachable (s2, o2)"
    using dm_call_reachable [OF assms, of ShutdownCall] by fastforce
  then obtain s3 where "shutdown s o' = Some (u, s3, o2)" and "s2 = s3"
    by (auto simp: dm_call_def split: option.splits)
  then have "status s2 = Stopped" using shutdown_stopped [OF reachable_unlocked [OF assms]] by simp
  then show ?thesis using c r by (simp add: dm_cleanup_def dm_put_out_def wa_stop_def)
qed

text \<open>Every run of the event loop from a reachable service returns: no timer, request,
  child exit or signal blocks on the service mutex, and the service stays reachable.\<close>

lemma dm_loop_live:
  assumes "reachable (s, o')"
  shows "\<exists>r d' s' o''. dm_loop now secs page jparse ins d s o' = Some (r, d', s', o'') \<and> reachable (s', o'')"
  using assms
proof (induction now secs page jparse ins d s o' rule: dm_loop.induct)
  case (1 now secs page jparse d s o')
  then show ?case by simp
next
  case (2 now secs page jparse uu d s o')
  obtain d1 s1 o1 where "dm_cleanup now (dm_put_err ''Received shutdown signal, cleaning up...'' d) s o' = Some (d1, s1, o1)"
    and "reachable (s1, o1)"
    using dm_cleanup_stops [OF 2] by blast
  then show ?case by simp
next
  case (3 now secs page jparse ins d s o')
  show ?case
  proof (cases "dm_timers d")
    case Nil
    then show ?thesis using 3 by simp
  next
    case (Cons t ts)
    obtain d1 s1 o1 where f: "dm_fire now t (d\<lparr>dm_timers := ts\<rparr>) s o' = Some (d1, s1, o1)" and r: "reachable (s1, o1)"
      using dm_fire_reachable [OF 3(3)] by blast
    then show ?thesis using 3(2) [OF Cons f refl refl r] Cons by simp
  qed
next
  case (4 now secs page jparse rq ins d s o')
  obtain x wa1 s1 o1 where w: "wa_handle now secs page jparse rq (dm_web d) s o' = Some (x, wa1, s1, o1)"
    and r: "reachable (s1, o1)"
    using wa_handle_reachable_step [OF 4(2)] by blast
  then show ?case using 4(1) [OF w refl refl refl r] by simp
next
  case (5 now secs page jparse ins d s o')
  have "reachable (core_exit s, o')" using 5(2) by (blast intro: reachable.step svc_step.core_dies)
  then show ?case using 5(1) by (simp add: Let_def)
next
  case (6 now secs page jparse ins d s o')
  have "reachable (tun_exit s, o')" using 6(2) by (blast intro: reachable.step svc_step.tun_dies)
  then show ?case using 6(1) by (simp add: Let_def)
qed

lemma dm_loop_signal:
  assumes "reachable (s, o')" and "DSignal \<in> set ins"
  shows "\<exists>d' s' o''. dm_loop now secs page jparse ins d s o' = Some (Some 0, d', s', o'') \<and> status s' = Stopped
           \<and> \<not> proc_active (cm_process (core s')) \<and> \<not> wa_listening (dm_web d') \<and> last (dm_out d') = ''Daemon shutdown complete''"
  using assms
proof (induction now secs page jparse ins d s o' rule: dm_loop.induct)
  case (1 now secs page jparse d s o')
  then show ?case by simp
next
  case (2 now secs page jparse uu d s o')
  obtain d1 s1 o1 where c: "dm_cleanup now (dm_put_err ''Received shutdown signal, cleaning up...'' d) s o' = Some (d1, s1, o1)"
    and r: "reachable (s1, o1)" and f: "status s1 = Stopped" "\<not> wa_listening (dm_web d1)"
      "last (dm_out d1) = ''Daemon shutdown complete''"
    using dm_cleanup_stops [OF 2(1)] by blast
  have "\<not> proc_active (cm_process (core s1))" using reachable_inv [OF r] f(1) by (simp add: svc_inv_def)
  then show ?case using c f by simp
next
  case (3 now secs page jparse ins d s o')
  have i: "DSignal \<in> set ins" using 3(4) by simp
  show ?case
  proof (cases "dm_timers d")
    case Nil
    then show ?thesis using 3(1) [OF Nil 3(3) i] by simp
  next
    case (Cons t ts)
    obtain d1 s1 o1 where f: "dm_fire now t (d\<lparr>dm_timers := ts\<rparr>) s o' = Some (d1, s1, o1)" and r: "reachable (s1, o1)"
      using dm_fire_reachable [OF 3(3)] by blast
    then show ?thesis using 3(2) [OF Cons f refl refl r i] Cons by simp
  qed
next
  case (4 now secs page jparse rq ins d s o')
  obtain x wa1 s1 o1 where w: "wa_handle now secs page jparse rq (dm_web d) s o' = Some (x, wa1, s1, o1)"
    and r: "reachable (s1, o1)"
    using wa_handle_reachable_step [OF 4(2)] by blast
  have i: "DSignal \<in> set ins" using 4(3) by simp
  show ?case using 4(1) [OF w refl refl refl r i] w by simp
next
  case (5 now secs page jparse ins d s o')
  have "reachable (core_exit s, o')" using 5(2) by (blast intro: reachable.step svc_step.core_dies)
  then show ?case using 5(1) 5(3) by (simp add: Let_def)
next
  case (6 now secs page jparse ins d s o')
  have "reachable (tun_exit s, o')" using 6(2) by (blast intro: reachable.step svc_step.tun_dies)
  then show ?case using 6(1) 6(3) by (simp add: Let_def)
qed

lemma dm_run_serves:
  assumes "initialize (dmo_config opts) (svc_new o') o' = Some (True, s, o1)"
      and "(''0.0.0.0'', qstr_toInt (dmo_port opts)) \<in> h_bindable h"
  shows "\<exists>d. dm_run h opts o' = Some (None, d, s, o1) \<and> wa_listening (dm_web d) \<and> wa_conns (dm_web d) = 1
           \<and> wa_port (dm_web d) = qstr_toInt (dmo_port opts)
           \<and> dm_out d = [''NekoRay Daemon started successfully'',
                         ''Web interface: http://localhost:'' @ int_str (qstr_toInt (dmo_port opts)),
                         ''Configuration directory: '' @ (if dmo_config opts = [] then ''default'' else dmo_config opts)]
           \<and> dm_timers d = (case dmo_autoStart opts of
                              Some v \<Rightarrow> (case toInt_ok v of Some p \<Rightarrow> [AutoStartProxy p] | None \<Rightarrow> [])
                            | None \<Rightarrow> []) @ (if dmo_tun opts then [AutoStartTun] else [])"
  using assms
  by (auto simp: dm_run_def wa_start_def DaemonApplication_def WebApiServer_def dm_put_out_def dm_put_err_def
      Let_def split: option.splits)

text \<open>Once \<open>initialize\<close> has returned true, the daemon never blocks: whatever the web
  server and the event loop receive, every step returns and the service stays reachable.\<close>

lemma dm_main_live:
  assumes "initialize (dmo_config opts) (svc_new o') o' = Some (True, s, o1)"
  shows "\<exists>r d' s' o''. dm_main h now secs page jparse opts ins o' = Some (r, d', s', o'') \<and> reachable (s', o'')"
proof -
  have r: "reachable (s, o1)" using assms by (rule reachable.init)
  have "\<exists>x d. dm_run h opts o' = Some (x, d, s, o1)"
    using assms by (simp add: dm_run_def Let_def split_def split: if_split)
  then obtain x d where run: "dm_run h opts o' = Some (x, d, s, o1)" by blast
  show ?thesis
  proof (cases x)
    case None
    then show ?thesis using run dm_loop_live [OF r] by (simp add: dm_main_def)
  next
    case (Some c)
    then show ?thesis using run r by (simp add: dm_main_def)
  qed
qed

text \<open>C21. Once the service has initialised and the web server listens, a SIGINT or
  SIGTERM anywhere in the daemon's input ends it with exit code 0 through \<open>cleanup\<close>:
  the service is Stopped, no core child is left running and the web API no longer
  listens, whatever timers, requests and child exits came before.\<close>

theorem dm_main_signal_stops:
  assumes "initialize (dmo_config opts) (svc_new o') o' = Some (True, s, o1)"
      and "(''0.0.0.0'', qstr_toInt (dmo_port opts)) \<in> h_bindable h"
      and "DSignal \<in> set ins"
  shows "\<exists>d' s' o''. dm_main h now secs page jparse opts ins o' = Some (Some 0, d', s', o'') \<and> status s' = Stopped
           \<and> \<not> proc_active (cm_process (core s')) \<and> \<not> wa_listening (dm_web d')
           \<and> last (dm_out d') = ''Daemon shutdown complete''"
proof -
  have r: "reachable (s, o1)" using assms(1) by (rule reachable.init)
  obtain d where "dm_run h opts o' = Some (None, d, s, o1)"
    using dm_run_serves [OF assms(1,2)] by blast
  then show ?thesis using dm_loop_signal [OF r assms(3)] by (simp add: dm_main_def)
qed

section \<open>Examples\<close>

lemma dm_demo_init: "case initialize [] (svc_new demo_os) demo_os of Some (ok, s, o1) \<Rightarrow> ok | None \<Rightarrow> False"
  by code_simp

lemma dm_demo_bindable: "(''0.0.0.0'', qstr_toInt (dmo_port dm_demo_opts)) \<in> h_bindable dm_host"
  by code_simp

text \<open>The daemon with \<open>--auto-start 1\<close>, one timer expiry and SIGTERM: the lines it
  prints, the service's Running announcement included.\<close>

lemma dm_demo_output:
  "case dm_main dm_host ''t'' 0 [] (\<lambda>_. None) dm_demo_opts [DTimer, DSignal] demo_os of
     Some (r, d, s, o') \<Rightarrow> r = Some 0 \<and>
       dm_out d = [''NekoRay Daemon started successfully'', ''Web interface: http://localhost:80'',
                   ''Configuration directory: default'', ''Auto-starting proxy with profile 1...'',
                   ''Proxy service is now running:'', ''  SOCKS5: 127.0.0.1:2080'', ''  HTTP: 127.0.0.1:2081'',
                   ''Proxy auto-started successfully'', ''Shutting down daemon...'', ''Daemon shutdown complete''] \<and>
       dm_err d = [''Received shutdown signal, cleaning up...'']
   | None \<Rightarrow> False"
  by code_simp

text \<open>With \<open>inbound_socks_port\<close> set to 1080 the daemon announces port 1080, while the core
  configuration listens on 2080 whatever the document says (\<open>core_config\<close>).\<close>

lemma dm_announces_configured_port:
  "case dm_main dm_host ''t'' 0 [] (\<lambda>_. None) dm_demo_opts [DTimer] dm_port_os of
     Some (r, d, s, o') \<Rightarrow> r = None \<and> dm_out d ! 5 = ''  SOCKS5: 127.0.0.1:1080''
       \<and> status s = Running \<and> inbound_listeners core_config = [(''socks'', ''127.0.0.1'', 2080), (''http'', ''127.0.0.1'', 2081)]
   | None \<Rightarrow> False"
  by code_simp

theorem dm_main_signal_stops_witness:
  "\<exists>d' s' o''. dm_main dm_host ''t'' 0 [] (\<lambda>_. None) dm_demo_opts [DTimer, DSignal] demo_os = Some (Some 0, d', s', o'')
     \<and> status s' = Stopped \<and> \<not> proc_active (cm_process (core s')) \<and> \<not> wa_listening (dm_web d')
     \<and> last (dm_out d') = ''Daemon shutdown complete''"
proof -
  obtain s o1 where i: "initialize (dmo_config dm_demo_opts) (svc_new demo_os) demo_os = Some (True, s, o1)"
    using dm_demo_init by (auto simp: dm_demo_opts_def split: option.splits)
  show ?thesis using dm_main_signal_stops [OF i dm_demo_bindable, of "[DTimer, DSignal]"] by simp
qed

end
