(* ===== verification/Neko_CliSimple.thy ===== *)
theory Neko_CliSimple
  imports Neko_Cli
begin

text \<open>
  \<open>src/nekoray/cli/main_cli_fixed_simple.cpp\<close>: \<open>SimpleCliApplication\<close>, a command line
  with no service behind it. A run reads only the environment (is a core executable
  beside the program, the configuration location) and the positional arguments, and
  returns its exit code with the lines it wrote to stdout and stderr (\<open>qDebug\<close> and
  \<open>qCritical\<close> go to stderr). The options \<open>-c\<close>, \<open>-d\<close>, \<open>--verbose\<close>, \<open>-t\<close> and \<open>-n\<close> are
  parsed and never read, so they are not parameters. Text is UTF-8 bytes.
\<close>

section \<open>Output\<close>

type_synonym cs_result = "int \<times> string list \<times> string list"

definition cs_check :: string where
  "cs_check = [CHR 0xE2, CHR 0x9C, CHR 0x85]"

definition cs_warn :: string where
  "cs_warn = [CHR 0xE2, CHR 0x9A, CHR 0xA0, CHR 0xEF, CHR 0xB8, CHR 0x8F]"

definition cs_out :: "string list \<Rightarrow> cs_result" where
  "cs_out ls = (0, ls, [])"

section \<open>The core and the commands\<close>

definition cs_possibleNames :: "string list" where
  "cs_possibleNames = [''nekobox_core'', ''nekoray_core'', ''sing-box'']"

definition cs_findCore :: "os \<Rightarrow> path" where
  "cs_findCore o' =
     (case find (\<lambda>name. qfile_exists o' (os_app_dir o' @ ''/'' @ name)) cs_possibleNames of
        Some name \<Rightarrow> os_app_dir o' @ ''/'' @ name
      | None \<Rightarrow> [])"

text \<open>What \<open>qDebug\<close> prints about the core: a \<open>QString\<close> in quotes, a \<open>QStringList\<close> as
  a parenthesised list of quoted strings.\<close>

definition cs_coreDiag :: "path \<Rightarrow> string list" where
  "cs_coreDiag corePath =
     (if corePath \<noteq> [] then [cs_check @ '' Core ready: '' @ qquote corePath]
      else [cs_warn @ '' Core not found. Tried: ('' @ concat (map (\<lambda>n. qquote n @ '', '') (butlast cs_possibleNames)) @
              qquote (last cs_possibleNames) @ '')'',
            ''Running in simulation mode''])"

definition cs_handleStatus :: "path \<Rightarrow> cs_result" where
  "cs_handleStatus corePath =
     cs_out ([''=== NekoRay Status ==='', ''Service Status: Stopped'', ''Current Profile: -1'', ''TUN Mode: Stopped''] @
             (if corePath \<noteq> [] then [''Core: '' @ corePath, ''Core Status: Ready''] else [''Core: Not found (simulation mode)'']) @
             [''SOCKS5: 127.0.0.1:2080 (configured)'', ''HTTP: 127.0.0.1:2081 (configured)'', ''Upload: 0 B'', ''Download: 0 B''])"

definition cs_handleStart :: "string list \<Rightarrow> path \<Rightarrow> cs_result" where
  "cs_handleStart args corePath =
     (if length args < 2 then (1, [], [''Profile ID required for start command''])
      else case toInt_ok (args ! 1) of
             None \<Rightarrow> (1, [], [''Invalid profile ID: '' @ qquote (args ! 1)])
           | Some profileId \<Rightarrow>
               cs_out ((if corePath \<noteq> [] then [''Starting proxy with profile '' @ int_str profileId @ ''...'',
                                                cs_check @ '' Core found: '' @ corePath,
                                                cs_check @ '' Proxy started successfully'']
                        else [cs_warn @ '' Simulation mode: Would start proxy with profile '' @ int_str profileId]) @
                       [''SOCKS5: 127.0.0.1:2080'', ''HTTP: 127.0.0.1:2081'']))"

definition cs_handleStop :: cs_result where
  "cs_handleStop = cs_out [''Proxy stopped successfully'']"

definition cs_handleRestart :: "string list \<Rightarrow> cs_result" where
  "cs_handleRestart args = cs_out [''Proxy restart functionality not yet implemented'']"

definition cs_handleList :: cs_result where
  "cs_handleList = cs_out [''Profile listing not yet implemented'']"

definition cs_handleTunStart :: cs_result where
  "cs_handleTunStart = cs_out [''TUN mode started successfully'']"

definition cs_handleTunStop :: cs_result where
  "cs_handleTunStop = cs_out [''TUN mode stopped successfully'']"

definition cs_handleConfig :: "os \<Rightarrow> cs_result" where
  "cs_handleConfig o' =
     (let configDir = os_config_location o' @ ''/nekoray''
      in cs_out [''{'', ''  '' @ qquote ''config_dir'' @ '': '' @ qquote configDir @ '','',
                 ''  '' @ qquote ''socks_port'' @ '': 2080,'', ''  '' @ qquote ''http_port'' @ '': 2081,'',
                 ''  '' @ qquote ''tun_enabled'' @ '': false'', ''}''])"

section \<open>\<open>run\<close>\<close>

text \<open>\<open>run\<close>: the core diagnostics come first; an empty command line or an unknown
  command ends in \<open>showHelp(1)\<close>, whose help text is not modelled.\<close>

definition cs_run :: "os \<Rightarrow> string list \<Rightarrow> cs_result" where
  "cs_run o' positionalArgs =
     (let corePath = cs_findCore o'; diag = cs_coreDiag corePath
      in if positionalArgs = [] then (1, [], diag)
         else
           let command = hd positionalArgs;
               (r, out, err) =
                 (if command = ''status'' then cs_handleStatus corePath
                  else if command = ''start'' then cs_handleStart positionalArgs corePath
                  else if command = ''stop'' then cs_handleStop
                  else if command = ''restart'' then cs_handleRestart positionalArgs
                  else if command = ''list'' then cs_handleList
                  else if command = ''tun-start'' then cs_handleTunStart
                  else if command = ''tun-stop'' then cs_handleTunStop
                  else if command = ''config'' then cs_handleConfig o'
                  else (1, [], [''Unknown command: '' @ qquote command]))
           in (r, out, diag @ err))"

section \<open>Properties\<close>

text \<open>\<open>start\<close> accepts every id \<open>toInt\<close> reads, also ids the service rejects (outside
  1..100), and reports success without starting anything; a later \<open>status\<close> still
  reports Stopped: a run reads the environment and changes nothing.\<close>

lemma cs_start_accepts_any:
  assumes "toInt_ok n = Some p" and "cs_findCore o' \<noteq> []"
  shows "cs_run o' [''start'', n] =
           (0, [''Starting proxy with profile '' @ int_str p @ ''...'', cs_check @ '' Core found: '' @ cs_findCore o',
                cs_check @ '' Proxy started successfully'', ''SOCKS5: 127.0.0.1:2080'', ''HTTP: 127.0.0.1:2081''],
            cs_coreDiag (cs_findCore o'))"
    and "fst (snd (cs_run o' [''status''])) ! 1 = ''Service Status: Stopped''"
  using assms by (simp_all add: cs_run_def cs_handleStart_def cs_handleStatus_def cs_out_def Let_def)

text \<open>A run exits 1 exactly for an unknown command or a \<open>start\<close> without a valid id;
  every known command else reports success.\<close>

lemma cs_run_exit:
  assumes "positionalArgs \<noteq> []"
  shows "fst (cs_run o' positionalArgs) = (if hd positionalArgs \<notin> {''status'', ''start'', ''stop'', ''restart'', ''list'', ''tun-start'', ''tun-stop'', ''config''}
           \<or> hd positionalArgs = ''start'' \<and> (length positionalArgs < 2 \<or> toInt_ok (positionalArgs ! 1) = None) then 1 else 0)"
  using assms
  by (auto simp: cs_run_def cs_handleStart_def cs_handleStatus_def cs_handleStop_def cs_handleRestart_def
      cs_handleList_def cs_handleTunStart_def cs_handleTunStop_def cs_handleConfig_def cs_out_def Let_def
      split: option.splits)

text \<open>On the example system, \<open>start 101\<close> (an id \<open>NekoService::loadProfile\<close> rejects)
  exits 0 and says the proxy started.\<close>

lemma cs_demo_start_101:
  "cs_run demo_os [''start'', ''101''] =
     (0, [''Starting proxy with profile 101...'', cs_check @ '' Core found: /opt/nekoray/nekobox_core'',
          cs_check @ '' Proxy started successfully'', ''SOCKS5: 127.0.0.1:2080'', ''HTTP: 127.0.0.1:2081''],
      [cs_check @ '' Core ready: '' @ qquote ''/opt/nekoray/nekobox_core''])"
  by code_simp

end
