(* ===== verification/Neko_WebFixed.thy ===== *)
theory Neko_WebFixed
  imports Neko_WebApi Neko_CliSimple
begin

text \<open>
  \<open>src/nekoray/web/main_web_fixed_simple.cpp\<close>: a web server with no service behind it.
  Its only state is the core path found at construction; every request is answered from
  it alone. The two raw-string halves of the page (lines 80--93 and 97--110) are the
  parameters \<open>head\<close> and \<open>tail\<close>, Qt's JSON printer the parameter \<open>jprint\<close>, as in
  Neko_SimpleWeb. \<open>qDebug\<close> output is a list of lines (stderr): it separates the
  operands of \<open><<\<close> by a space and quotes a \<open>QString\<close>.
\<close>

section \<open>The server\<close>

definition wf_globe :: string where
  "wf_globe = [CHR 0xF0, CHR 0x9F, CHR 0x8C, CHR 0x90]"

definition wf_antenna :: string where
  "wf_antenna = [CHR 0xF0, CHR 0x9F, CHR 0x93, CHR 0xA1]"

text \<open>The constructor's search for the core is the one of \<open>main_cli_fixed_simple.cpp\<close>.\<close>

definition wf_new :: "os \<Rightarrow> path" where
  "wf_new o' = cs_findCore o'"

text \<open>\<open>start(host, port)\<close>: the listen succeeds when the host may bind the address;
  \<open>errorString\<close> is the parameter \<open>err\<close>.\<close>

definition wf_start :: "host \<Rightarrow> string \<Rightarrow> path \<Rightarrow> string \<Rightarrow> int \<Rightarrow> bool \<times> string list" where
  "wf_start h err corePath host port =
     (let diag = (if corePath \<noteq> [] then [cs_check @ '' Core ready: '' @ qquote corePath]
                  else [cs_warn @ '' Core not found. Running in simulation mode''])
      in if (host, port) \<notin> h_bindable h then (False, diag @ [''Failed to start server: '' @ qquote err])
         else (True, diag @ [wf_globe @ '' NekoRay Web API started on '' @ qquote host @ '' : '' @ int_str port,
                             wf_antenna @ '' Access: http:// '' @ qquote host @ '' : '' @ int_str port]))"

section \<open>Requests\<close>

definition wf_json :: "path \<Rightarrow> string \<Rightarrow> jobject" where
  "wf_json corePath path =
     (if path = ''/api/status'' then
        jsets [(''status'', JStr ''stopped''), (''core'', JStr (if corePath = [] then ''not_found'' else ''ready'')),
               (''core_path'', JStr corePath), (''socks_port'', JNum 2080), (''http_port'', JNum 2081),
               (''tun_enabled'', JBool False)] []
      else if path = ''/api/start'' then
        jsets [(''result'', JStr ''success''),
               (''message'', JStr (if corePath = [] then ''Simulation mode: Proxy would start'' else ''Proxy started successfully'')),
               (''socks'', JStr ''127.0.0.1:2080''), (''http'', JStr ''127.0.0.1:2081'')] []
      else if path = ''/api/stop'' then
        jsets [(''result'', JStr ''success''), (''message'', JStr ''Proxy stopped successfully'')] []
      else if path = ''/api/config'' then
        jsets [(''config_dir'', JStr ''/root/.config/nekoray''), (''socks_port'', JNum 2080), (''http_port'', JNum 2081),
               (''tun_mode'', JBool False)] []
      else jsets [(''error'', JStr ''Not found'')] [])"

definition wf_page :: "string \<Rightarrow> string \<Rightarrow> path \<Rightarrow> string" where
  "wf_page head tail corePath =
     head @ (if corePath = [] then ''<p>'' @ cs_warn @ '' Core: Not found (simulation mode)</p>''
             else qarg (''<p>'' @ cs_check @ '' Core: Ready (%1)</p>'') corePath) @ tail"

definition wf_handleRequest ::
  "(jobject \<Rightarrow> string) \<Rightarrow> string \<Rightarrow> string \<Rightarrow> path \<Rightarrow> string \<Rightarrow> string \<Rightarrow> string" where
  "wf_handleRequest jprint head tail corePath method path =
     (if path = ''/'' \<or> path = ''/index.html'' then
        (let content = wf_page head tail corePath
         in ''HTTP/1.1 200 OK'' @ crlf @ ''Content-Type: text/html'' @ crlf @ ''Content-Length: '' @
            nat_str (length content) @ crlf @ crlf @ content)
      else
        (let content = jprint (wf_json corePath path)
         in ''HTTP/1.1 200 OK'' @ crlf @ ''Content-Type: application/json'' @ crlf @
            ''Access-Control-Allow-Origin: *'' @ crlf @ ''Content-Length: '' @ nat_str (length content) @ crlf @ crlf @ content))"

text \<open>The \<open>readyRead\<close> handler: a request line with fewer than two words gets no answer
  and the socket stays open. (\<open>split\<close> never returns an empty list, so the test of
  \<open>lines.isEmpty()\<close> never holds.)\<close>

definition wf_readyRead ::
  "(jobject \<Rightarrow> string) \<Rightarrow> string \<Rightarrow> string \<Rightarrow> path \<Rightarrow> string \<Rightarrow> sock \<Rightarrow> sock" where
  "wf_readyRead jprint head tail corePath request so =
     (let parts = split_str '' '' (hd (split_str crlf request))
      in if length parts < 2 then so
         else disconnectFromHost (sock_write (wf_handleRequest jprint head tail corePath (parts ! 0) (parts ! 1)) so))"

section \<open>\<open>main\<close>\<close>

text \<open>\<open>main\<close> up to \<open>app.exec()\<close>: \<open>Some 1\<close> when the server cannot listen, \<open>None\<close> when
  it serves; with the core path it serves with and its diagnostics.\<close>

definition wf_main :: "host \<Rightarrow> string \<Rightarrow> string \<Rightarrow> string \<Rightarrow> os \<Rightarrow> int option \<times> path \<times> string list" where
  "wf_main h err portOpt hostOpt o' =
     (let port = qstr_toInt portOpt; corePath = wf_new o';
          (ok, diag) = wf_start h err corePath hostOpt port
      in (if ok then None else Some 1, corePath, diag))"

section \<open>Properties\<close>

text \<open>Every answer declares as \<open>Content-Length\<close> the number of bytes of the body it
  sends, and the answer does not depend on the request method.\<close>

lemma wf_handleRequest_length:
  "\<exists>hdr body. wf_handleRequest jprint head tail corePath method path = hdr @ ''Content-Length: '' @ nat_str (length body) @ crlf @ crlf @ body
      \<and> wf_handleRequest jprint head tail corePath method path = wf_handleRequest jprint head tail corePath method' path"
proof (cases "path = ''/'' \<or> path = ''/index.html''")
  case True
  then show ?thesis
    by (intro exI [of _ "''HTTP/1.1 200 OK'' @ crlf @ ''Content-Type: text/html'' @ crlf"] exI [of _ "wf_page head tail corePath"])
      (simp add: wf_handleRequest_def Let_def)
next
  case False
  then show ?thesis
    by (intro exI [of _ "''HTTP/1.1 200 OK'' @ crlf @ ''Content-Type: application/json'' @ crlf @ ''Access-Control-Allow-Origin: *'' @ crlf"]
        exI [of _ "jprint (wf_json corePath path)"])
      (simp add: wf_handleRequest_def Let_def)
qed

text \<open>A request is answered on every path: the socket receives the answer and is closed
  whenever the request line has a method and a path.\<close>

lemma wf_readyRead_answers:
  assumes "split_str '' '' (hd (split_str crlf request)) = m # p # rest" and "so_open so"
  shows "wf_readyRead jprint head tail corePath request so =
           \<lparr>so_out = so_out so @ wf_handleRequest jprint head tail corePath m p, so_open = False\<rparr>"
  using assms by (cases so) (simp add: wf_readyRead_def sock_write_def disconnectFromHost_def)

text \<open>\<open>/api/start\<close> reports success and \<open>/api/status\<close> still reports \<open>stopped\<close>: the
  server starts nothing.\<close>

lemma wf_start_stateless:
  "map_of (wf_json corePath ''/api/start'') ''result'' = Some (JStr ''success'')"
  "map_of (wf_json corePath ''/api/status'') ''status'' = Some (JStr ''stopped'')"
  by (simp_all add: wf_json_def map_of_jsets)

text \<open>The access line \<open>qDebug\<close> prints is not a URL: the host comes in quotes and
  the port after a space, as in \<open>http:// "0.0.0.0" : 8080\<close>.\<close>

lemma wf_access_line:
  assumes "(host, port) \<in> h_bindable h"
  shows "last (snd (wf_start h err corePath host port)) =
           wf_antenna @ '' Access: http:// '' @ [CHR 0x22] @ host @ [CHR 0x22] @ '' : '' @ int_str port"
  using assms by (simp add: wf_start_def Let_def qquote_def)

end
