(* ===== verification/Neko_WebWorking.thy ===== *)
theory Neko_WebWorking
  imports Neko_WebFixed
begin

text \<open>
  \<open>src/nekoray-web-WORKING.cpp\<close>: the same server as \<open>main_web_fixed_simple.cpp\<close>
  written inside \<open>main\<close> with lambdas. It answers \<open>/api/status\<close>, \<open>/api/start\<close> and
  \<open>/api/stop\<close> with JSON and every other path with a page that names the core state and
  the port; its page is a literal of the source, modelled as such. Qt's JSON printer is
  the parameter \<open>jprint\<close>. The last section models \<open>src/nekoray-web-SIMPLE.cpp\<close>, the
  class form of the same server with a plainer page and no CORS header.
\<close>

section \<open>The page and the answers\<close>

definition ww_rocket :: string where
  "ww_rocket = [CHR 0xF0, CHR 0x9F, CHR 0x9A, CHR 0x80]"

definition ww_html :: string where
  "ww_html =
     ''<!DOCTYPE html>'' @ ''<html><head><title>NekoRay Web API</title></head><body>'' @
     ''<h1>'' @ ww_rocket @ '' NekoRay Web API v1.0.3</h1>'' @ ''<h2>Status</h2>'' @
     ''<p><strong>Core:</strong> %1</p>'' @ ''<p><strong>Service:</strong> Stopped</p>'' @
     ''<p><strong>API:</strong> '' @ cs_check @ '' Running</p>'' @ ''<h2>API Endpoints</h2>'' @ ''<ul>'' @
     ''<li>GET /api/status - Get service status</li>'' @ ''<li>POST /api/start - Start proxy</li>'' @
     ''<li>POST /api/stop - Stop proxy</li>'' @ ''</ul>'' @ ''<h2>Test Commands</h2>'' @
     ''<p>curl http://localhost:%2/api/status</p>'' @ ''</body></html>''"

definition ww_page :: "path \<Rightarrow> int \<Rightarrow> string" where
  "ww_page corePath port =
     qargs ww_html [if corePath = [] then cs_warn @ '' Not found'' else cs_check @ '' Ready'', int_str port]"

definition ww_json :: "path \<Rightarrow> string \<Rightarrow> jobject option" where
  "ww_json corePath path =
     (if path = ''/api/status'' then
        Some (jsets [(''status'', JStr ''stopped''), (''core'', JStr (if corePath = [] then ''not_found'' else ''ready'')),
                     (''core_path'', JStr corePath), (''socks_port'', JNum 2080), (''http_port'', JNum 2081),
                     (''success'', JBool True)] [])
      else if path = ''/api/start'' then
        Some (jsets [(''result'', JStr ''success''), (''message'', JStr ''Proxy started successfully''),
                     (''socks'', JStr ''127.0.0.1:2080''), (''http'', JStr ''127.0.0.1:2081'')] [])
      else if path = ''/api/stop'' then
        Some (jsets [(''result'', JStr ''success''), (''message'', JStr ''Proxy stopped successfully'')] [])
      else None)"

text \<open>The \<open>readyRead\<close> lambda: the answer to a request with a method and a path, then
  \<open>disconnectFromHost\<close>.\<close>

definition ww_readyRead :: "(jobject \<Rightarrow> string) \<Rightarrow> path \<Rightarrow> int \<Rightarrow> string \<Rightarrow> sock \<Rightarrow> sock" where
  "ww_readyRead jprint corePath port request so =
     (let parts = split_str '' '' (hd (split_str crlf request))
      in if length parts < 2 then so
         else
           let path = parts ! 1
           in case ww_json corePath path of
                None \<Rightarrow>
                  (let content = ww_page corePath port
                   in disconnectFromHost (sock_write (''HTTP/1.1 200 OK'' @ crlf @ ''Content-Type: text/html'' @ crlf @
                        ''Content-Length: '' @ nat_str (length content) @ crlf @ crlf @ content) so))
              | Some obj \<Rightarrow>
                  (let content = jprint obj
                   in disconnectFromHost (sock_write (''HTTP/1.1 200 OK'' @ crlf @ ''Content-Type: application/json'' @ crlf @
                        ''Access-Control-Allow-Origin: *'' @ crlf @ ''Content-Length: '' @ nat_str (length content) @ crlf @ crlf @
                        content) so)))"

section \<open>\<open>main\<close>\<close>

text \<open>\<open>main\<close> up to \<open>app.exec()\<close>: \<open>Some 1\<close> when the server cannot listen, \<open>None\<close> when
  it serves, with the core path and port it serves with and the \<open>qDebug\<close> lines.\<close>

definition ww_main :: "host \<Rightarrow> string \<Rightarrow> string \<Rightarrow> string \<Rightarrow> os \<Rightarrow> int option \<times> path \<times> int \<times> string list" where
  "ww_main h err portOpt host o' =
     (let port = qstr_toInt portOpt; corePath = cs_findCore o';
          diag = (if corePath \<noteq> [] then [cs_check @ '' Core ready: '' @ qquote corePath]
                  else [cs_warn @ '' Core not found. Running in simulation mode''])
      in if (host, port) \<notin> h_bindable h then (Some 1, corePath, port, diag @ [''Failed to start server: '' @ qquote err])
         else (None, corePath, port, diag @ [wf_globe @ '' NekoRay Web API started on '' @ qquote host @ '' : '' @ int_str port,
                                             wf_antenna @ '' Access: http://localhost: '' @ int_str port]))"

section \<open>\<open>nekoray-web-SIMPLE.cpp\<close>\<close>

definition ws_html :: string where
  "ws_html =
     ''<!DOCTYPE html>'' @ ''<html><head><title>NekoRay Web API</title></head><body>'' @
     ''<h1>NekoRay Web API v1.0.3</h1>'' @ ''<h2>Status</h2>'' @ ''<p>Core: %1</p>'' @ ''<p>Service: Stopped</p>'' @
     ''<p>API: Running</p>'' @ ''<h2>Endpoints</h2>'' @ ''<p>GET /api/status - Get status</p>'' @
     ''<p>POST /api/start - Start proxy</p>'' @ ''<p>POST /api/stop - Stop proxy</p>'' @ ''</body></html>''"

text \<open>\<open>start(host, port)\<close>: the diagnostics of \<open>nekoray-web-WORKING.cpp\<close>'s \<open>main\<close>.\<close>

definition ws_start :: "host \<Rightarrow> string \<Rightarrow> path \<Rightarrow> string \<Rightarrow> int \<Rightarrow> bool \<times> string list" where
  "ws_start h err corePath host port =
     (let diag = (if corePath \<noteq> [] then [cs_check @ '' Core ready: '' @ qquote corePath]
                  else [cs_warn @ '' Core not found. Running in simulation mode''])
      in if (host, port) \<notin> h_bindable h then (False, diag @ [''Failed to start server: '' @ qquote err])
         else (True, diag @ [wf_globe @ '' NekoRay Web API started on '' @ qquote host @ '' : '' @ int_str port,
                             wf_antenna @ '' Access: http://localhost: '' @ int_str port]))"

definition ws_json :: "path \<Rightarrow> string \<Rightarrow> jobject" where
  "ws_json corePath path =
     (if path = ''/api/status'' then
        jsets [(''status'', JStr ''stopped''), (''core'', JStr (if corePath = [] then ''not_found'' else ''ready'')),
               (''core_path'', JStr corePath), (''socks_port'', JNum 2080), (''http_port'', JNum 2081)] []
      else if path = ''/api/start'' then
        jsets [(''result'', JStr ''success''), (''message'', JStr ''Proxy started successfully''),
               (''socks'', JStr ''127.0.0.1:2080''), (''http'', JStr ''127.0.0.1:2081'')] []
      else if path = ''/api/stop'' then
        jsets [(''result'', JStr ''success''), (''message'', JStr ''Proxy stopped successfully'')] []
      else jsets [(''error'', JStr ''Not found'')] [])"

definition ws_handleRequest :: "(jobject \<Rightarrow> string) \<Rightarrow> path \<Rightarrow> string \<Rightarrow> string \<Rightarrow> string" where
  "ws_handleRequest jprint corePath method path =
     (if path = ''/'' \<or> path = ''/index.html'' then
        (let content = qarg ws_html (if corePath = [] then ''Not found'' else ''Ready'')
         in ''HTTP/1.1 200 OK'' @ crlf @ ''Content-Type: text/html'' @ crlf @ ''Content-Length: '' @
            nat_str (length content) @ crlf @ crlf @ content)
      else
        (let content = jprint (ws_json corePath path)
         in ''HTTP/1.1 200 OK'' @ crlf @ ''Content-Type: application/json'' @ crlf @ ''Content-Length: '' @
            nat_str (length content) @ crlf @ crlf @ content))"

definition ws_readyRead :: "(jobject \<Rightarrow> string) \<Rightarrow> path \<Rightarrow> string \<Rightarrow> sock \<Rightarrow> sock" where
  "ws_readyRead jprint corePath request so =
     (let parts = split_str '' '' (hd (split_str crlf request))
      in if length parts < 2 then so
         else disconnectFromHost (sock_write (ws_handleRequest jprint corePath (parts ! 0) (parts ! 1)) so))"

definition ws_main :: "host \<Rightarrow> string \<Rightarrow> string \<Rightarrow> string \<Rightarrow> os \<Rightarrow> int option \<times> path \<times> string list" where
  "ws_main h err portOpt hostOpt o' =
     (let port = qstr_toInt portOpt; corePath = cs_findCore o';
          (ok, diag) = ws_start h err corePath hostOpt port
      in (if ok then None else Some 1, corePath, diag))"

section \<open>Properties\<close>

text \<open>Every path other than the three API paths, \<open>/api/config\<close> and unknown paths
  included, is answered with status 200 and the page; the page's test command names the
  port the server listens on.\<close>

lemma ww_other_paths_page:
  assumes "split_str '' '' (hd (split_str crlf request)) = m # p # rest"
      and "p \<notin> {''/api/status'', ''/api/start'', ''/api/stop''}" and "so_open so"
  shows "so_out (ww_readyRead jprint corePath port request so) =
           so_out so @ ''HTTP/1.1 200 OK'' @ crlf @ ''Content-Type: text/html'' @ crlf @
           ''Content-Length: '' @ nat_str (length (ww_page corePath port)) @ crlf @ crlf @ ww_page corePath port"
    and "\<not> so_open (ww_readyRead jprint corePath port request so)"
  using assms by (simp_all add: ww_readyRead_def ww_json_def sock_write_def disconnectFromHost_def Let_def)

lemma ww_page_port:
  "ww_page ''/opt/nekoray/nekobox_core'' 80 =
     ''<!DOCTYPE html>'' @ ''<html><head><title>NekoRay Web API</title></head><body>'' @
     ''<h1>'' @ ww_rocket @ '' NekoRay Web API v1.0.3</h1>'' @ ''<h2>Status</h2>'' @
     ''<p><strong>Core:</strong> '' @ cs_check @ '' Ready</p>'' @ ''<p><strong>Service:</strong> Stopped</p>'' @
     ''<p><strong>API:</strong> '' @ cs_check @ '' Running</p>'' @ ''<h2>API Endpoints</h2>'' @ ''<ul>'' @
     ''<li>GET /api/status - Get service status</li>'' @ ''<li>POST /api/start - Start proxy</li>'' @
     ''<li>POST /api/stop - Stop proxy</li>'' @ ''</ul>'' @ ''<h2>Test Commands</h2>'' @
     ''<p>curl http://localhost:80/api/status</p>'' @ ''</body></html>''"
  by code_simp

text \<open>The two variants answer the API paths with the same status line and length
  rule; \<open>nekoray-web-SIMPLE.cpp\<close> sends no \<open>Access-Control-Allow-Origin\<close> header, so a
  page served from another origin cannot read its answers, and it answers an unknown
  path with a JSON error where \<open>nekoray-web-WORKING.cpp\<close> sends its page.\<close>

lemma ws_json_answer:
  assumes "path \<noteq> ''/''" and "path \<noteq> ''/index.html''"
  shows "ws_handleRequest jprint corePath method path =
           ''HTTP/1.1 200 OK'' @ crlf @ ''Content-Type: application/json'' @ crlf @ ''Content-Length: '' @
           nat_str (length (jprint (ws_json corePath path))) @ crlf @ crlf @ jprint (ws_json corePath path)"
    and "path \<notin> {''/api/status'', ''/api/start'', ''/api/stop''} \<Longrightarrow> ws_json corePath path = [(''error'', JStr ''Not found'')]"
  using assms by (simp_all add: ws_handleRequest_def ws_json_def Let_def jsets_def jset_def)

end
