(* ===== verification/Spec2Isabelle.thy ===== *)
theory Spec2Isabelle
  imports Neko_WebApi Neko_WebComplete Neko_Database Neko_CliHeadless Neko_CliComplete Neko_Standalone Neko_Daemon Neko_CliSimple Neko_WebFixed Neko_WebWorking
begin

text \<open>
  \<^bold>\<open>A verification development of the headless service of nekoray-cli-and-web.\<close>

  \<^bold>\<open>The program.\<close> The repository runs the sing-box proxy core without a GUI. The
  orchestrator \<open>NekoCore::NekoService\<close> (\<open>src/core/NekoService_Fixed.cpp\<close>, declared in
  \<open>src/nekoray/core/NekoService.hpp\<close>) owns three collaborators and a traffic timer:
  \<^item> \<open>CoreManager\<close> (\<open>src/nekoray/core/CoreManager_Fixed.cpp\<close>) finds the core executable,
    writes its JSON configuration and supervises the child process;
  \<^item> \<open>TunManager\<close> (\<open>src/nekoray/core/TunManager_Fixed.cpp\<close>) writes the TUN configuration
    and a wrapper script and starts the core with privileges (pkexec, osascript);
  \<^item> \<open>ConfigManager\<close> (\<open>src/nekoray/core/ConfigManager.cpp\<close>) loads and saves the settings
    document \<open>groups/nekobox.json\<close>.
  Every public operation of the service takes the non-recursive \<open>QMutex m_mutex\<close>; the
  supervisors report back through Qt signals connected to the service's slots. Front
  ends drive the service: the HTTP servers \<open>SimpleWebServer\<close> and \<open>WebApiServer\<close>
  (\<open>src/nekoray/web\<close>) and the command line \<open>src/cli/main_cli.cpp\<close> with the checks of
  \<open>src/core/SafetyUtils.cpp\<close>. The profiles are the beans of \<open>src/nekoray/fmt\<close> kept by
  the profile database (\<open>src/nekoray/db\<close>). A self-contained interactive front end,
  \<open>src/nekoray-cli-COMPLETE.cpp\<close>, keeps its own settings, profiles and groups files.

  \<^bold>\<open>The model.\<close> A shallow embedding, one theory per part:
  \<^item> \<open>Neko_Prelude\<close>: decimal text, \<open>QString::split\<close>, \<open>trimmed\<close>, \<open>indexOf\<close>,
    \<open>contains\<close>, case mapping, facts on small 64-bit words;
  \<^item> \<open>Neko_Json\<close>: \<open>QJsonValue\<close>/\<open>QJsonObject\<close> as a datatype with association-list
    objects and the merge-with-defaults loop; \<open>Neko_Codec\<close>: base64, percent coding,
    \<open>QString::toInt\<close> and \<open>QString::arg\<close> with Qt's place-marker rule;
  \<^item> \<open>Neko_Os\<close>: the environment as an explicit state \<open>os\<close> (files, directories,
    unwritable paths, programs that start, \<open>which\<close>, platform, next pid, \<open>killall\<close>
    calls), the \<open>QProcess\<close> record and the supervisor signals;
  \<^item> \<open>Neko_Relay\<close>, \<open>Neko_CoreManager\<close>, \<open>Neko_TunManager\<close>, \<open>Neko_ConfigStore\<close>: one
    record per class, one definition per method; a method returns its result, the new
    record, the new environment and the signals it emitted;
  \<^item> \<open>Neko_Service\<close>: the record \<open>svc\<close> (status, profile, collaborators, timer, counters
    as \<open>64 word\<close>, current document, mutex, emitted signals); every method is a
    \<open>_body\<close> run under \<open>with_lock\<close>, which returns \<open>None\<close> when the mutex is already held
    (a non-recursive \<open>QMutex\<close> deadlocks there);
  \<^item> \<open>Neko_Lifecycle\<close>: the service as a transition system (\<open>svc_step\<close>, \<open>reachable\<close>)
    with the invariant \<open>svc_inv\<close>, and client sessions;
  \<^item> \<open>Neko_Beans\<close> and \<open>Neko_Database\<close>: the bean classes with \<open>ToJson\<close>/\<open>FromJson\<close>,
    outbounds and share links; the group manager, \<open>DeleteGroup\<close>'s search loop as a
    \<open>function\<close> with a termination proof, and a store of managers;
  \<^item> \<open>Neko_SimpleWeb\<close> and \<open>Neko_WebApi\<close>: sockets as records of written text, the
    request parser, routers and handlers over the service model, the signal
    connections of \<open>WebApiServer\<close> as a count and its bounded log buffer;
  \<^item> \<open>Neko_Safety\<close> and \<open>Neko_Cli\<close>: \<open>SafetyUtils\<close> over a record \<open>host\<close> of probe results,
    and \<open>main_cli.cpp\<close>'s commands over the service, with the parsed options as the
    record \<open>cli_opts\<close>;
  \<^item> \<open>Neko_WebComplete\<close>: the self-contained web console
    \<open>src/nekoray-web-COMPLETE-FIXED.cpp\<close>, whose handlers only read and write its
    globals (the record \<open>wc\<close>);
  \<^item> \<open>Neko_CliHeadless\<close>: the second command line \<open>src/nekoray/cli/main_cli_headless.cpp\<close>
    over the same service, with its own slots, handlers and default safety check;
  \<^item> \<open>Neko_CliComplete\<close>: \<open>CompleteCliApplication\<close> as the record \<open>ccli\<close> with standard
    input and output as strings; its menu loop is a \<open>partial_function (option)\<close>;
  \<^item> \<open>Neko_Standalone\<close>: \<open>src/nekoray_cli_standalone.cpp\<close>, a command line without Qt
    that forks the core; the process table \<open>procs\<close> outlives a run of the program;
  \<^item> \<open>Neko_Daemon\<close>: \<open>src/nekoray/daemon/main_daemon.cpp\<close>, which composes the service
    with \<open>WebApiServer\<close>: its slots, auto-start timers and \<open>cleanup\<close> over the record
    \<open>daemon\<close>, and its event loop as a function over a list of inputs (timer expiries,
    HTTP requests, child exits, SIGINT/SIGTERM);
  \<^item> \<open>Neko_CliSimple\<close>: \<open>src/nekoray/cli/main_cli_fixed_simple.cpp\<close>, a command line with no
    service behind it, as a function from the environment and the arguments to the
    exit code and the lines written; \<open>Neko_WebFixed\<close>: its web companion
    \<open>src/nekoray/web/main_web_fixed_simple.cpp\<close>, a server whose answers depend only on
    the core path found at start-up, and \<open>Neko_WebWorking\<close>: the same server written
    inside \<open>main\<close> (\<open>src/nekoray-web-WORKING.cpp\<close>) with its class form
    (\<open>src/nekoray-web-SIMPLE.cpp\<close>).

  \<^bold>\<open>What is proved.\<close>
  \<^item> Lifecycle (C1--C4): in every reachable configuration a core child is alive only
    while Running, Running means a running core and an active timer, Starting and
    Stopping are never observed between calls, and no public call blocks on the mutex.
  \<^item> Service operations (C5--C11, C27): \<open>initialize\<close> with and without a settings file,
    \<open>stopProxy\<close>, \<open>startProxy\<close>, the crash slot, the merged configuration as a refinement
    of map override, 64-bit traffic counters, profile validation.
  \<^item> Supervisors and cross-component findings (C12--C15, C17, C18): both supervisors
    (no second child, failures, files removed, the Linux launch), a second
    \<open>initialize\<close> orphans the core, and the configured SOCKS port is reported by
    \<open>getSocksPort\<close> but never applied to the core's configuration.
  \<^item> Web front ends (C19, C20, C22--C24): every request to the simple server gets exactly
    one response on a socket it then closes and keeps the service reachable, a bad
    profile id changes nothing, the web API's reply shapes, the log buffer as the last
    \<open>m_maxLogs\<close> entries, and the duplicated signal connections after a restart.
  \<^item> Beans and database (C25, C26, C28, C29): \<open>FromJson\<close>/\<open>ToJson\<close> and share link round
    trips, refinement of \<open>DeleteGroup\<close> by a list deletion, and distinct positive
    group ids under every sequence of operations creating fewer than \<open>2^31\<close> groups
    (\<open>GetNextId\<close> wraps to \<open>INT_MIN\<close> past \<open>INT_MAX\<close>, lemma \<open>GetNextId_wraps\<close>).
  \<^item> Command lines (C16, C30--C33): the standalone CLI's \<open>stop\<close> exits 0 and never stops
    a core started by an earlier run; the dry run accepts ids the real start rejects; the
    interactive CLI never exits at the end of its input, wipes \<open>profiles.json\<close> when
    \<open>config.json\<close> is missing, and prints no value in \<open>config show\<close>. Lemmas of
    Neko_CliHeadless show its default safety check and its dry run; lemmas of
    Neko_WebComplete show that its \<open>/api/start\<close> reports a running proxy without any
    core and ignores the request method.
  \<^item> Daemon (C21): once the service has initialised and the web API listens, every run
    of the event loop returns with the service reachable, and a SIGINT or SIGTERM
    ends the daemon with exit code 0, the service Stopped, no core child and the web
    API closed. Lemmas of Neko_Daemon show its start-up output and timers, and that
    it announces the configured SOCKS port while the core listens on 2080. Lemmas of
    Neko_CliSimple show that its \<open>start\<close> reports success for any id and changes nothing;
    lemmas of Neko_WebFixed that every answer declares the length of the body it sends,
    ignores the method, and that the access line it prints is not a URL.

  \<^bold>\<open>Bounds and fuel.\<close> No fuel is needed: the loops of the code are folds over fixed
  lists or structural recursion, \<open>DeleteGroup\<close>'s loop has a measure, and the two loops
  that may not end are values \<open>None\<close>: a re-entrant lock, and the interactive menu loop,
  proved not to end at the end of input. \<open>waitForStarted(5000)\<close> succeeds exactly for
  programs in \<open>os_startable\<close>. The traffic counters are exact below \<open>2^63\<close>; \<open>qrand()\<close>
  draws, the clock, Qt's JSON text layer and HTML pages are parameters. C++ \<open>int\<close>
  values read from JSON go through \<open>qjson_toInt\<close>, which gives 0 outside the 32-bit
  range as \<open>QJsonValue::toInt\<close> does, and \<open>GetNextId\<close> computes \<open>maxId + 1\<close> in a
  \<open>32 word\<close>, so its overflow is the two's complement wrap.

  \<^bold>\<open>Not modelled.\<close> \<open>QCommandLineParser\<close> (its result is a record of options) and
  \<open>showHelp\<close>; the other web and daemon variants (\<open>nekoray-web-COMPLETE.cpp\<close>,
  \<open>nekoray-daemon-*.cpp\<close>), which repeat
  the modelled dispatch over other copies of the service; the stdout text of
  \<open>fork\<close>ed children and the timing of \<open>sleep\<close>; the gRPC stub; the legacy
  \<open>NekoService.cpp\<close>/\<open>CoreManager.cpp\<close>/\<open>core/TunManager.cpp\<close>; debug and build-test
  programs; JSON text and file encoding (a file holds the document itself, so no
  property rests on a save/load round trip through text); a settings file that exists
  but cannot be opened (\<open>ConfigManager::load\<close>, \<open>NekoService::loadDataStore\<close>) or read
  (\<open>loadConfiguration\<close> of the interactive CLI, which only tests that the file exists); the HTML pages, string literals that are
  parameters; Qt's event loop and timing beyond the order of the daemon's timers; the
  async-signal safety of the daemon's signal handler; the sing-box core.
\<close>

section \<open>Properties across components\<close>

text \<open>C17. \<open>initialize\<close> may be called on a service that is already running (nothing
  guards it): it reports Stopped while the core child keeps running, and from then on
  \<open>stopProxy\<close> is a no-op that returns true, so the core is orphaned.\<close>

theorem initialize_orphans_core:
  assumes "initialize dir s o' = Some (True, s', o'')" and "proc_active (cm_process (core s))"
  shows "status s' = Stopped \<and> proc_active (cm_process (core s')) \<and> stopProxy s' o3 = Some (True, s', o3)"
  using initialize_frame [OF assms(1)] assms(2)
  by (simp add: stopProxy_def with_lock_def stopProxy_body_def)

lemma demo_reinitialize:
  "case session [] demo_os [LoadProfileCall 1, StartProxyCall] of
     Some (s, o1) \<Rightarrow> (case initialize [] s o1 of Some (True, _, _) \<Rightarrow> True | _ \<Rightarrow> False)
   | None \<Rightarrow> False"
  by code_simp

theorem initialize_orphans_core_witness:
  "case session [] demo_os [LoadProfileCall 1, StartProxyCall] of
     Some (s, o1) \<Rightarrow>
       (case initialize [] s o1 of
          Some (True, s2, o2) \<Rightarrow> proc_active (cm_process (core s)) \<and> status s2 = Stopped
            \<and> proc_active (cm_process (core s2)) \<and> stopProxy s2 o2 = Some (True, s2, o2)
        | _ \<Rightarrow> False)
   | None \<Rightarrow> False"
proof -
  obtain s o1 where e: "session [] demo_os [LoadProfileCall 1, StartProxyCall] = Some (s, o1)"
    and p: "proc_active (cm_process (core s))"
    by (rule demo_session)
  from e demo_reinitialize obtain s2 o2 where i: "initialize [] s o1 = Some (True, s2, o2)"
    by (auto split: option.splits bool.splits)
  show ?thesis using e i p initialize_orphans_core [OF i p, of o2] by simp
qed

text \<open>In simulation mode (no core executable found) \<open>stopProxy\<close> reports Stopped but
  \<open>CoreManager::stop\<close> does not reset the simulated profile, so the core still counts
  as running after the stop.\<close>

theorem simulation_stop_keeps_running:
  assumes "\<not> locked s" and "status s \<noteq> Stopped" and "cm_simulationMode (core s)"
    and "0 < cm_currentProfileId (core s)" and "cm_process (core s) = None"
  shows "\<exists>s' o''. stopProxy s o' = Some (True, s', o'') \<and> status s' = Stopped \<and> cm_isRunning (core s')"
proof -
  have "status (s\<lparr>locked := True\<rparr>) \<noteq> Stopped" using assms(2) by simp
  from stopProxy_body_result [OF this, of o'] obtain s1 o1 where
    b: "stopProxy_body (s\<lparr>locked := True\<rparr>) o' = Some (True, s1, o1)" and
    f: "status s1 = Stopped"
       "core s1 = (if cm_isRunning (core s) then fst (snd (cm_stop (core s) o')) else core s)"
    by auto
  have "core s1 = core s" using f(2) assms(5) by (simp add: cm_stop_state)
  then have "cm_isRunning (core s1)" using assms(3,4) by (simp add: cm_isRunning_def)
  with with_lock_Some [where f = stopProxy_body, OF assms(1) b] f(1) show ?thesis
    by (simp add: stopProxy_def)
qed

lemma sim_session:
  "case session [] sim_os [LoadProfileCall 1, StartProxyCall] of
     Some (s, o') \<Rightarrow> \<not> locked s \<and> status s = Running \<and> cm_simulationMode (core s)
       \<and> cm_currentProfileId (core s) = 1 \<and> cm_process (core s) = None
   | None \<Rightarrow> False"
  by code_simp

theorem simulation_stop_keeps_running_witness:
  "case session [] sim_os [LoadProfileCall 1, StartProxyCall] of
     Some (s, o') \<Rightarrow> \<not> locked s \<and> status s = Running \<and> cm_simulationMode (core s)
       \<and> cm_process (core s) = None
       \<and> (\<exists>s' o''. stopProxy s o' = Some (True, s', o'') \<and> status s' = Stopped \<and> cm_isRunning (core s'))
   | None \<Rightarrow> False"
proof -
  obtain s o' where e: "session [] sim_os [LoadProfileCall 1, StartProxyCall] = Some (s, o')"
    and h: "\<not> locked s" "status s = Running" "cm_simulationMode (core s)"
       "cm_currentProfileId (core s) = 1" "cm_process (core s) = None"
    using sim_session by (auto split: option.splits)
  have "status s \<noteq> Stopped" "0 < cm_currentProfileId (core s)" using h by simp_all
  from simulation_stop_keeps_running [OF h(1) this(1) h(3) this(2) h(5), of o'] e h show ?thesis by simp
qed

text \<open>C18. The SOCKS port the user configures is what \<open>getSocksPort\<close> reports (read
  with \<open>QJsonValue::toInt\<close>, so any value in the \<open>int\<close> range), but it is never applied:
  the configuration file \<open>CoreManager\<close> writes for a profile listens on 127.0.0.1:2080,
  so when the configured port is not 2080, no SOCKS inbound of the file the core runs on
  listens where \<open>getSocksPort\<close> says.\<close>

theorem socks_port_not_applied:
  assumes "map_of (currentConfig s) ''inbound_socks_port'' = Some (JNum p)" and "int32 p" and "p \<noteq> 2080"
      and "cm_generateConfig pid cm o1 = (True, cm', o2)"
  shows "getSocksPort s = p \<and>
    (\<exists>d. os_files o2 (cm_configPath cm') = Some (JsonDoc d)
        \<and> (''socks'', ''127.0.0.1'', getSocksPort s) \<notin> set (inbound_listeners d)
        \<and> (''socks'', ''127.0.0.1'', 2080) \<in> set (inbound_listeners d))"
proof -
  have g: "getSocksPort s = p"
    using assms(1,2) by (simp add: getSocksPort_def config_value_def jvalue_or_def qjson_toInt_def)
  have l: "inbound_listeners core_config = [(''socks'', ''127.0.0.1'', 2080), (''http'', ''127.0.0.1'', 2081)]"
    by (simp add: inbound_listeners_def core_config_def obj_of_def core_socks_inbound_def core_http_inbound_def)
  have w: "os_files o2 (cm_configPath cm') = Some (JsonDoc core_config)"
    using assms(4) by (auto simp: cm_generateConfig_def write_file_def Let_def split: if_splits)
  show ?thesis using g l w assms(3) by auto
qed

theorem socks_port_not_applied_witness:
  "getSocksPort ((svc_new demo_os)\<lparr>currentConfig := [(''inbound_socks_port'', JNum 1080)]\<rparr>) = 1080 \<and>
   (case cm_generateConfig 1 (cm_new demo_os) demo_os of
      (ok, cm', o2) \<Rightarrow> ok \<and> (\<exists>d. os_files o2 (cm_configPath cm') = Some (JsonDoc d)
          \<and> (''socks'', ''127.0.0.1'', 1080) \<notin> set (inbound_listeners d)))"
proof -
  let ?s = "(svc_new demo_os)\<lparr>currentConfig := [(''inbound_socks_port'', JNum 1080)]\<rparr>"
  obtain cm' o2 where c: "cm_generateConfig 1 (cm_new demo_os) demo_os = (True, cm', o2)"
    by (simp add: cm_generateConfig_def write_file_def Let_def demo_os_def temp_path_def)
  have h: "map_of (currentConfig ?s) ''inbound_socks_port'' = Some (JNum 1080)" "int32 1080" "(1080::int) \<noteq> 2080"
    by (simp_all add: int32_def)
  from socks_port_not_applied [OF h c] obtain d where d: "getSocksPort ?s = 1080"
    "os_files o2 (cm_configPath cm') = Some (JsonDoc d)"
    "(''socks'', ''127.0.0.1'', getSocksPort ?s) \<notin> set (inbound_listeners d)"
    by blast
  from d(3) have "(''socks'', ''127.0.0.1'', 1080) \<notin> set (inbound_listeners d)" unfolding d(1) .
  with d(1,2) c show ?thesis by auto
qed


text \<open>Outside Windows, stopping the tunnel runs \<open>killall -2 nekobox_core\<close>, a
  system-wide signal to every process of that name, which includes the main core the
  service started when the executable found is \<open>nekobox_core\<close> (the first candidate).\<close>

theorem tun_stop_signals_core:
  assumes "os_platform o' \<noteq> Windows" and "proc_active (tm_process tm)"
  shows "os_killall (fst (snd (snd (tm_stop tm o')))) = os_killall o' @ [''nekobox_core'']
    \<and> (file_exists o' (exe_path o' ''nekobox_core'') \<longrightarrow> find_core o' = exe_path o' ''nekobox_core'')"
  using assms by (simp add: tm_stop_def Let_def remove_file_def find_core_def core_candidates_def)

theorem tun_stop_signals_core_witness:
  "os_platform demo_os \<noteq> Windows \<and> proc_active (tm_process ((tm_new demo_os)\<lparr>tm_process := Some
      \<lparr>qp_state = QRunning, qp_pid = 7, qp_program = ''pkexec'', qp_args = []\<rparr>\<rparr>))
   \<and> os_killall (fst (snd (snd (tm_stop ((tm_new demo_os)\<lparr>tm_process := Some
      \<lparr>qp_state = QRunning, qp_pid = 7, qp_program = ''pkexec'', qp_args = []\<rparr>\<rparr>) demo_os)))) = [''nekobox_core'']
   \<and> find_core demo_os = ''/opt/nekoray/nekobox_core''"
proof -
  let ?tm = "(tm_new demo_os)\<lparr>tm_process := Some \<lparr>qp_state = QRunning, qp_pid = 7, qp_program = ''pkexec'', qp_args = []\<rparr>\<rparr>"
  have h: "os_platform demo_os \<noteq> Windows" "proc_active (tm_process ?tm)" by (simp_all add: demo_os_def)
  have "file_exists demo_os (exe_path demo_os ''nekobox_core'')" "exe_path demo_os ''nekobox_core'' = ''/opt/nekoray/nekobox_core''"
    "os_killall demo_os = []"
    by (simp_all add: demo_os_def file_exists_def exe_path_def)
  with tun_stop_signals_core [OF h] h show ?thesis by simp
qed

text \<open>\<open>saveConfig\<close> persists ConfigManager's data store, never the service's current
  document: after a start-up that merged the defaults into the document, the saved
  file is still the empty object.\<close>

theorem saveConfig_ignores_currentConfig:
  assumes "\<not> locked s" and "cfm_configFile (cfgm s) \<notin> os_unwritable o'"
  shows "\<exists>s' o''. saveConfig s o' = Some (True, s', o'') \<and> currentConfig s' = currentConfig s
    \<and> os_files o'' (cfm_configFile (cfgm s)) = Some (JsonDoc (JObj (cfm_dataStore (cfgm s))))"
  using assms by (simp add: saveConfig_def with_lock_def saveConfig_body_def cfm_save_def split_def Let_def)

lemma demo_boot:
  "case boot [] demo_os of
     Some (s, o') \<Rightarrow> \<not> locked s \<and> cfm_configFile (cfgm s) \<notin> os_unwritable o' \<and> cfm_dataStore (cfgm s) = []
       \<and> map_of (currentConfig s) ''inbound_socks_port'' = Some (JNum 2080)
   | None \<Rightarrow> False"
  by code_simp

theorem saveConfig_ignores_currentConfig_witness:
  "case boot [] demo_os of
     Some (s, o') \<Rightarrow> \<not> locked s \<and> cfm_configFile (cfgm s) \<notin> os_unwritable o' \<and> currentConfig s \<noteq> []
       \<and> (\<exists>s' o''. saveConfig s o' = Some (True, s', o'')
            \<and> os_files o'' (cfm_configFile (cfgm s)) = Some (JsonDoc (JObj [])))
   | None \<Rightarrow> False"
proof -
  obtain s o' where e: "boot [] demo_os = Some (s, o')" and h: "\<not> locked s" "cfm_configFile (cfgm s) \<notin> os_unwritable o'"
    "cfm_dataStore (cfgm s) = []" "map_of (currentConfig s) ''inbound_socks_port'' = Some (JNum 2080)"
    using demo_boot by (auto split: option.splits)
  have "currentConfig s \<noteq> []" using h(4) by auto
  with saveConfig_ignores_currentConfig [OF h(1,2), of] e h show ?thesis by auto
qed

end
